(* ===== verification/Prelude.thy ===== *)
theory Prelude
  imports Main "HOL-Library.Finite_Map" "HOL-Library.List_Lexorder" "HOL-Library.Char_ord"
    "HOL-Library.Sublist"
begin

text \<open>
  What the Go language and its standard library contribute to the model, shared by every
  component: values that may be nil, string maps, errors and panics as results, and the string
  functions of package strings that the operator calls.

  Nil is part of a value. A slice is an optional list and a map an optional finite map, with
  \<open>None\<close> for nil, so that HOL equality of two modelled values is what
  \<open>reflect.DeepEqual\<close> decides on them: a nil map and an empty map are different values.
  A string is the list of its bytes, as in Go.
\<close>

section \<open>Slices and string maps\<close>

named_theorems strmap_simps \<open>characteristic equations of the string map operations\<close>
named_theorems go_defs \<open>definitions that only name a Go construct\<close>

type_synonym 'a slice = "'a list option"
type_synonym strmap = "(string, string) fmap option"

definition slice :: "'a list \<Rightarrow> 'a slice" where
  "slice xs = Some xs"

definition elems :: "'a slice \<Rightarrow> 'a list" where
  "elems s = (case s of None \<Rightarrow> [] | Some xs \<Rightarrow> xs)"

definition entries :: "strmap \<Rightarrow> (string, string) fmap" where
  "entries m = (case m of None \<Rightarrow> fmempty | Some e \<Rightarrow> e)"

definition strmap_of :: "(string \<times> string) list \<Rightarrow> strmap" where
  "strmap_of kvs = Some (fmap_of_list kvs)"

definition mlookup :: "strmap \<Rightarrow> string \<Rightarrow> string option" where
  "mlookup m k = fmlookup (entries m) k"

definition mempty :: "strmap \<Rightarrow> bool" where
  "mempty m \<longleftrightarrow> entries m = fmempty"

lemma elems_simps [simp]: "elems None = []" "elems (Some xs) = xs"
  by (simp_all add: elems_def)

lemma entries_simps [simp]: "entries None = fmempty" "entries (Some e) = e"
  by (simp_all add: entries_def)

lemma entries_strmap_of [simp]: "entries (strmap_of kvs) = fmap_of_list kvs"
  by (simp add: strmap_of_def)

lemma mempty_simps [simp]: "mempty None" "mempty (Some e) \<longleftrightarrow> e = fmempty"
  by (simp_all add: mempty_def)

text \<open>This congruence rule would keep the simplifier out of the filtered map.\<close>

declare fmfilter_cong [cong del]

lemma fmupd_same: "fmlookup m k = Some v \<Longrightarrow> fmupd k v m = m"
  by (rule fmap_ext) auto

lemma fmdrop_absent: "fmlookup m k = None \<Longrightarrow> fmdrop k m = m"
  by (rule fmap_ext) auto

lemma fmfilter_id: "(\<And>k v. fmlookup m k = Some v \<Longrightarrow> P k) \<Longrightarrow> fmfilter P m = m"
  by (rule fmap_ext) (force simp: fmlookup_dom_iff)

section \<open>Errors and panics\<close>

text \<open>
  An error is its text and the reason the API server gave it, which is all that the operator
  looks at: \<open>err.Error()\<close> and \<open>apierrors.IsNotFound\<close>. \<open>fmt.Errorf\<close> with
  the verb \<open>%w\<close> keeps the reason reachable through the wrapped error; with
  \<open>%s\<close> or \<open>%v\<close> only the text survives.
\<close>

datatype api_reason = NotFound | OtherReason

datatype go_error = GoError (errText: string) (errReason: api_reason)

definition IsNotFound :: "go_error \<Rightarrow> bool" where
  "IsNotFound e \<longleftrightarrow> errReason e = NotFound"

definition errors_New :: "string \<Rightarrow> go_error" where
  "errors_New t = GoError t OtherReason"

definition errorf_w :: "string \<Rightarrow> go_error \<Rightarrow> go_error" where
  "errorf_w pre e = GoError (pre @ errText e) (errReason e)"

definition errorf_s :: "string \<Rightarrow> go_error \<Rightarrow> go_error" where
  "errorf_s pre e = GoError (pre @ errText e) OtherReason"

lemma IsNotFound_simps [simp]:
  "IsNotFound (GoError t NotFound)" "\<not> IsNotFound (GoError t OtherReason)"
  "\<not> IsNotFound (errors_New t)" "IsNotFound (errorf_w p e) \<longleftrightarrow> IsNotFound e"
  "\<not> IsNotFound (errorf_s p e)"
  by (simp_all add: IsNotFound_def errors_New_def errorf_w_def errorf_s_def)

lemma errText_simps [simp]:
  "errText (errors_New t) = t" "errText (errorf_w p e) = p @ errText e"
  "errText (errorf_s p e) = p @ errText e"
  by (simp_all add: errors_New_def errorf_w_def errorf_s_def)

text \<open>
  A function of the operator that can fail returns a \<open>res\<close>; one that also talks to the
  cluster takes the world \<open>'w\<close> and returns the new one. A call of the API client returns
  a sum, and \<open>lift\<close> passes its outcome on unchanged.
\<close>

datatype 'a res = Ok 'a | Err go_error | Panic string

definition lift :: "(go_error + 'a) \<times> 'w \<Rightarrow> 'a res \<times> 'w" where
  "lift r = (case r of (Inl e, w) \<Rightarrow> (Err e, w) | (Inr a, w) \<Rightarrow> (Ok a, w))"

definition lift_with :: "(go_error \<Rightarrow> go_error) \<Rightarrow> (go_error + 'a) \<times> 'w \<Rightarrow> 'a res \<times> 'w" where
  "lift_with wrap r = (case r of (Inl e, w) \<Rightarrow> (Err (wrap e), w) | (Inr a, w) \<Rightarrow> (Ok a, w))"

definition discard :: "'a res \<times> 'w \<Rightarrow> unit res \<times> 'w" where
  "discard r = (case r of (Ok _, w) \<Rightarrow> (Ok (), w) | (Err e, w) \<Rightarrow> (Err e, w) | (Panic p, w) \<Rightarrow> (Panic p, w))"

text \<open>The statement \<open>if err != nil { return err }\<close> between two calls.\<close>

definition andThen :: "'a res \<times> 'w \<Rightarrow> ('a \<Rightarrow> 'w \<Rightarrow> 'b res \<times> 'w) \<Rightarrow> 'b res \<times> 'w" where
  "andThen r k = (case r of (Ok a, w) \<Rightarrow> k a w | (Err e, w) \<Rightarrow> (Err e, w) | (Panic p, w) \<Rightarrow> (Panic p, w))"

lemma lift_simps [simp]:
  "lift (Inl e, w) = (Err e, w)" "lift (Inr a, w) = (Ok a, w)"
  "lift_with f (Inl e, w) = (Err (f e), w)" "lift_with f (Inr a, w) = (Ok a, w)"
  by (simp_all add: lift_def lift_with_def)

lemma discard_simps [simp]:
  "discard (Ok a, w) = (Ok (), w)" "discard (Err e, w) = (Err e, w)"
  "discard (Panic p, w) = (Panic p, w)"
  by (simp_all add: discard_def)

lemma andThen_simps [simp]:
  "andThen (Ok a, w) k = k a w" "andThen (Err e, w) k = (Err e, w)"
  "andThen (Panic p, w) k = (Panic p, w)"
  by (simp_all add: andThen_def)

section \<open>Package strings\<close>

definition strings_Contains :: "string \<Rightarrow> string \<Rightarrow> bool" where
  "strings_Contains s sub \<longleftrightarrow> sublist sub s"

definition strings_HasPrefix :: "string \<Rightarrow> string \<Rightarrow> bool" where
  "strings_HasPrefix s p \<longleftrightarrow> prefix p s"

text \<open>\<open>strings.Split\<close> at a one-byte separator: always at least one element.\<close>

fun strings_Split :: "char \<Rightarrow> string \<Rightarrow> string list" where
  "strings_Split c [] = [[]]"
| "strings_Split c (x # xs) =
     (if x = c then [] # strings_Split c xs
      else case strings_Split c xs of [] \<Rightarrow> [[x]] | y # ys \<Rightarrow> (x # y) # ys)"

text \<open>
  \<open>strings.TrimSpace\<close> removes the characters with the Unicode property White Space, here
  by their UTF-8 encodings.
\<close>

definition whiteSpace :: "string list" where
  "whiteSpace = [[CHR 0x09], [CHR 0x0A], [CHR 0x0B], [CHR 0x0C], [CHR 0x0D], [CHR 0x20],
     [CHR 0xC2, CHR 0x85], [CHR 0xC2, CHR 0xA0], [CHR 0xE1, CHR 0x9A, CHR 0x80],
     [CHR 0xE2, CHR 0x80, CHR 0x80], [CHR 0xE2, CHR 0x80, CHR 0x81], [CHR 0xE2, CHR 0x80, CHR 0x82],
     [CHR 0xE2, CHR 0x80, CHR 0x83], [CHR 0xE2, CHR 0x80, CHR 0x84], [CHR 0xE2, CHR 0x80, CHR 0x85],
     [CHR 0xE2, CHR 0x80, CHR 0x86], [CHR 0xE2, CHR 0x80, CHR 0x87], [CHR 0xE2, CHR 0x80, CHR 0x88],
     [CHR 0xE2, CHR 0x80, CHR 0x89], [CHR 0xE2, CHR 0x80, CHR 0x8A], [CHR 0xE2, CHR 0x80, CHR 0xA8],
     [CHR 0xE2, CHR 0x80, CHR 0xA9], [CHR 0xE2, CHR 0x80, CHR 0xAF], [CHR 0xE2, CHR 0x81, CHR 0x9F],
     [CHR 0xE3, CHR 0x80, CHR 0x80]]"

fun stripAny :: "string list \<Rightarrow> string \<Rightarrow> string" where
  "stripAny ps [] = []"
| "stripAny ps (x # xs) =
     (case find (\<lambda>p. p \<noteq> [] \<and> prefix p (x # xs)) ps of
        None \<Rightarrow> x # xs
      | Some p \<Rightarrow> stripAny ps (drop (length p - 1) xs))"

definition strings_TrimSpace :: "string \<Rightarrow> string" where
  "strings_TrimSpace s = rev (stripAny (map rev whiteSpace) (rev (stripAny whiteSpace s)))"

text \<open>\<open>strings.ToLower\<close> on ASCII, the only text the operator applies it to.\<close>

definition toLowerChar :: "char \<Rightarrow> char" where
  "toLowerChar c = (if CHR ''A'' \<le> c \<and> c \<le> CHR ''Z'' then char_of (of_char c + 32 :: nat) else c)"

definition strings_ToLower :: "string \<Rightarrow> string" where
  "strings_ToLower s = map toLowerChar s"

lemma strings_Split_nonempty: "strings_Split c s \<noteq> []"
  by (cases s) (auto split: list.splits)

lemma strings_Split_single: "c \<notin> set s \<Longrightarrow> strings_Split c s = [s]"
  by (induction s) auto

lemma strings_Split_append:
  "c \<notin> set s \<Longrightarrow> strings_Split c (s @ c # t) = s # strings_Split c t"
  by (induction s) auto

lemma stripAny_keep: "(\<And>p. p \<in> set ps \<Longrightarrow> p \<noteq> [] \<Longrightarrow> \<not> prefix p s) \<Longrightarrow> stripAny ps s = s"
proof (cases s)
  case (Cons x xs)
  assume *: "\<And>p. p \<in> set ps \<Longrightarrow> p \<noteq> [] \<Longrightarrow> \<not> prefix p s"
  have "find (\<lambda>p. p \<noteq> [] \<and> prefix p (x # xs)) ps = None"
    using * Cons by (auto simp: find_None_iff)
  then show ?thesis using Cons by simp
qed simp

text \<open>
  Iteration over a Go map visits its keys in an unspecified order; the model fixes the
  increasing one, and where the order could matter a lemma shows that it does not.
\<close>

lemma in_sorted_list_of_fmap:
  "kv \<in> set (sorted_list_of_fmap m) \<longleftrightarrow> fmlookup m (fst kv) = Some (snd kv)"
  by (cases kv) (auto simp: sorted_list_of_fmap_def fmlookup_dom_iff)

lemma sorted_list_of_fmap_keys: "map fst (sorted_list_of_fmap m) = sorted_list_of_fset (fmdom m)"
  by (simp add: sorted_list_of_fmap_def comp_def)

text \<open>Two lists with distinct keys and the same elements are sorted by key into one list.\<close>

lemma sort_key_unique:
  fixes f :: "'a \<Rightarrow> 'b::linorder"
  assumes "set xs = set ys" "distinct (map f xs)" "distinct (map f ys)"
  shows "sort_key f xs = sort_key f ys"
proof (rule map_sorted_distinct_set_unique)
  show "inj_on f (set (sort_key f xs) \<union> set (sort_key f ys))"
    using assms by (simp add: distinct_map)
  show "distinct (map f (sort_key f xs))" "distinct (map f (sort_key f ys))"
    using assms by (simp_all add: distinct_map)
  show "set (sort_key f xs) = set (sort_key f ys)" using assms by simp
qed simp_all

end
