(* ===== verification/Api_Types.thy ===== *)
theory Api_Types
  imports Prelude
begin

text \<open>
  The data of the operator: the RolloutManager resource of \<open>api/v1alpha1\<close> with the
  constants that go with it, the Kubernetes objects the controllers build and compare, and the
  names of \<open>controllers/default.go\<close>. A Kubernetes type has the fields the controllers
  read or write, and those the API server is known to fill in where the controllers have to
  cope with it; other fields are never looked at and travel through an update unchanged.
\<close>

section \<open>Names of default.go\<close>

definition ArgoRolloutsImageEnvName :: string where
  "ArgoRolloutsImageEnvName = ''ARGO_ROLLOUTS_IMAGE''"

definition DefaultArgoRolloutsMetricsServiceName :: string where
  "DefaultArgoRolloutsMetricsServiceName = ''argo-rollouts-metrics''"

definition DefaultArgoRolloutsImage :: string where
  "DefaultArgoRolloutsImage = ''quay.io/argoproj/argo-rollouts''"

definition DefaultArgoRolloutsVersion :: string where
  "DefaultArgoRolloutsVersion = ''v1.9.1''"

definition DefaultArgoRolloutsResourceName :: string where
  "DefaultArgoRolloutsResourceName = ''argo-rollouts''"

definition DefaultRolloutsNotificationSecretName :: string where
  "DefaultRolloutsNotificationSecretName = ''argo-rollouts-notification-secret''"

definition DefaultRolloutsSelectorKey :: string where
  "DefaultRolloutsSelectorKey = ''app.kubernetes.io/name''"

definition OpenShiftRolloutPluginName :: string where
  "OpenShiftRolloutPluginName = ''argoproj-labs/openshift''"

definition DefaultRolloutsConfigMapName :: string where
  "DefaultRolloutsConfigMapName = ''argo-rollouts-config''"

definition DefaultOpenShiftRoutePluginURL :: string where
  "DefaultOpenShiftRoutePluginURL =
     ''https://github.com/argoproj-labs/rollouts-plugin-trafficrouter-openshift/releases/download/commit-8d0b3c6c5c18341f9f019cf1015b56b0d0c6085b/rollouts-plugin-trafficrouter-openshift-linux-amd64''"

definition NamespaceScopedArgoRolloutsEnv :: string where
  "NamespaceScopedArgoRolloutsEnv = ''NAMESPACE_SCOPED_ARGO_ROLLOUTS''"

definition ClusterScopedArgoRolloutsNamespaces :: string where
  "ClusterScopedArgoRolloutsNamespaces = ''CLUSTER_SCOPED_ARGO_ROLLOUTS_NAMESPACES''"

definition KubernetesHostnameLabel :: string where
  "KubernetesHostnameLabel = ''kubernetes.io/hostname''"

definition TopologyKubernetesZoneLabel :: string where
  "TopologyKubernetesZoneLabel = ''topology.kubernetes.io/zone''"

definition ImagePullPolicyEnv :: string where
  "ImagePullPolicyEnv = ''IMAGE_PULL_POLICY''"

definition DefaultRolloutsNetworkPolicy :: string where
  "DefaultRolloutsNetworkPolicy = ''argo-rollouts-network-policy''"

definition serviceMonitorsCRDName :: string where
  "serviceMonitorsCRDName = ''servicemonitors.monitoring.coreos.com''"

lemmas default_names = DefaultArgoRolloutsMetricsServiceName_def DefaultArgoRolloutsResourceName_def
  DefaultRolloutsNotificationSecretName_def DefaultRolloutsSelectorKey_def
  DefaultRolloutsConfigMapName_def DefaultRolloutsNetworkPolicy_def serviceMonitorsCRDName_def

section \<open>Object metadata\<close>

text \<open>
  \<open>types.NamespacedName\<close> and the part of \<open>metav1.ObjectMeta\<close> the operator uses.
  A cluster-scoped object has the empty namespace.
\<close>

datatype namespaced_name = NamespacedName (nnNamespace: string) (nnName: string)

record owner_ref =
  orKind :: string
  orName :: string
  orUID :: string
  orController :: "bool option"

record object_meta =
  mName :: string
  mNamespace :: string
  mLabels :: strmap
  mAnnotations :: strmap
  mOwners :: "owner_ref list"
  mDeletionTimestamp :: "int option"

definition newMeta :: "string \<Rightarrow> string \<Rightarrow> object_meta" where
  "newMeta name ns = \<lparr>mName = name, mNamespace = ns, mLabels = None, mAnnotations = None,
     mOwners = [], mDeletionTimestamp = None\<rparr>"

definition metaKey :: "object_meta \<Rightarrow> namespaced_name" where
  "metaKey m = NamespacedName (mNamespace m) (mName m)"

lemma newMeta_simps [simp]:
  "mName (newMeta n s) = n" "mNamespace (newMeta n s) = s" "mLabels (newMeta n s) = None"
  "mAnnotations (newMeta n s) = None" "mOwners (newMeta n s) = []"
  "mDeletionTimestamp (newMeta n s) = None" "metaKey (newMeta n s) = NamespacedName s n"
  by (simp_all add: newMeta_def metaKey_def)

instantiation namespaced_name :: linorder
begin

definition less_eq_namespaced_name :: "namespaced_name \<Rightarrow> namespaced_name \<Rightarrow> bool" where
  "less_eq_namespaced_name a b \<longleftrightarrow>
     nnNamespace a < nnNamespace b \<or> nnNamespace a = nnNamespace b \<and> nnName a \<le> nnName b"

definition less_namespaced_name :: "namespaced_name \<Rightarrow> namespaced_name \<Rightarrow> bool" where
  "less_namespaced_name a b \<longleftrightarrow>
     nnNamespace a < nnNamespace b \<or> nnNamespace a = nnNamespace b \<and> nnName a < nnName b"

instance
  by standard
    (auto simp: less_eq_namespaced_name_def less_namespaced_name_def intro: namespaced_name.expand)

end

section \<open>Pod level types\<close>

record env_var =
  evName :: string
  evValue :: string
  evValueFrom :: "string option"

record toleration =
  tolKey :: string
  tolOperator :: string
  tolValue :: string
  tolEffect :: string
  tolSeconds :: "int option"

record resource_requirements =
  rrLimits :: strmap
  rrRequests :: strmap

datatype int_or_string = FromInt int | FromString string

record http_get_action =
  hgPath :: string
  hgPort :: int_or_string
  hgHost :: string
  hgScheme :: string

record probe =
  prHTTPGet :: "http_get_action option"
  prFailureThreshold :: int
  prInitialDelaySeconds :: int
  prPeriodSeconds :: int
  prSuccessThreshold :: int
  prTimeoutSeconds :: int

record container_port =
  cpName :: string
  cpContainerPort :: int
  cpHostPort :: int
  cpProtocol :: string

record capabilities =
  capAdd :: "string slice"
  capDrop :: "string slice"

record security_context =
  scCapabilities :: "capabilities option"
  scAllowPrivilegeEscalation :: "bool option"
  scReadOnlyRootFilesystem :: "bool option"
  scRunAsNonRoot :: "bool option"
  scSeccompProfile :: "string option"
  scPrivileged :: "bool option"
  scRunAsUser :: "int option"

record volume_mount =
  vmName :: string
  vmMountPath :: string
  vmReadOnly :: bool
  vmSubPath :: string

record container =
  cName :: string
  cImage :: string
  cCommand :: "string slice"
  cArgs :: "string slice"
  cEnv :: "env_var slice"
  cImagePullPolicy :: string
  cLivenessProbe :: "probe option"
  cReadinessProbe :: "probe option"
  cPorts :: "container_port slice"
  cResources :: resource_requirements
  cSecurityContext :: "security_context option"
  cVolumeMounts :: "volume_mount slice"
  cTerminationMessagePath :: string
  cTerminationMessagePolicy :: string

datatype volume_source = EmptyDir | OtherVolumeSource string

record volume =
  volName :: string
  volSource :: volume_source

record label_selector =
  lsMatchLabels :: strmap
  lsMatchExpressions :: "string slice"

record pod_affinity_term =
  patLabelSelector :: "label_selector option"
  patTopologyKey :: string
  patNamespaces :: "string slice"

record weighted_pod_affinity_term =
  wpatWeight :: int
  wpatTerm :: pod_affinity_term

record pod_anti_affinity =
  paaPreferred :: "weighted_pod_affinity_term slice"
  paaRequired :: "pod_affinity_term slice"

record affinity =
  affNodeAffinity :: "string option"
  affPodAffinity :: "string option"
  affPodAntiAffinity :: "pod_anti_affinity option"

record pod_security_context =
  pscRunAsNonRoot :: "bool option"
  pscFSGroup :: "int option"

record pod_spec =
  psNodeSelector :: strmap
  psTolerations :: "toleration slice"
  psServiceAccountName :: string
  psSecurityContext :: "pod_security_context option"
  psContainers :: "container slice"
  psInitContainers :: "container slice"
  psVolumes :: "volume slice"
  psAffinity :: "affinity option"
  psRestartPolicy :: string
  psDNSPolicy :: string
  psSchedulerName :: string
  psTerminationGracePeriodSeconds :: "int option"

record pod_template =
  ptLabels :: strmap
  ptAnnotations :: strmap
  ptSpec :: pod_spec

record deployment_strategy =
  stType :: string
  stRollingUpdate :: "(string \<times> string) option"

record deployment_spec =
  dsReplicas :: "int option"
  dsSelector :: "label_selector option"
  dsTemplate :: pod_template
  dsStrategy :: deployment_strategy
  dsRevisionHistoryLimit :: "int option"
  dsProgressDeadlineSeconds :: "int option"

section \<open>The objects on the cluster\<close>

record deployment =
  dMeta :: object_meta
  dSpec :: deployment_spec
  dReadyReplicas :: int

record service_account =
  saMeta :: object_meta

record policy_rule =
  pruleAPIGroups :: "string slice"
  pruleResources :: "string slice"
  pruleVerbs :: "string slice"
  pruleResourceNames :: "string slice"
  pruleNonResourceURLs :: "string slice"

text \<open>
  Role and ClusterRole have the same fields as far as the operator is concerned, and so have
  RoleBinding and ClusterRoleBinding; the client keeps them in stores of their own.
\<close>

record role =
  roleMeta :: object_meta
  roleRules :: "policy_rule slice"

type_synonym cluster_role = role

record role_ref =
  refAPIGroup :: string
  refKind :: string
  refName :: string

record subject =
  subKind :: string
  subAPIGroup :: string
  subName :: string
  subNamespace :: string

record role_binding =
  rbMeta :: object_meta
  rbSubjects :: "subject slice"
  rbRoleRef :: role_ref

type_synonym cluster_role_binding = role_binding

record secret =
  secMeta :: object_meta
  secType :: string
  secData :: strmap

record config_map =
  cmMeta :: object_meta
  cmData :: strmap

record service_port =
  spName :: string
  spPort :: int
  spProtocol :: string
  spTargetPort :: int_or_string
  spNodePort :: int

record service =
  svcMeta :: object_meta
  svcPorts :: "service_port slice"
  svcSelector :: strmap

record endpoint =
  epPort :: string
  epPath :: string
  epInterval :: string

record service_monitor =
  smMeta :: object_meta
  smSelector :: label_selector
  smEndpoints :: "endpoint slice"

record network_policy_port =
  nppProtocol :: "string option"
  nppPort :: "int_or_string option"

record network_policy_ingress_rule =
  npiPorts :: "network_policy_port slice"
  npiFrom :: "string slice"

record network_policy =
  npMeta :: object_meta
  npPodSelector :: label_selector
  npPolicyTypes :: "string slice"
  npIngress :: "network_policy_ingress_rule slice"
  npEgress :: "string slice"

record namespace_obj =
  nsMeta :: object_meta

record custom_resource_definition =
  crdMeta :: object_meta

record pod =
  podMeta :: object_meta

section \<open>The RolloutManager resource\<close>

record rm_network_policy_spec =
  npsEnabled :: "bool option"

definition IsEnabled :: "rm_network_policy_spec option \<Rightarrow> bool" where
  "IsEnabled a \<longleftrightarrow> (case a of None \<Rightarrow> True | Some s \<Rightarrow>
     (case npsEnabled s of None \<Rightarrow> True | Some b \<Rightarrow> b))"

record plugin =
  pluginName :: string
  pluginLocation :: string
  pluginSHA256 :: string

record plugins =
  TrafficManagement :: "plugin list"
  Metric :: "plugin list"

record rm_ha_spec =
  haEnabled :: bool

record rollouts_node_placement_spec =
  placeNodeSelector :: strmap
  placeTolerations :: "toleration slice"

record resource_metadata =
  addAnnotations :: strmap
  addLabels :: strmap

record rollout_manager_spec =
  NetworkPolicy :: "rm_network_policy_spec option"
  Env :: "env_var list"
  ExtraCommandArgs :: "string list"
  Image :: string
  NodePlacement :: "rollouts_node_placement_spec option"
  Version :: string
  NamespaceScoped :: bool
  AdditionalMetadata :: "resource_metadata option"
  ControllerResources :: "resource_requirements option"
  SkipNotificationSecretDeployment :: bool
  Plugins :: plugins
  HA :: "rm_ha_spec option"
  ImagePullPolicy :: string

text \<open>\<open>metav1.Condition\<close>; times are counted in seconds.\<close>

record condition =
  cdType :: string
  cdStatus :: string
  cdReason :: string
  cdMessage :: string
  cdLastTransitionTime :: int

type_synonym phase = string

record rollout_manager_status =
  stRolloutController :: phase
  stPhase :: phase
  stConditions :: "condition list"

record rollout_manager =
  rmMeta :: object_meta
  rmSpec :: rollout_manager_spec
  rmStatus :: rollout_manager_status

definition PhaseAvailable :: phase where "PhaseAvailable = ''Available''"
definition PhasePending :: phase where "PhasePending = ''Pending''"
definition PhaseUnknown :: phase where "PhaseUnknown = ''Unknown''"
definition PhaseFailure :: phase where "PhaseFailure = ''Failure''"

definition RolloutManagerConditionType :: string where
  "RolloutManagerConditionType = ''Reconciled''"

definition RolloutManagerReasonSuccess :: string where
  "RolloutManagerReasonSuccess = ''Success''"

definition RolloutManagerReasonErrorOccurred :: string where
  "RolloutManagerReasonErrorOccurred = ''ErrorOccurred''"

definition RolloutManagerReasonMultipleClusterScopedRolloutManager :: string where
  "RolloutManagerReasonMultipleClusterScopedRolloutManager = ''MultipleClusterScopedRolloutManager''"

definition RolloutManagerReasonInvalidScoped :: string where
  "RolloutManagerReasonInvalidScoped = ''InvalidRolloutManagerScope''"

definition RolloutManagerReasonInvalidNamespace :: string where
  "RolloutManagerReasonInvalidNamespace = ''InvalidRolloutManagerNamespace''"

definition ConditionTrue :: string where "ConditionTrue = ''True''"
definition ConditionFalse :: string where "ConditionFalse = ''False''"

text \<open>\<open>cr.Spec.HA != nil && cr.Spec.HA.Enabled\<close>, which the code writes out four times.\<close>

definition ha_enabled :: "rollout_manager \<Rightarrow> bool" where
  "ha_enabled cr \<longleftrightarrow> (case HA (rmSpec cr) of None \<Rightarrow> False | Some h \<Rightarrow> haEnabled h)"

text \<open>The entries of \<open>cr.Spec.AdditionalMetadata\<close>, none when it is nil.\<close>

definition extraLabels :: "rollout_manager \<Rightarrow> (string, string) fmap" where
  "extraLabels cr = (case AdditionalMetadata (rmSpec cr) of None \<Rightarrow> fmempty
     | Some a \<Rightarrow> entries (addLabels a))"

definition extraAnnotations :: "rollout_manager \<Rightarrow> (string, string) fmap" where
  "extraAnnotations cr = (case AdditionalMetadata (rmSpec cr) of None \<Rightarrow> fmempty
     | Some a \<Rightarrow> entries (addAnnotations a))"

abbreviation crName :: "rollout_manager \<Rightarrow> string" where
  "crName cr \<equiv> mName (rmMeta cr)"

abbreviation crNamespace :: "rollout_manager \<Rightarrow> string" where
  "crNamespace cr \<equiv> mNamespace (rmMeta cr)"

text \<open>A small RolloutManager for the witnesses: no optional field is set.\<close>

definition basicRolloutManager :: "string \<Rightarrow> string \<Rightarrow> bool \<Rightarrow> rollout_manager" where
  "basicRolloutManager name ns nsScoped = \<lparr>rmMeta = newMeta name ns,
     rmSpec = \<lparr>NetworkPolicy = None, Env = [], ExtraCommandArgs = [], Image = '''',
       NodePlacement = None, Version = '''', NamespaceScoped = nsScoped, AdditionalMetadata = None,
       ControllerResources = None, SkipNotificationSecretDeployment = False,
       Plugins = \<lparr>TrafficManagement = [], Metric = []\<rparr>, HA = None, ImagePullPolicy = ''''\<rparr>,
     rmStatus = \<lparr>stRolloutController = '''', stPhase = '''', stConditions = []\<rparr>\<rparr>"

lemma basicRolloutManager_simps [simp]:
  "rmMeta (basicRolloutManager n ns b) = newMeta n ns"
  "NamespaceScoped (rmSpec (basicRolloutManager n ns b)) = b"
  "AdditionalMetadata (rmSpec (basicRolloutManager n ns b)) = None"
  "NetworkPolicy (rmSpec (basicRolloutManager n ns b)) = None"
  "SkipNotificationSecretDeployment (rmSpec (basicRolloutManager n ns b)) = False"
  "Plugins (rmSpec (basicRolloutManager n ns b)) = \<lparr>TrafficManagement = [], Metric = []\<rparr>"
  "NodePlacement (rmSpec (basicRolloutManager n ns b)) = None"
  "HA (rmSpec (basicRolloutManager n ns b)) = None"
  "extraLabels (basicRolloutManager n ns b) = fmempty"
  "extraAnnotations (basicRolloutManager n ns b) = fmempty"
  by (simp_all add: basicRolloutManager_def extraLabels_def extraAnnotations_def)

end
