(* ===== verification/Kube_Client.thy ===== *)
theory Kube_Client
  imports Api_Types
begin

text \<open>
  What the operator runs on: the Kubernetes API client and the other libraries it calls, none of
  which is part of the repository. They are parameters of the model, gathered in the records
  \<open>client\<close> and \<open>platform\<close>. The locale \<open>kind_api\<close> states the contract
  of the API server for one kind of object in a quiescent cluster, \<open>cluster_api\<close> the
  contract for all kinds together, and \<open>mem_client\<close> is an executable store that
  satisfies it.
\<close>

section \<open>The API client\<close>

text \<open>
  The calls for one kind of object, over a world \<open>'w\<close> that holds the cluster and whatever
  else may change between two calls. Create and Update return the object as the server stored
  it, which is what the Go client writes back through the pointer it is given. List takes the
  namespace and the labels to match.
\<close>

record ('o, 'w) kind_ops =
  kget :: "namespaced_name \<Rightarrow> 'w \<Rightarrow> (go_error + 'o) \<times> 'w"
  kcreate :: "'o \<Rightarrow> 'w \<Rightarrow> (go_error + 'o) \<times> 'w"
  kupdate :: "'o \<Rightarrow> 'w \<Rightarrow> (go_error + 'o) \<times> 'w"
  kdelete :: "'o \<Rightarrow> 'w \<Rightarrow> (go_error + unit) \<times> 'w"
  klist :: "string option \<Rightarrow> strmap \<Rightarrow> 'w \<Rightarrow> (go_error + 'o list) \<times> 'w"

record 'w client =
  kNamespaces :: "(namespace_obj, 'w) kind_ops"
  kRolloutManagers :: "(rollout_manager, 'w) kind_ops"
  kServiceAccounts :: "(service_account, 'w) kind_ops"
  kRoles :: "(role, 'w) kind_ops"
  kClusterRoles :: "(cluster_role, 'w) kind_ops"
  kRoleBindings :: "(role_binding, 'w) kind_ops"
  kClusterRoleBindings :: "(cluster_role_binding, 'w) kind_ops"
  kSecrets :: "(secret, 'w) kind_ops"
  kConfigMaps :: "(config_map, 'w) kind_ops"
  kDeployments :: "(deployment, 'w) kind_ops"
  kPods :: "(pod, 'w) kind_ops"
  kServices :: "(service, 'w) kind_ops"
  kServiceMonitors :: "(service_monitor, 'w) kind_ops"
  kNetworkPolicies :: "(network_policy, 'w) kind_ops"
  kCRDs :: "(custom_resource_definition, 'w) kind_ops"
  kStatusUpdate :: "rollout_manager \<Rightarrow> 'w \<Rightarrow> (go_error + rollout_manager) \<times> 'w"

text \<open>The item of the plugin lists, \<open>pluginItem\<close> of \<open>controllers/utils.go\<close>.\<close>

record pluginItem =
  piName :: string
  piLocation :: string
  piSha256 :: string

text \<open>
  The other libraries: the process environment, \<open>controllerutil.SetControllerReference\<close>
  (with the scheme it is given), \<open>metav1.GetControllerOf\<close>, the YAML codec and the parser
  of image references, which gives the name of a named reference.
\<close>

record platform =
  os_Getenv :: "string \<Rightarrow> string"
  SetControllerReference :: "rollout_manager \<Rightarrow> object_meta \<Rightarrow> go_error + object_meta"
  GetControllerOf :: "object_meta \<Rightarrow> owner_ref option"
  yaml_Marshal :: "pluginItem list \<Rightarrow> go_error + string"
  yaml_Unmarshal :: "string \<Rightarrow> go_error + pluginItem slice"
  reference_Parse :: "string \<Rightarrow> go_error + string option"

text \<open>\<open>RolloutManagerReconciler\<close>: its fields, and the libraries it runs with.\<close>

record 'w reconciler =
  Client :: "'w client"
  OpenShiftRoutePluginLocation :: string
  ResourceLabels :: strmap
  NamespaceScopedArgoRolloutsController :: bool
  Platform :: platform

text \<open>
  \<open>fetchObject\<close> leaves the namespace of the key unset when it is given the empty one, which
  is the same key.
\<close>

definition fetchObject :: "('o, 'w) kind_ops \<Rightarrow> string \<Rightarrow> string \<Rightarrow> 'w \<Rightarrow> (go_error + 'o) \<times> 'w" where
  "fetchObject ops ns name w =
     (if ns = '''' then kget ops (NamespacedName '''' name) w
      else kget ops (NamespacedName ns name) w)"

lemma fetchObject_kget [simp]: "fetchObject ops ns name w = kget ops (NamespacedName ns name) w"
  by (simp add: fetchObject_def)

section \<open>The contract of the API server for one kind\<close>

text \<open>
  \<open>view\<close> reads the state of the cluster off the world, \<open>look\<close> and \<open>put\<close>
  give the store of the kind in it. No call fails for a reason of its own and nobody else writes
  in between: a read finds what is stored and leaves the cluster alone, a create of an unused
  name and an update or delete of a used one take effect. \<open>same x y\<close> says that \<open>y\<close>
  is a form in which the server may store what it was sent as \<open>x\<close>.
\<close>

locale kind_api =
  fixes view :: "'w \<Rightarrow> 'c"
    and ops :: "('o, 'w) kind_ops"
    and metaOf :: "'o \<Rightarrow> object_meta"
    and look :: "'c \<Rightarrow> (namespaced_name, 'o) fmap"
    and put :: "((namespaced_name, 'o) fmap \<Rightarrow> (namespaced_name, 'o) fmap) \<Rightarrow> 'c \<Rightarrow> 'c"
    and same :: "'o \<Rightarrow> 'o \<Rightarrow> bool"
  assumes look_put: "look (put f c) = f (look c)"
    and put_unchanged: "f (look c) = look c \<Longrightarrow> put f c = c"
    and same_key: "same x y \<Longrightarrow> metaKey (metaOf y) = metaKey (metaOf x)"
    and get_found: "fmlookup (look (view w)) k = Some x \<Longrightarrow>
      \<exists>w'. kget ops k w = (Inr x, w') \<and> view w' = view w"
    and get_missing: "fmlookup (look (view w)) k = None \<Longrightarrow>
      \<exists>e w'. kget ops k w = (Inl e, w') \<and> IsNotFound e \<and> view w' = view w"
    and create_fresh: "fmlookup (look (view w)) (metaKey (metaOf x)) = None \<Longrightarrow>
      \<exists>y w'. kcreate ops x w = (Inr y, w') \<and> same x y \<and>
        view w' = put (fmupd (metaKey (metaOf x)) y) (view w)"
    and update_found: "fmlookup (look (view w)) (metaKey (metaOf x)) = Some z \<Longrightarrow>
      \<exists>y w'. kupdate ops x w = (Inr y, w') \<and> same x y \<and>
        view w' = put (fmupd (metaKey (metaOf x)) y) (view w)"
    and delete_found: "fmlookup (look (view w)) (metaKey (metaOf x)) = Some z \<Longrightarrow>
      \<exists>w'. kdelete ops x w = (Inr (), w') \<and> view w' = put (fmdrop (metaKey (metaOf x))) (view w)"
    and delete_missing: "fmlookup (look (view w)) (metaKey (metaOf x)) = None \<Longrightarrow>
      \<exists>e w'. kdelete ops x w = (Inl e, w') \<and> IsNotFound e \<and> view w' = view w"
    and list_all: "\<exists>xs w'. klist ops ns sel w = (Inr xs, w') \<and> view w' = view w \<and>
      set xs = {x. \<exists>k. fmlookup (look (view w)) k = Some x \<and>
        (\<forall>n. ns = Some n \<longrightarrow> nnNamespace k = n) \<and> entries sel \<subseteq>\<^sub>f entries (mLabels (metaOf x))}"

section \<open>Bringing one object into its desired form\<close>

text \<open>
  The shape most reconcilers of \<open>controllers/resources.go\<close> have: read the object; create
  it when it is not there; repair it when it differs from what is wanted. Each reconciler is
  translated on its own below and then shown to be an instance.
\<close>

definition ensure :: "('o, 'w) kind_ops \<Rightarrow> namespaced_name \<Rightarrow> (go_error \<Rightarrow> go_error) \<Rightarrow>
    (go_error \<Rightarrow> go_error) \<Rightarrow> (go_error \<Rightarrow> go_error) \<Rightarrow> (go_error + 'o) \<Rightarrow> ('o \<Rightarrow> 'o option) \<Rightarrow> 'w \<Rightarrow> 'o res \<times> 'w" where
  "ensure ops key wrapGet wrapCreate wrapUpdate fresh repair w =
     (case kget ops key w of
        (Inl err, w1) \<Rightarrow>
          if \<not> IsNotFound err then (Err (wrapGet err), w1)
          else (case fresh of Inl e \<Rightarrow> (Err e, w1) | Inr new \<Rightarrow> lift_with wrapCreate (kcreate ops new w1))
      | (Inr live, w1) \<Rightarrow>
          (case repair live of None \<Rightarrow> (Ok live, w1)
           | Some live' \<Rightarrow> lift_with wrapUpdate (kupdate ops live' w1)))"

text \<open>
  The laws that make such a repair settle: the object as wanted needs none, a repaired object
  needs no second one, and neither does what the server makes of them. \<open>tame\<close> collects
  what has to hold of the object found on the cluster.
\<close>

locale repair_law =
  fixes metaOf :: "'o \<Rightarrow> object_meta"
    and same :: "'o \<Rightarrow> 'o \<Rightarrow> bool"
    and key :: namespaced_name
    and expected :: 'o
    and repair :: "'o \<Rightarrow> 'o option"
    and tame :: "'o \<Rightarrow> bool"
  assumes expected_key: "metaKey (metaOf expected) = key"
    and same_trans: "same x y \<Longrightarrow> same y z \<Longrightarrow> same x z"
    and expected_done: "same expected x \<Longrightarrow> repair x = None"
    and repair_key: "repair x = Some y \<Longrightarrow> metaKey (metaOf y) = metaKey (metaOf x)"
    and repair_done: "tame x \<Longrightarrow> repair x = Some y \<Longrightarrow> same y z \<Longrightarrow> repair z = None"

locale settling = kind_api + repair_law
begin

lemma ensure_settled:
  assumes "fmlookup (look (view w)) key = Some x" and "repair x = None"
  shows "\<exists>w'. ensure ops key wg wc wu fresh repair w = (Ok x, w') \<and> view w' = view w"
  using get_found [OF assms(1)] assms(2) by (auto simp: ensure_def)

text \<open>The store afterwards: the object is there and needs no repair.\<close>

lemma ensure_settles:
  assumes fresh: "fresh = Inr new" "same expected new"
    and keyed: "fmpred (\<lambda>k x. metaKey (metaOf x) = k) (look (view w))"
    and tame: "\<And>x. fmlookup (look (view w)) key = Some x \<Longrightarrow> tame x"
  shows "\<exists>x w'. ensure ops key wg wc wu fresh repair w = (Ok x, w') \<and> repair x = None \<and>
    metaKey (metaOf x) = key \<and> view w' = put (fmupd key x) (view w)"
proof (cases "fmlookup (look (view w)) key")
  case None
  obtain e w1 where g: "kget ops key w = (Inl e, w1)" "IsNotFound e" "view w1 = view w"
    using get_missing [OF None] by blast
  have nk: "metaKey (metaOf new) = key"
    using same_key [OF fresh(2)] expected_key by simp
  obtain y w2 where c: "kcreate ops new w1 = (Inr y, w2)" "same new y"
      "view w2 = put (fmupd key y) (view w)"
    using create_fresh [of w1 new] None nk g(3) by auto
  have "repair y = None" "metaKey (metaOf y) = key"
    using expected_done same_trans [OF fresh(2) c(2)] same_key [OF c(2)] nk by auto
  then show ?thesis using g c fresh(1) by (auto simp: ensure_def)
next
  case (Some x)
  obtain w1 where g: "kget ops key w = (Inr x, w1)" "view w1 = view w"
    using get_found [OF Some] by blast
  have xk: "metaKey (metaOf x) = key" using keyed Some by (auto dest: fmpredD)
  show ?thesis
  proof (cases "repair x")
    case None
    then have "put (fmupd key x) (view w) = view w"
      using Some by (intro put_unchanged) (simp add: fmupd_same)
    then show ?thesis using g None xk by (auto simp: ensure_def)
  next
    case (Some x')
    have x'k: "metaKey (metaOf x') = key" using repair_key [OF Some] xk by simp
    obtain y w2 where c: "kupdate ops x' w1 = (Inr y, w2)" "same x' y"
        "view w2 = put (fmupd key y) (view w)"
      using update_found [of w1 x' x] \<open>fmlookup (look (view w)) key = Some x\<close> x'k g(2) by auto
    have "repair y = None" "metaKey (metaOf y) = key"
      using repair_done [OF _ Some c(2)] tame [OF \<open>fmlookup (look (view w)) key = Some x\<close>]
        same_key [OF c(2)] x'k by auto
    then show ?thesis using g c Some by (auto simp: ensure_def)
  qed
qed

text \<open>A second run right after the first changes nothing.\<close>

lemma ensure_idempotent:
  assumes "fresh = Inr new" "same expected new"
    and "fmpred (\<lambda>k x. metaKey (metaOf x) = k) (look (view w))"
    and "\<And>x. fmlookup (look (view w)) key = Some x \<Longrightarrow> tame x"
    and "ensure ops key wg wc wu fresh repair w = (r, w1)"
  shows "\<exists>w2. ensure ops key wg wc wu fresh repair w1 = (r, w2) \<and> view w2 = view w1"
proof -
  obtain x where x: "r = Ok x" "repair x = None" "view w1 = put (fmupd key x) (view w)"
    using ensure_settles [OF assms(1-4), of wg wc wu] assms(5) by auto
  have "fmlookup (look (view w1)) key = Some x" by (simp add: x(3) look_put)
  from ensure_settled [OF this x(2)] show ?thesis by (simp add: x(1))
qed

end


section \<open>What the server may make of an object\<close>

text \<open>
  An object comes back with the name, the labels and the annotations it was sent with, where an
  empty map may have become nil in the encoding; owner references and the deletion time are the
  server's to manage. The remaining fields of the model come back as they were, except in a
  Deployment, whose optional fields are defaulted.
\<close>

definition strmap_same :: "strmap \<Rightarrow> strmap \<Rightarrow> bool" where
  "strmap_same a b \<longleftrightarrow> entries a = entries b"

definition meta_same :: "object_meta \<Rightarrow> object_meta \<Rightarrow> bool" where
  "meta_same m n \<longleftrightarrow> mName n = mName m \<and> mNamespace n = mNamespace m \<and>
     strmap_same (mLabels m) (mLabels n) \<and> strmap_same (mAnnotations m) (mAnnotations n)"

definition same_namespace :: "namespace_obj \<Rightarrow> namespace_obj \<Rightarrow> bool" where
  "same_namespace x y \<longleftrightarrow> meta_same (nsMeta x) (nsMeta y)"

definition same_rollout_manager :: "rollout_manager \<Rightarrow> rollout_manager \<Rightarrow> bool" where
  "same_rollout_manager x y \<longleftrightarrow> meta_same (rmMeta x) (rmMeta y) \<and> rmSpec y = rmSpec x \<and> rmStatus y = rmStatus x"

definition same_service_account :: "service_account \<Rightarrow> service_account \<Rightarrow> bool" where
  "same_service_account x y \<longleftrightarrow> meta_same (saMeta x) (saMeta y)"

definition same_role :: "role \<Rightarrow> role \<Rightarrow> bool" where
  "same_role x y \<longleftrightarrow> meta_same (roleMeta x) (roleMeta y) \<and> roleRules y = roleRules x"

definition same_role_binding :: "role_binding \<Rightarrow> role_binding \<Rightarrow> bool" where
  "same_role_binding x y \<longleftrightarrow> meta_same (rbMeta x) (rbMeta y) \<and> rbSubjects y = rbSubjects x \<and>
     rbRoleRef y = rbRoleRef x"

definition same_secret :: "secret \<Rightarrow> secret \<Rightarrow> bool" where
  "same_secret x y \<longleftrightarrow> meta_same (secMeta x) (secMeta y) \<and> secType y = secType x \<and>
     strmap_same (secData x) (secData y)"

definition same_config_map :: "config_map \<Rightarrow> config_map \<Rightarrow> bool" where
  "same_config_map x y \<longleftrightarrow> meta_same (cmMeta x) (cmMeta y) \<and> strmap_same (cmData x) (cmData y)"

definition same_service :: "service \<Rightarrow> service \<Rightarrow> bool" where
  "same_service x y \<longleftrightarrow> meta_same (svcMeta x) (svcMeta y) \<and> svcPorts y = svcPorts x \<and>
     strmap_same (svcSelector x) (svcSelector y)"

definition same_service_monitor :: "service_monitor \<Rightarrow> service_monitor \<Rightarrow> bool" where
  "same_service_monitor x y \<longleftrightarrow> meta_same (smMeta x) (smMeta y) \<and> smSelector y = smSelector x \<and>
     smEndpoints y = smEndpoints x"

definition same_network_policy :: "network_policy \<Rightarrow> network_policy \<Rightarrow> bool" where
  "same_network_policy x y \<longleftrightarrow> meta_same (npMeta x) (npMeta y) \<and> npPodSelector y = npPodSelector x \<and>
     npPolicyTypes y = npPolicyTypes x \<and> npIngress y = npIngress x \<and> npEgress y = npEgress x"

definition same_pod :: "pod \<Rightarrow> pod \<Rightarrow> bool" where
  "same_pod x y \<longleftrightarrow> meta_same (podMeta x) (podMeta y)"

definition same_crd :: "custom_resource_definition \<Rightarrow> custom_resource_definition \<Rightarrow> bool" where
  "same_crd x y \<longleftrightarrow> meta_same (crdMeta x) (crdMeta y)"

text \<open>
  Deployments: the scheme of a probe, the protocol of a port, the termination message settings
  of a container, the restart, DNS, scheduler and grace period settings of the pod and the
  rollout settings of the spec are filled in, and the deployment controller records its revision
  in the annotations.
\<close>

definition revisionAnnotation :: string where
  "revisionAnnotation = ''deployment.kubernetes.io/revision''"

definition slice_same :: "'a slice \<Rightarrow> 'a slice \<Rightarrow> bool" where
  "slice_same a b \<longleftrightarrow> elems a = elems b"

text \<open>A list or map that the encoding omits when it is empty comes back as nil.\<close>

definition slice_stored :: "'a slice \<Rightarrow> 'a slice \<Rightarrow> bool" where
  "slice_stored a b \<longleftrightarrow> b = a \<or> elems a = [] \<and> b = None"

definition resources_stored :: "resource_requirements \<Rightarrow> resource_requirements \<Rightarrow> bool" where
  "resources_stored a b \<longleftrightarrow>
     (rrLimits b = rrLimits a \<or> mempty (rrLimits a) \<and> rrLimits b = None) \<and>
     (rrRequests b = rrRequests a \<or> mempty (rrRequests a) \<and> rrRequests b = None)"

definition same_probe :: "probe \<Rightarrow> probe \<Rightarrow> bool" where
  "same_probe x y \<longleftrightarrow> (\<exists>f. y = x\<lparr>prHTTPGet := map_option (hgScheme_update f) (prHTTPGet x)\<rparr>)"

definition same_port :: "container_port \<Rightarrow> container_port \<Rightarrow> bool" where
  "same_port x y \<longleftrightarrow> (\<exists>p. y = x\<lparr>cpProtocol := p\<rparr>)"

definition same_container :: "container \<Rightarrow> container \<Rightarrow> bool" where
  "same_container x y \<longleftrightarrow> cName y = cName x \<and> cImage y = cImage x \<and> slice_same (cCommand x) (cCommand y) \<and>
     slice_same (cArgs x) (cArgs y) \<and> slice_same (cEnv x) (cEnv y) \<and>
     cImagePullPolicy y = cImagePullPolicy x \<and>
     rel_option same_probe (cLivenessProbe x) (cLivenessProbe y) \<and>
     cReadinessProbe y = cReadinessProbe x \<and>
     rel_option (list_all2 same_port) (cPorts x) (cPorts y) \<and>
     resources_stored (cResources x) (cResources y) \<and> cSecurityContext y = cSecurityContext x \<and>
     cVolumeMounts y = cVolumeMounts x"

definition same_pod_spec :: "pod_spec \<Rightarrow> pod_spec \<Rightarrow> bool" where
  "same_pod_spec x y \<longleftrightarrow> psNodeSelector y = psNodeSelector x \<and> slice_stored (psTolerations x) (psTolerations y) \<and>
     psServiceAccountName y = psServiceAccountName x \<and> psSecurityContext y = psSecurityContext x \<and>
     rel_option (list_all2 same_container) (psContainers x) (psContainers y) \<and>
     psInitContainers y = psInitContainers x \<and> psVolumes y = psVolumes x \<and>
     psAffinity y = psAffinity x"

definition same_deployment_spec :: "deployment_spec \<Rightarrow> deployment_spec \<Rightarrow> bool" where
  "same_deployment_spec x y \<longleftrightarrow> dsReplicas y = dsReplicas x \<and> dsSelector y = dsSelector x \<and>
     strmap_same (ptLabels (dsTemplate x)) (ptLabels (dsTemplate y)) \<and>
     strmap_same (ptAnnotations (dsTemplate x)) (ptAnnotations (dsTemplate y)) \<and>
     same_pod_spec (ptSpec (dsTemplate x)) (ptSpec (dsTemplate y)) \<and>
     stType (dsStrategy y) = stType (dsStrategy x)"

definition same_deployment :: "deployment \<Rightarrow> deployment \<Rightarrow> bool" where
  "same_deployment x y \<longleftrightarrow> mName (dMeta y) = mName (dMeta x) \<and> mNamespace (dMeta y) = mNamespace (dMeta x) \<and>
     mLabels (dMeta y) = mLabels (dMeta x) \<and>
     (\<exists>a. mAnnotations (dMeta y) = Some a \<and>
       fmdrop revisionAnnotation a = fmdrop revisionAnnotation (entries (mAnnotations (dMeta x)))) \<and>
     same_deployment_spec (dSpec x) (dSpec y)"

lemmas same_defs = same_namespace_def same_rollout_manager_def same_service_account_def same_role_def
  same_role_binding_def same_secret_def same_config_map_def same_service_def
  same_service_monitor_def same_network_policy_def same_pod_def same_crd_def

lemma strmap_same_simps [simp]: "strmap_same a a"
  by (simp add: strmap_same_def)

lemma meta_same_refl [simp]: "meta_same m m"
  by (simp add: meta_same_def)

lemma meta_same_trans: "meta_same a b \<Longrightarrow> meta_same b c \<Longrightarrow> meta_same a c"
  by (simp add: meta_same_def strmap_same_def)

lemma strmap_same_trans: "strmap_same a b \<Longrightarrow> strmap_same b c \<Longrightarrow> strmap_same a c"
  by (simp add: strmap_same_def)

lemma meta_same_key: "meta_same m n \<Longrightarrow> metaKey n = metaKey m"
  by (simp add: meta_same_def metaKey_def)

lemma same_deployment_key: "same_deployment x y \<Longrightarrow> metaKey (dMeta y) = metaKey (dMeta x)"
  by (simp add: same_deployment_def metaKey_def)

section \<open>The state of a cluster\<close>

record cluster =
  cluNamespaces :: "(namespaced_name, namespace_obj) fmap"
  cluRolloutManagers :: "(namespaced_name, rollout_manager) fmap"
  cluServiceAccounts :: "(namespaced_name, service_account) fmap"
  cluRoles :: "(namespaced_name, role) fmap"
  cluClusterRoles :: "(namespaced_name, cluster_role) fmap"
  cluRoleBindings :: "(namespaced_name, role_binding) fmap"
  cluClusterRoleBindings :: "(namespaced_name, cluster_role_binding) fmap"
  cluSecrets :: "(namespaced_name, secret) fmap"
  cluConfigMaps :: "(namespaced_name, config_map) fmap"
  cluDeployments :: "(namespaced_name, deployment) fmap"
  cluPods :: "(namespaced_name, pod) fmap"
  cluServices :: "(namespaced_name, service) fmap"
  cluServiceMonitors :: "(namespaced_name, service_monitor) fmap"
  cluNetworkPolicies :: "(namespaced_name, network_policy) fmap"
  cluCRDs :: "(namespaced_name, custom_resource_definition) fmap"

definition emptyCluster :: cluster where
  "emptyCluster = \<lparr>cluNamespaces = fmempty, cluRolloutManagers = fmempty, cluServiceAccounts = fmempty,
     cluRoles = fmempty, cluClusterRoles = fmempty, cluRoleBindings = fmempty,
     cluClusterRoleBindings = fmempty, cluSecrets = fmempty, cluConfigMaps = fmempty,
     cluDeployments = fmempty, cluPods = fmempty, cluServices = fmempty,
     cluServiceMonitors = fmempty, cluNetworkPolicies = fmempty, cluCRDs = fmempty\<rparr>"

text \<open>Every object is stored under its own name.\<close>

definition keyed :: "('o \<Rightarrow> object_meta) \<Rightarrow> (namespaced_name, 'o) fmap \<Rightarrow> bool" where
  "keyed metaOf m \<longleftrightarrow> fmpred (\<lambda>k x. metaKey (metaOf x) = k) m"

lemma keyed_empty [simp]: "keyed f fmempty"
  by (simp add: keyed_def)

lemma keyed_upd [intro]: "keyed f m \<Longrightarrow> metaKey (f x) = k \<Longrightarrow> keyed f (fmupd k x m)"
  by (auto simp: keyed_def fmpred_iff)

lemma keyed_drop [intro]: "keyed f m \<Longrightarrow> keyed f (fmdrop k m)"
  by (auto simp: keyed_def fmpred_iff)

lemma keyedD: "keyed f m \<Longrightarrow> fmlookup m k = Some x \<Longrightarrow> metaKey (f x) = k"
  by (auto simp: keyed_def fmpred_iff)

section \<open>The contract for all kinds\<close>

text \<open>An update of the status subresource stores the status and nothing else.\<close>

definition status_api :: "('w \<Rightarrow> cluster) \<Rightarrow> (rollout_manager \<Rightarrow> 'w \<Rightarrow> (go_error + rollout_manager) \<times> 'w) \<Rightarrow> bool" where
  "status_api view upd \<longleftrightarrow> (\<forall>w x z. fmlookup (cluRolloutManagers (view w)) (metaKey (rmMeta x)) = Some z \<longrightarrow>
     (\<exists>w'. upd x w = (Inr (z\<lparr>rmStatus := rmStatus x\<rparr>), w') \<and>
        view w' = cluRolloutManagers_update (fmupd (metaKey (rmMeta x)) (z\<lparr>rmStatus := rmStatus x\<rparr>)) (view w)))"

definition cluster_api :: "('w \<Rightarrow> cluster) \<Rightarrow> 'w client \<Rightarrow> bool" where
  "cluster_api view c \<longleftrightarrow>
     kind_api view (kNamespaces c) nsMeta cluNamespaces cluNamespaces_update same_namespace \<and>
     kind_api view (kRolloutManagers c) rmMeta cluRolloutManagers cluRolloutManagers_update same_rollout_manager \<and>
     kind_api view (kServiceAccounts c) saMeta cluServiceAccounts cluServiceAccounts_update same_service_account \<and>
     kind_api view (kRoles c) roleMeta cluRoles cluRoles_update same_role \<and>
     kind_api view (kClusterRoles c) roleMeta cluClusterRoles cluClusterRoles_update same_role \<and>
     kind_api view (kRoleBindings c) rbMeta cluRoleBindings cluRoleBindings_update same_role_binding \<and>
     kind_api view (kClusterRoleBindings c) rbMeta cluClusterRoleBindings cluClusterRoleBindings_update
       same_role_binding \<and>
     kind_api view (kSecrets c) secMeta cluSecrets cluSecrets_update same_secret \<and>
     kind_api view (kConfigMaps c) cmMeta cluConfigMaps cluConfigMaps_update same_config_map \<and>
     kind_api view (kDeployments c) dMeta cluDeployments cluDeployments_update same_deployment \<and>
     kind_api view (kPods c) podMeta cluPods cluPods_update same_pod \<and>
     kind_api view (kServices c) svcMeta cluServices cluServices_update same_service \<and>
     kind_api view (kServiceMonitors c) smMeta cluServiceMonitors cluServiceMonitors_update same_service_monitor \<and>
     kind_api view (kNetworkPolicies c) npMeta cluNetworkPolicies cluNetworkPolicies_update same_network_policy \<and>
     kind_api view (kCRDs c) crdMeta cluCRDs cluCRDs_update same_crd \<and>
     status_api view (kStatusUpdate c)"

lemma cluster_apiD:
  assumes "cluster_api view c"
  shows api_namespaces: "kind_api view (kNamespaces c) nsMeta cluNamespaces cluNamespaces_update same_namespace"
    and api_rollout_managers: "kind_api view (kRolloutManagers c) rmMeta cluRolloutManagers cluRolloutManagers_update same_rollout_manager"
    and api_service_accounts: "kind_api view (kServiceAccounts c) saMeta cluServiceAccounts cluServiceAccounts_update same_service_account"
    and api_roles: "kind_api view (kRoles c) roleMeta cluRoles cluRoles_update same_role"
    and api_cluster_roles: "kind_api view (kClusterRoles c) roleMeta cluClusterRoles cluClusterRoles_update same_role"
    and api_role_bindings: "kind_api view (kRoleBindings c) rbMeta cluRoleBindings cluRoleBindings_update same_role_binding"
    and api_cluster_role_bindings: "kind_api view (kClusterRoleBindings c) rbMeta cluClusterRoleBindings cluClusterRoleBindings_update same_role_binding"
    and api_secrets: "kind_api view (kSecrets c) secMeta cluSecrets cluSecrets_update same_secret"
    and api_config_maps: "kind_api view (kConfigMaps c) cmMeta cluConfigMaps cluConfigMaps_update same_config_map"
    and api_deployments: "kind_api view (kDeployments c) dMeta cluDeployments cluDeployments_update same_deployment"
    and api_pods: "kind_api view (kPods c) podMeta cluPods cluPods_update same_pod"
    and api_services: "kind_api view (kServices c) svcMeta cluServices cluServices_update same_service"
    and api_service_monitors: "kind_api view (kServiceMonitors c) smMeta cluServiceMonitors cluServiceMonitors_update same_service_monitor"
    and api_network_policies: "kind_api view (kNetworkPolicies c) npMeta cluNetworkPolicies cluNetworkPolicies_update same_network_policy"
    and api_crds: "kind_api view (kCRDs c) crdMeta cluCRDs cluCRDs_update same_crd"
    and api_status: "status_api view (kStatusUpdate c)"
  using assms by (simp_all add: cluster_api_def)

section \<open>An executable cluster\<close>

text \<open>
  A store in memory with the behaviour the contract asks for, to run the operator on: the
  witnesses of the theorems about conforming clients use it. \<open>server\<close> is what the server
  makes of an object before it stores it.
\<close>

definition alreadyExists :: go_error where
  "alreadyExists = GoError ''already exists'' OtherReason"

definition notFound :: go_error where
  "notFound = GoError ''not found'' NotFound"

definition mem_ops :: "('o \<Rightarrow> object_meta) \<Rightarrow> (cluster \<Rightarrow> (namespaced_name, 'o) fmap) \<Rightarrow>
    (((namespaced_name, 'o) fmap \<Rightarrow> (namespaced_name, 'o) fmap) \<Rightarrow> cluster \<Rightarrow> cluster) \<Rightarrow>
    ('o \<Rightarrow> 'o) \<Rightarrow> ('o, cluster) kind_ops" where
  "mem_ops metaOf look put server =
     \<lparr>kget = (\<lambda>k c. (case fmlookup (look c) k of None \<Rightarrow> (Inl notFound, c) | Some x \<Rightarrow> (Inr x, c))),
      kcreate = (\<lambda>x c. (case fmlookup (look c) (metaKey (metaOf x)) of
         Some _ \<Rightarrow> (Inl alreadyExists, c)
       | None \<Rightarrow> (Inr (server x), put (fmupd (metaKey (metaOf x)) (server x)) c))),
      kupdate = (\<lambda>x c. (case fmlookup (look c) (metaKey (metaOf x)) of
         None \<Rightarrow> (Inl notFound, c)
       | Some _ \<Rightarrow> (Inr (server x), put (fmupd (metaKey (metaOf x)) (server x)) c))),
      kdelete = (\<lambda>x c. (case fmlookup (look c) (metaKey (metaOf x)) of
         None \<Rightarrow> (Inl notFound, c)
       | Some _ \<Rightarrow> (Inr (), put (fmdrop (metaKey (metaOf x))) c))),
      klist = (\<lambda>ns sel c. (Inr (map snd (filter (\<lambda>(k, x).
         (case ns of None \<Rightarrow> True | Some n \<Rightarrow> nnNamespace k = n) \<and>
         entries sel \<subseteq>\<^sub>f entries (mLabels (metaOf x))) (sorted_list_of_fmap (look c)))), c))\<rparr>"

lemma mem_list_set:
  "set (map snd (filter (\<lambda>(k, x). P k x) (sorted_list_of_fmap m))) =
     {x. \<exists>k. fmlookup m k = Some x \<and> P k x}"
  by (force simp: in_sorted_list_of_fmap)

lemma mem_kind_api:
  assumes "\<And>f c. look (put f c) = f (look c)" and "\<And>f c. f (look c) = look c \<Longrightarrow> put f c = c"
    and "\<And>x. same x (server x)" and "\<And>x y. same x y \<Longrightarrow> metaKey (metaOf y) = metaKey (metaOf x)"
  shows "kind_api (\<lambda>c. c) (mem_ops metaOf look put server) metaOf look put same"
  using assms
  by unfold_locales
    (simp_all add: mem_ops_def notFound_def mem_list_set del: set_map set_filter split: option.splits, auto)

text \<open>The encoding drops an empty map; the deployment controller counts its revisions.\<close>

definition omitEmpty :: "strmap \<Rightarrow> strmap" where
  "omitEmpty m = (if mempty m then None else m)"

definition stored_meta :: "object_meta \<Rightarrow> object_meta" where
  "stored_meta m = m\<lparr>mLabels := omitEmpty (mLabels m), mAnnotations := omitEmpty (mAnnotations m)\<rparr>"

definition stored_deployment :: "deployment \<Rightarrow> deployment" where
  "stored_deployment d = d\<lparr>dMeta := (dMeta d)\<lparr>mAnnotations :=
     Some (fmupd revisionAnnotation ''1'' (entries (mAnnotations (dMeta d))))\<rparr>\<rparr>"

definition mem_status_update :: "rollout_manager \<Rightarrow> cluster \<Rightarrow> (go_error + rollout_manager) \<times> cluster" where
  "mem_status_update x c = (case fmlookup (cluRolloutManagers c) (metaKey (rmMeta x)) of
     None \<Rightarrow> (Inl notFound, c)
   | Some z \<Rightarrow> (Inr (z\<lparr>rmStatus := rmStatus x\<rparr>),
       cluRolloutManagers_update (fmupd (metaKey (rmMeta x)) (z\<lparr>rmStatus := rmStatus x\<rparr>)) c))"

definition mem_client :: "cluster client" where
  "mem_client = \<lparr>
     kNamespaces = mem_ops nsMeta cluNamespaces cluNamespaces_update (nsMeta_update stored_meta),
     kRolloutManagers = mem_ops rmMeta cluRolloutManagers cluRolloutManagers_update (rmMeta_update stored_meta),
     kServiceAccounts = mem_ops saMeta cluServiceAccounts cluServiceAccounts_update (saMeta_update stored_meta),
     kRoles = mem_ops roleMeta cluRoles cluRoles_update (roleMeta_update stored_meta),
     kClusterRoles = mem_ops roleMeta cluClusterRoles cluClusterRoles_update (roleMeta_update stored_meta),
     kRoleBindings = mem_ops rbMeta cluRoleBindings cluRoleBindings_update (rbMeta_update stored_meta),
     kClusterRoleBindings = mem_ops rbMeta cluClusterRoleBindings cluClusterRoleBindings_update
       (rbMeta_update stored_meta),
     kSecrets = mem_ops secMeta cluSecrets cluSecrets_update (secMeta_update stored_meta),
     kConfigMaps = mem_ops cmMeta cluConfigMaps cluConfigMaps_update (cmMeta_update stored_meta),
     kDeployments = mem_ops dMeta cluDeployments cluDeployments_update stored_deployment,
     kPods = mem_ops podMeta cluPods cluPods_update (podMeta_update stored_meta),
     kServices = mem_ops svcMeta cluServices cluServices_update (svcMeta_update stored_meta),
     kServiceMonitors = mem_ops smMeta cluServiceMonitors cluServiceMonitors_update (smMeta_update stored_meta),
     kNetworkPolicies = mem_ops npMeta cluNetworkPolicies cluNetworkPolicies_update (npMeta_update stored_meta),
     kCRDs = mem_ops crdMeta cluCRDs cluCRDs_update (crdMeta_update stored_meta),
     kStatusUpdate = mem_status_update\<rparr>"

lemma meta_same_stored [simp]: "meta_same m (stored_meta m)"
  by (auto simp: meta_same_def strmap_same_def stored_meta_def omitEmpty_def mempty_def)

lemma same_probe_refl: "same_probe x x"
proof -
  have "map_option (hgScheme_update (\<lambda>s. s)) (prHTTPGet x) = prHTTPGet x"
    by (cases "prHTTPGet x") simp_all
  then show ?thesis unfolding same_probe_def by (intro exI [of _ "\<lambda>s. s"]) simp
qed

lemma same_port_refl: "same_port x x"
  unfolding same_port_def by (intro exI [of _ "cpProtocol x"]) simp

lemma same_container_refl: "same_container x x"
  by (auto simp: same_container_def slice_same_def resources_stored_def same_probe_refl same_port_refl
      intro!: option.rel_refl list.rel_refl)

lemma same_deployment_spec_refl: "same_deployment_spec x x"
  by (auto simp: same_deployment_spec_def same_pod_spec_def slice_stored_def same_container_refl
      intro!: option.rel_refl list.rel_refl)

lemma same_stored_deployment: "same_deployment d (stored_deployment d)"
  by (simp add: same_deployment_def stored_deployment_def same_deployment_spec_refl fmdrop_fmupd)

interpretation mem_namespaces: kind_api "\<lambda>c. c" "kNamespaces mem_client" nsMeta cluNamespaces cluNamespaces_update same_namespace
  unfolding mem_client_def kind_ops.simps client.simps
  by (rule mem_kind_api) (auto simp: same_defs dest: meta_same_key)

interpretation mem_rollout_managers: kind_api "\<lambda>c. c" "kRolloutManagers mem_client" rmMeta cluRolloutManagers cluRolloutManagers_update same_rollout_manager
  unfolding mem_client_def client.simps
  by (rule mem_kind_api) (auto simp: same_defs dest: meta_same_key)

interpretation mem_service_accounts: kind_api "\<lambda>c. c" "kServiceAccounts mem_client" saMeta cluServiceAccounts cluServiceAccounts_update same_service_account
  unfolding mem_client_def client.simps
  by (rule mem_kind_api) (auto simp: same_defs dest: meta_same_key)

interpretation mem_roles: kind_api "\<lambda>c. c" "kRoles mem_client" roleMeta cluRoles cluRoles_update same_role
  unfolding mem_client_def client.simps
  by (rule mem_kind_api) (auto simp: same_defs dest: meta_same_key)

interpretation mem_cluster_roles: kind_api "\<lambda>c. c" "kClusterRoles mem_client" roleMeta cluClusterRoles cluClusterRoles_update same_role
  unfolding mem_client_def client.simps
  by (rule mem_kind_api) (auto simp: same_defs dest: meta_same_key)

interpretation mem_role_bindings: kind_api "\<lambda>c. c" "kRoleBindings mem_client" rbMeta cluRoleBindings cluRoleBindings_update same_role_binding
  unfolding mem_client_def client.simps
  by (rule mem_kind_api) (auto simp: same_defs dest: meta_same_key)

interpretation mem_cluster_role_bindings: kind_api "\<lambda>c. c" "kClusterRoleBindings mem_client" rbMeta cluClusterRoleBindings cluClusterRoleBindings_update same_role_binding
  unfolding mem_client_def client.simps
  by (rule mem_kind_api) (auto simp: same_defs dest: meta_same_key)

interpretation mem_secrets: kind_api "\<lambda>c. c" "kSecrets mem_client" secMeta cluSecrets cluSecrets_update same_secret
  unfolding mem_client_def client.simps
  by (rule mem_kind_api) (auto simp: same_defs dest: meta_same_key)

interpretation mem_config_maps: kind_api "\<lambda>c. c" "kConfigMaps mem_client" cmMeta cluConfigMaps cluConfigMaps_update same_config_map
  unfolding mem_client_def client.simps
  by (rule mem_kind_api) (auto simp: same_defs dest: meta_same_key)

interpretation mem_deployments: kind_api "\<lambda>c. c" "kDeployments mem_client" dMeta cluDeployments cluDeployments_update same_deployment
  unfolding mem_client_def client.simps
  by (rule mem_kind_api) (auto simp: same_stored_deployment dest: same_deployment_key)

interpretation mem_pods: kind_api "\<lambda>c. c" "kPods mem_client" podMeta cluPods cluPods_update same_pod
  unfolding mem_client_def client.simps
  by (rule mem_kind_api) (auto simp: same_defs dest: meta_same_key)

interpretation mem_services: kind_api "\<lambda>c. c" "kServices mem_client" svcMeta cluServices cluServices_update same_service
  unfolding mem_client_def client.simps
  by (rule mem_kind_api) (auto simp: same_defs dest: meta_same_key)

interpretation mem_service_monitors: kind_api "\<lambda>c. c" "kServiceMonitors mem_client" smMeta cluServiceMonitors cluServiceMonitors_update same_service_monitor
  unfolding mem_client_def client.simps
  by (rule mem_kind_api) (auto simp: same_defs dest: meta_same_key)

interpretation mem_network_policies: kind_api "\<lambda>c. c" "kNetworkPolicies mem_client" npMeta cluNetworkPolicies cluNetworkPolicies_update same_network_policy
  unfolding mem_client_def client.simps
  by (rule mem_kind_api) (auto simp: same_defs dest: meta_same_key)

interpretation mem_crds: kind_api "\<lambda>c. c" "kCRDs mem_client" crdMeta cluCRDs cluCRDs_update same_crd
  unfolding mem_client_def client.simps
  by (rule mem_kind_api) (auto simp: same_defs dest: meta_same_key)

lemma mem_cluster_api: "cluster_api (\<lambda>c. c) mem_client"
  unfolding cluster_api_def
  by (intro conjI mem_namespaces.kind_api_axioms mem_rollout_managers.kind_api_axioms
      mem_service_accounts.kind_api_axioms mem_roles.kind_api_axioms mem_cluster_roles.kind_api_axioms
      mem_role_bindings.kind_api_axioms mem_cluster_role_bindings.kind_api_axioms
      mem_secrets.kind_api_axioms mem_config_maps.kind_api_axioms mem_deployments.kind_api_axioms
      mem_pods.kind_api_axioms mem_services.kind_api_axioms mem_service_monitors.kind_api_axioms
      mem_network_policies.kind_api_axioms mem_crds.kind_api_axioms)
    (simp add: status_api_def mem_client_def mem_status_update_def)

end
