(* ===== verification/Metadata.thy ===== *)
theory Metadata
  imports Kube_Client
begin

text \<open>
  The labels and annotations the operator puts on what it creates, and how it tells its own
  entries from those of others: the map functions of \<open>controllers/utils.go\<close>. The lemmas
  show when bringing the metadata of an object up to date settles, that entries the operator
  does not manage survive it, and the two ways in which it never settles.
\<close>

section \<open>Map functions\<close>

definition appendStringMap :: "strmap \<Rightarrow> strmap \<Rightarrow> strmap" where
  "appendStringMap src add =
     (let res = (if mempty src then fmempty else entries src) in Some (res ++\<^sub>f entries add))"

definition areStringMapsEqual :: "strmap \<Rightarrow> strmap \<Rightarrow> bool" where
  "areStringMapsEqual one two =
     (let isOneEmpty = mempty one; isTwoEmpty = mempty two
      in if isOneEmpty \<and> isTwoEmpty then True else one = two)"

text \<open>A call without arguments passes a nil slice.\<close>

definition combineStringMaps :: "strmap slice \<Rightarrow> strmap" where
  "combineStringMaps maps = (case maps of None \<Rightarrow> None
     | Some ms \<Rightarrow> Some (foldl (\<lambda>res currMap. case currMap of None \<Rightarrow> res | Some m \<Rightarrow> res ++\<^sub>f m) fmempty ms))"

lemma areStringMapsEqual_iff: "areStringMapsEqual one two \<longleftrightarrow> entries one = entries two"
  by (cases one; cases two) (auto simp: areStringMapsEqual_def Let_def)

lemma combineStringMaps_two: "entries (combineStringMaps (slice [a, b])) = entries a ++\<^sub>f entries b"
  by (cases a; cases b) (simp_all add: combineStringMaps_def slice_def)

lemma combineStringMaps_none [simp]: "combineStringMaps None = None"
  by (simp add: combineStringMaps_def)

lemma entries_appendStringMap: "entries (appendStringMap src add) = entries src ++\<^sub>f entries add"
  by (cases src) (auto simp: appendStringMap_def Let_def)

section \<open>Labels and annotations of the operator\<close>

definition setRolloutsLabelsAndAnnotations :: "object_meta \<Rightarrow> object_meta" where
  "setRolloutsLabelsAndAnnotations obj = obj\<lparr>
     mLabels := strmap_of [(''app.kubernetes.io/name'', DefaultArgoRolloutsResourceName),
       (''app.kubernetes.io/part-of'', DefaultArgoRolloutsResourceName),
       (''app.kubernetes.io/component'', DefaultArgoRolloutsResourceName)],
     mAnnotations := strmap_of []\<rparr>"

definition setAdditionalRolloutsLabelsAndAnnotationsToObject ::
    "object_meta \<Rightarrow> rollout_manager \<Rightarrow> object_meta" where
  "setAdditionalRolloutsLabelsAndAnnotationsToObject obj cr =
     (case AdditionalMetadata (rmSpec cr) of None \<Rightarrow> obj
      | Some a \<Rightarrow> obj\<lparr>mLabels := Some (entries (mLabels obj) ++\<^sub>f entries (addLabels a)),
          mAnnotations := Some (entries (mAnnotations obj) ++\<^sub>f entries (addAnnotations a))\<rparr>)"

definition setRolloutsLabelsAndAnnotationsToObject :: "object_meta \<Rightarrow> rollout_manager \<Rightarrow> object_meta" where
  "setRolloutsLabelsAndAnnotationsToObject obj cr =
     setAdditionalRolloutsLabelsAndAnnotationsToObject (setRolloutsLabelsAndAnnotations obj) cr"

definition setCustomLabels :: "object_meta \<Rightarrow> strmap \<Rightarrow> object_meta" where
  "setCustomLabels obj customLabels =
     obj\<lparr>mLabels := Some (entries (mLabels obj) ++\<^sub>f entries customLabels)\<rparr>"

definition setRolloutsAggregatedClusterRoleLabels :: "object_meta \<Rightarrow> string \<Rightarrow> string \<Rightarrow> object_meta" where
  "setRolloutsAggregatedClusterRoleLabels obj name aggregationType = obj\<lparr>
     mLabels := strmap_of [(''app.kubernetes.io/component'', ''aggregate-cluster-role''),
       (''app.kubernetes.io/name'', name),
       (''app.kubernetes.io/part-of'', DefaultArgoRolloutsResourceName),
       (''rbac.authorization.k8s.io/'' @ aggregationType, ''true'')]\<rparr>"

text \<open>The label keys that \<open>removeUserLabelsAndAnnotations\<close> leaves on every object.\<close>

definition isAggregateLabel :: "string \<Rightarrow> bool" where
  "isAggregateLabel k \<longleftrightarrow>
     strings_Contains k ''rbac.authorization.k8s.io/'' \<and> strings_Contains k ''aggregate''"

definition removeUserLabelsAndAnnotations :: "object_meta \<Rightarrow> rollout_manager \<Rightarrow> object_meta" where
  "removeUserLabelsAndAnnotations obj cr =
     (let def = setRolloutsLabelsAndAnnotationsToObject (newMeta '''' '''') cr
      in obj\<lparr>mLabels := map_option (fmfilter (\<lambda>k. isAggregateLabel k \<or> mlookup (mLabels def) k \<noteq> None)) (mLabels obj),
           mAnnotations := map_option (fmfilter (\<lambda>k. mlookup (mAnnotations def) k \<noteq> None)) (mAnnotations obj)\<rparr>)"

text \<open>
  The block that every reconciler of \<open>controllers/resources.go\<close> repeats: compare the live
  metadata, freed of the user's entries, with the expected one, and merge the expected entries
  into the live ones when they differ.
\<close>

definition metaOutdated :: "rollout_manager \<Rightarrow> object_meta \<Rightarrow> object_meta \<Rightarrow> bool" where
  "metaOutdated cr live expected =
     (let normalizedLive = removeUserLabelsAndAnnotations live cr
      in \<not> areStringMapsEqual (mLabels normalizedLive) (mLabels expected) \<or>
         \<not> areStringMapsEqual (mAnnotations normalizedLive) (mAnnotations expected))"

definition adoptMeta :: "object_meta \<Rightarrow> object_meta \<Rightarrow> object_meta" where
  "adoptMeta live expected = live\<lparr>
     mLabels := combineStringMaps (slice [mLabels live, mLabels expected]),
     mAnnotations := combineStringMaps (slice [mAnnotations live, mAnnotations expected])\<rparr>"

section \<open>What the functions compute\<close>

definition standardLabels :: "(string, string) fmap" where
  "standardLabels = fmap_of_list [(''app.kubernetes.io/name'', DefaultArgoRolloutsResourceName),
     (''app.kubernetes.io/part-of'', DefaultArgoRolloutsResourceName),
     (''app.kubernetes.io/component'', DefaultArgoRolloutsResourceName)]"

definition managedLabels :: "rollout_manager \<Rightarrow> (string, string) fmap" where
  "managedLabels cr = standardLabels ++\<^sub>f extraLabels cr"

lemma labels_ToObject [simp]:
  "mLabels (setRolloutsLabelsAndAnnotationsToObject m cr) = Some (managedLabels cr)"
  "mAnnotations (setRolloutsLabelsAndAnnotationsToObject m cr) = Some (extraAnnotations cr)"
  "mName (setRolloutsLabelsAndAnnotationsToObject m cr) = mName m"
  "mNamespace (setRolloutsLabelsAndAnnotationsToObject m cr) = mNamespace m"
  "mOwners (setRolloutsLabelsAndAnnotationsToObject m cr) = mOwners m"
  "metaKey (setRolloutsLabelsAndAnnotationsToObject m cr) = metaKey m"
  by (simp_all add: setRolloutsLabelsAndAnnotationsToObject_def setRolloutsLabelsAndAnnotations_def
      setAdditionalRolloutsLabelsAndAnnotationsToObject_def managedLabels_def standardLabels_def
      strmap_of_def extraLabels_def extraAnnotations_def metaKey_def split: option.split)

lemma metaKey_setAdditional [simp]:
  "metaKey (setAdditionalRolloutsLabelsAndAnnotationsToObject m cr) = metaKey m"
  "mName (setAdditionalRolloutsLabelsAndAnnotationsToObject m cr) = mName m"
  "mNamespace (setAdditionalRolloutsLabelsAndAnnotationsToObject m cr) = mNamespace m"
  by (simp_all add: setAdditionalRolloutsLabelsAndAnnotationsToObject_def metaKey_def split: option.split)

lemma entries_setAdditional [simp]:
  "entries (mLabels (setAdditionalRolloutsLabelsAndAnnotationsToObject m cr)) =
     entries (mLabels m) ++\<^sub>f extraLabels cr"
  "entries (mAnnotations (setAdditionalRolloutsLabelsAndAnnotationsToObject m cr)) =
     entries (mAnnotations m) ++\<^sub>f extraAnnotations cr"
  by (simp_all add: setAdditionalRolloutsLabelsAndAnnotationsToObject_def extraLabels_def
      extraAnnotations_def split: option.split)

definition keptLabel :: "rollout_manager \<Rightarrow> string \<Rightarrow> bool" where
  "keptLabel cr k \<longleftrightarrow> isAggregateLabel k \<or> fmlookup (managedLabels cr) k \<noteq> None"

definition keptAnnotation :: "rollout_manager \<Rightarrow> string \<Rightarrow> bool" where
  "keptAnnotation cr k \<longleftrightarrow> fmlookup (extraAnnotations cr) k \<noteq> None"

lemma entries_map_option [simp]: "entries (map_option (fmfilter P) m) = fmfilter P (entries m)"
  by (cases m) simp_all

lemma removeUser_simps [simp]:
  "entries (mLabels (removeUserLabelsAndAnnotations m cr)) = fmfilter (keptLabel cr) (entries (mLabels m))"
  "entries (mAnnotations (removeUserLabelsAndAnnotations m cr)) =
     fmfilter (keptAnnotation cr) (entries (mAnnotations m))"
  by (simp_all add: removeUserLabelsAndAnnotations_def Let_def mlookup_def keptLabel_def [abs_def]
      keptAnnotation_def [abs_def])

lemma metaOutdated_iff:
  "metaOutdated cr live expected \<longleftrightarrow>
     fmfilter (keptLabel cr) (entries (mLabels live)) \<noteq> entries (mLabels expected) \<or>
     fmfilter (keptAnnotation cr) (entries (mAnnotations live)) \<noteq> entries (mAnnotations expected)"
  by (simp add: metaOutdated_def Let_def areStringMapsEqual_iff)

lemma adoptMeta_simps [simp]:
  "entries (mLabels (adoptMeta live expected)) = entries (mLabels live) ++\<^sub>f entries (mLabels expected)"
  "entries (mAnnotations (adoptMeta live expected)) =
     entries (mAnnotations live) ++\<^sub>f entries (mAnnotations expected)"
  "mName (adoptMeta live expected) = mName live" "mNamespace (adoptMeta live expected) = mNamespace live"
  "mOwners (adoptMeta live expected) = mOwners live"
  "metaKey (adoptMeta live expected) = metaKey live"
  by (simp_all add: adoptMeta_def combineStringMaps_two metaKey_def)

lemma metaOutdated_same: "meta_same m n \<Longrightarrow> metaOutdated cr n e \<longleftrightarrow> metaOutdated cr m e"
  by (simp add: metaOutdated_iff meta_same_def strmap_same_def)

section \<open>Settling\<close>

text \<open>
  Expected metadata that the comparison can recognise: its labels are the managed ones, possibly
  with other values, and aggregation labels; its annotations are those of the resource.
\<close>

definition recognisable :: "rollout_manager \<Rightarrow> object_meta \<Rightarrow> bool" where
  "recognisable cr e \<longleftrightarrow>
     fmpred (\<lambda>k v. keptLabel cr k) (entries (mLabels e)) \<and>
     fmpred (\<lambda>k v. mlookup (mLabels e) k \<noteq> None) (managedLabels cr) \<and>
     entries (mAnnotations e) = extraAnnotations cr"

text \<open>Live metadata without an aggregation label of somebody else.\<close>

definition tameMeta :: "object_meta \<Rightarrow> object_meta \<Rightarrow> bool" where
  "tameMeta e m \<longleftrightarrow> fmpred (\<lambda>k v. isAggregateLabel k \<longrightarrow> mlookup (mLabels e) k \<noteq> None) (entries (mLabels m))"

lemma fmfilter_add_right:
  assumes "\<And>k. P k \<Longrightarrow> fmlookup m k \<noteq> None \<Longrightarrow> fmlookup n k \<noteq> None"
    and "\<And>k v. fmlookup n k = Some v \<Longrightarrow> P k"
  shows "fmfilter P (m ++\<^sub>f n) = n"
proof (rule fmap_ext)
  fix k
  show "fmlookup (fmfilter P (m ++\<^sub>f n)) k = fmlookup n k"
  proof (cases "fmlookup n k")
    case None
    with assms(1) [of k] show ?thesis
      by (cases "P k"; cases "fmlookup m k") (auto simp: fmlookup_dom_iff)
  next
    case (Some v)
    with assms(2) show ?thesis by (auto simp: fmlookup_dom_iff)
  qed
qed

lemma fmlookup_fmdom': "fmlookup m k = Some v \<Longrightarrow> k \<in> fmdom' m"
  by (rule fmdom'I)

lemma recognisable_ToObject [simp]:
  "recognisable cr (setRolloutsLabelsAndAnnotationsToObject m cr)"
  by (auto simp: recognisable_def fmpred_iff keptLabel_def mlookup_def)

lemma recognisable_not_outdated:
  assumes "recognisable cr e"
  shows "\<not> metaOutdated cr e e"
proof -
  have "fmfilter (keptLabel cr) (entries (mLabels e)) = entries (mLabels e)"
    using assms by (intro fmfilter_id) (auto simp: recognisable_def fmpred_iff)
  moreover have "fmfilter (keptAnnotation cr) (extraAnnotations cr) = extraAnnotations cr"
    by (intro fmfilter_id) (simp add: keptAnnotation_def)
  ultimately show ?thesis using assms by (simp add: metaOutdated_iff recognisable_def)
qed

lemma adopt_settles:
  assumes "recognisable cr e" and "tameMeta e live"
  shows "\<not> metaOutdated cr (adoptMeta live e) e"
proof -
  have "fmfilter (keptLabel cr) (entries (mLabels live) ++\<^sub>f entries (mLabels e)) = entries (mLabels e)"
  proof (rule fmfilter_add_right)
    fix k assume "keptLabel cr k" "fmlookup (entries (mLabels live)) k \<noteq> None"
    then show "fmlookup (entries (mLabels e)) k \<noteq> None"
      using assms by (auto simp: keptLabel_def recognisable_def tameMeta_def fmpred_iff mlookup_def)
  qed (use assms in \<open>auto simp: recognisable_def fmpred_iff\<close>)
  moreover have "fmfilter (keptAnnotation cr) (entries (mAnnotations live) ++\<^sub>f extraAnnotations cr) =
      extraAnnotations cr"
    by (rule fmfilter_add_right) (auto simp: keptAnnotation_def)
  ultimately show ?thesis using assms(1) by (simp add: metaOutdated_iff recognisable_def)
qed

text \<open>Entries under a key the expected metadata does not have are left alone.\<close>

lemma adoptMeta_frame:
  "fmlookup (entries (mLabels e)) k = None \<Longrightarrow>
     fmlookup (entries (mLabels (adoptMeta live e))) k = fmlookup (entries (mLabels live)) k"
  "fmlookup (entries (mAnnotations e)) k = None \<Longrightarrow>
     fmlookup (entries (mAnnotations (adoptMeta live e))) k = fmlookup (entries (mAnnotations live)) k"
  by (simp_all add: fmlookup_dom_iff)

text \<open>
  A label that the comparison keeps and the expected metadata lacks, and a label the expected
  metadata has and the comparison drops: either way the object is out of date for ever.
\<close>

lemma never_settles_kept:
  assumes "keptLabel cr k" "fmlookup (entries (mLabels live)) k = Some v"
    and "fmlookup (entries (mLabels e)) k = None"
  shows "metaOutdated cr live e"
proof -
  have "fmlookup (fmfilter (keptLabel cr) (entries (mLabels live))) k = Some v"
    using assms by simp
  with assms(3) have "fmfilter (keptLabel cr) (entries (mLabels live)) \<noteq> entries (mLabels e)"
    by (metis option.distinct(1))
  then show ?thesis by (simp add: metaOutdated_iff)
qed

lemma never_settles_dropped:
  assumes "\<not> keptLabel cr k" "fmlookup (entries (mLabels e)) k = Some v"
  shows "metaOutdated cr live e"
proof -
  have "fmlookup (fmfilter (keptLabel cr) (entries (mLabels live))) k = None"
    using assms by simp
  with assms(2) have "fmfilter (keptLabel cr) (entries (mLabels live)) \<noteq> entries (mLabels e)"
    by (metis option.distinct(1))
  then show ?thesis by (simp add: metaOutdated_iff)
qed

lemmas settling_rules = recognisable_not_outdated adopt_settles recognisable_ToObject

section \<open>Properties\<close>

text \<open>
  C21: Bringing metadata up to date settles: when the metadata found on an object carries no
  aggregation label of somebody else, merging the operator's labels and annotations into it
  makes the comparison succeed, for any live metadata and any resource, so that the next
  reconciliation makes no update. Labels and annotations under keys that the operator does not
  manage keep their values.
\<close>

theorem metadata_repair_settles:
  assumes "tameMeta (setRolloutsLabelsAndAnnotationsToObject m cr) live"
  shows "\<not> metaOutdated cr (adoptMeta live (setRolloutsLabelsAndAnnotationsToObject m cr))
      (setRolloutsLabelsAndAnnotationsToObject m cr) \<and>
    (\<forall>k. fmlookup (managedLabels cr) k = None \<longrightarrow>
       mlookup (mLabels (adoptMeta live (setRolloutsLabelsAndAnnotationsToObject m cr))) k = mlookup (mLabels live) k) \<and>
    (\<forall>k. fmlookup (extraAnnotations cr) k = None \<longrightarrow>
       mlookup (mAnnotations (adoptMeta live (setRolloutsLabelsAndAnnotationsToObject m cr))) k =
         mlookup (mAnnotations live) k)"
  using adopt_settles [OF recognisable_ToObject assms] by (auto simp: mlookup_def fmlookup_dom_iff)

theorem metadata_repair_settles_witness:
  "\<not> metaOutdated (basicRolloutManager ''rm'' ''ns'' True)
      (adoptMeta (newMeta ''x'' ''ns'') (setRolloutsLabelsAndAnnotationsToObject (newMeta ''x'' ''ns'')
         (basicRolloutManager ''rm'' ''ns'' True)))
      (setRolloutsLabelsAndAnnotationsToObject (newMeta ''x'' ''ns'') (basicRolloutManager ''rm'' ''ns'' True))"
proof -
  have "tameMeta (setRolloutsLabelsAndAnnotationsToObject (newMeta ''x'' ''ns'')
      (basicRolloutManager ''rm'' ''ns'' True)) (newMeta ''x'' ''ns'')"
    by (simp add: tameMeta_def)
  from metadata_repair_settles [OF this] show ?thesis by simp
qed

text \<open>
  C38: A label whose key looks like an RBAC aggregation label, put on an object by somebody else,
  is not treated as a user label: the object stays out of date after every repair, so each
  reconciliation updates it again.
\<close>

theorem foreign_aggregate_label_never_settles:
  assumes "isAggregateLabel k" "mlookup (mLabels live) k = Some v"
    and "mlookup (mLabels (setRolloutsLabelsAndAnnotationsToObject m cr)) k = None"
  shows "metaOutdated cr (adoptMeta live (setRolloutsLabelsAndAnnotationsToObject m cr))
      (setRolloutsLabelsAndAnnotationsToObject m cr)"
proof (rule never_settles_kept)
  show "keptLabel cr k" using assms(1) by (simp add: keptLabel_def)
  show "fmlookup (entries (mLabels (adoptMeta live (setRolloutsLabelsAndAnnotationsToObject m cr)))) k = Some v"
    using assms(2,3) by (simp add: mlookup_def fmlookup_dom_iff)
  show "fmlookup (entries (mLabels (setRolloutsLabelsAndAnnotationsToObject m cr))) k = None"
    using assms(3) by (simp add: mlookup_def)
qed

theorem foreign_aggregate_label_never_settles_witness:
  "metaOutdated (basicRolloutManager ''rm'' ''ns'' True)
     (adoptMeta ((newMeta ''x'' ''ns'')\<lparr>mLabels := strmap_of [(''rbac.authorization.k8s.io/aggregate-to-dev'', ''true'')]\<rparr>)
        (setRolloutsLabelsAndAnnotationsToObject (newMeta ''x'' ''ns'') (basicRolloutManager ''rm'' ''ns'' True)))
     (setRolloutsLabelsAndAnnotationsToObject (newMeta ''x'' ''ns'') (basicRolloutManager ''rm'' ''ns'' True))"
proof (rule foreign_aggregate_label_never_settles)
  show "isAggregateLabel ''rbac.authorization.k8s.io/aggregate-to-dev''"
    by (simp add: isAggregateLabel_def strings_Contains_def sublist_code)
  show "mlookup (mLabels ((newMeta ''x'' ''ns'')\<lparr>mLabels :=
      strmap_of [(''rbac.authorization.k8s.io/aggregate-to-dev'', ''true'')]\<rparr>))
      ''rbac.authorization.k8s.io/aggregate-to-dev'' = Some ''true''"
    by (simp add: mlookup_def)
  show "mlookup (mLabels (setRolloutsLabelsAndAnnotationsToObject (newMeta ''x'' ''ns'')
      (basicRolloutManager ''rm'' ''ns'' True))) ''rbac.authorization.k8s.io/aggregate-to-dev'' = None"
    by (simp add: mlookup_def managedLabels_def standardLabels_def extraLabels_def basicRolloutManager_def)
qed

end
