(* ===== verification/Container.thy ===== *)
theory Container
  imports Metadata
begin

text \<open>
  The container of the Argo Rollouts controller: its environment, command line, image and pull
  policy (\<open>controllers/utils.go\<close> and \<open>controllers/deployment.go\<close>). The lemmas show
  which of the competing sources of each setting wins.
\<close>

section \<open>Environment variables\<close>

definition putEnv :: "(string, env_var) fmap \<Rightarrow> env_var \<Rightarrow> (string, env_var) fmap" where
  "putEnv final e = fmupd (evName e) e final"

definition mergeEnv :: "bool \<Rightarrow> (string, env_var) fmap \<Rightarrow> env_var \<Rightarrow> (string, env_var) fmap" where
  "mergeEnv override final m =
     (if fmlookup final (evName m) \<noteq> None then (if override then putEnv final m else final)
      else putEnv final m)"

definition envMergeMap :: "env_var list \<Rightarrow> env_var list \<Rightarrow> bool \<Rightarrow> (string, env_var) fmap" where
  "envMergeMap existing merge override =
     foldl (mergeEnv override) (foldl putEnv fmempty existing) merge"

definition envMerge :: "env_var list \<Rightarrow> env_var list \<Rightarrow> bool \<Rightarrow> env_var list" where
  "envMerge existing merge override =
     sort_key evName (map snd (sorted_list_of_fmap (envMergeMap existing merge override)))"

definition caseInsensitiveGetenv :: "platform \<Rightarrow> string \<Rightarrow> string \<times> string" where
  "caseInsensitiveGetenv p s =
     (let v = os_Getenv p s in
      if v \<noteq> '''' then (s, v)
      else (let ls = strings_ToLower s; v = os_Getenv p ls in
            if v \<noteq> '''' then (ls, v) else ('''', '''')))"

definition proxyKeys :: "string list" where
  "proxyKeys = [''HTTP_PROXY'', ''HTTPS_PROXY'', ''NO_PROXY'']"

definition proxyEnvVars :: "platform \<Rightarrow> env_var list \<Rightarrow> env_var list" where
  "proxyEnvVars p vars =
     foldl (\<lambda>result key. let (k, v) = caseInsensitiveGetenv p key in
       if k \<noteq> '''' then result @ [\<lparr>evName = k, evValue = v, evValueFrom = None\<rparr>] else result)
       vars proxyKeys"

subsection \<open>Which entry wins\<close>

definition firstNamed :: "string \<Rightarrow> env_var list \<Rightarrow> env_var option" where
  "firstNamed n es = find (\<lambda>e. evName e = n) es"

definition lastNamed :: "string \<Rightarrow> env_var list \<Rightarrow> env_var option" where
  "lastNamed n es = firstNamed n (rev es)"

lemma firstNamed_name: "firstNamed n es = Some e \<Longrightarrow> evName e = n \<and> e \<in> set es"
  by (auto simp: firstNamed_def find_Some_iff)

lemma lastNamed_name: "lastNamed n es = Some e \<Longrightarrow> evName e = n \<and> e \<in> set es"
  by (auto simp: lastNamed_def dest: firstNamed_name)

lemma firstNamed_None: "firstNamed n es = None \<longleftrightarrow> n \<notin> evName ` set es"
  by (auto simp: firstNamed_def find_None_iff)

lemma lastNamed_snoc: "lastNamed n (es @ [e]) = (if evName e = n then Some e else lastNamed n es)"
  by (simp add: lastNamed_def firstNamed_def)

lemma firstNamed_snoc:
  "firstNamed n (es @ [e]) = (case firstNamed n es of Some x \<Rightarrow> Some x
     | None \<Rightarrow> if evName e = n then Some e else None)"
  by (induction es) (auto simp: firstNamed_def)

lemma foldl_putEnv:
  "fmlookup (foldl putEnv m es) n = (case lastNamed n es of Some e \<Rightarrow> Some e | None \<Rightarrow> fmlookup m n)"
proof (induction es rule: rev_induct)
  case Nil
  then show ?case by (simp add: lastNamed_def firstNamed_def)
next
  case (snoc e es)
  then show ?case by (simp add: putEnv_def lastNamed_snoc)
qed

lemma foldl_mergeEnv_keep:
  "fmlookup (foldl (mergeEnv False) m es) n = (case fmlookup m n of Some e \<Rightarrow> Some e | None \<Rightarrow> firstNamed n es)"
proof (induction es rule: rev_induct)
  case Nil
  then show ?case by (simp add: firstNamed_def split: option.split)
next
  case (snoc e es)
  then show ?case
    by (auto simp: mergeEnv_def putEnv_def firstNamed_snoc split: option.splits)
qed

lemma mergeEnv_override: "mergeEnv True = putEnv"
  by (intro ext) (simp add: mergeEnv_def)

lemma envMergeMap_lookup:
  "fmlookup (envMergeMap existing merge override) n =
     (if override
      then (case lastNamed n merge of Some e \<Rightarrow> Some e | None \<Rightarrow> lastNamed n existing)
      else (case lastNamed n existing of Some e \<Rightarrow> Some e | None \<Rightarrow> firstNamed n merge))"
  by (cases override)
    (auto simp: envMergeMap_def foldl_mergeEnv_keep foldl_putEnv mergeEnv_override split: option.splits)

lemma envMergeMap_name: "fmlookup (envMergeMap existing merge override) n = Some e \<Longrightarrow> evName e = n"
  by (auto simp: envMergeMap_lookup dest: lastNamed_name firstNamed_name split: if_splits option.splits)

lemma envMerge_values:
  "map evName (map snd (sorted_list_of_fmap (envMergeMap existing merge override))) =
     sorted_list_of_fset (fmdom (envMergeMap existing merge override))"
proof -
  have "evName (snd kv) = fst kv" if "kv \<in> set (sorted_list_of_fmap (envMergeMap existing merge override))" for kv
    using that envMergeMap_name by (simp add: in_sorted_list_of_fmap)
  then show ?thesis
    by (simp add: comp_def flip: sorted_list_of_fmap_keys cong: map_cong)
qed

lemma distinct_map_sort_key: "distinct (map f xs) \<Longrightarrow> distinct (map f (sort_key g xs))"
  by (simp add: distinct_map)

lemma distinct_map_set_eq:
  "distinct (map f ys) \<Longrightarrow> distinct xs \<Longrightarrow> set xs = set ys \<Longrightarrow> distinct (map f xs)"
  by (simp add: distinct_map)

lemma envMerge_names_distinct: "distinct (map evName (envMerge existing merge override))"
proof -
  have "distinct (map evName (map snd (sorted_list_of_fmap (envMergeMap existing merge override))))"
    unfolding envMerge_values by (simp add: sorted_list_of_fset.rep_eq)
  then show ?thesis unfolding envMerge_def by (rule distinct_map_sort_key)
qed

lemma envMerge_set:
  "e \<in> set (envMerge existing merge override) \<longleftrightarrow>
     fmlookup (envMergeMap existing merge override) (evName e) = Some e"
proof
  assume "e \<in> set (envMerge existing merge override)"
  then obtain k where "fmlookup (envMergeMap existing merge override) k = Some e"
    by (auto simp: envMerge_def in_sorted_list_of_fmap)
  then show "fmlookup (envMergeMap existing merge override) (evName e) = Some e"
    using envMergeMap_name by metis
next
  assume "fmlookup (envMergeMap existing merge override) (evName e) = Some e"
  then have "(evName e, e) \<in> set (sorted_list_of_fmap (envMergeMap existing merge override))"
    by (simp add: in_sorted_list_of_fmap)
  then show "e \<in> set (envMerge existing merge override)"
    by (force simp: envMerge_def)
qed

lemma envMerge_sorted: "sorted (map evName (envMerge existing merge override))"
  by (simp add: envMerge_def)

lemma firstNamed_envMerge:
  "firstNamed n (envMerge existing merge override) =
     (if override
      then (case lastNamed n merge of Some e \<Rightarrow> Some e | None \<Rightarrow> lastNamed n existing)
      else (case lastNamed n existing of Some e \<Rightarrow> Some e | None \<Rightarrow> firstNamed n merge))"
proof -
  have "firstNamed n (envMerge existing merge override) = fmlookup (envMergeMap existing merge override) n"
  proof (cases "fmlookup (envMergeMap existing merge override) n")
    case None
    then have "n \<notin> evName ` set (envMerge existing merge override)"
      by (auto simp: envMerge_set)
    with None show ?thesis by (simp add: firstNamed_None)
  next
    case (Some e)
    then have e: "e \<in> set (envMerge existing merge override)" "evName e = n"
      by (auto simp: envMerge_set dest: envMergeMap_name)
    then obtain e' where e': "firstNamed n (envMerge existing merge override) = Some e'"
      by (metis firstNamed_None imageI not_None_eq)
    then have "e' = e"
      using e envMerge_names_distinct firstNamed_name by (metis distinct_map inj_onD)
    with e' Some show ?thesis by simp
  qed
  then show ?thesis by (simp add: envMergeMap_lookup)
qed

section \<open>Image and command line\<close>

definition combineImageTag :: "string \<Rightarrow> string \<Rightarrow> string" where
  "combineImageTag img tag =
     (if strings_Contains tag '':'' then img @ ''@'' @ tag
      else if length tag > 0 then img @ '':'' @ tag
      else img)"

fun contains :: "string list \<Rightarrow> string \<Rightarrow> bool" where
  "contains [] g = False"
| "contains (a # s) g = (if a = g then True else contains s g)"

fun isMergable :: "string list \<Rightarrow> string list \<Rightarrow> go_error option" where
  "isMergable [] cmd = None"
| "isMergable (arg # extraArgs) cmd =
     (if length arg > 2 \<and> take 2 arg = ''--'' \<and> contains cmd arg
      then Some (errors_New ''duplicate argument error'')
      else isMergable extraArgs cmd)"

definition defaultCommandArgs :: "rollout_manager \<Rightarrow> string list" where
  "defaultCommandArgs cr =
     (if NamespaceScoped (rmSpec cr) then [''--namespaced''] else []) @
     (if ha_enabled cr then [''--leader-elect'', ''true''] else [])"

definition getRolloutsCommandArgs :: "rollout_manager \<Rightarrow> go_error + string list" where
  "getRolloutsCommandArgs cr =
     (let args = defaultCommandArgs cr; extraArgs = ExtraCommandArgs (rmSpec cr)
      in case isMergable extraArgs args of Some err \<Rightarrow> Inl err | None \<Rightarrow> Inr (args @ extraArgs))"

definition extractBaseImageName :: "platform \<Rightarrow> string \<Rightarrow> go_error + string" where
  "extractBaseImageName p imageRef =
     (case reference_Parse p imageRef of
        Inl err \<Rightarrow> Inl err
      | Inr (Some name) \<Rightarrow> Inr name
      | Inr None \<Rightarrow> Inl (errors_New (''unable to extract base image name: '' @ imageRef)))"

definition getRolloutsContainerImage :: "platform \<Rightarrow> rollout_manager \<Rightarrow> go_error + string" where
  "getRolloutsContainerImage p cr =
     (let image = Image (rmSpec cr); tag = Version (rmSpec cr);
          envVal = os_Getenv p ArgoRolloutsImageEnvName;
          finish = (\<lambda>image.
            (let image = (if image = '''' then DefaultArgoRolloutsImage else image);
                 tag = (if tag = '''' then DefaultArgoRolloutsVersion else tag)
             in Inr (combineImageTag image tag)))
      in if envVal \<noteq> '''' then
           (if image = '''' \<and> tag = '''' then Inr envVal
            else if image = '''' then
              (case extractBaseImageName p envVal of Inl err \<Rightarrow> Inl err | Inr baseImageName \<Rightarrow> finish baseImageName)
            else finish image)
         else finish image)"

definition getImagePullPolicy :: "platform \<Rightarrow> rollout_manager \<Rightarrow> go_error + string" where
  "getImagePullPolicy p cr =
     (if ImagePullPolicy (rmSpec cr) \<noteq> '''' then Inr (ImagePullPolicy (rmSpec cr))
      else (let envVal = os_Getenv p ImagePullPolicyEnv in
        if envVal \<noteq> '''' then
          (if envVal = ''Always'' then Inr ''Always''
           else if envVal = ''IfNotPresent'' then Inr ''IfNotPresent''
           else if envVal = ''Never'' then Inr ''Never''
           else Inl (errors_New (''Invalid IMAGE_PULL_POLICY environment variable value: '' @ envVal)))
        else Inr ''IfNotPresent''))"

section \<open>The container\<close>

definition defaultRolloutsContainerResources :: resource_requirements where
  "defaultRolloutsContainerResources =
     \<lparr>rrLimits = strmap_of [(''ephemeral-storage'', ''1Gi'')], rrRequests = None\<rparr>"

definition rolloutsLivenessProbe :: probe where
  "rolloutsLivenessProbe = \<lparr>
     prHTTPGet = Some \<lparr>hgPath = ''/healthz'', hgPort = FromString ''healthz'', hgHost = '''', hgScheme = ''''\<rparr>,
     prFailureThreshold = 3, prInitialDelaySeconds = 30, prPeriodSeconds = 20,
     prSuccessThreshold = 1, prTimeoutSeconds = 10\<rparr>"

definition rolloutsSecurityContext :: security_context where
  "rolloutsSecurityContext = \<lparr>
     scCapabilities = Some \<lparr>capAdd = None, capDrop = slice [''ALL'']\<rparr>,
     scAllowPrivilegeEscalation = Some False, scReadOnlyRootFilesystem = Some True,
     scRunAsNonRoot = Some True, scSeccompProfile = Some ''RuntimeDefault'',
     scPrivileged = None, scRunAsUser = None\<rparr>"

definition rolloutsContainer :: "platform \<Rightarrow> rollout_manager \<Rightarrow> go_error + container" where
  "rolloutsContainer p cr =
     (let rolloutsEnv = envMerge (Env (rmSpec cr)) (proxyEnvVars p []) False;
          containerResources = (case ControllerResources (rmSpec cr) of
              None \<Rightarrow> defaultRolloutsContainerResources | Some r \<Rightarrow> r)
      in case getRolloutsCommandArgs cr of
           Inl err \<Rightarrow> Inl err
         | Inr commandArgs \<Rightarrow>
        (case getRolloutsContainerImage p cr of
           Inl err \<Rightarrow> Inl err
         | Inr img \<Rightarrow>
        (case getImagePullPolicy p cr of
           Inl err \<Rightarrow> Inl err
         | Inr imagePullPolicy \<Rightarrow> Inr \<lparr>
             cName = ''argo-rollouts'',
             cImage = img,
             cCommand = None,
             cArgs = slice commandArgs,
             cEnv = slice rolloutsEnv,
             cImagePullPolicy = imagePullPolicy,
             cLivenessProbe = Some rolloutsLivenessProbe,
             cReadinessProbe = None,
             cPorts = slice [\<lparr>cpName = ''healthz'', cpContainerPort = 8080, cpHostPort = 0, cpProtocol = ''''\<rparr>,
               \<lparr>cpName = ''metrics'', cpContainerPort = 8090, cpHostPort = 0, cpProtocol = ''''\<rparr>],
             cResources = containerResources,
             cSecurityContext = Some rolloutsSecurityContext,
             cVolumeMounts = slice [
               \<lparr>vmName = ''plugin-bin'', vmMountPath = ''/home/argo-rollouts/plugin-bin'', vmReadOnly = False, vmSubPath = ''''\<rparr>,
               \<lparr>vmName = ''tmp'', vmMountPath = ''/tmp'', vmReadOnly = False, vmSubPath = ''''\<rparr>],
             cTerminationMessagePath = '''',
             cTerminationMessagePolicy = ''''\<rparr>)))"

lemma contains_iff [simp]: "contains s g \<longleftrightarrow> g \<in> set s"
  by (induction s) auto

lemma isMergable_None:
  "isMergable extra cmd = None \<longleftrightarrow> (\<forall>a\<in>set extra. \<not> (2 < length a \<and> take 2 a = ''--'' \<and> a \<in> set cmd))"
  by (induction extra) auto

lemma isMergable_Some: "isMergable extra cmd = Some e \<Longrightarrow> e = errors_New ''duplicate argument error''"
  by (induction extra) (auto split: if_splits)

lemma defaultCommandArgs_iff:
  "a \<in> set (defaultCommandArgs cr) \<longleftrightarrow> NamespaceScoped (rmSpec cr) \<and> a = ''--namespaced'' \<or>
     ha_enabled cr \<and> (a = ''--leader-elect'' \<or> a = ''true'')"
  by (auto simp: defaultCommandArgs_def)

text \<open>Of the operator's own arguments an extra one can only repeat the two flags.\<close>

lemma getRolloutsCommandArgs_eq:
  "getRolloutsCommandArgs cr =
     (if NamespaceScoped (rmSpec cr) \<and> ''--namespaced'' \<in> set (ExtraCommandArgs (rmSpec cr)) \<or>
         ha_enabled cr \<and> ''--leader-elect'' \<in> set (ExtraCommandArgs (rmSpec cr))
      then Inl (errors_New ''duplicate argument error'') else Inr (defaultCommandArgs cr @ ExtraCommandArgs (rmSpec cr)))"
proof -
  have "isMergable (ExtraCommandArgs (rmSpec cr)) (defaultCommandArgs cr) = None \<longleftrightarrow>
      \<not> (NamespaceScoped (rmSpec cr) \<and> ''--namespaced'' \<in> set (ExtraCommandArgs (rmSpec cr)) \<or>
         ha_enabled cr \<and> ''--leader-elect'' \<in> set (ExtraCommandArgs (rmSpec cr)))"
    by (auto simp: isMergable_None defaultCommandArgs_iff)
  then show ?thesis
    by (cases "isMergable (ExtraCommandArgs (rmSpec cr)) (defaultCommandArgs cr)")
      (auto simp: getRolloutsCommandArgs_def Let_def dest: isMergable_Some)
qed

lemma caseInsensitiveGetenv_key:
  "caseInsensitiveGetenv p s = (k, v) \<Longrightarrow> k \<noteq> '''' \<Longrightarrow> v \<noteq> '''' \<and> os_Getenv p k = v \<and> k \<in> {s, strings_ToLower s}"
  by (auto simp: caseInsensitiveGetenv_def Let_def split: if_splits)

lemma proxyEnvVars_append: "\<exists>more. proxyEnvVars p vars = vars @ more"
  by (auto simp: proxyEnvVars_def proxyKeys_def Let_def split: prod.split)

section \<open>Properties\<close>

text \<open>
  Merging two lists of environment variables gives each name once, in increasing order, and
  keeps exactly one entry for each name of either list: without override the last existing
  entry, else the first merged one; with override the last merged entry, else the last existing
  one.
\<close>

theorem envMerge_correct:
  "sorted (map evName (envMerge existing merge override)) \<and>
   distinct (map evName (envMerge existing merge override)) \<and>
   (\<forall>n. firstNamed n (envMerge existing merge override) =
     (if override
      then (case lastNamed n merge of Some e \<Rightarrow> Some e | None \<Rightarrow> lastNamed n existing)
      else (case lastNamed n existing of Some e \<Rightarrow> Some e | None \<Rightarrow> firstNamed n merge)))"
  by (simp add: envMerge_sorted envMerge_names_distinct firstNamed_envMerge)

text \<open>
  The result of the merge does not depend on the order in which Go visits the map: any
  order in which the values of the merged map are collected is sorted into the same list.
\<close>

theorem envMerge_order_irrelevant:
  assumes "distinct ret" and "set ret = set (map snd (sorted_list_of_fmap (envMergeMap existing merge override)))"
  shows "sort_key evName ret = envMerge existing merge override"
  unfolding envMerge_def
proof (rule sort_key_unique)
  let ?vs = "map snd (sorted_list_of_fmap (envMergeMap existing merge override))"
  show d: "distinct (map evName ?vs)" unfolding envMerge_values by (simp add: sorted_list_of_fset.rep_eq)
  show "set ret = set ?vs" by (rule assms(2))
  show "distinct (map evName ret)" by (rule distinct_map_set_eq [OF d assms])
qed

theorem envMerge_order_irrelevant_witness:
  "sort_key evName [\<lparr>evName = ''B'', evValue = ''2'', evValueFrom = None\<rparr>, \<lparr>evName = ''A'', evValue = ''1'', evValueFrom = None\<rparr>] =
     envMerge [\<lparr>evName = ''A'', evValue = ''1'', evValueFrom = None\<rparr>] [\<lparr>evName = ''B'', evValue = ''2'', evValueFrom = None\<rparr>] False"
proof (rule envMerge_order_irrelevant)
  let ?A = "\<lparr>evName = ''A'', evValue = ''1'', evValueFrom = None\<rparr> :: env_var"
  let ?B = "\<lparr>evName = ''B'', evValue = ''2'', evValueFrom = None\<rparr> :: env_var"
  have "envMergeMap [?A] [?B] False = fmap_of_list [(''B'', ?B), (''A'', ?A)]"
    by (simp add: envMergeMap_def putEnv_def mergeEnv_def)
  then show "set [?B, ?A] = set (map snd (sorted_list_of_fmap (envMergeMap [?A] [?B] False)))"
    by (simp add: sorted_list_of_fmap_def sorted_list_of_fset.rep_eq insert_commute)
qed simp

text \<open>
  With high availability on, an extra argument that sets the leader election flag again with
  a value attached to it passes the check, and the container is started with both.
\<close>

theorem leader_elect_value_not_detected:
  assumes "ha_enabled cr" and "ExtraCommandArgs (rmSpec cr) = [''--leader-elect='' @ v]"
  shows "getRolloutsCommandArgs cr = Inr (defaultCommandArgs cr @ [''--leader-elect='' @ v]) \<and>
    ''--leader-elect'' \<in> set (defaultCommandArgs cr)"
  using assms by (auto simp: getRolloutsCommandArgs_def defaultCommandArgs_def)

theorem leader_elect_value_not_detected_witness:
  "getRolloutsCommandArgs ((basicRolloutManager ''rm'' ''ns'' True)\<lparr>rmSpec :=
       (rmSpec (basicRolloutManager ''rm'' ''ns'' True))\<lparr>HA := Some \<lparr>haEnabled = True\<rparr>,
          ExtraCommandArgs := [''--leader-elect=false'']\<rparr>\<rparr>) =
     Inr [''--namespaced'', ''--leader-elect'', ''true'', ''--leader-elect=false'']"
  using leader_elect_value_not_detected [of "(basicRolloutManager ''rm'' ''ns'' True)\<lparr>rmSpec :=
       (rmSpec (basicRolloutManager ''rm'' ''ns'' True))\<lparr>HA := Some \<lparr>haEnabled = True\<rparr>,
          ExtraCommandArgs := [''--leader-elect=false'']\<rparr>\<rparr>" "''false''"]
  by (simp add: ha_enabled_def defaultCommandArgs_def basicRolloutManager_def)

text \<open>
  In the environment of the container every variable the resource sets keeps its value,
  the last one where it sets a name twice, and a proxy variable of the operator's own
  environment is passed on unless the resource sets it.
\<close>

theorem container_env_precedence:
  assumes "rolloutsContainer p cr = Inr c"
  shows "\<exists>es. cEnv c = Some es \<and> distinct (map evName es) \<and> sorted (map evName es) \<and>
    (\<forall>n. firstNamed n es = (case lastNamed n (Env (rmSpec cr)) of
        Some e \<Rightarrow> Some e | None \<Rightarrow> firstNamed n (proxyEnvVars p [])))"
proof -
  have "cEnv c = Some (envMerge (Env (rmSpec cr)) (proxyEnvVars p []) False)"
    using assms by (auto simp: rolloutsContainer_def Let_def slice_def split: sum.splits)
  then show ?thesis
    by (simp add: envMerge_sorted envMerge_names_distinct firstNamed_envMerge)
qed

text \<open>A platform for the witnesses: an empty environment, and a codec of names for the rest.\<close>

definition emptyPlatform :: platform where
  "emptyPlatform = \<lparr>os_Getenv = (\<lambda>_. ''''), SetControllerReference = (\<lambda>cr m. Inr m),
     GetControllerOf = (\<lambda>m. None), yaml_Marshal = (\<lambda>xs. Inr ''''),
     yaml_Unmarshal = (\<lambda>s. Inr None), reference_Parse = (\<lambda>s. Inr (Some s))\<rparr>"

lemma rolloutsContainer_basic:
  "\<exists>c. rolloutsContainer emptyPlatform (basicRolloutManager name ns b) = Inr c"
  by (simp add: rolloutsContainer_def getRolloutsCommandArgs_def getRolloutsContainerImage_def
      getImagePullPolicy_def emptyPlatform_def basicRolloutManager_def Let_def)

theorem container_env_precedence_witness:
  "\<exists>c es. rolloutsContainer emptyPlatform (basicRolloutManager ''rm'' ''ns'' True) = Inr c \<and> cEnv c = Some es \<and>
     firstNamed ''HTTP_PROXY'' es = None"
proof -
  obtain c where c: "rolloutsContainer emptyPlatform (basicRolloutManager ''rm'' ''ns'' True) = Inr c"
    using rolloutsContainer_basic by blast
  have "caseInsensitiveGetenv emptyPlatform k = ('''', '''')" for k
    by (simp add: caseInsensitiveGetenv_def emptyPlatform_def)
  then show ?thesis
    using container_env_precedence [OF c] c
    by (force simp: proxyEnvVars_def proxyKeys_def basicRolloutManager_def lastNamed_def firstNamed_def)
qed

end
