(* ===== verification/Status.thy ===== *)
theory Status
  imports Container
begin

text \<open>
  The status of a RolloutManager: the result type of the reconcilers
  (\<open>controllers/reconcile.go\<close>), its conditions and the update of the status subresource
  (\<open>controllers/utils.go\<close>), and the phase computed from the Deployment
  (\<open>controllers/status.go\<close>).
\<close>

section \<open>Results and conditions\<close>

record reconcileStatusResult =
  rrCondition :: condition
  rrRolloutController :: "phase option"
  rrPhase :: "phase option"

text \<open>The zero values of the two structs.\<close>

definition zeroCondition :: condition where
  "zeroCondition = \<lparr>cdType = '''', cdStatus = '''', cdReason = '''', cdMessage = '''', cdLastTransitionTime = 0\<rparr>"

definition zeroResult :: reconcileStatusResult where
  "zeroResult = \<lparr>rrCondition = zeroCondition, rrRolloutController = None, rrPhase = None\<rparr>"

definition wrapCondition :: "condition \<Rightarrow> reconcileStatusResult" where
  "wrapCondition cond = zeroResult\<lparr>rrCondition := cond\<rparr>"

definition createCondition :: "string \<Rightarrow> string list \<Rightarrow> condition" where
  "createCondition message reason =
     (if message = '''' then
        zeroCondition\<lparr>cdType := RolloutManagerConditionType, cdReason := RolloutManagerReasonSuccess,
          cdMessage := '''', cdStatus := ConditionTrue\<rparr>
      else if length reason > 0 then
        (if length reason > 1 then
           zeroCondition\<lparr>cdType := RolloutManagerConditionType, cdReason := RolloutManagerReasonErrorOccurred,
             cdMessage := ''An internal error occurred'', cdStatus := ConditionTrue\<rparr>
         else
           zeroCondition\<lparr>cdType := RolloutManagerConditionType, cdReason := hd reason,
             cdMessage := message, cdStatus := ConditionFalse\<rparr>)
      else
        zeroCondition\<lparr>cdType := RolloutManagerConditionType, cdReason := RolloutManagerReasonErrorOccurred,
          cdMessage := message, cdStatus := ConditionFalse\<rparr>)"

text \<open>The position of the first condition of a type; \<open>None\<close> stands for the index -1.\<close>

fun indexOfType :: "string \<Rightarrow> condition list \<Rightarrow> nat option" where
  "indexOfType t [] = None"
| "indexOfType t (c # cs) = (if cdType c = t then Some 0 else map_option Suc (indexOfType t cs))"

definition insertOrUpdateConditionsInSlice ::
    "int \<Rightarrow> condition \<Rightarrow> condition list \<Rightarrow> bool \<times> condition list" where
  "insertOrUpdateConditionsInSlice now newCondition existingConditions =
     (case indexOfType (cdType newCondition) existingConditions of
        None \<Rightarrow> (True, existingConditions @ [newCondition\<lparr>cdLastTransitionTime := now\<rparr>])
      | Some index \<Rightarrow>
          (let old = existingConditions ! index in
           if cdMessage old \<noteq> cdMessage newCondition \<or> cdReason old \<noteq> cdReason newCondition \<or>
              cdStatus old \<noteq> cdStatus newCondition
           then (True, existingConditions[index := newCondition\<lparr>cdLastTransitionTime := now\<rparr>])
           else (False, existingConditions)))"

definition updateStatusConditionOfRolloutManager ::
    "int \<Rightarrow> reconcileStatusResult \<Rightarrow> rollout_manager \<Rightarrow> 'w client \<Rightarrow> 'w \<Rightarrow> unit res \<times> 'w" where
  "updateStatusConditionOfRolloutManager now rr rm client w =
     (let (changed, newConditions) = insertOrUpdateConditionsInSlice now (rrCondition rr) (stConditions (rmStatus rm));
          (changed, rm) = (case rrPhase rr of
              Some p \<Rightarrow> if p \<noteq> stPhase (rmStatus rm) then (True, rm\<lparr>rmStatus := (rmStatus rm)\<lparr>stPhase := p\<rparr>\<rparr>)
                else (changed, rm)
            | None \<Rightarrow> (changed, rm));
          (changed, rm) = (case rrRolloutController rr of
              Some p \<Rightarrow> if p \<noteq> stRolloutController (rmStatus rm)
                then (True, rm\<lparr>rmStatus := (rmStatus rm)\<lparr>stRolloutController := p\<rparr>\<rparr>) else (changed, rm)
            | None \<Rightarrow> (changed, rm))
      in if changed then
           discard (lift (kStatusUpdate client (rm\<lparr>rmStatus := (rmStatus rm)\<lparr>stConditions := newConditions\<rparr>\<rparr>) w))
         else (Ok (), w))"

section \<open>The phase\<close>

definition determineStatusPhase :: "'w reconciler \<Rightarrow> rollout_manager \<Rightarrow> 'w \<Rightarrow> reconcileStatusResult res \<times> 'w" where
  "determineStatusPhase r cr w =
     (let finish = (\<lambda>status.
        zeroResult\<lparr>
          rrRolloutController := (if stRolloutController (rmStatus cr) \<noteq> status then Some status else None),
          rrPhase := (if stPhase (rmStatus cr) \<noteq> status then Some status else None)\<rparr>)
      in case fetchObject (kDeployments (Client r)) (crNamespace cr) DefaultArgoRolloutsResourceName w of
           (Inl err, w1) \<Rightarrow>
             if IsNotFound err then (Ok (finish PhaseFailure), w1) else (Err err, w1)
         | (Inr deploy, w1) \<Rightarrow>
             (case dsReplicas (dSpec deploy) of
                None \<Rightarrow> (Ok (finish PhaseUnknown), w1)
              | Some replicas \<Rightarrow>
                  (Ok (finish (if dReadyReplicas deploy = replicas then PhaseAvailable else PhasePending)), w1)))"

section \<open>Conditions as a map from types\<close>

definition conditionOf :: "string \<Rightarrow> condition list \<Rightarrow> condition option" where
  "conditionOf t cs = find (\<lambda>c. cdType c = t) cs"

definition sameContent :: "condition \<Rightarrow> condition \<Rightarrow> bool" where
  "sameContent c d \<longleftrightarrow> cdMessage c = cdMessage d \<and> cdReason c = cdReason d \<and> cdStatus c = cdStatus d"

lemma indexOfType_Some:
  "indexOfType t cs = Some i \<Longrightarrow> i < length cs \<and> cdType (cs ! i) = t \<and> conditionOf t cs = Some (cs ! i)"
  by (induction cs arbitrary: i) (auto simp: conditionOf_def split: if_splits)

lemma indexOfType_None: "indexOfType t cs = None \<longleftrightarrow> t \<notin> cdType ` set cs"
  by (induction cs) auto

lemma conditionOf_None: "conditionOf t cs = None \<longleftrightarrow> t \<notin> cdType ` set cs"
  by (auto simp: conditionOf_def find_None_iff)

lemma conditionOf_append:
  "conditionOf t (cs @ ds) = (case conditionOf t cs of Some c \<Rightarrow> Some c | None \<Rightarrow> conditionOf t ds)"
  by (induction cs) (auto simp: conditionOf_def)

lemma conditionOf_single [simp]: "conditionOf t [c] = (if cdType c = t then Some c else None)"
  by (simp add: conditionOf_def)

lemma sameContent_time [simp]: "sameContent (c\<lparr>cdLastTransitionTime := now\<rparr>) d \<longleftrightarrow> sameContent c d"
  "sameContent c c"
  by (simp_all add: sameContent_def)

lemma conditionOf_update:
  "indexOfType (cdType c) cs = Some i \<Longrightarrow>
     conditionOf t (cs[i := c]) = (if t = cdType c then Some c else conditionOf t cs)"
  by (induction cs arbitrary: i) (auto simp: conditionOf_def split: if_splits)

lemma types_update: "indexOfType (cdType c) cs = Some i \<Longrightarrow> map cdType (cs[i := c]) = map cdType cs"
  using indexOfType_Some [of "cdType c" cs i] by (simp add: map_update list_update_same_conv)

lemma insertOrUpdate_cases:
  assumes "insertOrUpdateConditionsInSlice now c cs = (changed, ds)"
  obtains (insert) "conditionOf (cdType c) cs = None" "changed" "ds = cs @ [c\<lparr>cdLastTransitionTime := now\<rparr>]"
    | (replace) i old where "indexOfType (cdType c) cs = Some i" "conditionOf (cdType c) cs = Some old"
        "\<not> sameContent old c" "changed" "ds = cs[i := c\<lparr>cdLastTransitionTime := now\<rparr>]"
    | (keep) old where "conditionOf (cdType c) cs = Some old" "sameContent old c" "\<not> changed" "ds = cs"
proof (cases "indexOfType (cdType c) cs")
  case None
  then have "conditionOf (cdType c) cs = None"
    by (simp add: conditionOf_None indexOfType_None)
  then show ?thesis using assms insert None
    by (simp add: insertOrUpdateConditionsInSlice_def)
next
  case (Some i)
  have c: "conditionOf (cdType c) cs = Some (cs ! i)"
    using indexOfType_Some [OF Some] by simp
  show ?thesis
  proof (cases "sameContent (cs ! i) c")
    case True
    then have "\<not> changed" "ds = cs"
      using assms Some by (auto simp: insertOrUpdateConditionsInSlice_def sameContent_def)
    then show ?thesis by (rule keep [OF c True])
  next
    case False
    then have "changed" "ds = cs[i := c\<lparr>cdLastTransitionTime := now\<rparr>]"
      using assms Some by (auto simp: insertOrUpdateConditionsInSlice_def sameContent_def)
    then show ?thesis by (rule replace [OF Some c False])
  qed
qed

section \<open>Properties\<close>

text \<open>
  C22: Setting a condition keeps at most one condition of each type. It changes no condition of
  another type; the one of its own type afterwards has the new content, with the old transition
  time if the content was there before and the current time otherwise; and the change flag says
  exactly whether the list is to be written.
\<close>

theorem insertOrUpdateConditions_correct:
  assumes "distinct (map cdType cs)" and "insertOrUpdateConditionsInSlice now c cs = (changed, ds)"
  shows "distinct (map cdType ds) \<and>
    (\<forall>t. t \<noteq> cdType c \<longrightarrow> conditionOf t ds = conditionOf t cs) \<and>
    (\<exists>d. conditionOf (cdType c) ds = Some d \<and> sameContent d c \<and>
       cdLastTransitionTime d = (case conditionOf (cdType c) cs of
         Some old \<Rightarrow> if sameContent old c then cdLastTransitionTime old else now | None \<Rightarrow> now)) \<and>
    (changed \<longleftrightarrow> \<not> (\<exists>old. conditionOf (cdType c) cs = Some old \<and> sameContent old c)) \<and>
    (\<not> changed \<longrightarrow> ds = cs)"
  using assms(2)
proof (cases rule: insertOrUpdate_cases)
  case insert
  then have "cdType c \<notin> cdType ` set cs" by (simp add: conditionOf_None)
  with insert assms(1) show ?thesis
    by (auto simp: conditionOf_append split: option.splits)
next
  case (replace i old)
  let ?c = "c\<lparr>cdLastTransitionTime := now\<rparr>"
  have i: "indexOfType (cdType ?c) cs = Some i" using replace by simp
  from replace assms(1) show ?thesis
    using conditionOf_update [OF i] types_update [OF i] by auto
next
  case (keep old)
  with assms(1) show ?thesis by auto
qed

theorem insertOrUpdateConditions_correct_witness:
  "\<exists>d. conditionOf ''Reconciled'' (snd (insertOrUpdateConditionsInSlice 7 (createCondition '''' [])
      [createCondition ''broken'' []])) = Some d \<and> cdStatus d = ''True'' \<and> cdLastTransitionTime d = 7"
proof -
  obtain changed ds where ds: "insertOrUpdateConditionsInSlice 7 (createCondition '''' [])
      [createCondition ''broken'' []] = (changed, ds)"
    by (rule prod.exhaust)
  have "distinct (map cdType [createCondition ''broken'' []])" by simp
  from insertOrUpdateConditions_correct [OF this ds] ds show ?thesis
    by (auto simp: createCondition_def conditionOf_def sameContent_def zeroCondition_def
        RolloutManagerConditionType_def ConditionTrue_def ConditionFalse_def)
qed

text \<open>
  The condition written for the outcome of a reconciliation: it is True with reason Success
  exactly for an empty message, and for a message with at most one reason it is False, carries
  the message, and has the given reason or ErrorOccurred.
\<close>

theorem createCondition_correct:
  "createCondition message (if given then [reason] else []) =
     (if message = ''''
      then zeroCondition\<lparr>cdType := RolloutManagerConditionType, cdStatus := ConditionTrue,
        cdReason := RolloutManagerReasonSuccess\<rparr>
      else zeroCondition\<lparr>cdType := RolloutManagerConditionType, cdStatus := ConditionFalse,
        cdReason := (if given then reason else RolloutManagerReasonErrorOccurred), cdMessage := message\<rparr>)"
  by (simp add: createCondition_def zeroCondition_def)

text \<open>The status a result asks for, on top of the current one.\<close>

definition requestedStatus :: "int \<Rightarrow> reconcileStatusResult \<Rightarrow> rollout_manager_status \<Rightarrow> rollout_manager_status" where
  "requestedStatus now rr st = st\<lparr>
     stPhase := (case rrPhase rr of Some p \<Rightarrow> p | None \<Rightarrow> stPhase st),
     stRolloutController := (case rrRolloutController rr of Some p \<Rightarrow> p | None \<Rightarrow> stRolloutController st),
     stConditions := snd (insertOrUpdateConditionsInSlice now (rrCondition rr) (stConditions st))\<rparr>"

lemma insertOrUpdate_unchanged:
  "insertOrUpdateConditionsInSlice now c cs = (False, ds) \<Longrightarrow> ds = cs"
  by (erule insertOrUpdate_cases) auto

lemma insertOrUpdate_changed:
  "insertOrUpdateConditionsInSlice now c cs = (True, ds) \<Longrightarrow> ds \<noteq> cs"
proof (erule insertOrUpdate_cases)
  fix i old
  assume *: "indexOfType (cdType c) cs = Some i" "conditionOf (cdType c) cs = Some old"
    "\<not> sameContent old c" "ds = cs[i := c\<lparr>cdLastTransitionTime := now\<rparr>]"
  then have "cs ! i = old" "i < length cs" using indexOfType_Some [OF *(1)] by auto
  then have "ds ! i \<noteq> cs ! i" using * by (metis nth_list_update_eq sameContent_time)
  then show "ds \<noteq> cs" by auto
qed auto

text \<open>The status is written exactly when it would change, and in one call.\<close>

lemma updateStatus_eq:
  "updateStatusConditionOfRolloutManager now rr rm client w =
     (if requestedStatus now rr (rmStatus rm) = rmStatus rm then (Ok (), w)
      else discard (lift (kStatusUpdate client (rm\<lparr>rmStatus := requestedStatus now rr (rmStatus rm)\<rparr>) w)))"
proof -
  obtain m sp rc ph cs where rm: "rm = \<lparr>rmMeta = m, rmSpec = sp,
      rmStatus = \<lparr>stRolloutController = rc, stPhase = ph, stConditions = cs\<rparr>\<rparr>"
    by (metis rollout_manager.cases rollout_manager_status.cases)
  obtain changed ds where ds: "insertOrUpdateConditionsInSlice now (rrCondition rr) cs = (changed, ds)"
    by (rule prod.exhaust)
  have st: "changed \<longleftrightarrow> ds \<noteq> cs"
    using ds insertOrUpdate_changed insertOrUpdate_unchanged by (cases changed) auto
  show ?thesis
    using st by (cases changed)
      (auto simp: rm updateStatusConditionOfRolloutManager_def requestedStatus_def ds split: option.split)
qed

text \<open>
  The phase is Failure without a Deployment, Available when as many replicas are ready as
  the Deployment asks for, Pending when not, and Unknown when it does not say; the result asks
  for a change of a field exactly when that field differs; any other error of the read is
  returned.
\<close>

theorem determineStatusPhase_correct:
  "determineStatusPhase r cr w =
     (case kget (kDeployments (Client r)) (NamespacedName (crNamespace cr) ''argo-rollouts'') w of
        (Inl e, w1) \<Rightarrow> if IsNotFound e then (Ok (zeroResult\<lparr>
            rrRolloutController := (if stRolloutController (rmStatus cr) = ''Failure'' then None else Some ''Failure''),
            rrPhase := (if stPhase (rmStatus cr) = ''Failure'' then None else Some ''Failure'')\<rparr>), w1)
          else (Err e, w1)
      | (Inr d, w1) \<Rightarrow>
          (let p = (case dsReplicas (dSpec d) of None \<Rightarrow> ''Unknown''
              | Some n \<Rightarrow> if dReadyReplicas d = n then ''Available'' else ''Pending'')
           in (Ok (zeroResult\<lparr>
            rrRolloutController := (if stRolloutController (rmStatus cr) = p then None else Some p),
            rrPhase := (if stPhase (rmStatus cr) = p then None else Some p)\<rparr>), w1)))"
  by (auto simp: determineStatusPhase_def Let_def DefaultArgoRolloutsResourceName_def PhaseFailure_def
      PhaseUnknown_def PhaseAvailable_def PhasePending_def split: prod.split sum.split option.split)

end
