(* ===== verification/Scope.thy ===== *)
theory Scope
  imports Status
begin

text \<open>
  Which RolloutManagers the operator accepts (\<open>controllers/utils.go\<close>): the scope the
  administrator allows, the namespaces that may host a cluster-scoped instance, and the rule
  that there is at most one such instance.
\<close>

section \<open>The error texts\<close>

definition UnsupportedRolloutManagerConfiguration :: string where
  "UnsupportedRolloutManagerConfiguration = ''when there exists a cluster-scoped RolloutManager on the cluster, there may not exist another: only a single cluster-scoped RolloutManager is supported''"

definition UnsupportedRolloutManagerClusterScoped :: string where
  "UnsupportedRolloutManagerClusterScoped = ''when Subscription has environment variable NAMESPACE_SCOPED_ARGO_ROLLOUTS set to True, there may not exist any cluster-scoped RolloutManagers: in this case, only namespace-scoped RolloutManager resources are supported''"

definition UnsupportedRolloutManagerNamespaceScoped :: string where
  "UnsupportedRolloutManagerNamespaceScoped = ''when Subscription has environment variable NAMESPACE_SCOPED_ARGO_ROLLOUTS set to False, there may not exist any namespace-scoped RolloutManagers: only a single cluster-scoped RolloutManager is supported''"

definition UnsupportedRolloutManagerClusterScopedNamespace :: string where
  "UnsupportedRolloutManagerClusterScopedNamespace = ''namespace is not specified in CLUSTER_SCOPED_ARGO_ROLLOUTS_NAMESPACES environment variable of Subscription resource. If you wish to install a cluster-scoped Argo Rollouts instance outside the default namespace, ensure it is defined in CLUSTER_SCOPED_ARGO_ROLLOUTS_NAMESPACES''"

lemmas scope_texts = UnsupportedRolloutManagerConfiguration_def UnsupportedRolloutManagerClusterScoped_def
  UnsupportedRolloutManagerNamespaceScoped_def UnsupportedRolloutManagerClusterScopedNamespace_def

section \<open>The checks\<close>

definition splitList :: "string \<Rightarrow> string list" where
  "splitList s = map strings_TrimSpace (strings_Split (CHR '','') s)"

definition allowedClusterScopedNamespace :: "platform \<Rightarrow> rollout_manager \<Rightarrow> bool" where
  "allowedClusterScopedNamespace p cr =
     (let clusterConfigNamespaces = splitList (os_Getenv p ClusterScopedArgoRolloutsNamespaces)
      in if length clusterConfigNamespaces > 0
         then list_ex (\<lambda>n. n = crNamespace cr) clusterConfigNamespaces
         else False)"

definition phaseFailureResult :: reconcileStatusResult where
  "phaseFailureResult = zeroResult\<lparr>rrRolloutController := Some PhaseFailure, rrPhase := Some PhaseFailure\<rparr>"

text \<open>Both checks return two pointers, a result and an error.\<close>

definition validateRolloutsScope :: "platform \<Rightarrow> rollout_manager \<Rightarrow> bool \<Rightarrow>
    reconcileStatusResult option \<times> go_error option" where
  "validateRolloutsScope p cr namespaceScopedArgoRolloutsController =
     (if namespaceScopedArgoRolloutsController then
        (if \<not> NamespaceScoped (rmSpec cr)
         then (Some phaseFailureResult, Some (errors_New UnsupportedRolloutManagerClusterScoped))
         else (None, None))
      else
        (if NamespaceScoped (rmSpec cr)
         then (Some phaseFailureResult, Some (errors_New UnsupportedRolloutManagerNamespaceScoped))
         else if \<not> allowedClusterScopedNamespace p cr
         then (Some phaseFailureResult, Some (errors_New UnsupportedRolloutManagerClusterScopedNamespace))
         else (None, None)))"

fun findOtherClusterScoped :: "rollout_manager list \<Rightarrow> rollout_manager \<Rightarrow>
    reconcileStatusResult option \<times> go_error option" where
  "findOtherClusterScoped [] cr = (None, None)"
| "findOtherClusterScoped (rolloutManager # items) cr =
     (if crName rolloutManager = crName cr \<and> crNamespace rolloutManager = crNamespace cr
      then findOtherClusterScoped items cr
      else if \<not> NamespaceScoped (rmSpec rolloutManager)
      then (Some phaseFailureResult, Some (errors_New UnsupportedRolloutManagerConfiguration))
      else findOtherClusterScoped items cr)"

definition checkForExistingRolloutManager :: "'w client \<Rightarrow> rollout_manager \<Rightarrow> 'w \<Rightarrow>
    (reconcileStatusResult option \<times> go_error option) \<times> 'w" where
  "checkForExistingRolloutManager k8sClient cr w =
     (if NamespaceScoped (rmSpec cr) then ((None, None), w)
      else case klist (kRolloutManagers k8sClient) None None w of
          (Inl err, w1) \<Rightarrow> ((None, Some (errorf_w ''failed to get the list of RolloutManager CRs from cluster: '' err)), w1)
        | (Inr items, w1) \<Rightarrow> (findOtherClusterScoped items cr, w1))"

definition multipleRolloutManagersExist :: "go_error \<Rightarrow> bool" where
  "multipleRolloutManagersExist err \<longleftrightarrow> errText err = UnsupportedRolloutManagerConfiguration"

definition invalidRolloutScope :: "go_error \<Rightarrow> bool" where
  "invalidRolloutScope err \<longleftrightarrow> errText err = UnsupportedRolloutManagerClusterScoped \<or>
     errText err = UnsupportedRolloutManagerNamespaceScoped"

definition invalidRolloutNamespace :: "go_error \<Rightarrow> bool" where
  "invalidRolloutNamespace err \<longleftrightarrow> errText err = UnsupportedRolloutManagerClusterScopedNamespace"

text \<open>
  The first two steps of \<open>reconcileRolloutsManager\<close>: a rejected resource gets its status
  and condition here and nothing else is done for it. Reading through a nil result is a panic.
\<close>

datatype admission = Accepted | Rejected reconcileStatusResult | Failed go_error | Crashed

definition rejectWith :: "reconcileStatusResult option \<Rightarrow> go_error \<Rightarrow> string \<Rightarrow> admission" where
  "rejectWith rr err reason = (case rr of None \<Rightarrow> Crashed
     | Some res \<Rightarrow> Rejected (res\<lparr>rrCondition := createCondition (errText err) [reason]\<rparr>))"

definition admitScope :: "'w reconciler \<Rightarrow> rollout_manager \<Rightarrow> admission" where
  "admitScope r cr =
     (case validateRolloutsScope (Platform r) cr (NamespaceScopedArgoRolloutsController r) of
        (rr, None) \<Rightarrow> Accepted
      | (rr, Some err) \<Rightarrow>
          (if invalidRolloutScope err then rejectWith rr err RolloutManagerReasonInvalidScoped
           else if invalidRolloutNamespace err then rejectWith rr err RolloutManagerReasonInvalidNamespace
           else Failed err))"

definition admitSingle :: "'w reconciler \<Rightarrow> rollout_manager \<Rightarrow> 'w \<Rightarrow> admission \<times> 'w" where
  "admitSingle r cr w =
     (case checkForExistingRolloutManager (Client r) cr w of
        ((res, None), w1) \<Rightarrow> (Accepted, w1)
      | ((res, Some err), w1) \<Rightarrow>
          (if multipleRolloutManagersExist err
           then (rejectWith res err RolloutManagerReasonMultipleClusterScopedRolloutManager, w1)
           else (Failed err, w1)))"

section \<open>What they accept\<close>

lemma fmempty_fmsubset [simp]: "fmempty \<subseteq>\<^sub>f m"
  by (simp add: fmsubset_alt_def)

definition sameResource :: "rollout_manager \<Rightarrow> rollout_manager \<Rightarrow> bool" where
  "sameResource a b \<longleftrightarrow> crName a = crName b \<and> crNamespace a = crNamespace b"

lemma allowedClusterScopedNamespace_iff:
  "allowedClusterScopedNamespace p cr \<longleftrightarrow>
     crNamespace cr \<in> set (splitList (os_Getenv p ClusterScopedArgoRolloutsNamespaces))"
  by (auto simp: allowedClusterScopedNamespace_def Let_def list_ex_iff splitList_def strings_Split_nonempty)

lemma findOtherClusterScoped_eq:
  "findOtherClusterScoped items cr =
     (if \<exists>x\<in>set items. \<not> sameResource x cr \<and> \<not> NamespaceScoped (rmSpec x)
      then (Some phaseFailureResult, Some (errors_New UnsupportedRolloutManagerConfiguration))
      else (None, None))"
  by (induction items) (auto simp: sameResource_def)

lemma list_error_not_multiple:
  "\<not> multipleRolloutManagersExist (errorf_w ''failed to get the list of RolloutManager CRs from cluster: '' e)"
  by (simp add: multipleRolloutManagersExist_def scope_texts)

lemma multiple_error: "multipleRolloutManagersExist (errors_New UnsupportedRolloutManagerConfiguration)"
  by (simp add: multipleRolloutManagersExist_def)

lemma admitScope_eq:
  "admitScope r cr =
     (if NamespaceScopedArgoRolloutsController r then
        (if NamespaceScoped (rmSpec cr) then Accepted
         else Rejected (phaseFailureResult\<lparr>rrCondition :=
           createCondition UnsupportedRolloutManagerClusterScoped [RolloutManagerReasonInvalidScoped]\<rparr>))
      else if NamespaceScoped (rmSpec cr)
      then Rejected (phaseFailureResult\<lparr>rrCondition :=
           createCondition UnsupportedRolloutManagerNamespaceScoped [RolloutManagerReasonInvalidScoped]\<rparr>)
      else if allowedClusterScopedNamespace (Platform r) cr then Accepted
      else Rejected (phaseFailureResult\<lparr>rrCondition :=
           createCondition UnsupportedRolloutManagerClusterScopedNamespace [RolloutManagerReasonInvalidNamespace]\<rparr>))"
  by (simp add: admitScope_def validateRolloutsScope_def invalidRolloutScope_def
      invalidRolloutNamespace_def rejectWith_def) (simp add: scope_texts)

lemma admitSingle_eq:
  "admitSingle r cr w =
     (if NamespaceScoped (rmSpec cr) then (Accepted, w)
      else case klist (kRolloutManagers (Client r)) None None w of
          (Inl e, w1) \<Rightarrow> (Failed (errorf_w ''failed to get the list of RolloutManager CRs from cluster: '' e), w1)
        | (Inr items, w1) \<Rightarrow>
            (if \<exists>x\<in>set items. \<not> sameResource x cr \<and> \<not> NamespaceScoped (rmSpec x)
             then Rejected (phaseFailureResult\<lparr>rrCondition := createCondition UnsupportedRolloutManagerConfiguration
               [RolloutManagerReasonMultipleClusterScopedRolloutManager]\<rparr>)
             else Accepted, w1))"
  by (auto simp: admitSingle_def checkForExistingRolloutManager_def findOtherClusterScoped_eq
      list_error_not_multiple multiple_error rejectWith_def
      split: prod.split sum.split)

lemma trim_plain:
  assumes "\<And>x. x \<in> set s \<Longrightarrow> CHR ''!'' \<le> x \<and> x \<le> CHR ''~''"
  shows "strings_TrimSpace s = s"
proof -
  have keep: "stripAny ps t = t"
    if "\<And>x. x \<in> set t \<Longrightarrow> CHR ''!'' \<le> x \<and> x \<le> CHR ''~''"
      and "\<And>q. q \<in> set ps \<Longrightarrow> q \<noteq> [] \<Longrightarrow> \<not> (CHR ''!'' \<le> hd q \<and> hd q \<le> CHR ''~'')" for ps t
  proof (rule stripAny_keep)
    fix q assume q: "q \<in> set ps" "q \<noteq> []"
    show "\<not> prefix q t"
    proof
      assume "prefix q t"
      then have "hd q \<in> set t" using q(2) by (cases q) (auto simp: prefix_def)
      with that q show False by blast
    qed
  qed
  have "stripAny whiteSpace s = s"
    by (rule keep) (use assms in \<open>auto simp: whiteSpace_def less_eq_char_def\<close>)
  moreover have "stripAny (map rev whiteSpace) (rev s) = rev s"
    by (rule keep) (use assms in \<open>auto simp: whiteSpace_def less_eq_char_def\<close>)
  ultimately show ?thesis by (simp add: strings_TrimSpace_def)
qed

fun joinList :: "string list \<Rightarrow> string" where
  "joinList [] = ''''"
| "joinList [n] = n"
| "joinList (n # ns) = n @ '','' @ joinList ns"

section \<open>Properties\<close>

text \<open>
  C19: The scope check accepts a namespace-scoped resource exactly when the operator runs
  namespace-scoped, and a cluster-scoped one exactly when it does not and the namespace is
  listed in the environment; every other resource is rejected with phase Failure and the
  condition that names the reason. It never fails otherwise and never reads through a nil result.
\<close>

theorem scope_decision:
  "admitScope r cr =
     (let fail = (\<lambda>text reason. Rejected (phaseFailureResult\<lparr>rrCondition := zeroCondition\<lparr>
            cdType := ''Reconciled'', cdStatus := ''False'', cdReason := reason, cdMessage := text\<rparr>\<rparr>))
      in if NamespaceScopedArgoRolloutsController r \<and> \<not> NamespaceScoped (rmSpec cr)
         then fail UnsupportedRolloutManagerClusterScoped ''InvalidRolloutManagerScope''
         else if \<not> NamespaceScopedArgoRolloutsController r \<and> NamespaceScoped (rmSpec cr)
         then fail UnsupportedRolloutManagerNamespaceScoped ''InvalidRolloutManagerScope''
         else if \<not> NamespaceScoped (rmSpec cr) \<and>
           crNamespace cr \<notin> set (splitList (os_Getenv (Platform r) ''CLUSTER_SCOPED_ARGO_ROLLOUTS_NAMESPACES''))
         then fail UnsupportedRolloutManagerClusterScopedNamespace ''InvalidRolloutManagerNamespace''
         else Accepted)"
  by (simp add: admitScope_eq allowedClusterScopedNamespace_iff createCondition_def zeroCondition_def
      ClusterScopedArgoRolloutsNamespaces_def RolloutManagerConditionType_def ConditionFalse_def
      RolloutManagerReasonInvalidScoped_def RolloutManagerReasonInvalidNamespace_def Let_def)
    (simp add: scope_texts)

text \<open>
  A list of namespaces written with commas between them is read back as that list, when no
  name holds a comma, a space or a character outside printable ASCII, so that an instance is
  allowed exactly in the listed namespaces.
\<close>

theorem splitList_joinList:
  assumes "ns \<noteq> []" and "\<And>n x. n \<in> set ns \<Longrightarrow> x \<in> set n \<Longrightarrow> x \<noteq> CHR '','' \<and> CHR ''!'' \<le> x \<and> x \<le> CHR ''~''"
  shows "splitList (joinList ns) = ns"
  using assms
proof (induction ns rule: joinList.induct)
  case (2 n)
  have "CHR '','' \<notin> set n" using "2.prems" by auto
  moreover have "strings_TrimSpace n = n"
    using "2.prems" by (intro trim_plain) auto
  ultimately show ?case by (simp add: splitList_def strings_Split_single)
next
  case (3 n m ns)
  have "CHR '','' \<notin> set n" using "3.prems" by auto
  moreover have "strings_TrimSpace n = n"
    using "3.prems" by (intro trim_plain) auto
  ultimately have "splitList (joinList (n # m # ns)) = n # splitList (joinList (m # ns))"
    by (simp add: splitList_def strings_Split_append)
  moreover have "splitList (joinList (m # ns)) = m # ns"
    by (rule "3.IH") (use "3.prems" in auto)
  ultimately show ?case by simp
qed simp

theorem splitList_joinList_witness: "splitList ''argo,prod-1'' = [''argo'', ''prod-1'']"
proof -
  have "splitList (joinList [''argo'', ''prod-1'']) = [''argo'', ''prod-1'']"
    by (rule splitList_joinList) (auto simp: less_eq_char_def)
  then show ?thesis by simp
qed

text \<open>
  C4: Of two cluster-scoped RolloutManagers with different names or namespaces neither is
  accepted: whatever the client does, if its list holds the other one, the resource is rejected
  with phase Failure and the condition that says so.
\<close>

theorem second_cluster_scoped_rejected:
  assumes "\<not> NamespaceScoped (rmSpec cr)" and "klist (kRolloutManagers (Client r)) None None w = (Inr items, w1)"
    and "other \<in> set items" and "\<not> NamespaceScoped (rmSpec other)" and "\<not> sameResource other cr"
  shows "admitSingle r cr w = (Rejected (phaseFailureResult\<lparr>rrCondition := zeroCondition\<lparr>
      cdType := ''Reconciled'', cdStatus := ''False'', cdReason := ''MultipleClusterScopedRolloutManager'',
      cdMessage := UnsupportedRolloutManagerConfiguration\<rparr>\<rparr>), w1)"
  using assms
  by (auto simp: admitSingle_eq createCondition_def zeroCondition_def scope_texts ConditionFalse_def
      RolloutManagerConditionType_def RolloutManagerReasonMultipleClusterScopedRolloutManager_def)

definition memReconciler :: "bool \<Rightarrow> cluster reconciler" where
  "memReconciler nsScoped = \<lparr>Client = mem_client, OpenShiftRoutePluginLocation = DefaultOpenShiftRoutePluginURL,
     ResourceLabels = None, NamespaceScopedArgoRolloutsController = nsScoped, Platform = emptyPlatform\<rparr>"

theorem second_cluster_scoped_rejected_witness:
  "\<exists>res. fst (admitSingle (memReconciler False) (basicRolloutManager ''a'' ''ns1'' False)
     (emptyCluster\<lparr>cluRolloutManagers := fmap_of_list
        [(NamespacedName ''ns1'' ''a'', basicRolloutManager ''a'' ''ns1'' False),
         (NamespacedName ''ns2'' ''b'', basicRolloutManager ''b'' ''ns2'' False)]\<rparr>)) = Rejected res \<and>
     cdReason (rrCondition res) = ''MultipleClusterScopedRolloutManager''"
proof -
  let ?a = "basicRolloutManager ''a'' ''ns1'' False" and ?b = "basicRolloutManager ''b'' ''ns2'' False"
  let ?c = "emptyCluster\<lparr>cluRolloutManagers := fmap_of_list
        [(NamespacedName ''ns1'' ''a'', ?a), (NamespacedName ''ns2'' ''b'', ?b)]\<rparr>"
  obtain xs where xs: "klist (kRolloutManagers (Client (memReconciler False))) None None ?c = (Inr xs, ?c)"
      "set xs = {x. \<exists>k. fmlookup (cluRolloutManagers ?c) k = Some x}"
    using mem_rollout_managers.list_all [of None None ?c] by (auto simp: memReconciler_def)
  have b: "?b \<in> set xs"
    unfolding xs(2) by (auto intro!: exI [of _ "NamespacedName ''ns2'' ''b''"])
  have "admitSingle (memReconciler False) ?a ?c = (Rejected (phaseFailureResult\<lparr>rrCondition := zeroCondition\<lparr>
      cdType := ''Reconciled'', cdStatus := ''False'', cdReason := ''MultipleClusterScopedRolloutManager'',
      cdMessage := UnsupportedRolloutManagerConfiguration\<rparr>\<rparr>), ?c)"
    by (rule second_cluster_scoped_rejected [OF _ xs(1) b]) (simp_all add: sameResource_def)
  then show ?thesis by simp
qed

end
