(* ===== verification/Managed.thy ===== *)
theory Managed
  imports Scope
begin

text \<open>
  The part that the reconcilers of \<open>controllers/resources.go\<close> share. Each compares the
  fields it manages and then the metadata of the object it finds, and repairs both; the locale
  \<open>managed\<close> states once what makes such a repair settle, and the theories of the single
  objects interpret it.
\<close>

section \<open>Owner references\<close>

text \<open>
  What \<open>controllerutil.SetControllerReference\<close> documents: on an object in the namespace of
  its owner, and without an owner so far, it succeeds and writes the owner reference.
\<close>

definition owner_contract :: "platform \<Rightarrow> bool" where
  "owner_contract p \<longleftrightarrow> (\<forall>cr m. mOwners m = [] \<longrightarrow> mNamespace m = crNamespace cr \<longrightarrow>
     (\<exists>os. SetControllerReference p cr m = Inr (m\<lparr>mOwners := os\<rparr>)))"

lemma meta_same_owners [simp]: "meta_same m (m\<lparr>mOwners := os\<rparr>)"
  by (simp add: meta_same_def)

lemma owner_contract_same:
  assumes "owner_contract p" "mOwners m = []" "mNamespace m = crNamespace cr"
  obtains m' where "SetControllerReference p cr m = Inr m'" "meta_same m m'"
  using assms by (auto simp: owner_contract_def) (metis meta_same_owners)

lemma owner_contract_empty [simp]: "owner_contract emptyPlatform"
  by (auto simp: owner_contract_def emptyPlatform_def intro!: exI [of _ "[]"])

text \<open>The expected object with its owner reference, or the error of setting it.\<close>

definition withOwner :: "platform \<Rightarrow> rollout_manager \<Rightarrow> ((object_meta \<Rightarrow> object_meta) \<Rightarrow> 'o \<Rightarrow> 'o) \<Rightarrow>
    object_meta \<Rightarrow> 'o \<Rightarrow> go_error + 'o" where
  "withOwner p cr metaUpd m x =
     (case SetControllerReference p cr m of Inl err \<Rightarrow> Inl err | Inr m' \<Rightarrow> Inr (metaUpd (\<lambda>_. m') x))"

section \<open>Sending one object\<close>

lemma lift_eq: "lift = lift_with (\<lambda>e. e)"
  by (auto simp: lift_def lift_with_def fun_eq_iff)

lemma ensure_plain:
  "ensure ops key wrapGet (\<lambda>e. e) (\<lambda>e. e) fresh repair w =
     (case kget ops key w of
        (Inl err, w1) \<Rightarrow>
          if \<not> IsNotFound err then (Err (wrapGet err), w1)
          else (case fresh of Inl e \<Rightarrow> (Err e, w1) | Inr new \<Rightarrow> lift (kcreate ops new w1))
      | (Inr live, w1) \<Rightarrow>
          (case repair live of None \<Rightarrow> (Ok live, w1) | Some live' \<Rightarrow> lift (kupdate ops live' w1)))"
  unfolding ensure_def lift_eq ..

lemma discard_ensure:
  "discard (ensure ops key wrapGet (\<lambda>e. e) (\<lambda>e. e) fresh repair w) =
     (case kget ops key w of
        (Inl err, w1) \<Rightarrow>
          if \<not> IsNotFound err then (Err (wrapGet err), w1)
          else (case fresh of Inl e \<Rightarrow> (Err e, w1) | Inr new \<Rightarrow> discard (lift (kcreate ops new w1)))
      | (Inr live, w1) \<Rightarrow>
          discard (case repair live of None \<Rightarrow> (Ok live, w1) | Some live' \<Rightarrow> lift (kupdate ops live' w1)))"
  by (auto simp: ensure_plain split: prod.splits sum.splits)

section \<open>Repairing one object\<close>

text \<open>
  \<open>fixBody\<close> is what a reconciler does to the fields it manages, \<open>None\<close> when they are
  as expected; \<open>e\<close> is the expected metadata.
\<close>

definition repairObject :: "('o \<Rightarrow> object_meta) \<Rightarrow> ((object_meta \<Rightarrow> object_meta) \<Rightarrow> 'o \<Rightarrow> 'o) \<Rightarrow>
    rollout_manager \<Rightarrow> object_meta \<Rightarrow> ('o \<Rightarrow> 'o option) \<Rightarrow> 'o \<Rightarrow> 'o option" where
  "repairObject metaOf metaUpd cr e fixBody live =
     (let fixed = fixBody live;
          live1 = (case fixed of None \<Rightarrow> live | Some x \<Rightarrow> x);
          outdated = metaOutdated cr (metaOf live1) e;
          live2 = (if outdated then metaUpd (\<lambda>m. adoptMeta m e) live1 else live1)
      in if fixed \<noteq> None \<or> outdated then Some live2 else None)"

text \<open>The outcome of \<open>if updateNeeded { ... Update ... }\<close> on a repaired object.\<close>

definition updateIfNeeded :: "('o, 'w) kind_ops \<Rightarrow> bool \<Rightarrow> 'o \<Rightarrow> 'w \<Rightarrow> 'o res \<times> 'w" where
  "updateIfNeeded ops updateNeeded live w = (if updateNeeded then lift (kupdate ops live w) else (Ok live, w))"

text \<open>The object under a key exists and is as the reconciler wants it.\<close>

definition settledAt :: "(namespaced_name, 'o) fmap \<Rightarrow> namespaced_name \<Rightarrow> ('o \<Rightarrow> 'o option) \<Rightarrow> bool" where
  "settledAt m k repair \<longleftrightarrow> (case fmlookup m k of None \<Rightarrow> False | Some x \<Rightarrow> repair x = None)"

lemma settledAtE:
  assumes "settledAt m k repair"
  obtains x where "fmlookup m k = Some x" "repair x = None"
  using assms by (auto simp: settledAt_def split: option.splits)

text \<open>
  An object that is already there carries no aggregation label of somebody else, without
  which a repair would not settle.
\<close>

definition tameAt :: "('o \<Rightarrow> object_meta) \<Rightarrow> (namespaced_name, 'o) fmap \<Rightarrow> namespaced_name \<Rightarrow> object_meta \<Rightarrow> bool" where
  "tameAt metaOf m k e \<longleftrightarrow> (case fmlookup m k of None \<Rightarrow> True | Some x \<Rightarrow> tameMeta e (metaOf x))"

lemma settledAt_upd [simp]: "repair x = None \<Longrightarrow> settledAt (fmupd k x m) k repair"
  by (simp add: settledAt_def)

locale managed =
  fixes metaOf :: "'o \<Rightarrow> object_meta"
    and metaUpd :: "(object_meta \<Rightarrow> object_meta) \<Rightarrow> 'o \<Rightarrow> 'o"
    and same :: "'o \<Rightarrow> 'o \<Rightarrow> bool"
    and cr :: rollout_manager
    and key :: namespaced_name
    and expected :: 'o
    and fixBody :: "'o \<Rightarrow> 'o option"
  assumes meta_upd: "metaOf (metaUpd f x) = f (metaOf x)"
    and body_upd: "fixBody (metaUpd f x) = None \<longleftrightarrow> fixBody x = None"
    and body_meta: "fixBody x = Some y \<Longrightarrow> metaOf y = metaOf x"
    and body_done: "fixBody x = Some y \<Longrightarrow> fixBody y = None"
    and same_body: "same x y \<Longrightarrow> fixBody x = None \<Longrightarrow> fixBody y = None"
    and same_meta: "same x y \<Longrightarrow> meta_same (metaOf x) (metaOf y)"
    and same_refl: "same x x"
    and same_upd: "meta_same (metaOf x) m \<Longrightarrow> same x (metaUpd (\<lambda>_. m) x)"
    and same_chain: "same x y \<Longrightarrow> same y z \<Longrightarrow> same x z"
    and wanted_key: "metaKey (metaOf expected) = key"
    and wanted_body: "fixBody expected = None"
    and wanted_meta: "recognisable cr (metaOf expected)"
begin

abbreviation repair :: "'o \<Rightarrow> 'o option" where
  "repair \<equiv> repairObject metaOf metaUpd cr (metaOf expected) fixBody"

lemma repair_None: "repair x = None \<longleftrightarrow> fixBody x = None \<and> \<not> metaOutdated cr (metaOf x) (metaOf expected)"
  by (cases "fixBody x") (auto simp: repairObject_def Let_def)

lemma repair_same: "same x y \<Longrightarrow> repair x = None \<Longrightarrow> repair y = None"
  by (auto simp: repair_None same_body dest: metaOutdated_same [OF same_meta])

lemma repair_Some:
  assumes "repair x = Some y"
  shows "fixBody y = None" and "metaKey (metaOf y) = metaKey (metaOf x)"
    and "metaOutdated cr (metaOf y) (metaOf expected) \<Longrightarrow> \<not> tameMeta (metaOf expected) (metaOf x)"
proof -
  define x1 where "x1 = (case fixBody x of None \<Rightarrow> x | Some z \<Rightarrow> z)"
  have x1: "fixBody x1 = None" "metaOf x1 = metaOf x"
    by (auto simp: x1_def body_done body_meta split: option.splits)
  have y: "y = (if metaOutdated cr (metaOf x1) (metaOf expected)
      then metaUpd (\<lambda>m. adoptMeta m (metaOf expected)) x1 else x1)"
    using assms by (auto simp: repairObject_def Let_def x1_def split: if_splits)
  show "fixBody y = None" using x1 y by (simp add: body_upd)
  show "metaKey (metaOf y) = metaKey (metaOf x)" using x1 y by (simp add: meta_upd)
  show "metaOutdated cr (metaOf y) (metaOf expected) \<Longrightarrow> \<not> tameMeta (metaOf expected) (metaOf x)"
    using x1 y adopt_settles [OF wanted_meta] by (auto simp: meta_upd split: if_splits)
qed

lemma law: "repair_law metaOf same key expected repair (\<lambda>x. tameMeta (metaOf expected) (metaOf x))"
proof
  show "same expected x \<Longrightarrow> repair x = None" for x
    by (erule repair_same) (simp add: repair_None wanted_body recognisable_not_outdated wanted_meta)
  show "repair x = Some y \<Longrightarrow> metaKey (metaOf y) = metaKey (metaOf x)" for x y
    by (rule repair_Some(2))
  show "tameMeta (metaOf expected) (metaOf x) \<Longrightarrow> repair x = Some y \<Longrightarrow> same y z \<Longrightarrow> repair z = None" for x y z
    by (rule repair_same) (auto simp: repair_None dest: repair_Some)
qed (auto intro: wanted_key same_chain)

end

text \<open>Every managed kind obeys the laws of a repair that settles.\<close>

sublocale managed \<subseteq> repair_law metaOf same key expected repair "\<lambda>x. tameMeta (metaOf expected) (metaOf x)"
  by (rule law)

text \<open>
  A managed kind on a conforming client: what one run of \<open>ensure\<close> leaves behind, and that a
  further run changes nothing.
\<close>

locale managed_api = kind_api view ops metaOf look put same + managed metaOf metaUpd same cr key expected fixBody
  for view :: "'w \<Rightarrow> 'c" and ops :: "('o, 'w) kind_ops" and metaOf look put same metaUpd cr key expected fixBody

sublocale managed_api \<subseteq> settling view ops metaOf look put same key expected repair
    "\<lambda>x. tameMeta (metaOf expected) (metaOf x)"
  by unfold_locales

context managed_api
begin

lemma run_settles:
  assumes "fresh = Inr new" "same expected new" "keyed metaOf (look (view w))"
    and "tameAt metaOf (look (view w)) key (metaOf expected)"
  shows "\<exists>x w'. ensure ops key wg wc wu fresh repair w = (Ok x, w') \<and> repair x = None \<and>
    metaKey (metaOf x) = key \<and> view w' = put (fmupd key x) (view w)"
  by (rule ensure_settles) (use assms in \<open>auto simp: keyed_def tameAt_def\<close>)

lemma plain_settles:
  assumes "keyed metaOf (look (view w))" "tameAt metaOf (look (view w)) key (metaOf expected)"
  shows "\<exists>x w'. ensure ops key wg wc wu (Inr expected) repair w = (Ok x, w') \<and> repair x = None \<and>
    metaKey (metaOf x) = key \<and> view w' = put (fmupd key x) (view w)"
  by (rule run_settles [OF refl same_refl assms])

lemma owned_settles:
  assumes "owner_contract p" "mOwners (metaOf expected) = []" "mNamespace (metaOf expected) = crNamespace cr"
    and "keyed metaOf (look (view w))" "tameAt metaOf (look (view w)) key (metaOf expected)"
  shows "\<exists>x w'. ensure ops key wg wc wu (withOwner p cr metaUpd (metaOf expected) expected) repair w = (Ok x, w') \<and>
    repair x = None \<and> metaKey (metaOf x) = key \<and> view w' = put (fmupd key x) (view w)"
proof -
  obtain m where m: "SetControllerReference p cr (metaOf expected) = Inr m" "meta_same (metaOf expected) m"
    by (rule owner_contract_same [OF assms(1-3)])
  show ?thesis
    by (rule run_settles [OF _ same_upd [OF m(2)] assms(4,5)]) (simp add: withOwner_def m(1))
qed

lemma run_settled:
  assumes "settledAt (look (view w)) key repair" "keyed metaOf (look (view w))"
  shows "\<exists>x w'. ensure ops key wg wc wu fresh repair w = (Ok x, w') \<and> metaKey (metaOf x) = key \<and>
    fmlookup (look (view w)) key = Some x \<and> view w' = view w"
proof -
  obtain x where x: "fmlookup (look (view w)) key = Some x" "repair x = None"
    using assms(1) by (rule settledAtE)
  from ensure_settled [OF x] obtain w' where
    "ensure ops key wg wc wu fresh repair w = (Ok x, w')" "view w' = view w" by blast
  with x(1) keyedD [OF assms(2) x(1)] show ?thesis by blast
qed

end

section \<open>Deleting what should not be there\<close>

text \<open>
  The block that opens the reconcilers of roles and bindings: the counterpart of the other scope
  is deleted when it can be read; an error of the read is dropped.
\<close>

definition dropStale :: "('o, 'w) kind_ops \<Rightarrow> string \<Rightarrow> string \<Rightarrow> (go_error \<Rightarrow> go_error) \<Rightarrow> 'w \<Rightarrow> unit res \<times> 'w" where
  "dropStale ops ns name wrap w =
     (case fetchObject ops ns name w of
        (Inl _, w1) \<Rightarrow> (Ok (), w1)
      | (Inr live, w1) \<Rightarrow> lift_with wrap (kdelete ops live w1))"

text \<open>
  The block of \<open>removeClusterScopedResourcesIfApplicable\<close>: an object that is gone already is
  as good as deleted.
\<close>

definition removeIfExists :: "('o, 'w) kind_ops \<Rightarrow> namespaced_name \<Rightarrow> 'w \<Rightarrow> unit res \<times> 'w" where
  "removeIfExists ops key w =
     (case kget ops key w of
        (Inl err, w1) \<Rightarrow> if \<not> IsNotFound err then (Err err, w1) else (Ok (), w1)
      | (Inr x, w1) \<Rightarrow>
          (case kdelete ops x w1 of
             (Inl err, w2) \<Rightarrow> if \<not> IsNotFound err then (Err err, w2) else (Ok (), w2)
           | (Inr _, w2) \<Rightarrow> (Ok (), w2)))"

context kind_api
begin

lemma put_drop_absent: "fmlookup (look c) k = None \<Longrightarrow> put (fmdrop k) c = c"
  by (rule put_unchanged) (simp add: fmdrop_absent)

lemma dropStale_drops:
  assumes "keyed metaOf (look (view w))"
  shows "\<exists>w'. dropStale ops ns name wrap w = (Ok (), w') \<and> view w' = put (fmdrop (NamespacedName ns name)) (view w)"
proof (cases "fmlookup (look (view w)) (NamespacedName ns name)")
  case None
  from get_missing [OF this] put_drop_absent [OF this] show ?thesis by (auto simp: dropStale_def)
next
  case (Some x)
  obtain w1 where g: "kget ops (NamespacedName ns name) w = (Inr x, w1)" "view w1 = view w"
    using get_found [OF Some] by blast
  have k: "metaKey (metaOf x) = NamespacedName ns name" using keyedD [OF assms Some] .
  obtain w2 where "kdelete ops x w1 = (Inr (), w2)" "view w2 = put (fmdrop (NamespacedName ns name)) (view w)"
    using delete_found [of w1 x x] Some k g(2) by auto
  then show ?thesis using g by (auto simp: dropStale_def)
qed

lemma removeIfExists_drops:
  assumes "keyed metaOf (look (view w))"
  shows "\<exists>w'. removeIfExists ops k w = (Ok (), w') \<and> view w' = put (fmdrop k) (view w)"
proof (cases "fmlookup (look (view w)) k")
  case None
  from get_missing [OF this] put_drop_absent [OF this] show ?thesis by (auto simp: removeIfExists_def)
next
  case (Some x)
  obtain w1 where g: "kget ops k w = (Inr x, w1)" "view w1 = view w"
    using get_found [OF Some] by blast
  obtain w2 where "kdelete ops x w1 = (Inr (), w2)" "view w2 = put (fmdrop k) (view w)"
    using delete_found [of w1 x x] Some keyedD [OF assms Some] g(2) by auto
  then show ?thesis using g by (auto simp: removeIfExists_def)
qed

end

end
