(* ===== verification/Rbac.thy ===== *)
theory Rbac
  imports Managed
begin

text \<open>
  ServiceAccount, Role and ClusterRole, their bindings and the three aggregated ClusterRoles
  (\<open>controllers/resources.go\<close>). Each reconciler is translated as it stands; a lemma then
  shows it to be an instance of \<open>ensure\<close> with the repair of a \<open>managed\<close> object. The
  policy rules are part of the model, and what they grant is stated as properties.
\<close>

section \<open>The policy rules\<close>

definition policyRule :: "string list \<Rightarrow> string list \<Rightarrow> string list \<Rightarrow> policy_rule" where
  "policyRule apiGroups resources verbs = \<lparr>pruleAPIGroups = slice apiGroups, pruleResources = slice resources,
     pruleVerbs = slice verbs, pruleResourceNames = None, pruleNonResourceURLs = None\<rparr>"

definition argoprojPolicyRules :: "policy_rule list" where
  "argoprojPolicyRules = [
     policyRule [''argoproj.io''] [''rollouts'', ''rollouts/status'', ''rollouts/finalizers'']
       [''get'', ''list'', ''watch'', ''update'', ''patch''],
     policyRule [''argoproj.io'']
       [''analysisruns'', ''analysisruns/finalizers'', ''experiments'', ''experiments/finalizers'']
       [''create'', ''get'', ''list'', ''watch'', ''update'', ''patch'', ''delete''],
     policyRule [''argoproj.io''] [''analysistemplates'', ''clusteranalysistemplates'']
       [''get'', ''list'', ''watch'']]"

definition workloadPolicyRules :: "policy_rule list" where
  "workloadPolicyRules = [
     policyRule [''apps''] [''replicasets'']
       [''create'', ''get'', ''list'', ''watch'', ''update'', ''patch'', ''delete''],
     policyRule ['''', ''apps''] [''deployments'', ''podtemplates'']
       [''get'', ''list'', ''watch'', ''update'', ''patch''],
     policyRule [''''] [''services''] [''get'', ''list'', ''watch'', ''patch'', ''create'', ''delete''],
     policyRule [''coordination.k8s.io''] [''leases''] [''create'', ''get'', ''update''],
     policyRule [''''] [''secrets'', ''configmaps''] [''get'', ''list'', ''watch''],
     policyRule [''''] [''pods''] [''list'', ''update'', ''watch''],
     policyRule [''''] [''pods/eviction''] [''create''],
     policyRule [''''] [''events''] [''create'', ''update'', ''patch'']]"

definition trafficPolicyRules :: "policy_rule list" where
  "trafficPolicyRules = [
     policyRule [''networking.k8s.io'', ''extensions''] [''ingresses'']
       [''create'', ''get'', ''list'', ''watch'', ''patch''],
     policyRule [''batch''] [''jobs'']
       [''create'', ''get'', ''list'', ''watch'', ''update'', ''patch'', ''delete''],
     policyRule [''networking.istio.io''] [''virtualservices'', ''destinationrules'']
       [''watch'', ''get'', ''update'', ''patch'', ''list''],
     policyRule [''split.smi-spec.io''] [''trafficsplits'']
       [''create'', ''watch'', ''get'', ''update'', ''patch''],
     policyRule [''getambassador.io'', ''x.getambassador.io''] [''mappings'', ''ambassadormappings'']
       [''create'', ''watch'', ''get'', ''update'', ''list'', ''delete''],
     policyRule [''''] [''endpoints''] [''get'']]"

definition meshPolicyRules :: "policy_rule list" where
  "meshPolicyRules = [
     policyRule [''elbv2.k8s.aws'', ''eks.amazonaws.com''] [''targetgroupbindings''] [''list'', ''get''],
     policyRule [''appmesh.k8s.aws''] [''virtualservices''] [''watch'', ''get'', ''list''],
     policyRule [''appmesh.k8s.aws''] [''virtualnodes'', ''virtualrouters'']
       [''watch'', ''get'', ''list'', ''update'', ''patch''],
     policyRule [''traefik.containo.us'', ''traefik.io''] [''traefikservices''] [''watch'', ''get'', ''update''],
     policyRule [''apisix.apache.org''] [''apisixroutes''] [''watch'', ''get'', ''update''],
     policyRule [''route.openshift.io''] [''routes'']
       [''create'', ''watch'', ''get'', ''update'', ''patch'', ''list'']]"

definition GetPolicyRules :: "policy_rule slice" where
  "GetPolicyRules = slice (argoprojPolicyRules @ workloadPolicyRules @ trafficPolicyRules @ meshPolicyRules)"

definition GetAggregateToAdminPolicyRules :: "policy_rule slice" where
  "GetAggregateToAdminPolicyRules = slice [
     policyRule [''argoproj.io''] [''rollouts'', ''rollouts/scale'', ''rollouts/status'', ''experiments'',
         ''analysistemplates'', ''clusteranalysistemplates'', ''analysisruns'']
       [''create'', ''delete'', ''deletecollection'', ''get'', ''list'', ''patch'', ''update'', ''watch'']]"

definition GetAggregateToEditPolicyRules :: "policy_rule slice" where
  "GetAggregateToEditPolicyRules = slice [
     policyRule [''argoproj.io''] [''rollouts'', ''rollouts/scale'', ''rollouts/status'', ''experiments'',
         ''analysistemplates'', ''clusteranalysistemplates'', ''analysisruns'']
       [''create'', ''delete'', ''deletecollection'', ''get'', ''list'', ''patch'', ''update'', ''watch'']]"

definition GetAggregateToViewPolicyRules :: "policy_rule slice" where
  "GetAggregateToViewPolicyRules = slice [
     policyRule [''argoproj.io''] [''rollouts'', ''rollouts/scale'', ''experiments'',
         ''analysistemplates'', ''clusteranalysistemplates'', ''analysisruns'']
       [''get'', ''list'', ''watch'']]"

section \<open>ServiceAccount\<close>

definition expectedServiceAccount :: "rollout_manager \<Rightarrow> service_account" where
  "expectedServiceAccount cr = \<lparr>saMeta = setRolloutsLabelsAndAnnotationsToObject
     (newMeta DefaultArgoRolloutsResourceName (crNamespace cr)) cr\<rparr>"

definition reconcileRolloutsServiceAccount ::
    "'w reconciler \<Rightarrow> rollout_manager \<Rightarrow> 'w \<Rightarrow> service_account res \<times> 'w" where
  "reconcileRolloutsServiceAccount r cr w =
     (let expected = expectedServiceAccount cr; ops = kServiceAccounts (Client r)
      in case fetchObject ops (crNamespace cr) (mName (saMeta expected)) w of
           (Inl err, w1) \<Rightarrow>
             if \<not> IsNotFound err then
               (Err (errorf_w (''failed to get the ServiceAccount associated with '' @ mName (saMeta expected) @ '': '') err), w1)
             else (case SetControllerReference (Platform r) cr (saMeta expected) of
                 Inl err \<Rightarrow> (Err err, w1)
               | Inr m \<Rightarrow> lift (kcreate ops (expected\<lparr>saMeta := m\<rparr>) w1))
         | (Inr live, w1) \<Rightarrow>
             (let updateNeeded = metaOutdated cr (saMeta live) (saMeta expected);
                  live = (if updateNeeded then live\<lparr>saMeta := adoptMeta (saMeta live) (saMeta expected)\<rparr> else live)
              in updateIfNeeded ops updateNeeded live w1))"

section \<open>Role and ClusterRole\<close>

text \<open>
  The comparison that the reconcilers of Role, ClusterRole and the aggregated ClusterRoles make
  of a live role: the flag \<open>updateNeeded\<close> and the role to send.
\<close>

definition compareRole :: "rollout_manager \<Rightarrow> object_meta \<Rightarrow> policy_rule slice \<Rightarrow> role \<Rightarrow> bool \<times> role" where
  "compareRole cr expectedMeta expectedPolicyRules live =
     (let (updateNeeded, live) =
            (if roleRules live \<noteq> expectedPolicyRules then (True, live\<lparr>roleRules := expectedPolicyRules\<rparr>)
             else (False, live))
      in if metaOutdated cr (roleMeta live) expectedMeta
         then (True, live\<lparr>roleMeta := adoptMeta (roleMeta live) expectedMeta\<rparr>)
         else (updateNeeded, live))"

definition expectedRole :: "rollout_manager \<Rightarrow> role" where
  "expectedRole cr = \<lparr>roleMeta = setRolloutsLabelsAndAnnotationsToObject
     (newMeta DefaultArgoRolloutsResourceName (crNamespace cr)) cr, roleRules = None\<rparr>"

definition reconcileRolloutsRole :: "'w reconciler \<Rightarrow> rollout_manager \<Rightarrow> 'w \<Rightarrow> role res \<times> 'w" where
  "reconcileRolloutsRole r cr w =
     andThen (dropStale (kClusterRoles (Client r)) '''' DefaultArgoRolloutsResourceName
         (errorf_w (''failed to delete existing ClusterRole '' @ DefaultArgoRolloutsResourceName @ '': '')) w) (\<lambda>_ w.
     (let expectedPolicyRules = GetPolicyRules; expected = expectedRole cr; ops = kRoles (Client r)
      in case fetchObject ops (crNamespace cr) (mName (roleMeta expected)) w of
           (Inl err, w1) \<Rightarrow>
             if \<not> IsNotFound err then
               (Err (errorf_w (''failed to reconcile the Role for the ServiceAccount associated with '' @
                  mName (roleMeta expected) @ '': '') err), w1)
             else (case SetControllerReference (Platform r) cr (roleMeta expected) of
                 Inl err \<Rightarrow> (Err err, w1)
               | Inr m \<Rightarrow> lift (kcreate ops (expected\<lparr>roleMeta := m, roleRules := expectedPolicyRules\<rparr>) w1))
         | (Inr live, w1) \<Rightarrow>
             (let (updateNeeded, live) = compareRole cr (roleMeta expected) expectedPolicyRules live
              in updateIfNeeded ops updateNeeded live w1)))"

definition expectedClusterRole :: "rollout_manager \<Rightarrow> cluster_role" where
  "expectedClusterRole cr = \<lparr>roleMeta = setRolloutsLabelsAndAnnotationsToObject
     (newMeta DefaultArgoRolloutsResourceName '''') cr, roleRules = None\<rparr>"

definition reconcileRolloutsClusterRole :: "'w reconciler \<Rightarrow> rollout_manager \<Rightarrow> 'w \<Rightarrow> cluster_role res \<times> 'w" where
  "reconcileRolloutsClusterRole r cr w =
     andThen (dropStale (kRoles (Client r)) (crNamespace cr) DefaultArgoRolloutsResourceName
         (errorf_w (''failed to delete existing Role '' @ DefaultArgoRolloutsResourceName @
            '' for Namespace '' @ crNamespace cr @ '': '')) w) (\<lambda>_ w.
     (let expectedPolicyRules = GetPolicyRules; expected = expectedClusterRole cr; ops = kClusterRoles (Client r)
      in case fetchObject ops '''' (mName (roleMeta expected)) w of
           (Inl err, w1) \<Rightarrow>
             if \<not> IsNotFound err then
               (Err (errorf_w (''failed to Reconcile the ClusterRole for the ServiceAccount associated with '' @
                  mName (roleMeta expected) @ '': '') err), w1)
             else lift (kcreate ops (expected\<lparr>roleRules := expectedPolicyRules\<rparr>) w1)
         | (Inr live, w1) \<Rightarrow>
             (let (updateNeeded, live) = compareRole cr (roleMeta expected) expectedPolicyRules live
              in updateIfNeeded ops updateNeeded live w1)))"

section \<open>Aggregated ClusterRoles\<close>

definition aggregateRoleName :: "string \<Rightarrow> string" where
  "aggregateRoleName aggregationType = DefaultArgoRolloutsResourceName @ ''-'' @ aggregationType"

definition expectedAggregateRole :: "string \<Rightarrow> rollout_manager \<Rightarrow> cluster_role" where
  "expectedAggregateRole aggregationType cr =
     (let name = aggregateRoleName aggregationType;
          m = setRolloutsAggregatedClusterRoleLabels (newMeta name '''') name aggregationType
      in \<lparr>roleMeta = setAdditionalRolloutsLabelsAndAnnotationsToObject m cr, roleRules = None\<rparr>)"

definition reconcileRolloutsAggregateToAdminClusterRole ::
    "'w reconciler \<Rightarrow> rollout_manager \<Rightarrow> 'w \<Rightarrow> unit res \<times> 'w" where
  "reconcileRolloutsAggregateToAdminClusterRole r cr w =
     (let expectedPolicyRules = GetAggregateToAdminPolicyRules;
          expected = expectedAggregateRole ''aggregate-to-admin'' cr; ops = kClusterRoles (Client r)
      in case fetchObject ops '''' (mName (roleMeta expected)) w of
           (Inl err, w1) \<Rightarrow>
             if \<not> IsNotFound err then
               (Err (errorf_w (''failed to reconcile the aggregated ClusterRole '' @ mName (roleMeta expected) @ '': '') err), w1)
             else discard (lift (kcreate ops (expected\<lparr>roleRules := expectedPolicyRules\<rparr>) w1))
         | (Inr live, w1) \<Rightarrow>
             (let (updateNeeded, live) = compareRole cr (roleMeta expected) expectedPolicyRules live
              in discard (updateIfNeeded ops updateNeeded live w1)))"

definition reconcileRolloutsAggregateToEditClusterRole ::
    "'w reconciler \<Rightarrow> rollout_manager \<Rightarrow> 'w \<Rightarrow> unit res \<times> 'w" where
  "reconcileRolloutsAggregateToEditClusterRole r cr w =
     (let expectedPolicyRules = GetAggregateToEditPolicyRules;
          expected = expectedAggregateRole ''aggregate-to-edit'' cr; ops = kClusterRoles (Client r)
      in case fetchObject ops '''' (mName (roleMeta expected)) w of
           (Inl err, w1) \<Rightarrow>
             if \<not> IsNotFound err then
               (Err (errorf_w (''failed to reconcile the aggregated ClusterRole '' @ mName (roleMeta expected) @ '': '') err), w1)
             else discard (lift (kcreate ops (expected\<lparr>roleRules := expectedPolicyRules\<rparr>) w1))
         | (Inr live, w1) \<Rightarrow>
             (let (updateNeeded, live) = compareRole cr (roleMeta expected) expectedPolicyRules live
              in discard (updateIfNeeded ops updateNeeded live w1)))"

definition reconcileRolloutsAggregateToViewClusterRole ::
    "'w reconciler \<Rightarrow> rollout_manager \<Rightarrow> 'w \<Rightarrow> unit res \<times> 'w" where
  "reconcileRolloutsAggregateToViewClusterRole r cr w =
     (let expectedPolicyRules = GetAggregateToViewPolicyRules;
          expected = expectedAggregateRole ''aggregate-to-view'' cr; ops = kClusterRoles (Client r)
      in case fetchObject ops '''' (mName (roleMeta expected)) w of
           (Inl err, w1) \<Rightarrow>
             if \<not> IsNotFound err then
               (Err (errorf_w (''failed to reconcile the aggregated ClusterRole '' @ mName (roleMeta expected) @ '': '') err), w1)
             else discard (lift (kcreate ops (expected\<lparr>roleRules := expectedPolicyRules\<rparr>) w1))
         | (Inr live, w1) \<Rightarrow>
             (let (updateNeeded, live) = compareRole cr (roleMeta expected) expectedPolicyRules live
              in discard (updateIfNeeded ops updateNeeded live w1)))"

section \<open>RoleBinding and ClusterRoleBinding\<close>

definition compareBinding :: "rollout_manager \<Rightarrow> role_binding \<Rightarrow> role_binding \<Rightarrow> bool \<times> role_binding" where
  "compareBinding cr expected live =
     (let (updateNeeded, live) =
            (if rbSubjects expected \<noteq> rbSubjects live then (True, live\<lparr>rbSubjects := rbSubjects expected\<rparr>)
             else (False, live))
      in if metaOutdated cr (rbMeta live) (rbMeta expected)
         then (True, live\<lparr>rbMeta := adoptMeta (rbMeta live) (rbMeta expected)\<rparr>)
         else (updateNeeded, live))"

definition serviceAccountSubject :: "service_account \<Rightarrow> subject" where
  "serviceAccountSubject sa = \<lparr>subKind = ''ServiceAccount'', subAPIGroup = '''',
     subName = mName (saMeta sa), subNamespace = mNamespace (saMeta sa)\<rparr>"

definition expectedRoleBinding :: "rollout_manager \<Rightarrow> role \<Rightarrow> service_account \<Rightarrow> role_binding" where
  "expectedRoleBinding cr role sa = \<lparr>rbMeta = setRolloutsLabelsAndAnnotationsToObject
       (newMeta DefaultArgoRolloutsResourceName (crNamespace cr)) cr,
     rbSubjects = slice [serviceAccountSubject sa],
     rbRoleRef = \<lparr>refAPIGroup = ''rbac.authorization.k8s.io'', refKind = ''Role'', refName = mName (roleMeta role)\<rparr>\<rparr>"

text \<open>The pointers to the role and the service account may be nil, here \<open>None\<close>.\<close>

definition reconcileRolloutsRoleBinding ::
    "'w reconciler \<Rightarrow> rollout_manager \<Rightarrow> role option \<Rightarrow> service_account option \<Rightarrow> 'w \<Rightarrow> unit res \<times> 'w" where
  "reconcileRolloutsRoleBinding r cr role sa w =
     andThen (dropStale (kClusterRoleBindings (Client r)) '''' DefaultArgoRolloutsResourceName
         (errorf_w (''failed to delete existing ClusterRoleBinding '' @ DefaultArgoRolloutsResourceName @ '': '')) w) (\<lambda>_ w.
     (case role of None \<Rightarrow> (Err (errors_New ''received Role is nil while reconciling RoleBinding''), w) | Some role \<Rightarrow>
     (case sa of None \<Rightarrow> (Err (errors_New ''received ServiceAccount is nil while reconciling RoleBinding''), w) | Some sa \<Rightarrow>
     (let expected = expectedRoleBinding cr role sa; ops = kRoleBindings (Client r)
      in case fetchObject ops (crNamespace cr) (mName (rbMeta expected)) w of
           (Inl err, w1) \<Rightarrow>
             if \<not> IsNotFound err then
               (Err (errorf_w (''failed to get the RoleBinding associated with '' @ mName (rbMeta expected) @ '': '') err), w1)
             else (case SetControllerReference (Platform r) cr (rbMeta expected) of
                 Inl err \<Rightarrow> (Err err, w1)
               | Inr m \<Rightarrow> discard (lift (kcreate ops (expected\<lparr>rbMeta := m\<rparr>) w1)))
         | (Inr live, w1) \<Rightarrow>
             (let (updateNeeded, live) = compareBinding cr expected live
              in discard (updateIfNeeded ops updateNeeded live w1))))))"

definition expectedClusterRoleBinding :: "rollout_manager \<Rightarrow> cluster_role \<Rightarrow> service_account \<Rightarrow> cluster_role_binding" where
  "expectedClusterRoleBinding cr clusterRole sa = \<lparr>rbMeta = setRolloutsLabelsAndAnnotationsToObject
       (newMeta DefaultArgoRolloutsResourceName '''') cr,
     rbSubjects = slice [serviceAccountSubject sa],
     rbRoleRef = \<lparr>refAPIGroup = ''rbac.authorization.k8s.io'', refKind = ''ClusterRole'',
       refName = mName (roleMeta clusterRole)\<rparr>\<rparr>"

definition reconcileRolloutsClusterRoleBinding ::
    "'w reconciler \<Rightarrow> cluster_role option \<Rightarrow> service_account option \<Rightarrow> rollout_manager \<Rightarrow> 'w \<Rightarrow> unit res \<times> 'w" where
  "reconcileRolloutsClusterRoleBinding r clusterRole sa cr w =
     andThen (dropStale (kRoleBindings (Client r)) (crNamespace cr) DefaultArgoRolloutsResourceName
         (errorf_w (''failed to delete existing RoleBinding '' @ DefaultArgoRolloutsResourceName @
            '' for Namespace '' @ crNamespace cr @ '': '')) w) (\<lambda>_ w.
     (case clusterRole of None \<Rightarrow> (Err (errors_New ''received ClusterRole is nil while reconciling ClusterRoleBinding''), w)
      | Some clusterRole \<Rightarrow>
     (case sa of None \<Rightarrow> (Err (errors_New ''received ServiceAccount is nil while reconciling ClusterRoleBinding''), w)
      | Some sa \<Rightarrow>
     (let expected = expectedClusterRoleBinding cr clusterRole sa; ops = kClusterRoleBindings (Client r)
      in case fetchObject ops '''' (mName (rbMeta expected)) w of
           (Inl err, w1) \<Rightarrow>
             if \<not> IsNotFound err then
               (Err (errorf_w (''failed to get the ClusterRoleBinding associated with '' @ mName (rbMeta expected) @ '': '') err), w1)
             else discard (lift (kcreate ops expected w1))
         | (Inr live, w1) \<Rightarrow>
             (let (updateNeeded, live) = compareBinding cr expected live
              in discard (updateIfNeeded ops updateNeeded live w1))))))"

section \<open>Removal of the cluster-scoped resources\<close>

definition clusterRoleSuffixes :: "string list" where
  "clusterRoleSuffixes = [''aggregate-to-admin'', ''aggregate-to-edit'', ''aggregate-to-view'']"

fun removeAggregateRoles :: "'w reconciler \<Rightarrow> string list \<Rightarrow> 'w \<Rightarrow> unit res \<times> 'w" where
  "removeAggregateRoles r [] w = (Ok (), w)"
| "removeAggregateRoles r (sfx # rest) w =
     andThen (removeIfExists (kClusterRoles (Client r))
         (NamespacedName '''' (DefaultArgoRolloutsResourceName @ ''-'' @ sfx)) w)
       (\<lambda>_ w. removeAggregateRoles r rest w)"

definition removeClusterScopedResourcesIfApplicable :: "'w reconciler \<Rightarrow> 'w \<Rightarrow> unit res \<times> 'w" where
  "removeClusterScopedResourcesIfApplicable r w =
     andThen (removeIfExists (kClusterRoles (Client r)) (NamespacedName '''' DefaultArgoRolloutsResourceName) w) (\<lambda>_ w.
     andThen (removeAggregateRoles r clusterRoleSuffixes w) (\<lambda>_ w.
     removeIfExists (kClusterRoleBindings (Client r)) (NamespacedName '''' DefaultArgoRolloutsResourceName) w))"

section \<open>Each object is a managed one\<close>

abbreviation rolloutsKey :: "rollout_manager \<Rightarrow> namespaced_name" where
  "rolloutsKey cr \<equiv> NamespacedName (crNamespace cr) DefaultArgoRolloutsResourceName"

abbreviation clusterKey :: namespaced_name where
  "clusterKey \<equiv> NamespacedName '''' DefaultArgoRolloutsResourceName"

definition fixRules :: "policy_rule slice \<Rightarrow> role \<Rightarrow> role option" where
  "fixRules rules x = (if roleRules x \<noteq> rules then Some (x\<lparr>roleRules := rules\<rparr>) else None)"

definition fixSubjects :: "subject slice \<Rightarrow> role_binding \<Rightarrow> role_binding option" where
  "fixSubjects subjects x = (if subjects \<noteq> rbSubjects x then Some (x\<lparr>rbSubjects := subjects\<rparr>) else None)"

definition wantedRole :: "rollout_manager \<Rightarrow> role" where
  "wantedRole cr = (expectedRole cr)\<lparr>roleRules := GetPolicyRules\<rparr>"

definition wantedClusterRole :: "rollout_manager \<Rightarrow> cluster_role" where
  "wantedClusterRole cr = (expectedClusterRole cr)\<lparr>roleRules := GetPolicyRules\<rparr>"

definition wantedAggregateRole :: "string \<Rightarrow> policy_rule slice \<Rightarrow> rollout_manager \<Rightarrow> cluster_role" where
  "wantedAggregateRole aggregationType rules cr = (expectedAggregateRole aggregationType cr)\<lparr>roleRules := rules\<rparr>"

lemma wanted_simps [simp]:
  "roleMeta (wantedRole cr) = roleMeta (expectedRole cr)" "roleRules (wantedRole cr) = GetPolicyRules"
  "roleMeta (wantedClusterRole cr) = roleMeta (expectedClusterRole cr)"
  "roleRules (wantedClusterRole cr) = GetPolicyRules"
  "roleMeta (wantedAggregateRole t rules cr) = roleMeta (expectedAggregateRole t cr)"
  "roleRules (wantedAggregateRole t rules cr) = rules"
  by (simp_all add: wantedRole_def wantedClusterRole_def wantedAggregateRole_def)

lemma expected_names [simp]:
  "mName (saMeta (expectedServiceAccount cr)) = DefaultArgoRolloutsResourceName"
  "mName (roleMeta (expectedRole cr)) = DefaultArgoRolloutsResourceName"
  "mName (roleMeta (expectedClusterRole cr)) = DefaultArgoRolloutsResourceName"
  "mName (roleMeta (expectedAggregateRole t cr)) = aggregateRoleName t"
  "mName (rbMeta (expectedRoleBinding cr role sa)) = DefaultArgoRolloutsResourceName"
  "mName (rbMeta (expectedClusterRoleBinding cr role sa)) = DefaultArgoRolloutsResourceName"
  by (simp_all add: expectedServiceAccount_def expectedRole_def expectedClusterRole_def
      expectedAggregateRole_def expectedRoleBinding_def expectedClusterRoleBinding_def Let_def
      setRolloutsAggregatedClusterRoleLabels_def)

lemma isAggregate_label:
  "sublist ''aggregate'' t \<Longrightarrow> isAggregateLabel (''rbac.authorization.k8s.io/'' @ t)"
  unfolding isAggregateLabel_def strings_Contains_def
  by (blast intro: sublist_appendI sublist_order.order.trans sublist_append_rightI sublist_append_leftI)

lemma aggregate_recognisable:
  assumes "sublist ''aggregate'' t"
  shows "recognisable cr (roleMeta (expectedAggregateRole t cr))"
  using isAggregate_label [OF assms]
  by (auto simp: recognisable_def expectedAggregateRole_def Let_def setRolloutsAggregatedClusterRoleLabels_def
      fmpred_iff mlookup_def keptLabel_def managedLabels_def standardLabels_def split: if_splits)

interpretation service_account: managed saMeta saMeta_update same_service_account cr "rolloutsKey cr"
  "expectedServiceAccount cr" "\<lambda>_. None" for cr
  by unfold_locales (auto simp: same_service_account_def expectedServiceAccount_def dest: meta_same_trans split: if_splits)

interpretation ns_role: managed roleMeta roleMeta_update same_role cr "rolloutsKey cr"
  "wantedRole cr" "fixRules GetPolicyRules" for cr
  by unfold_locales (auto simp: same_role_def fixRules_def expectedRole_def dest: meta_same_trans split: if_splits)

interpretation cl_role: managed roleMeta roleMeta_update same_role cr clusterKey
  "wantedClusterRole cr" "fixRules GetPolicyRules" for cr
  by unfold_locales (auto simp: same_role_def fixRules_def expectedClusterRole_def dest: meta_same_trans split: if_splits)

interpretation ns_binding: managed rbMeta rbMeta_update same_role_binding cr "rolloutsKey cr"
  "expectedRoleBinding cr role sa" "fixSubjects (slice [serviceAccountSubject sa])" for cr role sa
  by unfold_locales (auto simp: same_role_binding_def fixSubjects_def expectedRoleBinding_def dest: meta_same_trans split: if_splits)

interpretation cl_binding: managed rbMeta rbMeta_update same_role_binding cr clusterKey
  "expectedClusterRoleBinding cr role sa" "fixSubjects (slice [serviceAccountSubject sa])" for cr role sa
  by unfold_locales (auto simp: same_role_binding_def fixSubjects_def expectedClusterRoleBinding_def dest: meta_same_trans split: if_splits)

lemma metaKey_aggregateRole [simp]:
  "metaKey (roleMeta (expectedAggregateRole t cr)) = NamespacedName '''' (aggregateRoleName t)"
  by (simp add: expectedAggregateRole_def Let_def setRolloutsAggregatedClusterRoleLabels_def metaKey_def)

lemma aggregate_managed:
  assumes "sublist ''aggregate'' t"
  shows "managed roleMeta roleMeta_update same_role cr (NamespacedName '''' (aggregateRoleName t))
    (wantedAggregateRole t rules cr) (fixRules rules)"
  by unfold_locales
    (auto simp: same_role_def fixRules_def aggregate_recognisable [OF assms] dest: meta_same_trans split: if_splits)

interpretation admin_role: managed roleMeta roleMeta_update same_role cr
  "NamespacedName '''' (aggregateRoleName ''aggregate-to-admin'')"
  "wantedAggregateRole ''aggregate-to-admin'' GetAggregateToAdminPolicyRules cr"
  "fixRules GetAggregateToAdminPolicyRules" for cr
  by (rule aggregate_managed) (simp add: sublist_code)

interpretation edit_role: managed roleMeta roleMeta_update same_role cr
  "NamespacedName '''' (aggregateRoleName ''aggregate-to-edit'')"
  "wantedAggregateRole ''aggregate-to-edit'' GetAggregateToEditPolicyRules cr"
  "fixRules GetAggregateToEditPolicyRules" for cr
  by (rule aggregate_managed) (simp add: sublist_code)

interpretation view_role: managed roleMeta roleMeta_update same_role cr
  "NamespacedName '''' (aggregateRoleName ''aggregate-to-view'')"
  "wantedAggregateRole ''aggregate-to-view'' GetAggregateToViewPolicyRules cr"
  "fixRules GetAggregateToViewPolicyRules" for cr
  by (rule aggregate_managed) (simp add: sublist_code)

section \<open>The reconcilers are instances of ensure\<close>

lemma role_update_commute: "x\<lparr>roleMeta := m, roleRules := rules\<rparr> = x\<lparr>roleRules := rules, roleMeta := m\<rparr>"
  by (cases x) simp

lemma meta_updates:
  "x\<lparr>saMeta := adoptMeta (saMeta x) e\<rparr> = saMeta_update (\<lambda>m. adoptMeta m e) x"
  by (cases x) simp

lemma compareRole_repair:
  "(case compareRole cr e rules live of (updateNeeded, live) \<Rightarrow> updateIfNeeded ops updateNeeded live w) =
     (case repairObject roleMeta roleMeta_update cr e (fixRules rules) live of
        None \<Rightarrow> (Ok live, w) | Some live' \<Rightarrow> lift (kupdate ops live' w))"
  by (cases live) (auto simp: compareRole_def repairObject_def fixRules_def updateIfNeeded_def Let_def)

lemma compareRole_discard:
  "(case compareRole cr e rules live of (updateNeeded, live) \<Rightarrow> discard (updateIfNeeded ops updateNeeded live w)) =
     discard (case repairObject roleMeta roleMeta_update cr e (fixRules rules) live of
        None \<Rightarrow> (Ok live, w) | Some live' \<Rightarrow> lift (kupdate ops live' w))"
  by (simp add: compareRole_repair [symmetric] split: prod.split)

lemma compareBinding_repair:
  "(case compareBinding cr expected live of (updateNeeded, live) \<Rightarrow> updateIfNeeded ops updateNeeded live w) =
     (case repairObject rbMeta rbMeta_update cr (rbMeta expected) (fixSubjects (rbSubjects expected)) live of
        None \<Rightarrow> (Ok live, w) | Some live' \<Rightarrow> lift (kupdate ops live' w))"
  by (cases live) (auto simp: compareBinding_def repairObject_def fixSubjects_def updateIfNeeded_def Let_def)

lemma compareBinding_discard:
  "(case compareBinding cr expected live of (updateNeeded, live) \<Rightarrow> discard (updateIfNeeded ops updateNeeded live w)) =
     discard (case repairObject rbMeta rbMeta_update cr (rbMeta expected) (fixSubjects (rbSubjects expected)) live of
        None \<Rightarrow> (Ok live, w) | Some live' \<Rightarrow> lift (kupdate ops live' w))"
  by (simp add: compareBinding_repair [symmetric] split: prod.split)

lemma serviceAccount_ensure:
  "reconcileRolloutsServiceAccount r cr w = ensure (kServiceAccounts (Client r)) (rolloutsKey cr)
     (errorf_w (''failed to get the ServiceAccount associated with '' @ DefaultArgoRolloutsResourceName @ '': ''))
     (\<lambda>e. e) (\<lambda>e. e) (withOwner (Platform r) cr saMeta_update (saMeta (expectedServiceAccount cr)) (expectedServiceAccount cr))
     (service_account.repair cr) w"
  by (auto simp: reconcileRolloutsServiceAccount_def ensure_plain withOwner_def Let_def repairObject_def updateIfNeeded_def meta_updates split: prod.splits sum.splits)

lemma role_ensure:
  "reconcileRolloutsRole r cr w =
     andThen (dropStale (kClusterRoles (Client r)) '''' DefaultArgoRolloutsResourceName
         (errorf_w (''failed to delete existing ClusterRole '' @ DefaultArgoRolloutsResourceName @ '': '')) w)
     (\<lambda>_. ensure (kRoles (Client r)) (rolloutsKey cr)
        (errorf_w (''failed to reconcile the Role for the ServiceAccount associated with '' @
           DefaultArgoRolloutsResourceName @ '': ''))
        (\<lambda>e. e) (\<lambda>e. e) (withOwner (Platform r) cr roleMeta_update (roleMeta (expectedRole cr)) (wantedRole cr))
        (ns_role.repair cr))"
  by (auto simp: reconcileRolloutsRole_def ensure_plain withOwner_def Let_def compareRole_repair role_update_commute
      wantedRole_def fun_eq_iff intro!: arg_cong [where f = "andThen _"] split: prod.splits sum.splits)

lemma clusterRole_ensure:
  "reconcileRolloutsClusterRole r cr w =
     andThen (dropStale (kRoles (Client r)) (crNamespace cr) DefaultArgoRolloutsResourceName
         (errorf_w (''failed to delete existing Role '' @ DefaultArgoRolloutsResourceName @
            '' for Namespace '' @ crNamespace cr @ '': '')) w)
     (\<lambda>_. ensure (kClusterRoles (Client r)) clusterKey
        (errorf_w (''failed to Reconcile the ClusterRole for the ServiceAccount associated with '' @
           DefaultArgoRolloutsResourceName @ '': ''))
        (\<lambda>e. e) (\<lambda>e. e) (Inr (wantedClusterRole cr)) (cl_role.repair cr))"
  by (auto simp: reconcileRolloutsClusterRole_def ensure_plain Let_def compareRole_repair role_update_commute
      wantedClusterRole_def fun_eq_iff intro!: arg_cong [where f = "andThen _"] split: prod.splits sum.splits)

lemma aggregate_ensure:
  "reconcileRolloutsAggregateToAdminClusterRole r cr w = discard (ensure (kClusterRoles (Client r))
     (NamespacedName '''' (aggregateRoleName ''aggregate-to-admin''))
     (errorf_w (''failed to reconcile the aggregated ClusterRole '' @ aggregateRoleName ''aggregate-to-admin'' @ '': ''))
     (\<lambda>e. e) (\<lambda>e. e) (Inr (wantedAggregateRole ''aggregate-to-admin'' GetAggregateToAdminPolicyRules cr))
     (admin_role.repair cr) w)"
  "reconcileRolloutsAggregateToEditClusterRole r cr w = discard (ensure (kClusterRoles (Client r))
     (NamespacedName '''' (aggregateRoleName ''aggregate-to-edit''))
     (errorf_w (''failed to reconcile the aggregated ClusterRole '' @ aggregateRoleName ''aggregate-to-edit'' @ '': ''))
     (\<lambda>e. e) (\<lambda>e. e) (Inr (wantedAggregateRole ''aggregate-to-edit'' GetAggregateToEditPolicyRules cr))
     (edit_role.repair cr) w)"
  "reconcileRolloutsAggregateToViewClusterRole r cr w = discard (ensure (kClusterRoles (Client r))
     (NamespacedName '''' (aggregateRoleName ''aggregate-to-view''))
     (errorf_w (''failed to reconcile the aggregated ClusterRole '' @ aggregateRoleName ''aggregate-to-view'' @ '': ''))
     (\<lambda>e. e) (\<lambda>e. e) (Inr (wantedAggregateRole ''aggregate-to-view'' GetAggregateToViewPolicyRules cr))
     (view_role.repair cr) w)"
  by (auto simp: reconcileRolloutsAggregateToAdminClusterRole_def reconcileRolloutsAggregateToEditClusterRole_def
      reconcileRolloutsAggregateToViewClusterRole_def discard_ensure Let_def
      compareRole_discard wantedAggregateRole_def split: prod.splits sum.splits)

lemma roleBinding_ensure:
  "reconcileRolloutsRoleBinding r cr (Some role) (Some sa) w =
     andThen (dropStale (kClusterRoleBindings (Client r)) '''' DefaultArgoRolloutsResourceName
         (errorf_w (''failed to delete existing ClusterRoleBinding '' @ DefaultArgoRolloutsResourceName @ '': '')) w)
     (\<lambda>_ w. discard (ensure (kRoleBindings (Client r)) (rolloutsKey cr)
        (errorf_w (''failed to get the RoleBinding associated with '' @ DefaultArgoRolloutsResourceName @ '': ''))
        (\<lambda>e. e) (\<lambda>e. e) (withOwner (Platform r) cr rbMeta_update (rbMeta (expectedRoleBinding cr role sa)) (expectedRoleBinding cr role sa))
        (ns_binding.repair cr role sa) w))"
  by (auto simp: reconcileRolloutsRoleBinding_def discard_ensure withOwner_def Let_def
      compareBinding_discard expectedRoleBinding_def fun_eq_iff intro!: arg_cong [where f = "andThen _"] split: prod.splits sum.splits)

lemma clusterRoleBinding_ensure:
  "reconcileRolloutsClusterRoleBinding r (Some role) (Some sa) cr w =
     andThen (dropStale (kRoleBindings (Client r)) (crNamespace cr) DefaultArgoRolloutsResourceName
         (errorf_w (''failed to delete existing RoleBinding '' @ DefaultArgoRolloutsResourceName @
            '' for Namespace '' @ crNamespace cr @ '': '')) w)
     (\<lambda>_ w. discard (ensure (kClusterRoleBindings (Client r)) clusterKey
        (errorf_w (''failed to get the ClusterRoleBinding associated with '' @ DefaultArgoRolloutsResourceName @ '': ''))
        (\<lambda>e. e) (\<lambda>e. e) (Inr (expectedClusterRoleBinding cr role sa))
        (cl_binding.repair cr role sa) w))"
  by (auto simp: reconcileRolloutsClusterRoleBinding_def discard_ensure Let_def
      compareBinding_discard expectedClusterRoleBinding_def fun_eq_iff intro!: arg_cong [where f = "andThen _"] split: prod.splits sum.splits)

section \<open>What one run leaves behind\<close>

interpretation mem_service_account: managed_api "\<lambda>c. c" "kServiceAccounts mem_client" saMeta
  cluServiceAccounts cluServiceAccounts_update same_service_account saMeta_update cr "rolloutsKey cr"
  "expectedServiceAccount cr" "\<lambda>_. None" for cr
  by unfold_locales

interpretation mem_ns_role: managed_api "\<lambda>c. c" "kRoles mem_client" roleMeta
  cluRoles cluRoles_update same_role roleMeta_update cr "rolloutsKey cr"
  "wantedRole cr" "fixRules GetPolicyRules" for cr
  by unfold_locales

interpretation mem_cl_role: managed_api "\<lambda>c. c" "kClusterRoles mem_client" roleMeta
  cluClusterRoles cluClusterRoles_update same_role roleMeta_update cr clusterKey
  "wantedClusterRole cr" "fixRules GetPolicyRules" for cr
  by unfold_locales

interpretation mem_ns_binding: managed_api "\<lambda>c. c" "kRoleBindings mem_client" rbMeta
  cluRoleBindings cluRoleBindings_update same_role_binding rbMeta_update cr "rolloutsKey cr"
  "expectedRoleBinding cr role sa" "fixSubjects (slice [serviceAccountSubject sa])" for cr role sa
  by unfold_locales

interpretation mem_cl_binding: managed_api "\<lambda>c. c" "kClusterRoleBindings mem_client" rbMeta
  cluClusterRoleBindings cluClusterRoleBindings_update same_role_binding rbMeta_update cr clusterKey
  "expectedClusterRoleBinding cr role sa" "fixSubjects (slice [serviceAccountSubject sa])" for cr role sa
  by unfold_locales

text \<open>The same contracts for an arbitrary conforming client.\<close>

lemma rbac_apis:
  assumes "cluster_api view c"
  shows api_sa: "managed_api view (kServiceAccounts c) saMeta cluServiceAccounts cluServiceAccounts_update
      same_service_account saMeta_update cr (rolloutsKey cr) (expectedServiceAccount cr) (\<lambda>_. None)"
    and api_role: "managed_api view (kRoles c) roleMeta cluRoles cluRoles_update same_role roleMeta_update cr
      (rolloutsKey cr) (wantedRole cr) (fixRules GetPolicyRules)"
    and api_cl_role: "managed_api view (kClusterRoles c) roleMeta cluClusterRoles cluClusterRoles_update
      same_role roleMeta_update cr clusterKey (wantedClusterRole cr) (fixRules GetPolicyRules)"
    and api_aggregate: "sublist ''aggregate'' t \<Longrightarrow> managed_api view (kClusterRoles c) roleMeta cluClusterRoles
      cluClusterRoles_update same_role roleMeta_update cr (NamespacedName '''' (aggregateRoleName t))
      (wantedAggregateRole t rules cr) (fixRules rules)"
    and api_binding: "managed_api view (kRoleBindings c) rbMeta cluRoleBindings cluRoleBindings_update
      same_role_binding rbMeta_update cr (rolloutsKey cr) (expectedRoleBinding cr role sa)
      (fixSubjects (slice [serviceAccountSubject sa]))"
    and api_cl_binding: "managed_api view (kClusterRoleBindings c) rbMeta cluClusterRoleBindings
      cluClusterRoleBindings_update same_role_binding rbMeta_update cr clusterKey
      (expectedClusterRoleBinding cr role sa) (fixSubjects (slice [serviceAccountSubject sa]))"
  using cluster_apiD [OF assms]
  by (simp_all add: managed_api_def service_account.managed_axioms ns_role.managed_axioms
      cl_role.managed_axioms ns_binding.managed_axioms cl_binding.managed_axioms aggregate_managed)

lemma expected_owner_simps [simp]:
  "mOwners (saMeta (expectedServiceAccount cr)) = []" "mNamespace (saMeta (expectedServiceAccount cr)) = crNamespace cr"
  "mOwners (roleMeta (expectedRole cr)) = []" "mNamespace (roleMeta (expectedRole cr)) = crNamespace cr"
  "mOwners (rbMeta (expectedRoleBinding cr role sa)) = []"
  "mNamespace (rbMeta (expectedRoleBinding cr role sa)) = crNamespace cr"
  by (simp_all add: expectedServiceAccount_def expectedRole_def expectedRoleBinding_def)

lemma serviceAccount_settles:
  assumes "cluster_api view (Client r)" "owner_contract (Platform r)" "keyed saMeta (cluServiceAccounts (view w))"
    and "tameAt saMeta (cluServiceAccounts (view w)) (rolloutsKey cr) (saMeta (expectedServiceAccount cr))"
  shows "\<exists>x w'. reconcileRolloutsServiceAccount r cr w = (Ok x, w') \<and> service_account.repair cr x = None \<and>
    metaKey (saMeta x) = rolloutsKey cr \<and>
    view w' = cluServiceAccounts_update (fmupd (rolloutsKey cr) x) (view w)"
  unfolding serviceAccount_ensure
  by (rule managed_api.owned_settles [OF api_sa [OF assms(1)] assms(2) _ _ assms(3,4)]) simp_all

lemma serviceAccount_settled:
  assumes "cluster_api view (Client r)" "keyed saMeta (cluServiceAccounts (view w))"
    and "settledAt (cluServiceAccounts (view w)) (rolloutsKey cr) (service_account.repair cr)"
  shows "\<exists>x w'. reconcileRolloutsServiceAccount r cr w = (Ok x, w') \<and> metaKey (saMeta x) = rolloutsKey cr \<and>
    fmlookup (cluServiceAccounts (view w)) (rolloutsKey cr) = Some x \<and> view w' = view w"
  unfolding serviceAccount_ensure
  by (rule managed_api.run_settled [OF api_sa [OF assms(1)] assms(3,2)])

lemma role_settles:
  assumes "cluster_api view (Client r)" "owner_contract (Platform r)" "keyed roleMeta (cluRoles (view w))"
    and "keyed roleMeta (cluClusterRoles (view w))"
    and "tameAt roleMeta (cluRoles (view w)) (rolloutsKey cr) (roleMeta (expectedRole cr))"
  shows "\<exists>x w'. reconcileRolloutsRole r cr w = (Ok x, w') \<and> ns_role.repair cr x = None \<and>
    metaKey (roleMeta x) = rolloutsKey cr \<and>
    view w' = cluRoles_update (fmupd (rolloutsKey cr) x) (cluClusterRoles_update (fmdrop clusterKey) (view w))"
proof -
  obtain w1 where w1: "dropStale (kClusterRoles (Client r)) '''' DefaultArgoRolloutsResourceName
      (errorf_w (''failed to delete existing ClusterRole '' @ DefaultArgoRolloutsResourceName @ '': '')) w = (Ok (), w1)"
      "view w1 = cluClusterRoles_update (fmdrop clusterKey) (view w)"
    using kind_api.dropStale_drops [OF api_cluster_roles [OF assms(1)] assms(4)] by blast
  show ?thesis
    unfolding role_ensure w1(1) andThen_simps
    using managed_api.owned_settles [OF api_role [OF assms(1)] assms(2), where cr = cr and w = w1] assms(3,5)
    by (simp add: w1(2))
qed

lemma role_settled:
  assumes "cluster_api view (Client r)" "keyed roleMeta (cluRoles (view w))"
    and "keyed roleMeta (cluClusterRoles (view w))" "fmlookup (cluClusterRoles (view w)) clusterKey = None"
    and "settledAt (cluRoles (view w)) (rolloutsKey cr) (ns_role.repair cr)"
  shows "\<exists>x w'. reconcileRolloutsRole r cr w = (Ok x, w') \<and> metaKey (roleMeta x) = rolloutsKey cr \<and>
    fmlookup (cluRoles (view w)) (rolloutsKey cr) = Some x \<and> view w' = view w"
proof -
  note stale = api_cluster_roles [OF assms(1)]
  obtain w1 where w1: "dropStale (kClusterRoles (Client r)) '''' DefaultArgoRolloutsResourceName
      (errorf_w (''failed to delete existing ClusterRole '' @ DefaultArgoRolloutsResourceName @ '': '')) w = (Ok (), w1)"
      "view w1 = view w"
    using kind_api.dropStale_drops [OF stale assms(3)] kind_api.put_drop_absent [OF stale assms(4)] by metis
  show ?thesis
    unfolding role_ensure w1(1) andThen_simps
    using managed_api.run_settled [OF api_role [OF assms(1)], where cr = cr and w = w1] assms(2,5)
    by (simp add: w1(2))
qed

lemma clusterRole_settles:
  assumes "cluster_api view (Client r)" "keyed roleMeta (cluRoles (view w))" "keyed roleMeta (cluClusterRoles (view w))"
    and "tameAt roleMeta (cluClusterRoles (view w)) clusterKey (roleMeta (expectedClusterRole cr))"
  shows "\<exists>x w'. reconcileRolloutsClusterRole r cr w = (Ok x, w') \<and> cl_role.repair cr x = None \<and>
    metaKey (roleMeta x) = clusterKey \<and>
    view w' = cluClusterRoles_update (fmupd clusterKey x) (cluRoles_update (fmdrop (rolloutsKey cr)) (view w))"
proof -
  obtain w1 where w1: "dropStale (kRoles (Client r)) (crNamespace cr) DefaultArgoRolloutsResourceName
      (errorf_w (''failed to delete existing Role '' @ DefaultArgoRolloutsResourceName @
        '' for Namespace '' @ crNamespace cr @ '': '')) w = (Ok (), w1)"
      "view w1 = cluRoles_update (fmdrop (rolloutsKey cr)) (view w)"
    using kind_api.dropStale_drops [OF api_roles [OF assms(1)] assms(2)] by blast
  show ?thesis
    unfolding clusterRole_ensure w1(1) andThen_simps
    using managed_api.plain_settles [OF api_cl_role [OF assms(1)], where cr = cr and w = w1] assms(3,4)
    by (simp add: w1(2))
qed

lemma clusterRole_settled:
  assumes "cluster_api view (Client r)" "keyed roleMeta (cluRoles (view w))" "keyed roleMeta (cluClusterRoles (view w))"
    and "fmlookup (cluRoles (view w)) (rolloutsKey cr) = None"
    and "settledAt (cluClusterRoles (view w)) clusterKey (cl_role.repair cr)"
  shows "\<exists>x w'. reconcileRolloutsClusterRole r cr w = (Ok x, w') \<and> metaKey (roleMeta x) = clusterKey \<and>
    fmlookup (cluClusterRoles (view w)) clusterKey = Some x \<and> view w' = view w"
proof -
  note stale = api_roles [OF assms(1)]
  obtain w1 where w1: "dropStale (kRoles (Client r)) (crNamespace cr) DefaultArgoRolloutsResourceName
      (errorf_w (''failed to delete existing Role '' @ DefaultArgoRolloutsResourceName @
        '' for Namespace '' @ crNamespace cr @ '': '')) w = (Ok (), w1)" "view w1 = view w"
    using kind_api.dropStale_drops [OF stale assms(2)] kind_api.put_drop_absent [OF stale assms(4)] by metis
  show ?thesis
    unfolding clusterRole_ensure w1(1) andThen_simps
    using managed_api.run_settled [OF api_cl_role [OF assms(1)], where cr = cr and w = w1] assms(3,5)
    by (simp add: w1(2))
qed

text \<open>The three aggregated roles, by the type in their name.\<close>

abbreviation aggregateKey :: "string \<Rightarrow> namespaced_name" where
  "aggregateKey t \<equiv> NamespacedName '''' (aggregateRoleName t)"

definition aggregateRepair :: "string \<Rightarrow> policy_rule slice \<Rightarrow> rollout_manager \<Rightarrow> role \<Rightarrow> role option" where
  "aggregateRepair t rules cr = repairObject roleMeta roleMeta_update cr (roleMeta (expectedAggregateRole t cr)) (fixRules rules)"

lemma aggregate_run_settles:
  assumes "cluster_api view (Client r)" "keyed roleMeta (cluClusterRoles (view w))"
    and "tameAt roleMeta (cluClusterRoles (view w)) (aggregateKey t) (roleMeta (expectedAggregateRole t cr))"
    and "sublist ''aggregate'' t"
  shows "\<exists>x w'. discard (ensure (kClusterRoles (Client r)) (aggregateKey t) wg (\<lambda>e. e) (\<lambda>e. e)
      (Inr (wantedAggregateRole t rules cr)) (aggregateRepair t rules cr) w) = (Ok (), w') \<and>
    aggregateRepair t rules cr x = None \<and> metaKey (roleMeta x) = aggregateKey t \<and>
    view w' = cluClusterRoles_update (fmupd (aggregateKey t) x) (view w)"
proof -
  obtain x w' where "ensure (kClusterRoles (Client r)) (aggregateKey t) wg (\<lambda>e. e) (\<lambda>e. e)
      (Inr (wantedAggregateRole t rules cr)) (aggregateRepair t rules cr) w = (Ok x, w')"
    "aggregateRepair t rules cr x = None" "metaKey (roleMeta x) = aggregateKey t"
    "view w' = cluClusterRoles_update (fmupd (aggregateKey t) x) (view w)"
    using managed_api.plain_settles [OF api_aggregate [OF assms(1,4), where cr = cr and rules = rules], where w = w and wg = wg and wc = "\<lambda>e. e" and wu = "\<lambda>e. e"] assms(2,3)
    by (auto simp: aggregateRepair_def)
  then show ?thesis by (intro exI [of _ x] exI [of _ w']) simp
qed

lemma aggregate_run_settled:
  assumes "cluster_api view (Client r)" "keyed roleMeta (cluClusterRoles (view w))"
    and "settledAt (cluClusterRoles (view w)) (aggregateKey t) (aggregateRepair t rules cr)"
    and "sublist ''aggregate'' t"
  shows "\<exists>w'. discard (ensure (kClusterRoles (Client r)) (aggregateKey t) wg (\<lambda>e. e) (\<lambda>e. e)
      (Inr (wantedAggregateRole t rules cr)) (aggregateRepair t rules cr) w) = (Ok (), w') \<and> view w' = view w"
proof -
  obtain x w' where "ensure (kClusterRoles (Client r)) (aggregateKey t) wg (\<lambda>e. e) (\<lambda>e. e)
      (Inr (wantedAggregateRole t rules cr)) (aggregateRepair t rules cr) w = (Ok x, w')" "view w' = view w"
    using managed_api.run_settled [OF api_aggregate [OF assms(1,4), where cr = cr and rules = rules], where w = w and wg = wg and wc = "\<lambda>e. e" and wu = "\<lambda>e. e" and fresh = "Inr (wantedAggregateRole t rules cr)"] assms(2,3)
    by (auto simp: aggregateRepair_def)
  then show ?thesis by (intro exI [of _ w']) simp
qed

lemma aggregate_types:
  "sublist ''aggregate'' ''aggregate-to-admin''" "sublist ''aggregate'' ''aggregate-to-edit''"
  "sublist ''aggregate'' ''aggregate-to-view''"
  by (simp_all add: sublist_code)

lemmas aggregate_runs = aggregate_ensure
  [unfolded wanted_simps, folded aggregateRepair_def]

text \<open>
  The bindings: the subject of both is the service account of the operator, whatever object
  holds it, and the repair does not depend on the role.
\<close>

definition rolloutsSubject :: "rollout_manager \<Rightarrow> subject" where
  "rolloutsSubject cr = \<lparr>subKind = ''ServiceAccount'', subAPIGroup = '''',
     subName = DefaultArgoRolloutsResourceName, subNamespace = crNamespace cr\<rparr>"

definition bindingRepair :: "rollout_manager \<Rightarrow> string \<Rightarrow> role_binding \<Rightarrow> role_binding option" where
  "bindingRepair cr ns = repairObject rbMeta rbMeta_update cr
     (setRolloutsLabelsAndAnnotationsToObject (newMeta DefaultArgoRolloutsResourceName ns) cr)
     (fixSubjects (slice [rolloutsSubject cr]))"

lemma rolloutsSubject_eq: "metaKey (saMeta sa) = rolloutsKey cr \<Longrightarrow> serviceAccountSubject sa = rolloutsSubject cr"
  by (simp add: metaKey_def serviceAccountSubject_def rolloutsSubject_def)

lemma bindingRepair_eq:
  assumes "metaKey (saMeta sa) = rolloutsKey cr"
  shows "ns_binding.repair cr role sa = bindingRepair cr (crNamespace cr)"
    and "cl_binding.repair cr role sa = bindingRepair cr ''''"
  by (simp_all add: bindingRepair_def expectedRoleBinding_def expectedClusterRoleBinding_def
      rolloutsSubject_eq [OF assms])

lemma roleBinding_settles:
  assumes "cluster_api view (Client r)" "owner_contract (Platform r)" "keyed rbMeta (cluRoleBindings (view w))"
    and "keyed rbMeta (cluClusterRoleBindings (view w))"
    and "tameAt rbMeta (cluRoleBindings (view w)) (rolloutsKey cr) (rbMeta (expectedRoleBinding cr role sa))"
    and "metaKey (saMeta sa) = rolloutsKey cr"
  shows "\<exists>x w'. reconcileRolloutsRoleBinding r cr (Some role) (Some sa) w = (Ok (), w') \<and>
    bindingRepair cr (crNamespace cr) x = None \<and> metaKey (rbMeta x) = rolloutsKey cr \<and>
    view w' = cluRoleBindings_update (fmupd (rolloutsKey cr) x)
      (cluClusterRoleBindings_update (fmdrop clusterKey) (view w))"
proof -
  obtain w1 where w1: "dropStale (kClusterRoleBindings (Client r)) '''' DefaultArgoRolloutsResourceName
      (errorf_w (''failed to delete existing ClusterRoleBinding '' @ DefaultArgoRolloutsResourceName @ '': '')) w = (Ok (), w1)"
      "view w1 = cluClusterRoleBindings_update (fmdrop clusterKey) (view w)"
    using kind_api.dropStale_drops [OF api_cluster_role_bindings [OF assms(1)] assms(4)] by blast
  obtain x w' where x: "ensure (kRoleBindings (Client r)) (rolloutsKey cr)
        (errorf_w (''failed to get the RoleBinding associated with '' @ DefaultArgoRolloutsResourceName @ '': ''))
        (\<lambda>e. e) (\<lambda>e. e) (withOwner (Platform r) cr rbMeta_update (rbMeta (expectedRoleBinding cr role sa)) (expectedRoleBinding cr role sa))
        (ns_binding.repair cr role sa) w1 = (Ok x, w')"
    "ns_binding.repair cr role sa x = None" "metaKey (rbMeta x) = rolloutsKey cr"
    "view w' = cluRoleBindings_update (fmupd (rolloutsKey cr) x) (view w1)"
    using managed_api.owned_settles [OF api_binding [OF assms(1), where cr = cr and role = role and sa = sa] assms(2), where w = w1] assms(3,5)
    by (simp add: w1(2)) blast
  show ?thesis
    unfolding roleBinding_ensure w1(1) andThen_simps x(1)
    using x(2,3,4) w1(2) bindingRepair_eq [OF assms(6)] by auto
qed

lemma roleBinding_settled:
  assumes "cluster_api view (Client r)" "keyed rbMeta (cluRoleBindings (view w))"
    and "keyed rbMeta (cluClusterRoleBindings (view w))" "fmlookup (cluClusterRoleBindings (view w)) clusterKey = None"
    and "settledAt (cluRoleBindings (view w)) (rolloutsKey cr) (bindingRepair cr (crNamespace cr))"
    and "metaKey (saMeta sa) = rolloutsKey cr"
  shows "\<exists>w'. reconcileRolloutsRoleBinding r cr (Some role) (Some sa) w = (Ok (), w') \<and> view w' = view w"
proof -
  note stale = api_cluster_role_bindings [OF assms(1)]
  obtain w1 where w1: "dropStale (kClusterRoleBindings (Client r)) '''' DefaultArgoRolloutsResourceName
      (errorf_w (''failed to delete existing ClusterRoleBinding '' @ DefaultArgoRolloutsResourceName @ '': '')) w = (Ok (), w1)"
      "view w1 = view w"
    using kind_api.dropStale_drops [OF stale assms(3)] kind_api.put_drop_absent [OF stale assms(4)] by metis
  obtain x w' where x: "ensure (kRoleBindings (Client r)) (rolloutsKey cr)
        (errorf_w (''failed to get the RoleBinding associated with '' @ DefaultArgoRolloutsResourceName @ '': ''))
        (\<lambda>e. e) (\<lambda>e. e) (withOwner (Platform r) cr rbMeta_update (rbMeta (expectedRoleBinding cr role sa)) (expectedRoleBinding cr role sa))
        (ns_binding.repair cr role sa) w1 = (Ok x, w')" "view w' = view w1"
    using managed_api.run_settled [OF api_binding [OF assms(1), where cr = cr and role = role and sa = sa], where w = w1]
      assms(2,5) unfolding bindingRepair_eq [OF assms(6)] by (simp add: w1(2)) blast
  show ?thesis
    unfolding roleBinding_ensure w1(1) andThen_simps x(1) using x(2) w1(2) by simp
qed

lemma clusterRoleBinding_settles:
  assumes "cluster_api view (Client r)" "keyed rbMeta (cluRoleBindings (view w))"
    and "keyed rbMeta (cluClusterRoleBindings (view w))"
    and "tameAt rbMeta (cluClusterRoleBindings (view w)) clusterKey (rbMeta (expectedClusterRoleBinding cr role sa))"
    and "metaKey (saMeta sa) = rolloutsKey cr"
  shows "\<exists>x w'. reconcileRolloutsClusterRoleBinding r (Some role) (Some sa) cr w = (Ok (), w') \<and>
    bindingRepair cr '''' x = None \<and> metaKey (rbMeta x) = clusterKey \<and>
    view w' = cluClusterRoleBindings_update (fmupd clusterKey x)
      (cluRoleBindings_update (fmdrop (rolloutsKey cr)) (view w))"
proof -
  obtain w1 where w1: "dropStale (kRoleBindings (Client r)) (crNamespace cr) DefaultArgoRolloutsResourceName
      (errorf_w (''failed to delete existing RoleBinding '' @ DefaultArgoRolloutsResourceName @
        '' for Namespace '' @ crNamespace cr @ '': '')) w = (Ok (), w1)"
      "view w1 = cluRoleBindings_update (fmdrop (rolloutsKey cr)) (view w)"
    using kind_api.dropStale_drops [OF api_role_bindings [OF assms(1)] assms(2)] by blast
  obtain x w' where x: "ensure (kClusterRoleBindings (Client r)) clusterKey
        (errorf_w (''failed to get the ClusterRoleBinding associated with '' @ DefaultArgoRolloutsResourceName @ '': ''))
        (\<lambda>e. e) (\<lambda>e. e) (Inr (expectedClusterRoleBinding cr role sa)) (cl_binding.repair cr role sa) w1 = (Ok x, w')"
    "cl_binding.repair cr role sa x = None" "metaKey (rbMeta x) = clusterKey"
    "view w' = cluClusterRoleBindings_update (fmupd clusterKey x) (view w1)"
    using managed_api.plain_settles [OF api_cl_binding [OF assms(1), where cr = cr and role = role and sa = sa],
        where w = w1] assms(3,4)
    by (simp add: w1(2)) blast
  show ?thesis
    unfolding clusterRoleBinding_ensure w1(1) andThen_simps x(1)
    using x(2,3,4) w1(2) bindingRepair_eq [OF assms(5)] by auto
qed

lemma clusterRoleBinding_settled:
  assumes "cluster_api view (Client r)" "keyed rbMeta (cluRoleBindings (view w))"
    and "keyed rbMeta (cluClusterRoleBindings (view w))" "fmlookup (cluRoleBindings (view w)) (rolloutsKey cr) = None"
    and "settledAt (cluClusterRoleBindings (view w)) clusterKey (bindingRepair cr '''')"
    and "metaKey (saMeta sa) = rolloutsKey cr"
  shows "\<exists>w'. reconcileRolloutsClusterRoleBinding r (Some role) (Some sa) cr w = (Ok (), w') \<and> view w' = view w"
proof -
  note stale = api_role_bindings [OF assms(1)]
  obtain w1 where w1: "dropStale (kRoleBindings (Client r)) (crNamespace cr) DefaultArgoRolloutsResourceName
      (errorf_w (''failed to delete existing RoleBinding '' @ DefaultArgoRolloutsResourceName @
        '' for Namespace '' @ crNamespace cr @ '': '')) w = (Ok (), w1)" "view w1 = view w"
    using kind_api.dropStale_drops [OF stale assms(2)] kind_api.put_drop_absent [OF stale assms(4)] by metis
  obtain x w' where x: "ensure (kClusterRoleBindings (Client r)) clusterKey
        (errorf_w (''failed to get the ClusterRoleBinding associated with '' @ DefaultArgoRolloutsResourceName @ '': ''))
        (\<lambda>e. e) (\<lambda>e. e) (Inr (expectedClusterRoleBinding cr role sa)) (cl_binding.repair cr role sa) w1 = (Ok x, w')"
      "view w' = view w1"
    using managed_api.run_settled [OF api_cl_binding [OF assms(1), where cr = cr and role = role and sa = sa],
        where w = w1] assms(3,5)
    unfolding bindingRepair_eq [OF assms(6)] by (simp add: w1(2)) blast
  show ?thesis
    unfolding clusterRoleBinding_ensure w1(1) andThen_simps x(1) using x(2) w1(2) by simp
qed

text \<open>Removing the cluster-scoped resources, step by step.\<close>

lemma removeAggregateRoles_drops:
  assumes "cluster_api view (Client r)" "keyed roleMeta (cluClusterRoles (view w))"
  shows "\<exists>w'. removeAggregateRoles r ts w = (Ok (), w') \<and>
    view w' = cluClusterRoles_update (fold (\<lambda>t. fmdrop (aggregateKey t)) ts) (view w)"
  using assms(2)
proof (induction ts arbitrary: w)
  case (Cons t ts)
  obtain w1 where w1: "removeIfExists (kClusterRoles (Client r)) (aggregateKey t) w = (Ok (), w1)"
      "view w1 = cluClusterRoles_update (fmdrop (aggregateKey t)) (view w)"
    using kind_api.removeIfExists_drops [OF api_cluster_roles [OF assms(1)] Cons.prems] by blast
  have "keyed roleMeta (cluClusterRoles (view w1))" using Cons.prems by (auto simp: w1(2))
  from Cons.IH [OF this] w1 show ?case by (auto simp: aggregateRoleName_def comp_def)
qed simp

section \<open>Properties\<close>

text \<open>What a list of rules grants, as the RBAC authorizer reads it.\<close>

definition matches :: "string slice \<Rightarrow> string \<Rightarrow> bool" where
  "matches s x \<longleftrightarrow> ''*'' \<in> set (elems s) \<or> x \<in> set (elems s)"

definition grants :: "policy_rule slice \<Rightarrow> string \<Rightarrow> string \<Rightarrow> string \<Rightarrow> bool" where
  "grants rules apiGroup resource verb \<longleftrightarrow> list_ex (\<lambda>rule. matches (pruleAPIGroups rule) apiGroup \<and>
     matches (pruleResources rule) resource \<and> matches (pruleVerbs rule) verb) (elems rules)"

lemmas policy_rules_defs = GetPolicyRules_def argoprojPolicyRules_def workloadPolicyRules_def
  trafficPolicyRules_def meshPolicyRules_def GetAggregateToAdminPolicyRules_def
  GetAggregateToEditPolicyRules_def GetAggregateToViewPolicyRules_def policyRule_def slice_def

text \<open>
  The aggregated roles are ordered: admin and edit grant the same, and view grants exactly
  the reading part of it, without the status of rollouts.
\<close>

theorem aggregate_rules_ordered:
  "(\<forall>g res v. grants GetAggregateToAdminPolicyRules g res v \<longleftrightarrow> grants GetAggregateToEditPolicyRules g res v) \<and>
   (\<forall>g res v. grants GetAggregateToViewPolicyRules g res v \<longleftrightarrow>
      grants GetAggregateToEditPolicyRules g res v \<and> v \<in> {''get'', ''list'', ''watch''} \<and> res \<noteq> ''rollouts/status'')"
proof (intro conjI allI)
  show "grants GetAggregateToAdminPolicyRules g res v \<longleftrightarrow> grants GetAggregateToEditPolicyRules g res v" for g res v
    by (simp add: grants_def matches_def policy_rules_defs)
  show "grants GetAggregateToViewPolicyRules g res v \<longleftrightarrow>
      grants GetAggregateToEditPolicyRules g res v \<and> v \<in> {''get'', ''list'', ''watch''} \<and> res \<noteq> ''rollouts/status''" for g res v
    by (auto simp: grants_def matches_def policy_rules_defs)
qed

text \<open>
  C14: Reconciling the Role of a namespace-scoped instance on a conforming cluster succeeds; the
  Role then has exactly the rules of the operator and up-to-date metadata, the ClusterRole of the
  same name is gone, and no other object has changed.
\<close>

theorem role_reconciled:
  assumes "cluster_api view (Client r)" "owner_contract (Platform r)" "keyed roleMeta (cluRoles (view w))"
    and "keyed roleMeta (cluClusterRoles (view w))"
    and "tameAt roleMeta (cluRoles (view w)) (rolloutsKey cr) (roleMeta (expectedRole cr))"
  shows "\<exists>x w'. reconcileRolloutsRole r cr w = (Ok x, w') \<and> roleRules x = GetPolicyRules \<and>
    \<not> metaOutdated cr (roleMeta x) (roleMeta (expectedRole cr)) \<and>
    view w' = cluRoles_update (fmupd (rolloutsKey cr) x) (cluClusterRoles_update (fmdrop clusterKey) (view w))"
proof -
  obtain x w' where "reconcileRolloutsRole r cr w = (Ok x, w')" "ns_role.repair cr x = None"
      "view w' = cluRoles_update (fmupd (rolloutsKey cr) x) (cluClusterRoles_update (fmdrop clusterKey) (view w))"
    using role_settles [OF assms] by blast
  then show ?thesis using ns_role.repair_None [of cr x] by (auto simp: fixRules_def split: if_splits)
qed

theorem role_reconciled_witness:
  "\<exists>x w'. reconcileRolloutsRole (memReconciler True) (basicRolloutManager ''rm'' ''ns'' True) emptyCluster = (Ok x, w') \<and>
     roleRules x = GetPolicyRules \<and> fmlookup (cluRoles w') (NamespacedName ''ns'' DefaultArgoRolloutsResourceName) = Some x"
proof -
  have "cluster_api (\<lambda>c. c) (Client (memReconciler True))" "owner_contract (Platform (memReconciler True))"
    by (simp_all add: memReconciler_def mem_cluster_api)
  from role_reconciled [OF this, of emptyCluster "basicRolloutManager ''rm'' ''ns'' True"]
  show ?thesis by (auto simp: emptyCluster_def tameAt_def)
qed

text \<open>
  Switching to a cluster-scoped instance: the ClusterRole ends up with the rules of the
  operator, the Role of the same name in the namespace of the resource is gone, and no other
  object has changed.
\<close>

theorem cluster_role_reconciled:
  assumes "cluster_api view (Client r)" "keyed roleMeta (cluRoles (view w))" "keyed roleMeta (cluClusterRoles (view w))"
    and "tameAt roleMeta (cluClusterRoles (view w)) clusterKey (roleMeta (expectedClusterRole cr))"
  shows "\<exists>x w'. reconcileRolloutsClusterRole r cr w = (Ok x, w') \<and> roleRules x = GetPolicyRules \<and>
    \<not> metaOutdated cr (roleMeta x) (roleMeta (expectedClusterRole cr)) \<and>
    view w' = cluClusterRoles_update (fmupd clusterKey x) (cluRoles_update (fmdrop (rolloutsKey cr)) (view w))"
proof -
  obtain x w' where "reconcileRolloutsClusterRole r cr w = (Ok x, w')" "cl_role.repair cr x = None"
      "view w' = cluClusterRoles_update (fmupd clusterKey x) (cluRoles_update (fmdrop (rolloutsKey cr)) (view w))"
    using clusterRole_settles [OF assms] by blast
  then show ?thesis using cl_role.repair_None [of cr x] by (auto simp: fixRules_def split: if_splits)
qed

theorem cluster_role_reconciled_witness:
  "\<exists>x w'. reconcileRolloutsClusterRole (memReconciler False) (basicRolloutManager ''rm'' ''ns'' False) emptyCluster = (Ok x, w') \<and>
     fmlookup (cluClusterRoles w') (NamespacedName '''' DefaultArgoRolloutsResourceName) = Some x"
proof -
  have "cluster_api (\<lambda>c. c) (Client (memReconciler False))"
    by (simp add: memReconciler_def mem_cluster_api)
  from cluster_role_reconciled [OF this, of emptyCluster "basicRolloutManager ''rm'' ''ns'' False"]
  show ?thesis by (auto simp: emptyCluster_def tameAt_def)
qed

text \<open>
  C39: The RoleRef of a RoleBinding is written when the binding is created and never looked at
  again: a binding whose subjects and metadata are right is left alone whatever role it refers to.
\<close>

theorem wrong_role_ref_kept:
  assumes "cluster_api view (Client r)" "keyed rbMeta (cluRoleBindings (view w))"
    and "keyed rbMeta (cluClusterRoleBindings (view w))" "fmlookup (cluClusterRoleBindings (view w)) clusterKey = None"
    and "fmlookup (cluRoleBindings (view w)) (rolloutsKey cr) = Some ((expectedRoleBinding cr role sa)\<lparr>rbRoleRef := ref\<rparr>)"
    and "metaKey (saMeta sa) = rolloutsKey cr"
  shows "\<exists>w'. reconcileRolloutsRoleBinding r cr (Some role) (Some sa) w = (Ok (), w') \<and> view w' = view w"
proof (rule roleBinding_settled [OF assms(1-4) _ assms(6)])
  have "ns_binding.repair cr role sa (expectedRoleBinding cr role sa\<lparr>rbRoleRef := ref\<rparr>) = None"
    using ns_binding.wanted_body [of sa cr role]
    by (simp add: ns_binding.repair_None recognisable_not_outdated ns_binding.wanted_meta fixSubjects_def split: if_splits)
  then show "settledAt (cluRoleBindings (view w)) (rolloutsKey cr) (bindingRepair cr (crNamespace cr))"
    using assms(5) by (simp add: settledAt_def bindingRepair_eq [OF assms(6)])
qed

theorem wrong_role_ref_kept_witness:
  "\<exists>w'. reconcileRolloutsRoleBinding (memReconciler True) (basicRolloutManager ''rm'' ''ns'' True)
      (Some (expectedRole (basicRolloutManager ''rm'' ''ns'' True)))
      (Some (expectedServiceAccount (basicRolloutManager ''rm'' ''ns'' True)))
      (emptyCluster\<lparr>cluRoleBindings := fmap_of_list [(NamespacedName ''ns'' DefaultArgoRolloutsResourceName,
         (expectedRoleBinding (basicRolloutManager ''rm'' ''ns'' True)
            (expectedRole (basicRolloutManager ''rm'' ''ns'' True))
            (expectedServiceAccount (basicRolloutManager ''rm'' ''ns'' True)))\<lparr>rbRoleRef :=
               \<lparr>refAPIGroup = ''rbac.authorization.k8s.io'', refKind = ''Role'', refName = ''somebody-elses''\<rparr>\<rparr>)]\<rparr>) = (Ok (), w') \<and>
    (\<exists>b. fmlookup (cluRoleBindings w') (NamespacedName ''ns'' DefaultArgoRolloutsResourceName) = Some b \<and>
      refName (rbRoleRef b) = ''somebody-elses'')"
proof -
  let ?cr = "basicRolloutManager ''rm'' ''ns'' True"
  let ?b = "(expectedRoleBinding ?cr (expectedRole ?cr) (expectedServiceAccount ?cr))\<lparr>rbRoleRef :=
      \<lparr>refAPIGroup = ''rbac.authorization.k8s.io'', refKind = ''Role'', refName = ''somebody-elses''\<rparr>\<rparr>"
  let ?c = "emptyCluster\<lparr>cluRoleBindings := fmap_of_list [(NamespacedName ''ns'' DefaultArgoRolloutsResourceName, ?b)]\<rparr>"
  have "cluster_api (\<lambda>c. c) (Client (memReconciler True))" by (simp add: memReconciler_def mem_cluster_api)
  then have "\<exists>w'. reconcileRolloutsRoleBinding (memReconciler True) ?cr (Some (expectedRole ?cr))
      (Some (expectedServiceAccount ?cr)) ?c = (Ok (), w') \<and> w' = ?c"
    by (rule wrong_role_ref_kept)
      (auto simp: emptyCluster_def expectedRoleBinding_def expectedServiceAccount_def)
  then show ?thesis by auto
qed

text \<open>
  Without a Role or a ServiceAccount the RoleBinding reconciler returns an error, and a
  ClusterRoleBinding left from a cluster-scoped instance is deleted before it does.
\<close>

theorem role_binding_needs_role_and_account:
  assumes "cluster_api view (Client r)" "keyed rbMeta (cluClusterRoleBindings (view w))" "role = None \<or> sa = None"
  shows "\<exists>e w'. reconcileRolloutsRoleBinding r cr role sa w = (Err e, w') \<and>
    errText e = (if role = None then ''received Role is nil while reconciling RoleBinding''
      else ''received ServiceAccount is nil while reconciling RoleBinding'') \<and>
    view w' = cluClusterRoleBindings_update (fmdrop clusterKey) (view w)"
proof -
  obtain w1 where w1: "dropStale (kClusterRoleBindings (Client r)) '''' DefaultArgoRolloutsResourceName
      (errorf_w (''failed to delete existing ClusterRoleBinding '' @ DefaultArgoRolloutsResourceName @ '': '')) w = (Ok (), w1)"
      "view w1 = cluClusterRoleBindings_update (fmdrop clusterKey) (view w)"
    using kind_api.dropStale_drops [OF api_cluster_role_bindings [OF assms(1)] assms(2)] by blast
  show ?thesis
    unfolding reconcileRolloutsRoleBinding_def w1(1) andThen_simps
    using assms(3) w1(2) by (cases role; cases sa) auto
qed

theorem role_binding_needs_role_and_account_witness:
  "\<exists>e w'. reconcileRolloutsRoleBinding (memReconciler True) (basicRolloutManager ''rm'' ''ns'' True) None None emptyCluster = (Err e, w')"
proof -
  have "cluster_api (\<lambda>c. c) (Client (memReconciler True))" by (simp add: memReconciler_def mem_cluster_api)
  from role_binding_needs_role_and_account [OF this, of emptyCluster None None "basicRolloutManager ''rm'' ''ns'' True"]
  show ?thesis by (auto simp: emptyCluster_def)
qed

text \<open>On a conforming client the four ClusterRoles and the ClusterRoleBinding are gone afterwards.\<close>

lemma clusterScopedResources_dropped:
  assumes "cluster_api view (Client r)" "keyed roleMeta (cluClusterRoles (view w))"
    and "keyed rbMeta (cluClusterRoleBindings (view w))"
  shows "\<exists>w'. removeClusterScopedResourcesIfApplicable r w = (Ok (), w') \<and>
    view w' = (view w)\<lparr>
      cluClusterRoles := fmdrop (aggregateKey ''aggregate-to-view'') (fmdrop (aggregateKey ''aggregate-to-edit'')
        (fmdrop (aggregateKey ''aggregate-to-admin'') (fmdrop clusterKey (cluClusterRoles (view w))))),
      cluClusterRoleBindings := fmdrop clusterKey (cluClusterRoleBindings (view w))\<rparr>"
proof -
  obtain w1 where w1: "removeIfExists (kClusterRoles (Client r)) clusterKey w = (Ok (), w1)"
      "view w1 = cluClusterRoles_update (fmdrop clusterKey) (view w)"
    using kind_api.removeIfExists_drops [OF api_cluster_roles [OF assms(1)] assms(2)] by blast
  have "keyed roleMeta (cluClusterRoles (view w1))" using assms(2) by (auto simp: w1(2))
  from removeAggregateRoles_drops [OF assms(1) this, of clusterRoleSuffixes]
  obtain w2 where w2: "removeAggregateRoles r clusterRoleSuffixes w1 = (Ok (), w2)"
      "view w2 = cluClusterRoles_update (fold (\<lambda>t. fmdrop (aggregateKey t)) clusterRoleSuffixes) (view w1)"
    by blast
  have "keyed rbMeta (cluClusterRoleBindings (view w2))" using assms(3) by (simp add: w1(2) w2(2))
  from kind_api.removeIfExists_drops [OF api_cluster_role_bindings [OF assms(1)] this, of clusterKey]
  obtain w3 where w3: "removeIfExists (kClusterRoleBindings (Client r)) clusterKey w2 = (Ok (), w3)"
      "view w3 = cluClusterRoleBindings_update (fmdrop clusterKey) (view w2)"
    by blast
  have "view w3 = (view w)\<lparr>
      cluClusterRoles := fmdrop (aggregateKey ''aggregate-to-view'') (fmdrop (aggregateKey ''aggregate-to-edit'')
        (fmdrop (aggregateKey ''aggregate-to-admin'') (fmdrop clusterKey (cluClusterRoles (view w))))),
      cluClusterRoleBindings := fmdrop clusterKey (cluClusterRoleBindings (view w))\<rparr>"
    unfolding w3(2) w2(2) w1(2) by (cases "view w") (simp add: clusterRoleSuffixes_def)
  then show ?thesis
    unfolding removeClusterScopedResourcesIfApplicable_def w1(1) andThen_simps w2(1) w3(1) by auto
qed

end
