(* ===== verification/Resources.thy ===== *)
theory Resources
  imports Rbac
begin

text \<open>
  The notification Secret, the metrics Service with its ServiceMonitor and the NetworkPolicy
  (\<open>controllers/resources.go\<close>), translated as they stand, with what a run leaves behind.
\<close>

lemma memReconciler_simps [simp]:
  "Client (memReconciler b) = mem_client" "Platform (memReconciler b) = emptyPlatform"
  "ResourceLabels (memReconciler b) = None" "NamespaceScopedArgoRolloutsController (memReconciler b) = b"
  by (simp_all add: memReconciler_def)

section \<open>The notification Secret\<close>

definition expectedSecret :: "'w reconciler \<Rightarrow> rollout_manager \<Rightarrow> secret" where
  "expectedSecret r cr =
     (let m = setRolloutsLabelsAndAnnotationsToObject
            (newMeta DefaultRolloutsNotificationSecretName (crNamespace cr)) cr
      in \<lparr>secMeta = (if ResourceLabels r \<noteq> None then setCustomLabels m (ResourceLabels r) else m),
          secType = ''Opaque'', secData = None\<rparr>)"

definition reconcileRolloutsSecrets :: "'w reconciler \<Rightarrow> rollout_manager \<Rightarrow> 'w \<Rightarrow> unit res \<times> 'w" where
  "reconcileRolloutsSecrets r cr w =
     (let expected = expectedSecret r cr; ops = kSecrets (Client r)
      in case fetchObject ops (crNamespace cr) (mName (secMeta expected)) w of
           (Inl err, w1) \<Rightarrow>
             if \<not> IsNotFound err then
               (Err (errorf_w (''failed to get the Secret '' @ mName (secMeta expected) @ '': '') err), w1)
             else if SkipNotificationSecretDeployment (rmSpec cr) then (Ok (), w1)
             else (case SetControllerReference (Platform r) cr (secMeta expected) of
                 Inl err \<Rightarrow> (Err err, w1)
               | Inr m \<Rightarrow> discard (lift (kcreate ops (expected\<lparr>secMeta := m\<rparr>) w1)))
         | (Inr live, w1) \<Rightarrow>
             if SkipNotificationSecretDeployment (rmSpec cr) then
               (case GetControllerOf (Platform r) (secMeta live) of
                  Some controller \<Rightarrow>
                    if orName controller = crName cr then lift (kdelete ops live w1) else (Ok (), w1)
                | None \<Rightarrow> (Ok (), w1))
             else
               (let updateNeeded = metaOutdated cr (secMeta live) (secMeta expected);
                    live = (if updateNeeded then live\<lparr>secMeta := adoptMeta (secMeta live) (secMeta expected)\<rparr> else live)
                in discard (updateIfNeeded ops updateNeeded live w1)))"

section \<open>The metrics Service\<close>

definition metricsServicePort :: service_port where
  "metricsServicePort = \<lparr>spName = ''metrics'', spPort = 8090, spProtocol = ''TCP'',
     spTargetPort = FromInt 8090, spNodePort = 0\<rparr>"

definition setLabel :: "string \<Rightarrow> string \<Rightarrow> object_meta \<Rightarrow> object_meta" where
  "setLabel k v m = m\<lparr>mLabels := Some (fmupd k v (entries (mLabels m)))\<rparr>"

definition expectedSvc :: "rollout_manager \<Rightarrow> service" where
  "expectedSvc cr =
     (let m = setRolloutsLabelsAndAnnotationsToObject
            (newMeta DefaultArgoRolloutsMetricsServiceName (crNamespace cr)) cr
      in \<lparr>svcMeta = setLabel ''app.kubernetes.io/component'' ''server''
             (setLabel ''app.kubernetes.io/name'' DefaultArgoRolloutsMetricsServiceName m),
          svcPorts = slice [metricsServicePort],
          svcSelector = strmap_of [(DefaultRolloutsSelectorKey, DefaultArgoRolloutsResourceName)]\<rparr>)"

text \<open>The second half of the reconciler, which a Service just created goes through as well.\<close>

definition updateMetricsService ::
    "'w reconciler \<Rightarrow> rollout_manager \<Rightarrow> service \<Rightarrow> service \<Rightarrow> 'w \<Rightarrow> service res \<times> 'w" where
  "updateMetricsService r cr expected live w =
     (let (updateNeeded, live) =
            (if svcPorts live \<noteq> svcPorts expected then (True, live\<lparr>svcPorts := svcPorts expected\<rparr>)
             else (False, live));
          (updateNeeded, live) =
            (if metaOutdated cr (svcMeta live) (svcMeta expected)
             then (True, live\<lparr>svcMeta := adoptMeta (svcMeta live) (svcMeta expected)\<rparr>)
             else (updateNeeded, live))
      in updateIfNeeded (kServices (Client r)) updateNeeded live w)"

text \<open>
  Create writes the server's answer through the pointer \<open>expectedSvc\<close>, and \<open>liveService\<close>
  is then the same pointer: the created Service is compared with itself.
\<close>

definition reconcileRolloutsMetricsService :: "'w reconciler \<Rightarrow> rollout_manager \<Rightarrow> 'w \<Rightarrow> service res \<times> 'w" where
  "reconcileRolloutsMetricsService r cr w =
     (let expected = expectedSvc cr; ops = kServices (Client r)
      in case fetchObject ops (crNamespace cr) (mName (svcMeta expected)) w of
           (Inl err, w1) \<Rightarrow>
             if \<not> IsNotFound err then
               (Err (errorf_w (''failed to get the Service '' @ mName (svcMeta expected) @ '': '') err), w1)
             else (case SetControllerReference (Platform r) cr (svcMeta expected) of
                 Inl err \<Rightarrow> (Err err, w1)
               | Inr m \<Rightarrow>
                   andThen (lift (kcreate ops (expected\<lparr>svcMeta := m\<rparr>) w1)) (\<lambda>created w2.
                     updateMetricsService r cr created created w2))
         | (Inr live, w1) \<Rightarrow> updateMetricsService r cr expected live w1)"

section \<open>The ServiceMonitor\<close>

definition metricsEndpoint :: endpoint where
  "metricsEndpoint = \<lparr>epPort = ''metrics'', epPath = '''', epInterval = ''''\<rparr>"

definition createServiceMonitorIfAbsent ::
    "'w reconciler \<Rightarrow> string \<Rightarrow> rollout_manager \<Rightarrow> string \<Rightarrow> string \<Rightarrow> 'w \<Rightarrow> unit res \<times> 'w" where
  "createServiceMonitorIfAbsent r namespace rolloutManager name serviceMonitorLabel w =
     (let serviceMonitor = \<lparr>smMeta = newMeta name namespace,
            smSelector = \<lparr>lsMatchLabels = strmap_of [(''app.kubernetes.io/name'', serviceMonitorLabel)], lsMatchExpressions = None\<rparr>,
            smEndpoints = slice [metricsEndpoint]\<rparr>
      in case SetControllerReference (Platform r) rolloutManager (smMeta serviceMonitor) of
           Inl err \<Rightarrow> (Err err, w)
         | Inr m \<Rightarrow> discard (lift (kcreate (kServiceMonitors (Client r)) (serviceMonitor\<lparr>smMeta := m\<rparr>) w)))"

definition serviceMonitorMatches :: "service_monitor \<Rightarrow> string \<Rightarrow> bool" where
  "serviceMonitorMatches sm matchLabel =
     (case mlookup (lsMatchLabels (smSelector sm)) ''app.kubernetes.io/name'' of
        None \<Rightarrow> False
      | Some val \<Rightarrow>
          if val \<noteq> matchLabel then False
          else if elems (smEndpoints sm) = [] \<or> epPort (hd (elems (smEndpoints sm))) \<noteq> ''metrics'' then False
          else True)"

text \<open>The part of \<open>reconcileRolloutsMetricsServiceAndMonitor\<close> after the Service.\<close>

definition reconcileServiceMonitor :: "'w reconciler \<Rightarrow> rollout_manager \<Rightarrow> string \<Rightarrow> 'w \<Rightarrow> unit res \<times> 'w" where
  "reconcileServiceMonitor r cr svcName w =
     (case fetchObject (kCRDs (Client r)) '''' serviceMonitorsCRDName w of
        (Inl err, w1) \<Rightarrow>
          if \<not> IsNotFound err then
            (Err (errorf_s (''failed to get the ServiceMonitor '' @ serviceMonitorsCRDName @ '' : '') err), w1)
          else (Ok (), w1)
      | (Inr smCRD, w1) \<Rightarrow>
     (case fetchObject (kServiceMonitors (Client r)) (crNamespace cr) DefaultArgoRolloutsResourceName w1 of
        (Inl err, w2) \<Rightarrow>
          if IsNotFound err then
            createServiceMonitorIfAbsent r (crNamespace cr) cr DefaultArgoRolloutsResourceName svcName w2
          else (Err err, w2)
      | (Inr existing, w2) \<Rightarrow>
          if \<not> serviceMonitorMatches existing svcName then
            discard (lift (kupdate (kServiceMonitors (Client r))
              (existing\<lparr>smSelector := (smSelector existing)\<lparr>lsMatchLabels :=
                  strmap_of [(''app.kubernetes.io/name'', svcName)]\<rparr>,
                smEndpoints := slice [metricsEndpoint]\<rparr>) w2))
          else (Ok (), w2)))"

definition reconcileRolloutsMetricsServiceAndMonitor :: "'w reconciler \<Rightarrow> rollout_manager \<Rightarrow> 'w \<Rightarrow> unit res \<times> 'w" where
  "reconcileRolloutsMetricsServiceAndMonitor r cr w =
     (case reconcileRolloutsMetricsService r cr w of
        (Err err, w1) \<Rightarrow> (Err (errorf_w ''unable to reconcile metrics service: '' err), w1)
      | (Panic p, w1) \<Rightarrow> (Panic p, w1)
      | (Ok reconciledSvc, w1) \<Rightarrow> reconcileServiceMonitor r cr (mName (svcMeta reconciledSvc)) w1)"

section \<open>The NetworkPolicy\<close>

definition deleteRolloutsNetworkPolicies :: "'w reconciler \<Rightarrow> rollout_manager \<Rightarrow> 'w \<Rightarrow> unit res \<times> 'w" where
  "deleteRolloutsNetworkPolicies r cr w =
     (case fetchObject (kNetworkPolicies (Client r)) (crNamespace cr) DefaultRolloutsNetworkPolicy w of
        (Inl err, w1) \<Rightarrow> if IsNotFound err then (Ok (), w1) else (Err err, w1)
      | (Inr existing, w1) \<Rightarrow> lift (kdelete (kNetworkPolicies (Client r)) existing w1))"

definition generateNetworkPolicyHeaders :: "rollout_manager \<Rightarrow> string \<Rightarrow> network_policy" where
  "generateNetworkPolicyHeaders cr networkPolicyName =
     \<lparr>npMeta = setRolloutsLabelsAndAnnotationsToObject (newMeta networkPolicyName (crNamespace cr)) cr,
      npPodSelector = \<lparr>lsMatchLabels = None, lsMatchExpressions = None\<rparr>,
      npPolicyTypes = None, npIngress = None, npEgress = None\<rparr>"

definition desiredNetworkPolicy :: "rollout_manager \<Rightarrow> network_policy" where
  "desiredNetworkPolicy cr =
     (let labels = strmap_of [(DefaultRolloutsSelectorKey, DefaultArgoRolloutsResourceName)]
      in (generateNetworkPolicyHeaders cr DefaultRolloutsNetworkPolicy)\<lparr>
           npPodSelector := \<lparr>lsMatchLabels = labels, lsMatchExpressions = None\<rparr>,
           npPolicyTypes := slice [''Ingress''],
           npIngress := slice [\<lparr>npiPorts = slice [
               \<lparr>nppProtocol = Some ''TCP'', nppPort = Some (FromInt 8080)\<rparr>,
               \<lparr>nppProtocol = Some ''TCP'', nppPort = Some (FromInt 8090)\<rparr>],
             npiFrom = None\<rparr>]\<rparr>)"

text \<open>The \<open>explanation\<close> that the code puts together goes to the log only.\<close>

definition compareNetworkPolicy ::
    "rollout_manager \<Rightarrow> network_policy \<Rightarrow> network_policy \<Rightarrow> bool \<times> network_policy" where
  "compareNetworkPolicy cr desired existing =
     (let (updateNeeded, existing) =
            (if npPodSelector existing \<noteq> npPodSelector desired
             then (True, existing\<lparr>npPodSelector := npPodSelector desired\<rparr>) else (False, existing));
          (updateNeeded, existing) =
            (if npPolicyTypes existing \<noteq> npPolicyTypes desired
             then (True, existing\<lparr>npPolicyTypes := npPolicyTypes desired\<rparr>) else (updateNeeded, existing));
          (updateNeeded, existing) =
            (if npIngress existing \<noteq> npIngress desired
             then (True, existing\<lparr>npIngress := npIngress desired\<rparr>) else (updateNeeded, existing))
      in if metaOutdated cr (npMeta existing) (npMeta desired)
         then (True, existing\<lparr>npMeta := adoptMeta (npMeta existing) (npMeta desired)\<rparr>)
         else (updateNeeded, existing))"

definition reconcileRolloutsNetworkPolicy :: "'w reconciler \<Rightarrow> rollout_manager \<Rightarrow> 'w \<Rightarrow> unit res \<times> 'w" where
  "reconcileRolloutsNetworkPolicy r cr w =
     (if \<not> IsEnabled (NetworkPolicy (rmSpec cr)) then deleteRolloutsNetworkPolicies r cr w
      else
     (let desired = desiredNetworkPolicy cr; ops = kNetworkPolicies (Client r)
      in case fetchObject ops (crNamespace cr) (mName (npMeta desired)) w of
           (Inl err, w1) \<Rightarrow>
             if \<not> IsNotFound err then
               (Err (errorf_w (''failed to get NetworkPolicy '' @ mName (npMeta desired) @ '': '') err), w1)
             else (case SetControllerReference (Platform r) cr (npMeta desired) of
                 Inl err \<Rightarrow> (Err (errorf_w ''failed to set controller reference on rollouts network policy: '' err), w1)
               | Inr m \<Rightarrow> discard (lift_with
                   (errorf_w (''failed to create network policy '' @ mName (npMeta desired) @ '' in namespace '' @ crNamespace cr @ '': ''))
                   (kcreate ops (desired\<lparr>npMeta := m\<rparr>) w1)))
         | (Inr existing, w1) \<Rightarrow>
             (let (updateNeeded, existing) = compareNetworkPolicy cr desired existing
              in if updateNeeded then discard (lift_with
                   (errorf_w (''failed to update network policy '' @ mName (npMeta existing) @ '' in namespace '' @ crNamespace cr @ '': ''))
                   (kupdate ops existing w1))
                 else (Ok (), w1))))"

section \<open>Managed objects\<close>

abbreviation secretKey :: "rollout_manager \<Rightarrow> namespaced_name" where
  "secretKey cr \<equiv> NamespacedName (crNamespace cr) DefaultRolloutsNotificationSecretName"

abbreviation svcKey :: "rollout_manager \<Rightarrow> namespaced_name" where
  "svcKey cr \<equiv> NamespacedName (crNamespace cr) DefaultArgoRolloutsMetricsServiceName"

abbreviation policyKey :: "rollout_manager \<Rightarrow> namespaced_name" where
  "policyKey cr \<equiv> NamespacedName (crNamespace cr) DefaultRolloutsNetworkPolicy"

abbreviation crdKey :: namespaced_name where
  "crdKey \<equiv> NamespacedName '''' serviceMonitorsCRDName"

definition fixPorts :: "service_port slice \<Rightarrow> service \<Rightarrow> service option" where
  "fixPorts ports x = (if svcPorts x \<noteq> ports then Some (x\<lparr>svcPorts := ports\<rparr>) else None)"

definition fixPolicy :: "network_policy \<Rightarrow> network_policy \<Rightarrow> network_policy option" where
  "fixPolicy desired x =
     (if npPodSelector x \<noteq> npPodSelector desired \<or> npPolicyTypes x \<noteq> npPolicyTypes desired \<or>
         npIngress x \<noteq> npIngress desired
      then Some (x\<lparr>npPodSelector := npPodSelector desired, npPolicyTypes := npPolicyTypes desired,
        npIngress := npIngress desired\<rparr>) else None)"

text \<open>
  The custom labels of the reconciler are only recognised on the Secret when their keys are
  among those that the operator manages anyway.
\<close>

definition managedCustomLabels :: "'w reconciler \<Rightarrow> rollout_manager \<Rightarrow> bool" where
  "managedCustomLabels r cr \<longleftrightarrow> fmpred (\<lambda>k v. keptLabel cr k) (entries (ResourceLabels r))"

lemma expectedSecret_simps [simp]:
  "entries (mLabels (secMeta (expectedSecret r cr))) = managedLabels cr ++\<^sub>f entries (ResourceLabels r)"
  "mAnnotations (secMeta (expectedSecret r cr)) = Some (extraAnnotations cr)"
  "mName (secMeta (expectedSecret r cr)) = DefaultRolloutsNotificationSecretName"
  "mNamespace (secMeta (expectedSecret r cr)) = crNamespace cr"
  "mOwners (secMeta (expectedSecret r cr)) = []"
  by (simp_all add: expectedSecret_def setCustomLabels_def Let_def)

lemma recognisable_secret: "managedCustomLabels r cr \<Longrightarrow> recognisable cr (secMeta (expectedSecret r cr))"
  by (auto simp: recognisable_def managedCustomLabels_def fmpred_iff keptLabel_def mlookup_def fmlookup_dom_iff
      split: if_splits)

lemma secret_managed:
  assumes "managedCustomLabels r cr"
  shows "managed secMeta secMeta_update same_secret cr (secretKey cr) (expectedSecret r cr) (\<lambda>_. None)"
  by unfold_locales
    (auto simp: same_secret_def recognisable_secret [OF assms] metaKey_def dest: meta_same_trans strmap_same_trans)

lemma expectedSvc_simps [simp]:
  "entries (mLabels (svcMeta (expectedSvc cr))) =
     fmupd ''app.kubernetes.io/component'' ''server''
       (fmupd ''app.kubernetes.io/name'' DefaultArgoRolloutsMetricsServiceName (managedLabels cr))"
  "mAnnotations (svcMeta (expectedSvc cr)) = Some (extraAnnotations cr)"
  "mName (svcMeta (expectedSvc cr)) = DefaultArgoRolloutsMetricsServiceName"
  "mNamespace (svcMeta (expectedSvc cr)) = crNamespace cr"
  "mOwners (svcMeta (expectedSvc cr)) = []"
  by (simp_all add: expectedSvc_def setLabel_def Let_def)

lemma managedLabels_standard:
  "fmlookup (managedLabels cr) ''app.kubernetes.io/component'' \<noteq> None"
  "fmlookup (managedLabels cr) ''app.kubernetes.io/name'' \<noteq> None"
  by (auto simp: managedLabels_def standardLabels_def fmlookup_dom_iff)

lemma recognisable_svc: "recognisable cr (svcMeta (expectedSvc cr))"
  using managedLabels_standard [of cr]
  by (auto simp: recognisable_def fmpred_iff keptLabel_def mlookup_def split: if_splits)

interpretation metrics_service: managed svcMeta svcMeta_update same_service cr "svcKey cr"
  "expectedSvc cr" "fixPorts (slice [metricsServicePort])" for cr
  by unfold_locales
    (auto simp: same_service_def fixPorts_def recognisable_svc metaKey_def expectedSvc_def [THEN arg_cong [where f = svcPorts]] Let_def
      dest: meta_same_trans strmap_same_trans split: if_splits)

lemma desiredNetworkPolicy_meta:
  "npMeta (desiredNetworkPolicy cr) =
     setRolloutsLabelsAndAnnotationsToObject (newMeta DefaultRolloutsNetworkPolicy (crNamespace cr)) cr"
  by (simp add: desiredNetworkPolicy_def generateNetworkPolicyHeaders_def Let_def)

lemma desiredNetworkPolicy_simps [simp]:
  "mName (npMeta (desiredNetworkPolicy cr)) = DefaultRolloutsNetworkPolicy"
  "mNamespace (npMeta (desiredNetworkPolicy cr)) = crNamespace cr"
  "mOwners (npMeta (desiredNetworkPolicy cr)) = []"
  "metaKey (npMeta (desiredNetworkPolicy cr)) = policyKey cr"
  "recognisable cr (npMeta (desiredNetworkPolicy cr))"
  by (simp_all add: desiredNetworkPolicy_meta)

interpretation network_policy: managed npMeta npMeta_update same_network_policy cr "policyKey cr"
  "desiredNetworkPolicy cr" "fixPolicy (desiredNetworkPolicy cr)" for cr
  by unfold_locales
    (auto simp: same_network_policy_def fixPolicy_def dest: meta_same_trans split: if_splits)

interpretation plain_secret: managed secMeta secMeta_update same_secret cr "secretKey cr"
  "expectedSecret (memReconciler b) cr" "\<lambda>_. None" for cr b
  by (rule secret_managed) (simp add: managedCustomLabels_def)

interpretation mem_metrics_service: managed_api "\<lambda>c. c" "kServices mem_client" svcMeta cluServices
  cluServices_update same_service svcMeta_update cr "svcKey cr" "expectedSvc cr" "fixPorts (slice [metricsServicePort])" for cr
  by unfold_locales

interpretation mem_network_policy: managed_api "\<lambda>c. c" "kNetworkPolicies mem_client" npMeta cluNetworkPolicies
  cluNetworkPolicies_update same_network_policy npMeta_update cr "policyKey cr" "desiredNetworkPolicy cr"
  "fixPolicy (desiredNetworkPolicy cr)" for cr
  by unfold_locales

lemma resource_apis:
  assumes "cluster_api view c"
  shows api_secret: "managedCustomLabels r cr \<Longrightarrow> managed_api view (kSecrets c) secMeta cluSecrets cluSecrets_update
      same_secret secMeta_update cr (secretKey cr) (expectedSecret r cr) (\<lambda>_. None)"
    and api_svc: "managed_api view (kServices c) svcMeta cluServices cluServices_update same_service svcMeta_update cr
      (svcKey cr) (expectedSvc cr) (fixPorts (slice [metricsServicePort]))"
    and api_policy: "managed_api view (kNetworkPolicies c) npMeta cluNetworkPolicies cluNetworkPolicies_update
      same_network_policy npMeta_update cr (policyKey cr) (desiredNetworkPolicy cr) (fixPolicy (desiredNetworkPolicy cr))"
  using cluster_apiD [OF assms]
  by (simp_all add: managed_api_def secret_managed metrics_service.managed_axioms network_policy.managed_axioms)
section \<open>What one run leaves behind\<close>

lemma secret_ensure:
  assumes "\<not> SkipNotificationSecretDeployment (rmSpec cr)"
  shows "reconcileRolloutsSecrets r cr w = discard (ensure (kSecrets (Client r)) (secretKey cr)
     (errorf_w (''failed to get the Secret '' @ DefaultRolloutsNotificationSecretName @ '': ''))
     (\<lambda>e. e) (\<lambda>e. e) (withOwner (Platform r) cr secMeta_update (secMeta (expectedSecret r cr)) (expectedSecret r cr))
     (repairObject secMeta secMeta_update cr (secMeta (expectedSecret r cr)) (\<lambda>_. None)) w)"
proof -
  have upd: "x\<lparr>secMeta := adoptMeta (secMeta x) e\<rparr> = secMeta_update (\<lambda>m. adoptMeta m e) x" for x e
    by (cases x) simp
  show ?thesis
    using assms by (auto simp: upd reconcileRolloutsSecrets_def discard_ensure withOwner_def Let_def
      repairObject_def updateIfNeeded_def split: prod.splits sum.splits)
qed

lemma secret_settles:
  assumes "cluster_api view (Client r)" "owner_contract (Platform r)" "keyed secMeta (cluSecrets (view w))"
    and "tameAt secMeta (cluSecrets (view w)) (secretKey cr) (secMeta (expectedSecret r cr))"
    and "managedCustomLabels r cr" "\<not> SkipNotificationSecretDeployment (rmSpec cr)"
  shows "\<exists>x w'. reconcileRolloutsSecrets r cr w = (Ok (), w') \<and>
    repairObject secMeta secMeta_update cr (secMeta (expectedSecret r cr)) (\<lambda>_. None) x = None \<and>
    metaKey (secMeta x) = secretKey cr \<and> view w' = cluSecrets_update (fmupd (secretKey cr) x) (view w)"
proof -
  obtain x w' where x: "ensure (kSecrets (Client r)) (secretKey cr)
     (errorf_w (''failed to get the Secret '' @ DefaultRolloutsNotificationSecretName @ '': ''))
     (\<lambda>e. e) (\<lambda>e. e) (withOwner (Platform r) cr secMeta_update (secMeta (expectedSecret r cr)) (expectedSecret r cr))
     (repairObject secMeta secMeta_update cr (secMeta (expectedSecret r cr)) (\<lambda>_. None)) w = (Ok x, w')"
    "repairObject secMeta secMeta_update cr (secMeta (expectedSecret r cr)) (\<lambda>_. None) x = None"
    "metaKey (secMeta x) = secretKey cr" "view w' = cluSecrets_update (fmupd (secretKey cr) x) (view w)"
    using managed_api.owned_settles [OF api_secret [OF assms(1,5)] assms(2) _ _ assms(3,4)] by fastforce
  show ?thesis unfolding secret_ensure [OF assms(6)] x(1) using x(2-4) by auto
qed

lemma secret_settled:
  assumes "cluster_api view (Client r)" "keyed secMeta (cluSecrets (view w))"
    and "settledAt (cluSecrets (view w)) (secretKey cr)
      (repairObject secMeta secMeta_update cr (secMeta (expectedSecret r cr)) (\<lambda>_. None))"
    and "managedCustomLabels r cr" "\<not> SkipNotificationSecretDeployment (rmSpec cr)"
  shows "\<exists>w'. reconcileRolloutsSecrets r cr w = (Ok (), w') \<and> view w' = view w"
proof -
  obtain x w' where x: "ensure (kSecrets (Client r)) (secretKey cr)
     (errorf_w (''failed to get the Secret '' @ DefaultRolloutsNotificationSecretName @ '': ''))
     (\<lambda>e. e) (\<lambda>e. e) (withOwner (Platform r) cr secMeta_update (secMeta (expectedSecret r cr)) (expectedSecret r cr))
     (repairObject secMeta secMeta_update cr (secMeta (expectedSecret r cr)) (\<lambda>_. None)) w = (Ok x, w')"
    "view w' = view w"
    using managed_api.run_settled [OF api_secret [OF assms(1,4)] assms(3,2)] by blast
  show ?thesis unfolding secret_ensure [OF assms(5)] x(1) using x(2) by auto
qed

text \<open>The Service: what is there goes through \<open>ensure\<close>, a new one is compared with itself.\<close>

lemma updateMetricsService_repair:
  "updateMetricsService r cr expected live w =
     (case repairObject svcMeta svcMeta_update cr (svcMeta expected) (fixPorts (svcPorts expected)) live of
        None \<Rightarrow> (Ok live, w) | Some live' \<Rightarrow> lift (kupdate (kServices (Client r)) live' w))"
  by (cases live) (auto simp: updateMetricsService_def repairObject_def fixPorts_def updateIfNeeded_def Let_def)

lemma expectedSvc_ports [simp]: "svcPorts (expectedSvc cr) = slice [metricsServicePort]"
  by (simp add: expectedSvc_def Let_def)

lemma service_found:
  assumes "kget (kServices (Client r)) (svcKey cr) w = (Inr live, w1)"
  shows "reconcileRolloutsMetricsService r cr w = ensure (kServices (Client r)) (svcKey cr) wg (\<lambda>e. e) (\<lambda>e. e)
    fresh (metrics_service.repair cr) w"
  using assms by (simp add: reconcileRolloutsMetricsService_def ensure_plain updateMetricsService_repair Let_def)

lemma own_service_current:
  assumes "same_service (expectedSvc cr) y"
  shows "updateMetricsService r cr y y w = (Ok y, w)"
proof -
  have "entries (mLabels (svcMeta y)) = entries (mLabels (svcMeta (expectedSvc cr)))"
      "entries (mAnnotations (svcMeta y)) = entries (mAnnotations (svcMeta (expectedSvc cr)))"
    using assms by (simp_all add: same_service_def meta_same_def strmap_same_def)
  then have "metaOutdated cr (svcMeta y) (svcMeta y) = metaOutdated cr (svcMeta (expectedSvc cr)) (svcMeta (expectedSvc cr))"
    by (simp add: metaOutdated_iff)
  also have "\<dots> = False" using recognisable_not_outdated [OF recognisable_svc] by simp
  finally show ?thesis
    by (simp add: updateMetricsService_repair repairObject_def Let_def fixPorts_def)
qed

lemma service_settles:
  assumes "cluster_api view (Client r)" "owner_contract (Platform r)" "keyed svcMeta (cluServices (view w))"
    and "tameAt svcMeta (cluServices (view w)) (svcKey cr) (svcMeta (expectedSvc cr))"
  shows "\<exists>x w'. reconcileRolloutsMetricsService r cr w = (Ok x, w') \<and> metrics_service.repair cr x = None \<and>
    metaKey (svcMeta x) = svcKey cr \<and> view w' = cluServices_update (fmupd (svcKey cr) x) (view w)"
proof (cases "fmlookup (cluServices (view w)) (svcKey cr)")
  case None
  note api = api_services [OF assms(1)]
  obtain e w1 where g: "kget (kServices (Client r)) (svcKey cr) w = (Inl e, w1)" "IsNotFound e" "view w1 = view w"
    using kind_api.get_missing [OF api None] by blast
  obtain m where m: "SetControllerReference (Platform r) cr (svcMeta (expectedSvc cr)) = Inr m"
      "meta_same (svcMeta (expectedSvc cr)) m"
    by (rule owner_contract_same [OF assms(2), of "svcMeta (expectedSvc cr)" cr]) auto
  let ?new = "(expectedSvc cr)\<lparr>svcMeta := m\<rparr>"
  have new: "same_service (expectedSvc cr) ?new" "metaKey m = svcKey cr"
    using m(2) by (auto simp: same_service_def metaKey_def meta_same_def)
  obtain y w2 where c: "kcreate (kServices (Client r)) ?new w1 = (Inr y, w2)" "same_service ?new y"
      "view w2 = cluServices_update (fmupd (svcKey cr) y) (view w)"
    using kind_api.create_fresh [OF api, of w1 ?new] None new(2) g(3) by auto
  have y: "same_service (expectedSvc cr) y" using metrics_service.same_chain [OF new(1) c(2)] .
  have "reconcileRolloutsMetricsService r cr w = (Ok y, w2)"
    using g m(1) c(1) own_service_current [OF y] by (simp add: reconcileRolloutsMetricsService_def Let_def)
  moreover have "metaKey (svcMeta y) = svcKey cr"
    using kind_api.same_key [OF api c(2)] new(2) by simp
  ultimately show ?thesis using c(3) metrics_service.expected_done [OF y] by blast
next
  case (Some live)
  obtain w1 where g: "kget (kServices (Client r)) (svcKey cr) w = (Inr live, w1)"
    using kind_api.get_found [OF api_services [OF assms(1)] Some] by blast
  show ?thesis unfolding service_found [OF g, where wg = "\<lambda>e. e" and fresh = "Inr (expectedSvc cr)"]
    by (rule managed_api.plain_settles [OF api_svc [OF assms(1)] assms(3,4)])
qed

lemma service_settled:
  assumes "cluster_api view (Client r)" "keyed svcMeta (cluServices (view w))"
    and "settledAt (cluServices (view w)) (svcKey cr) (metrics_service.repair cr)"
  shows "\<exists>x w'. reconcileRolloutsMetricsService r cr w = (Ok x, w') \<and> metaKey (svcMeta x) = svcKey cr \<and> view w' = view w"
proof -
  obtain live where "fmlookup (cluServices (view w)) (svcKey cr) = Some live"
    using assms(3) by (rule settledAtE)
  then obtain w1 where g: "kget (kServices (Client r)) (svcKey cr) w = (Inr live, w1)"
    using kind_api.get_found [OF api_services [OF assms(1)]] by blast
  show ?thesis unfolding service_found [OF g, where wg = "\<lambda>e. e" and fresh = "Inr (expectedSvc cr)"]
    using managed_api.run_settled [OF api_svc [OF assms(1)] assms(3,2)] by blast
qed
text \<open>The ServiceMonitor is only looked after when its definition is installed.\<close>

definition monitorSettled :: "rollout_manager \<Rightarrow> cluster \<Rightarrow> bool" where
  "monitorSettled cr c \<longleftrightarrow> (case fmlookup (cluCRDs c) crdKey of None \<Rightarrow> True
     | Some _ \<Rightarrow> (case fmlookup (cluServiceMonitors c) (rolloutsKey cr) of None \<Rightarrow> False
        | Some sm \<Rightarrow> serviceMonitorMatches sm DefaultArgoRolloutsMetricsServiceName))"

lemma serviceMonitorMatches_iff:
  "serviceMonitorMatches sm l \<longleftrightarrow> mlookup (lsMatchLabels (smSelector sm)) ''app.kubernetes.io/name'' = Some l \<and>
     (\<exists>e es. elems (smEndpoints sm) = e # es \<and> epPort e = ''metrics'')"
  by (cases "elems (smEndpoints sm)") (auto simp: serviceMonitorMatches_def split: option.splits)

lemma serviceMonitorMatches_same: "same_service_monitor x y \<Longrightarrow> serviceMonitorMatches y l \<longleftrightarrow> serviceMonitorMatches x l"
  by (simp add: same_service_monitor_def serviceMonitorMatches_iff)

lemma serviceMonitorMatches_written:
  "serviceMonitorMatches (x\<lparr>smSelector := s\<lparr>lsMatchLabels := strmap_of [(''app.kubernetes.io/name'', l)]\<rparr>,
     smEndpoints := slice [metricsEndpoint]\<rparr>) l"
  by (simp add: serviceMonitorMatches_iff mlookup_def metricsEndpoint_def slice_def)

lemma createServiceMonitor_settles:
  assumes "cluster_api view (Client r)" "owner_contract (Platform r)"
    and "fmlookup (cluServiceMonitors (view w)) (rolloutsKey cr) = None"
  shows "\<exists>y w'. createServiceMonitorIfAbsent r (crNamespace cr) cr DefaultArgoRolloutsResourceName l w = (Ok (), w') \<and>
    serviceMonitorMatches y l \<and> metaKey (smMeta y) = rolloutsKey cr \<and>
    view w' = cluServiceMonitors_update (fmupd (rolloutsKey cr) y) (view w)"
proof -
  note api = api_service_monitors [OF assms(1)]
  let ?e = "newMeta DefaultArgoRolloutsResourceName (crNamespace cr)"
  obtain m where m: "SetControllerReference (Platform r) cr ?e = Inr m" "meta_same ?e m"
    by (rule owner_contract_same [OF assms(2), of ?e cr]) auto
  let ?new = "\<lparr>smMeta = m, smSelector = \<lparr>lsMatchLabels = strmap_of [(''app.kubernetes.io/name'', l)], lsMatchExpressions = None\<rparr>,
      smEndpoints = slice [metricsEndpoint]\<rparr>"
  have k: "metaKey m = rolloutsKey cr" using meta_same_key [OF m(2)] by simp
  obtain y w2 where c: "kcreate (kServiceMonitors (Client r)) ?new w = (Inr y, w2)" "same_service_monitor ?new y"
      "view w2 = cluServiceMonitors_update (fmupd (rolloutsKey cr) y) (view w)"
    using kind_api.create_fresh [OF api, of w ?new] assms(3) k by auto
  have "serviceMonitorMatches y l" using serviceMonitorMatches_same [OF c(2)]
    by (simp add: serviceMonitorMatches_iff mlookup_def metricsEndpoint_def slice_def)
  moreover have "metaKey (smMeta y) = rolloutsKey cr" using kind_api.same_key [OF api, OF c(2)] k by simp
  ultimately show ?thesis using c m(1) by (auto simp: createServiceMonitorIfAbsent_def Let_def)
qed

lemma writeServiceMonitor_settles:
  assumes "cluster_api view (Client r)" "keyed smMeta (cluServiceMonitors (view w))"
    and "fmlookup (cluCRDs (view w)) crdKey = Some crd"
    and "fmlookup (cluServiceMonitors (view w)) (rolloutsKey cr) = Some y"
  shows "\<exists>z w'. reconcileServiceMonitor r cr l w = (Ok (), w') \<and> serviceMonitorMatches z l \<and>
    metaKey (smMeta z) = rolloutsKey cr \<and>
    view w' = cluServiceMonitors_update (fmupd (rolloutsKey cr) z) (view w)"
proof -
  note sm = api_service_monitors [OF assms(1)]
  obtain w1 where g1: "kget (kCRDs (Client r)) crdKey w = (Inr crd, w1)" "view w1 = view w"
    using kind_api.get_found [OF api_crds [OF assms(1)] assms(3)] by blast
  obtain w2 where g2: "kget (kServiceMonitors (Client r)) (rolloutsKey cr) w1 = (Inr y, w2)" "view w2 = view w"
    using kind_api.get_found [OF sm, of w1 "rolloutsKey cr"] assms(4) g1(2) by auto
  have yk: "metaKey (smMeta y) = rolloutsKey cr" using keyedD [OF assms(2,4)] .
  show ?thesis
  proof (cases "serviceMonitorMatches y l")
    case True
    have "cluServiceMonitors_update (fmupd (rolloutsKey cr) y) (view w) = view w"
      using assms(4) by (intro kind_api.put_unchanged [OF sm]) (simp add: fmupd_same)
    then show ?thesis using g1 g2 True yk
      by (intro exI [of _ y] exI [of _ w2]) (simp add: reconcileServiceMonitor_def)
  next
    case False
    let ?y' = "y\<lparr>smSelector := (smSelector y)\<lparr>lsMatchLabels := strmap_of [(''app.kubernetes.io/name'', l)]\<rparr>,
        smEndpoints := slice [metricsEndpoint]\<rparr>"
    obtain z w3 where c: "kupdate (kServiceMonitors (Client r)) ?y' w2 = (Inr z, w3)" "same_service_monitor ?y' z"
        "view w3 = cluServiceMonitors_update (fmupd (rolloutsKey cr) z) (view w)"
      using kind_api.update_found [OF sm, of w2 ?y' y] assms(4) yk g2(2) by auto
    have "serviceMonitorMatches z l"
      using serviceMonitorMatches_same [OF c(2)] serviceMonitorMatches_written by simp
    moreover have "metaKey (smMeta z) = rolloutsKey cr" using kind_api.same_key [OF sm, OF c(2)] yk by simp
    ultimately show ?thesis using g1 g2 False c
      by (intro exI [of _ z] exI [of _ w3]) (simp add: reconcileServiceMonitor_def)
  qed
qed

lemma monitor_settles:
  assumes "cluster_api view (Client r)" "owner_contract (Platform r)" "keyed smMeta (cluServiceMonitors (view w))"
  shows "\<exists>sms w'. reconcileServiceMonitor r cr DefaultArgoRolloutsMetricsServiceName w = (Ok (), w') \<and>
    keyed smMeta sms \<and> view w' = (view w)\<lparr>cluServiceMonitors := sms\<rparr> \<and> monitorSettled cr (view w')"
proof -
  note crds = api_crds [OF assms(1)] and sm = api_service_monitors [OF assms(1)]
  let ?l = DefaultArgoRolloutsMetricsServiceName
  have written: ?thesis if y: "\<exists>y w'. reconcileServiceMonitor r cr ?l w = (Ok (), w') \<and> serviceMonitorMatches y ?l \<and>
      metaKey (smMeta y) = rolloutsKey cr \<and> view w' = cluServiceMonitors_update (fmupd (rolloutsKey cr) y) (view w)"
  proof -
    obtain y w' where y: "reconcileServiceMonitor r cr ?l w = (Ok (), w')" "serviceMonitorMatches y ?l"
        "metaKey (smMeta y) = rolloutsKey cr" "view w' = cluServiceMonitors_update (fmupd (rolloutsKey cr) y) (view w)"
      using y by blast
    have "view w' = (view w)\<lparr>cluServiceMonitors := fmupd (rolloutsKey cr) y (cluServiceMonitors (view w))\<rparr>"
      unfolding y(4) by (cases "view w") simp
    moreover have "monitorSettled cr (view w')" using y(2) by (simp add: monitorSettled_def y(4) split: option.split)
    ultimately show ?thesis using y(1) keyed_upd [OF assms(3), OF y(3)] by blast
  qed
  show ?thesis
  proof (cases "fmlookup (cluCRDs (view w)) crdKey")
    case None
    then obtain e w1 where "kget (kCRDs (Client r)) crdKey w = (Inl e, w1)" "IsNotFound e" "view w1 = view w"
      using kind_api.get_missing [OF crds] by blast
    then have "reconcileServiceMonitor r cr ?l w = (Ok (), w1)"
        "view w1 = (view w)\<lparr>cluServiceMonitors := cluServiceMonitors (view w)\<rparr>" "monitorSettled cr (view w1)"
      using None by (simp_all add: reconcileServiceMonitor_def monitorSettled_def)
    with assms(3) show ?thesis by blast
  next
    case (Some crd)
    then obtain w1 where g1: "kget (kCRDs (Client r)) crdKey w = (Inr crd, w1)" "view w1 = view w"
      using kind_api.get_found [OF crds] by blast
    show ?thesis
    proof (cases "fmlookup (cluServiceMonitors (view w)) (rolloutsKey cr)")
      case None
      then obtain e w2 where g2: "kget (kServiceMonitors (Client r)) (rolloutsKey cr) w1 = (Inl e, w2)"
          "IsNotFound e" "view w2 = view w"
        using kind_api.get_missing [OF sm, of w1 "rolloutsKey cr"] g1(2) by auto
      have run: "reconcileServiceMonitor r cr ?l w =
          createServiceMonitorIfAbsent r (crNamespace cr) cr DefaultArgoRolloutsResourceName ?l w2"
        using g1 g2 by (simp add: reconcileServiceMonitor_def)
      show ?thesis
        by (rule written) (use createServiceMonitor_settles [OF assms(1,2), of w2 cr ?l] None run g2(3) in simp)
    next
      case (Some y)
      show ?thesis
        by (rule written [OF writeServiceMonitor_settles [OF assms(1,3) \<open>fmlookup (cluCRDs (view w)) crdKey = Some crd\<close> Some]])
    qed
  qed
qed

lemma monitor_settled:
  assumes "cluster_api view (Client r)" "monitorSettled cr (view w)"
  shows "\<exists>w'. reconcileServiceMonitor r cr DefaultArgoRolloutsMetricsServiceName w = (Ok (), w') \<and> view w' = view w"
proof (cases "fmlookup (cluCRDs (view w)) crdKey")
  case None
  from kind_api.get_missing [OF api_crds [OF assms(1)] this] show ?thesis
    by (auto simp: reconcileServiceMonitor_def)
next
  case (Some crd)
  then obtain y where y: "fmlookup (cluServiceMonitors (view w)) (rolloutsKey cr) = Some y"
      "serviceMonitorMatches y DefaultArgoRolloutsMetricsServiceName"
    using assms(2) by (auto simp: monitorSettled_def split: option.splits)
  obtain w1 where g1: "kget (kCRDs (Client r)) crdKey w = (Inr crd, w1)" "view w1 = view w"
    using kind_api.get_found [OF api_crds [OF assms(1)] Some] by blast
  obtain w2 where "kget (kServiceMonitors (Client r)) (rolloutsKey cr) w1 = (Inr y, w2)" "view w2 = view w"
    using kind_api.get_found [OF api_service_monitors [OF assms(1)], of w1 "rolloutsKey cr"] y(1) g1(2) by auto
  then show ?thesis using g1 y(2) by (simp add: reconcileServiceMonitor_def)
qed

lemma metrics_settles:
  assumes "cluster_api view (Client r)" "owner_contract (Platform r)" "keyed svcMeta (cluServices (view w))"
    and "tameAt svcMeta (cluServices (view w)) (svcKey cr) (svcMeta (expectedSvc cr))"
    and "keyed smMeta (cluServiceMonitors (view w))"
  shows "\<exists>x sms w'. reconcileRolloutsMetricsServiceAndMonitor r cr w = (Ok (), w') \<and> metrics_service.repair cr x = None \<and>
    metaKey (svcMeta x) = svcKey cr \<and> keyed smMeta sms \<and>
    view w' = (view w)\<lparr>cluServices := fmupd (svcKey cr) x (cluServices (view w)), cluServiceMonitors := sms\<rparr> \<and>
    monitorSettled cr (view w')"
proof -
  obtain x w1 where s: "reconcileRolloutsMetricsService r cr w = (Ok x, w1)" "metrics_service.repair cr x = None"
      "metaKey (svcMeta x) = svcKey cr" "view w1 = cluServices_update (fmupd (svcKey cr) x) (view w)"
    using service_settles [OF assms(1-4)] by blast
  obtain sms w2 where m: "reconcileServiceMonitor r cr DefaultArgoRolloutsMetricsServiceName w1 = (Ok (), w2)"
      "keyed smMeta sms" "view w2 = (view w1)\<lparr>cluServiceMonitors := sms\<rparr>" "monitorSettled cr (view w2)"
    using monitor_settles [OF assms(1,2), of w1 cr] assms(5) s(4) by auto
  have "reconcileRolloutsMetricsServiceAndMonitor r cr w = (Ok (), w2)"
    using s(1,3) m(1) by (simp add: reconcileRolloutsMetricsServiceAndMonitor_def metaKey_def)
  moreover have "view w2 = (view w)\<lparr>cluServices := fmupd (svcKey cr) x (cluServices (view w)), cluServiceMonitors := sms\<rparr>"
    unfolding m(3) s(4) by (cases "view w") simp
  ultimately show ?thesis using s(2,3) m(2,4) by blast
qed

lemma metrics_settled:
  assumes "cluster_api view (Client r)" "keyed svcMeta (cluServices (view w))"
    and "settledAt (cluServices (view w)) (svcKey cr) (metrics_service.repair cr)" "monitorSettled cr (view w)"
  shows "\<exists>w'. reconcileRolloutsMetricsServiceAndMonitor r cr w = (Ok (), w') \<and> view w' = view w"
proof -
  obtain x w1 where s: "reconcileRolloutsMetricsService r cr w = (Ok x, w1)" "metaKey (svcMeta x) = svcKey cr" "view w1 = view w"
    using service_settled [OF assms(1-3)] by blast
  with monitor_settled [OF assms(1), of cr w1] assms(4) show ?thesis
    by (auto simp: reconcileRolloutsMetricsServiceAndMonitor_def metaKey_def)
qed
text \<open>The NetworkPolicy, which \<open>ensure\<close> covers when it is enabled.\<close>

lemma compareNetworkPolicy_repair:
  "compareNetworkPolicy cr desired live =
     (case repairObject npMeta npMeta_update cr (npMeta desired) (fixPolicy desired) live of
        None \<Rightarrow> (False, live) | Some live' \<Rightarrow> (True, live'))"
  by (cases live) (auto simp: compareNetworkPolicy_def repairObject_def fixPolicy_def Let_def)

lemma repair_name: "network_policy.repair cr x = Some y \<Longrightarrow> mName (npMeta y) = mName (npMeta x)"
  using network_policy.repair_key [of cr x y] by (simp add: metaKey_def)

lemma policy_get_key:
  assumes "cluster_api view (Client r)" "keyed npMeta (cluNetworkPolicies (view w))"
    and "kget (kNetworkPolicies (Client r)) (policyKey cr) w = (Inr x, w1)"
  shows "metaKey (npMeta x) = policyKey cr"
proof (cases "fmlookup (cluNetworkPolicies (view w)) (policyKey cr)")
  case None
  from kind_api.get_missing [OF api_network_policies [OF assms(1)] this] assms(3) show ?thesis by auto
next
  case (Some y)
  from kind_api.get_found [OF api_network_policies [OF assms(1)] this] assms(3) keyedD [OF assms(2) Some]
  show ?thesis by auto
qed

lemma policy_ensure:
  assumes "IsEnabled (NetworkPolicy (rmSpec cr))" "owner_contract (Platform r)"
    and "cluster_api view (Client r)" "keyed npMeta (cluNetworkPolicies (view w))"
  shows "reconcileRolloutsNetworkPolicy r cr w = discard (ensure (kNetworkPolicies (Client r)) (policyKey cr)
     (errorf_w (''failed to get NetworkPolicy '' @ DefaultRolloutsNetworkPolicy @ '': ''))
     (errorf_w (''failed to create network policy '' @ DefaultRolloutsNetworkPolicy @ '' in namespace '' @ crNamespace cr @ '': ''))
     (errorf_w (''failed to update network policy '' @ DefaultRolloutsNetworkPolicy @ '' in namespace '' @ crNamespace cr @ '': ''))
     (withOwner (Platform r) cr npMeta_update (npMeta (desiredNetworkPolicy cr)) (desiredNetworkPolicy cr))
     (network_policy.repair cr) w)"
proof -
  obtain m where m: "SetControllerReference (Platform r) cr (npMeta (desiredNetworkPolicy cr)) = Inr m"
    by (rule owner_contract_same [OF assms(2), of "npMeta (desiredNetworkPolicy cr)" cr]) auto
  show ?thesis
  proof (cases "kget (kNetworkPolicies (Client r)) (policyKey cr) w")
    case (Pair res w1)
    then show ?thesis using assms(1) m
    proof (cases res)
      case (Inr live)
      then have "mName (npMeta live) = DefaultRolloutsNetworkPolicy"
        using policy_get_key [OF assms(3,4)] Pair by (simp add: metaKey_def)
      then show ?thesis using assms(1) Pair Inr
        by (auto simp: reconcileRolloutsNetworkPolicy_def ensure_def Let_def compareNetworkPolicy_repair
            dest: repair_name split: option.splits)
    qed (simp add: reconcileRolloutsNetworkPolicy_def ensure_def withOwner_def Let_def)
  qed
qed

definition policySettled :: "rollout_manager \<Rightarrow> cluster \<Rightarrow> bool" where
  "policySettled cr c \<longleftrightarrow>
     (if IsEnabled (NetworkPolicy (rmSpec cr))
      then settledAt (cluNetworkPolicies c) (policyKey cr) (network_policy.repair cr)
      else fmlookup (cluNetworkPolicies c) (policyKey cr) = None)"

lemma policy_settles:
  assumes "cluster_api view (Client r)" "owner_contract (Platform r)" "keyed npMeta (cluNetworkPolicies (view w))"
    and "tameAt npMeta (cluNetworkPolicies (view w)) (policyKey cr) (npMeta (desiredNetworkPolicy cr))"
    and "IsEnabled (NetworkPolicy (rmSpec cr))"
  shows "\<exists>x w'. reconcileRolloutsNetworkPolicy r cr w = (Ok (), w') \<and> network_policy.repair cr x = None \<and>
    metaKey (npMeta x) = policyKey cr \<and> view w' = cluNetworkPolicies_update (fmupd (policyKey cr) x) (view w)"
proof -
  have "\<exists>x w'. ensure (kNetworkPolicies (Client r)) (policyKey cr) wg wc wu
      (withOwner (Platform r) cr npMeta_update (npMeta (desiredNetworkPolicy cr)) (desiredNetworkPolicy cr))
      (network_policy.repair cr) w = (Ok x, w') \<and> network_policy.repair cr x = None \<and>
    metaKey (npMeta x) = policyKey cr \<and> view w' = cluNetworkPolicies_update (fmupd (policyKey cr) x) (view w)" for wg wc wu
    by (rule managed_api.owned_settles [OF api_policy [OF assms(1)] assms(2) _ _ assms(3,4)]) simp_all
  then obtain x w' where x: "ensure (kNetworkPolicies (Client r)) (policyKey cr)
     (errorf_w (''failed to get NetworkPolicy '' @ DefaultRolloutsNetworkPolicy @ '': ''))
     (errorf_w (''failed to create network policy '' @ DefaultRolloutsNetworkPolicy @ '' in namespace '' @ crNamespace cr @ '': ''))
     (errorf_w (''failed to update network policy '' @ DefaultRolloutsNetworkPolicy @ '' in namespace '' @ crNamespace cr @ '': ''))
     (withOwner (Platform r) cr npMeta_update (npMeta (desiredNetworkPolicy cr)) (desiredNetworkPolicy cr))
     (network_policy.repair cr) w = (Ok x, w')" "network_policy.repair cr x = None"
    "metaKey (npMeta x) = policyKey cr" "view w' = cluNetworkPolicies_update (fmupd (policyKey cr) x) (view w)"
    by blast
  show ?thesis
    unfolding policy_ensure [OF assms(5,2,1,3)] x(1) using x(2-4) by auto
qed

lemma policy_deleted:
  assumes "cluster_api view (Client r)" "keyed npMeta (cluNetworkPolicies (view w))"
    and "\<not> IsEnabled (NetworkPolicy (rmSpec cr))"
  shows "\<exists>w'. reconcileRolloutsNetworkPolicy r cr w = (Ok (), w') \<and>
    view w' = cluNetworkPolicies_update (fmdrop (policyKey cr)) (view w)"
proof -
  note api = api_network_policies [OF assms(1)]
  show ?thesis
  proof (cases "fmlookup (cluNetworkPolicies (view w)) (policyKey cr)")
    case None
    from kind_api.get_missing [OF api this] kind_api.put_drop_absent [OF api this] assms(3) show ?thesis
      by (auto simp: reconcileRolloutsNetworkPolicy_def deleteRolloutsNetworkPolicies_def)
  next
    case (Some x)
    obtain w1 where g: "kget (kNetworkPolicies (Client r)) (policyKey cr) w = (Inr x, w1)" "view w1 = view w"
      using kind_api.get_found [OF api Some] by blast
    obtain w2 where "kdelete (kNetworkPolicies (Client r)) x w1 = (Inr (), w2)"
        "view w2 = cluNetworkPolicies_update (fmdrop (policyKey cr)) (view w)"
      using kind_api.delete_found [OF api, of w1 x x] Some keyedD [OF assms(2) Some] g(2) by auto
    then show ?thesis using g assms(3)
      by (auto simp: reconcileRolloutsNetworkPolicy_def deleteRolloutsNetworkPolicies_def)
  qed
qed

lemma policy_settled:
  assumes "cluster_api view (Client r)" "owner_contract (Platform r)" "keyed npMeta (cluNetworkPolicies (view w))"
    and "policySettled cr (view w)"
  shows "\<exists>w'. reconcileRolloutsNetworkPolicy r cr w = (Ok (), w') \<and> view w' = view w"
proof (cases "IsEnabled (NetworkPolicy (rmSpec cr))")
  case True
  have "settledAt (cluNetworkPolicies (view w)) (policyKey cr) (network_policy.repair cr)"
    using assms(4) True by (simp add: policySettled_def)
  from managed_api.run_settled [OF api_policy [OF assms(1)] this assms(3)]
  obtain x w' where x: "ensure (kNetworkPolicies (Client r)) (policyKey cr)
     (errorf_w (''failed to get NetworkPolicy '' @ DefaultRolloutsNetworkPolicy @ '': ''))
     (errorf_w (''failed to create network policy '' @ DefaultRolloutsNetworkPolicy @ '' in namespace '' @ crNamespace cr @ '': ''))
     (errorf_w (''failed to update network policy '' @ DefaultRolloutsNetworkPolicy @ '' in namespace '' @ crNamespace cr @ '': ''))
     (withOwner (Platform r) cr npMeta_update (npMeta (desiredNetworkPolicy cr)) (desiredNetworkPolicy cr))
     (network_policy.repair cr) w = (Ok x, w')" "view w' = view w" by blast
  show ?thesis unfolding policy_ensure [OF True assms(2,1,3)] x(1) using x(2) by simp
next
  case False
  then have "fmlookup (cluNetworkPolicies (view w)) (policyKey cr) = None" using assms(4) by (simp add: policySettled_def)
  from policy_deleted [OF assms(1,3) False] kind_api.put_drop_absent [OF api_network_policies [OF assms(1)] this]
  show ?thesis by auto
qed
lemma service_repaired:
  assumes "metrics_service.repair cr svc = None"
  shows "svcPorts svc = slice [metricsServicePort]"
    and "mlookup (mLabels (svcMeta svc)) ''app.kubernetes.io/name'' = Some DefaultArgoRolloutsMetricsServiceName"
proof -
  have x: "svcPorts svc = slice [metricsServicePort]" "\<not> metaOutdated cr (svcMeta svc) (svcMeta (expectedSvc cr))"
    using assms by (auto simp: metrics_service.repair_None fixPorts_def split: if_splits)
  have "fmlookup (fmfilter (keptLabel cr) (entries (mLabels (svcMeta svc)))) ''app.kubernetes.io/name'' =
      Some DefaultArgoRolloutsMetricsServiceName"
    using x(2) by (simp add: metaOutdated_iff)
  then show "mlookup (mLabels (svcMeta svc)) ''app.kubernetes.io/name'' = Some DefaultArgoRolloutsMetricsServiceName"
    by (simp add: mlookup_def split: if_splits)
  show "svcPorts svc = slice [metricsServicePort]" by (rule x(1))
qed

text \<open>A monitor that is missing, or that does not match, is written as the code has it.\<close>

lemma monitor_written:
  assumes "cluster_api view (Client r)" "owner_contract (Platform r)" "keyed smMeta (cluServiceMonitors (view w))"
    and "fmlookup (cluCRDs (view w)) crdKey = Some crd"
    and "\<And>y. fmlookup (cluServiceMonitors (view w)) (rolloutsKey cr) = Some y \<Longrightarrow>
      \<not> serviceMonitorMatches y l \<and> lsMatchExpressions (smSelector y) = None"
  shows "\<exists>z w'. reconcileServiceMonitor r cr l w = (Ok (), w') \<and>
    smSelector z = \<lparr>lsMatchLabels = strmap_of [(''app.kubernetes.io/name'', l)], lsMatchExpressions = None\<rparr> \<and>
    smEndpoints z = slice [metricsEndpoint] \<and>
    view w' = cluServiceMonitors_update (fmupd (rolloutsKey cr) z) (view w)"
proof -
  note sm = api_service_monitors [OF assms(1)]
  let ?s = "\<lparr>lsMatchLabels = strmap_of [(''app.kubernetes.io/name'', l)], lsMatchExpressions = None\<rparr>"
  obtain w1 where g1: "kget (kCRDs (Client r)) crdKey w = (Inr crd, w1)" "view w1 = view w"
    using kind_api.get_found [OF api_crds [OF assms(1)] assms(4)] by blast
  show ?thesis
  proof (cases "fmlookup (cluServiceMonitors (view w)) (rolloutsKey cr)")
    case None
    obtain e w2 where g2: "kget (kServiceMonitors (Client r)) (rolloutsKey cr) w1 = (Inl e, w2)" "IsNotFound e" "view w2 = view w"
      using kind_api.get_missing [OF sm, of w1 "rolloutsKey cr"] None g1(2) by auto
    let ?e = "newMeta DefaultArgoRolloutsResourceName (crNamespace cr)"
    obtain m where m: "SetControllerReference (Platform r) cr ?e = Inr m" "meta_same ?e m"
      by (rule owner_contract_same [OF assms(2), of ?e cr]) auto
    let ?new = "\<lparr>smMeta = m, smSelector = ?s, smEndpoints = slice [metricsEndpoint]\<rparr>"
    have "metaKey m = rolloutsKey cr" using meta_same_key [OF m(2)] by simp
    then obtain y w3 where "kcreate (kServiceMonitors (Client r)) ?new w2 = (Inr y, w3)" "same_service_monitor ?new y"
        "view w3 = cluServiceMonitors_update (fmupd (rolloutsKey cr) y) (view w)"
      using kind_api.create_fresh [OF sm, of w2 ?new] None g2(3) by auto
    then show ?thesis using g1(1) g2 m(1)
      by (intro exI [of _ y] exI [of _ w3])
        (simp add: reconcileServiceMonitor_def createServiceMonitorIfAbsent_def Let_def same_service_monitor_def)
  next
    case (Some x)
    obtain w2 where g2: "kget (kServiceMonitors (Client r)) (rolloutsKey cr) w1 = (Inr x, w2)" "view w2 = view w"
      using kind_api.get_found [OF sm, of w1 "rolloutsKey cr"] Some g1(2) by auto
    let ?x = "x\<lparr>smSelector := (smSelector x)\<lparr>lsMatchLabels := strmap_of [(''app.kubernetes.io/name'', l)]\<rparr>,
        smEndpoints := slice [metricsEndpoint]\<rparr>"
    have "metaKey (smMeta x) = rolloutsKey cr" using keyedD [OF assms(3) Some] .
    then obtain y w3 where "kupdate (kServiceMonitors (Client r)) ?x w2 = (Inr y, w3)" "same_service_monitor ?x y"
        "view w3 = cluServiceMonitors_update (fmupd (rolloutsKey cr) y) (view w)"
      using kind_api.update_found [OF sm, of w2 ?x x] Some g2(2) by auto
    then show ?thesis using g1(1) g2 assms(5) [OF Some]
      by (intro exI [of _ y] exI [of _ w3]) (cases "smSelector x", simp add: reconcileServiceMonitor_def same_service_monitor_def)
  qed
qed

section \<open>Properties\<close>

text \<open>
  With the notification Secret switched off no Secret is ever created or updated; one that
  exists is deleted when its controller has the name of the resource, and only then. The decision
  looks at the name alone, so that an owner of another kind with that name is enough.
\<close>

theorem secret_skip_decision:
  assumes "SkipNotificationSecretDeployment (rmSpec cr)"
  shows "reconcileRolloutsSecrets r cr w =
     (case kget (kSecrets (Client r)) (secretKey cr) w of
        (Inl err, w1) \<Rightarrow> if IsNotFound err then (Ok (), w1)
          else (Err (errorf_w (''failed to get the Secret '' @ DefaultRolloutsNotificationSecretName @ '': '') err), w1)
      | (Inr live, w1) \<Rightarrow>
          if map_option orName (GetControllerOf (Platform r) (secMeta live)) = Some (crName cr)
          then lift (kdelete (kSecrets (Client r)) live w1) else (Ok (), w1))"
  using assms by (auto simp: reconcileRolloutsSecrets_def Let_def split: prod.split sum.split option.split)

theorem secret_skip_decision_witness:
  "reconcileRolloutsSecrets (memReconciler True)
     ((basicRolloutManager ''rm'' ''ns'' True)\<lparr>rmSpec := (rmSpec (basicRolloutManager ''rm'' ''ns'' True))\<lparr>SkipNotificationSecretDeployment := True\<rparr>\<rparr>)
     emptyCluster = (Ok (), emptyCluster)"
  by (subst secret_skip_decision) (simp_all add: mem_client_def mem_ops_def emptyCluster_def notFound_def)

text \<open>
  A custom label of the reconciler under a key that the operator does not manage is never
  recognised on the Secret: whatever the Secret on the cluster looks like, the one that the last
  update left behind included, it is sent to the server again.
\<close>

theorem custom_secret_label_never_settles:
  assumes "\<not> SkipNotificationSecretDeployment (rmSpec cr)"
    and "mlookup (ResourceLabels r) k = Some v" "\<not> keptLabel cr k"
    and "kget (kSecrets (Client r)) (secretKey cr) w = (Inr live, w1)"
  shows "reconcileRolloutsSecrets r cr w = discard (lift (kupdate (kSecrets (Client r))
     (live\<lparr>secMeta := adoptMeta (secMeta live) (secMeta (expectedSecret r cr))\<rparr>) w1))"
proof -
  have "fmlookup (entries (mLabels (secMeta (expectedSecret r cr)))) k = Some v"
    using assms(2) by (simp add: mlookup_def fmlookup_dom_iff)
  from never_settles_dropped [OF assms(3) this] show ?thesis
    using assms(1,4) by (simp add: reconcileRolloutsSecrets_def updateIfNeeded_def Let_def)
qed

definition labelledReconciler :: "cluster reconciler" where
  "labelledReconciler = (memReconciler True)\<lparr>ResourceLabels := strmap_of [(''team'', ''a'')]\<rparr>"

theorem custom_secret_label_never_settles_witness:
  "reconcileRolloutsSecrets labelledReconciler (basicRolloutManager ''rm'' ''ns'' True)
     (emptyCluster\<lparr>cluSecrets := fmap_of_list [(NamespacedName ''ns'' DefaultRolloutsNotificationSecretName,
        expectedSecret labelledReconciler (basicRolloutManager ''rm'' ''ns'' True))]\<rparr>) =
   discard (lift (kupdate (kSecrets mem_client)
     ((expectedSecret labelledReconciler (basicRolloutManager ''rm'' ''ns'' True))\<lparr>secMeta :=
        adoptMeta (secMeta (expectedSecret labelledReconciler (basicRolloutManager ''rm'' ''ns'' True)))
          (secMeta (expectedSecret labelledReconciler (basicRolloutManager ''rm'' ''ns'' True)))\<rparr>)
     (emptyCluster\<lparr>cluSecrets := fmap_of_list [(NamespacedName ''ns'' DefaultRolloutsNotificationSecretName,
        expectedSecret labelledReconciler (basicRolloutManager ''rm'' ''ns'' True))]\<rparr>)))"
proof -
  let ?cr = "basicRolloutManager ''rm'' ''ns'' True"
  let ?c = "emptyCluster\<lparr>cluSecrets := fmap_of_list [(NamespacedName ''ns'' DefaultRolloutsNotificationSecretName,
        expectedSecret labelledReconciler ?cr)]\<rparr>"
  have g: "kget (kSecrets (Client labelledReconciler)) (secretKey ?cr) ?c = (Inr (expectedSecret labelledReconciler ?cr), ?c)"
    by (simp add: labelledReconciler_def mem_client_def mem_ops_def)
  have k: "\<not> keptLabel ?cr ''team''"
    by (simp add: keptLabel_def isAggregateLabel_def strings_Contains_def sublist_code managedLabels_def standardLabels_def)
  have l: "mlookup (ResourceLabels labelledReconciler) ''team'' = Some ''a''"
    by (simp add: labelledReconciler_def mlookup_def)
  have c: "Client labelledReconciler = mem_client" by (simp add: labelledReconciler_def)
  have "\<not> SkipNotificationSecretDeployment (rmSpec ?cr)" by simp
  from custom_secret_label_never_settles [OF this l k g] show ?thesis unfolding c .
qed

text \<open>
  C16: After the metrics step on a conforming cluster the Service has the metrics port and the
  name label of the operator, whatever labels the user asked for, and where ServiceMonitors are
  installed the one of this instance matches that label and scrapes the metrics port; nothing
  but the Service and the ServiceMonitors has changed.
\<close>

theorem metrics_reconciled:
  assumes "cluster_api view (Client r)" "owner_contract (Platform r)" "keyed svcMeta (cluServices (view w))"
    and "tameAt svcMeta (cluServices (view w)) (svcKey cr) (svcMeta (expectedSvc cr))"
    and "keyed smMeta (cluServiceMonitors (view w))"
  shows "\<exists>x sms w'. reconcileRolloutsMetricsServiceAndMonitor r cr w = (Ok (), w') \<and>
    svcPorts x = slice [metricsServicePort] \<and>
    mlookup (mLabels (svcMeta x)) ''app.kubernetes.io/name'' = Some DefaultArgoRolloutsMetricsServiceName \<and>
    view w' = (view w)\<lparr>cluServices := fmupd (svcKey cr) x (cluServices (view w)), cluServiceMonitors := sms\<rparr> \<and>
    (case fmlookup (cluCRDs (view w)) crdKey of None \<Rightarrow> True | Some _ \<Rightarrow>
       (\<exists>sm. fmlookup sms (rolloutsKey cr) = Some sm \<and>
          serviceMonitorMatches sm DefaultArgoRolloutsMetricsServiceName))"
proof -
  obtain x sms w' where s: "reconcileRolloutsMetricsServiceAndMonitor r cr w = (Ok (), w')"
      "metrics_service.repair cr x = None"
      "view w' = (view w)\<lparr>cluServices := fmupd (svcKey cr) x (cluServices (view w)), cluServiceMonitors := sms\<rparr>"
      "monitorSettled cr (view w')"
    using metrics_settles [OF assms] by blast
  note x = service_repaired [OF s(2)]
  have "case fmlookup (cluCRDs (view w)) crdKey of None \<Rightarrow> True | Some _ \<Rightarrow>
       (\<exists>sm. fmlookup sms (rolloutsKey cr) = Some sm \<and>
          serviceMonitorMatches sm DefaultArgoRolloutsMetricsServiceName)"
    using s(4) by (simp add: monitorSettled_def s(3) split: option.splits)
  then show ?thesis using s(1,3) x by blast
qed

theorem metrics_reconciled_witness:
  "\<exists>x w'. reconcileRolloutsMetricsServiceAndMonitor (memReconciler True) (basicRolloutManager ''rm'' ''ns'' True) emptyCluster = (Ok (), w') \<and>
     fmlookup (cluServices w') (NamespacedName ''ns'' DefaultArgoRolloutsMetricsServiceName) = Some x \<and>
     svcPorts x = slice [metricsServicePort]"
proof -
  have "cluster_api (\<lambda>c. c) (Client (memReconciler True))" "owner_contract (Platform (memReconciler True))"
    by (simp_all add: mem_cluster_api)
  from metrics_reconciled [OF this, of emptyCluster "basicRolloutManager ''rm'' ''ns'' True"]
  show ?thesis by (auto simp: emptyCluster_def tameAt_def)
qed

text \<open>
  C15: The NetworkPolicy step on a conforming cluster: a policy switched off is gone afterwards; one
  that is on selects the pods of the controller, admits traffic to ports 8080 and 8090 only and
  carries current metadata. No other object has changed.
\<close>

theorem network_policy_reconciled:
  assumes "cluster_api view (Client r)" "owner_contract (Platform r)" "keyed npMeta (cluNetworkPolicies (view w))"
    and "tameAt npMeta (cluNetworkPolicies (view w)) (policyKey cr) (npMeta (desiredNetworkPolicy cr))"
  shows "\<exists>w'. reconcileRolloutsNetworkPolicy r cr w = (Ok (), w') \<and>
    (if IsEnabled (NetworkPolicy (rmSpec cr))
     then \<exists>x. view w' = cluNetworkPolicies_update (fmupd (policyKey cr) x) (view w) \<and>
       npPodSelector x = npPodSelector (desiredNetworkPolicy cr) \<and> npPolicyTypes x = slice [''Ingress''] \<and>
       map (map nppPort \<circ> elems \<circ> npiPorts) (elems (npIngress x)) = [[Some (FromInt 8080), Some (FromInt 8090)]] \<and>
       \<not> metaOutdated cr (npMeta x) (npMeta (desiredNetworkPolicy cr))
     else view w' = cluNetworkPolicies_update (fmdrop (policyKey cr)) (view w))"
proof (cases "IsEnabled (NetworkPolicy (rmSpec cr))")
  case True
  obtain x w' where s: "reconcileRolloutsNetworkPolicy r cr w = (Ok (), w')" "network_policy.repair cr x = None"
      "view w' = cluNetworkPolicies_update (fmupd (policyKey cr) x) (view w)"
    using policy_settles [OF assms True] by blast
  have "fixPolicy (desiredNetworkPolicy cr) x = None" "\<not> metaOutdated cr (npMeta x) (npMeta (desiredNetworkPolicy cr))"
    using s(2) by (auto simp: network_policy.repair_None)
  then have "npPodSelector x = npPodSelector (desiredNetworkPolicy cr)"
      "npPolicyTypes x = npPolicyTypes (desiredNetworkPolicy cr)" "npIngress x = npIngress (desiredNetworkPolicy cr)"
    by (auto simp: fixPolicy_def split: if_splits)
  moreover have "npPolicyTypes (desiredNetworkPolicy cr) = slice [''Ingress'']"
      "map (map nppPort \<circ> elems \<circ> npiPorts) (elems (npIngress (desiredNetworkPolicy cr))) =
         [[Some (FromInt 8080), Some (FromInt 8090)]]"
    by (simp_all add: desiredNetworkPolicy_def Let_def slice_def)
  ultimately show ?thesis
    using s True \<open>\<not> metaOutdated cr (npMeta x) (npMeta (desiredNetworkPolicy cr))\<close> by auto
next
  case False
  with policy_deleted [OF assms(1,3) False] show ?thesis by auto
qed

theorem network_policy_reconciled_witness:
  "\<exists>x w'. reconcileRolloutsNetworkPolicy (memReconciler True) (basicRolloutManager ''rm'' ''ns'' True) emptyCluster = (Ok (), w') \<and>
     fmlookup (cluNetworkPolicies w') (NamespacedName ''ns'' DefaultRolloutsNetworkPolicy) = Some x \<and>
     npPolicyTypes x = slice [''Ingress'']"
proof -
  have "cluster_api (\<lambda>c. c) (Client (memReconciler True))" "owner_contract (Platform (memReconciler True))"
    by (simp_all add: mem_cluster_api)
  from network_policy_reconciled [OF this, of emptyCluster "basicRolloutManager ''rm'' ''ns'' True"]
  show ?thesis by (auto simp: emptyCluster_def tameAt_def IsEnabled_def)
qed

end
