(* ===== verification/Plugin_Config.thy ===== *)
theory Plugin_Config
  imports Resources
begin

text \<open>
  The ConfigMap that tells Argo Rollouts which plugins to load (\<open>controllers/configmap.go\<close>):
  the two plugin lists, the comparison of the parsed contents, the update that drops the obsolete
  key, and the restart of the controller pods after an update.
\<close>

section \<open>The plugin lists\<close>

definition TrafficRouterPluginConfigMapKey :: string where
  "TrafficRouterPluginConfigMapKey = ''trafficRouterPlugins''"

definition MetricPluginConfigMapKey_PreviousInvalidKey :: string where
  "MetricPluginConfigMapKey_PreviousInvalidKey = ''metricPlugins''"

definition MetricPluginConfigMapKey :: string where
  "MetricPluginConfigMapKey = ''metricProviderPlugins''"

lemmas config_keys = TrafficRouterPluginConfigMapKey_def MetricPluginConfigMapKey_PreviousInvalidKey_def
  MetricPluginConfigMapKey_def

definition itemOf :: "plugin \<Rightarrow> pluginItem" where
  "itemOf p = \<lparr>piName = pluginName p, piLocation = pluginLocation p, piSha256 = pluginSHA256 p\<rparr>"

definition addPlugin :: "(string, pluginItem) fmap \<Rightarrow> plugin \<Rightarrow> (string, pluginItem) fmap" where
  "addPlugin m p = (if fmlookup m (pluginName p) = None then fmupd (pluginName p) (itemOf p) m else m)"

fun addTrafficPlugins :: "plugin list \<Rightarrow> (string, pluginItem) fmap \<Rightarrow> go_error + (string, pluginItem) fmap" where
  "addTrafficPlugins [] m = Inr m"
| "addTrafficPlugins (p # ps) m =
     (if pluginName p = OpenShiftRolloutPluginName
      then Inl (errors_New (''the plugin '' @ OpenShiftRolloutPluginName @
        '' cannot be modified or added through the RolloutManager CR''))
      else addTrafficPlugins ps (addPlugin m p))"

text \<open>The keys of the map are collected, sorted and looked up again.\<close>

definition sortedItems :: "(string, pluginItem) fmap \<Rightarrow> pluginItem list" where
  "sortedItems m = map snd (sorted_list_of_fmap m)"

definition trafficRouterPlugins :: "'w reconciler \<Rightarrow> rollout_manager \<Rightarrow> go_error + pluginItem list" where
  "trafficRouterPlugins r cr =
     (case addTrafficPlugins (TrafficManagement (Plugins (rmSpec cr)))
         (fmap_of_list [(OpenShiftRolloutPluginName, \<lparr>piName = OpenShiftRolloutPluginName,
            piLocation = OpenShiftRoutePluginLocation r, piSha256 = ''''\<rparr>)]) of
        Inl err \<Rightarrow> Inl err
      | Inr m \<Rightarrow> Inr (sortedItems m))"

definition metricPlugins :: "rollout_manager \<Rightarrow> pluginItem list" where
  "metricPlugins cr = sortedItems (foldl addPlugin fmempty (Metric (Plugins (rmSpec cr))))"

section \<open>The restart of the pods\<close>

fun deletePods :: "'w reconciler \<Rightarrow> pod list \<Rightarrow> 'w \<Rightarrow> unit res \<times> 'w" where
  "deletePods r [] w = (Ok (), w)"
| "deletePods r (p # ps) w =
     (if mDeletionTimestamp (podMeta p) = None then
        (case kdelete (kPods (Client r)) p w of
           (Inl err, w1) \<Rightarrow>
             if IsNotFound err then deletePods r ps w1
             else (Err (errorf_w (''failed to delete Rollouts Pod '' @ mName (podMeta p) @ '': '') err), w1)
         | (Inr _, w1) \<Rightarrow> deletePods r ps w1)
      else deletePods r ps w)"

definition restartRolloutsPod :: "'w reconciler \<Rightarrow> string \<Rightarrow> 'w \<Rightarrow> unit res \<times> 'w" where
  "restartRolloutsPod r namespace w =
     (case kget (kDeployments (Client r)) (NamespacedName namespace DefaultArgoRolloutsResourceName) w of
        (Inl err, w1) \<Rightarrow>
          if IsNotFound err then (Ok (), w1) else (Err (errorf_w ''failed to get deployment: '' err), w1)
      | (Inr deployment, w1) \<Rightarrow>
          (case dsSelector (dSpec deployment) of
             None \<Rightarrow> (Panic ''invalid memory address or nil pointer dereference'', w1)
           | Some selector \<Rightarrow>
               (case klist (kPods (Client r)) (Some namespace) (lsMatchLabels selector) w1 of
                  (Inl err, w2) \<Rightarrow> (Err (errorf_w ''failed to list Rollouts Pods: '' err), w2)
                | (Inr items, w2) \<Rightarrow> deletePods r items w2)))"

section \<open>The reconciler\<close>

definition desiredConfigMap :: "'w reconciler \<Rightarrow> rollout_manager \<Rightarrow> config_map" where
  "desiredConfigMap r cr =
     (let m = setRolloutsLabelsAndAnnotationsToObject
            ((newMeta DefaultRolloutsConfigMapName (crNamespace cr))\<lparr>mLabels :=
               strmap_of [(''app.kubernetes.io/name'', DefaultRolloutsConfigMapName)]\<rparr>) cr
      in \<lparr>cmMeta = (if ResourceLabels r \<noteq> None then setCustomLabels m (ResourceLabels r) else m), cmData = None\<rparr>)"

text \<open>A read from a nil map, or of a key that is not there, gives the empty string.\<close>

definition dataAt :: "strmap \<Rightarrow> string \<Rightarrow> string" where
  "dataAt m k = (case mlookup m k of None \<Rightarrow> '''' | Some s \<Rightarrow> s)"

text \<open>
  The update of the ConfigMap that was found. Deleting from a nil map does nothing, writing to
  one is a panic.
\<close>

definition updateConfigMap ::
    "'w reconciler \<Rightarrow> rollout_manager \<Rightarrow> config_map \<Rightarrow> string \<Rightarrow> string \<Rightarrow> 'w \<Rightarrow> unit res \<times> 'w" where
  "updateConfigMap r cr actual trafficString metricString w =
     (case cmData actual of
        None \<Rightarrow> (Panic ''assignment to entry in nil map'', w)
      | Some d \<Rightarrow>
          (case kupdate (kConfigMaps (Client r)) (actual\<lparr>cmData :=
               Some (fmupd MetricPluginConfigMapKey metricString (fmupd TrafficRouterPluginConfigMapKey trafficString d))\<rparr>) w of
             (Inl err, w1) \<Rightarrow> (Err (errorf_s ''failed to update ConfigMap: '' err), w1)
           | (Inr _, w1) \<Rightarrow> restartRolloutsPod r (crNamespace cr) w1))"

definition compareConfigMap ::
    "'w reconciler \<Rightarrow> rollout_manager \<Rightarrow> config_map \<Rightarrow> pluginItem list \<Rightarrow> string \<Rightarrow> string \<Rightarrow> 'w \<Rightarrow> unit res \<times> 'w" where
  "compareConfigMap r cr actual traffic trafficString metricString w =
     (case yaml_Unmarshal (Platform r) (dataAt (cmData actual) TrafficRouterPluginConfigMapKey) of
        Inl err \<Rightarrow> (Err (errorf_s ''failed to unmarshal traffic router plugins: '' err), w)
      | Inr actualTrafficRouterPlugins \<Rightarrow>
     (case yaml_Unmarshal (Platform r) (dataAt (cmData actual) MetricPluginConfigMapKey) of
        Inl err \<Rightarrow> (Err (errorf_s ''failed to unmarshal metric plugins: '' err), w)
      | Inr actualMetricPlugins \<Rightarrow>
     (let updateNeeded = actualTrafficRouterPlugins \<noteq> slice traffic \<or> actualMetricPlugins \<noteq> slice (metricPlugins cr);
          hasOldKey = mlookup (cmData actual) MetricPluginConfigMapKey_PreviousInvalidKey \<noteq> None;
          actual = (if hasOldKey then actual\<lparr>cmData :=
              map_option (fmdrop MetricPluginConfigMapKey_PreviousInvalidKey) (cmData actual)\<rparr> else actual)
      in if updateNeeded \<or> hasOldKey then updateConfigMap r cr actual trafficString metricString w
         else (Ok (), w))))"

definition reconcileConfigMap :: "'w reconciler \<Rightarrow> rollout_manager \<Rightarrow> 'w \<Rightarrow> unit res \<times> 'w" where
  "reconcileConfigMap r cr w =
     (if OpenShiftRoutePluginLocation r = '''' then (Err (errors_New ''OpenShift Route Plugin location is not set''), w)
      else case trafficRouterPlugins r cr of
        Inl err \<Rightarrow> (Err err, w)
      | Inr traffic \<Rightarrow>
     (case yaml_Marshal (Platform r) traffic of
        Inl err \<Rightarrow> (Err (errorf_s ''error marshalling trafficRouterPlugin to string '' err), w)
      | Inr trafficString \<Rightarrow>
     (case yaml_Marshal (Platform r) (metricPlugins cr) of
        Inl err \<Rightarrow> (Err (errorf_s ''error marshalling metricPlugins to string '' err), w)
      | Inr metricString \<Rightarrow>
     (let desired = (desiredConfigMap r cr)\<lparr>cmData := strmap_of [(TrafficRouterPluginConfigMapKey, trafficString),
            (MetricPluginConfigMapKey, metricString)]\<rparr>
      in case fetchObject (kConfigMaps (Client r)) (crNamespace cr) (mName (cmMeta desired)) w of
           (Inl err, w1) \<Rightarrow>
             if IsNotFound err then discard (lift (kcreate (kConfigMaps (Client r)) desired w1))
             else (Err (errorf_w (''failed to get the ConfigMap associated with '' @ mName (cmMeta desired) @ '': '') err), w1)
         | (Inr actual, w1) \<Rightarrow> compareConfigMap r cr actual traffic trafficString metricString w1))))"

section \<open>What the lists hold\<close>

definition pluginNamed :: "string \<Rightarrow> plugin list \<Rightarrow> plugin option" where
  "pluginNamed n ps = find (\<lambda>p. pluginName p = n) ps"

lemma pluginNamed_simps [simp]:
  "pluginNamed n [] = None"
  "pluginNamed n (p # ps) = (if pluginName p = n then Some p else pluginNamed n ps)"
  by (simp_all add: pluginNamed_def)

lemma pluginNamed_name: "pluginNamed n ps = Some p \<Longrightarrow> pluginName p = n \<and> p \<in> set ps"
  by (auto simp: pluginNamed_def find_Some_iff)

lemma pluginNamed_None: "pluginNamed n ps = None \<longleftrightarrow> n \<notin> pluginName ` set ps"
  by (auto simp: pluginNamed_def find_None_iff)

lemma pluginNamed_unique:
  "distinct (map pluginName ps) \<Longrightarrow> p \<in> set ps \<Longrightarrow> pluginNamed (pluginName p) ps = Some p"
  by (induction ps) auto

lemma lookup_addPlugins:
  "fmlookup (foldl addPlugin m ps) n =
     (case fmlookup m n of Some i \<Rightarrow> Some i | None \<Rightarrow> map_option itemOf (pluginNamed n ps))"
  by (induction ps arbitrary: m) (auto simp: addPlugin_def split: option.splits)

lemma addTrafficPlugins_eq:
  "addTrafficPlugins ps m =
     (if OpenShiftRolloutPluginName \<in> pluginName ` set ps
      then Inl (errors_New (''the plugin '' @ OpenShiftRolloutPluginName @
        '' cannot be modified or added through the RolloutManager CR''))
      else Inr (foldl addPlugin m ps))"
  by (induction ps arbitrary: m) auto

lemma sortedItems_set: "i \<in> set (sortedItems m) \<longleftrightarrow> (\<exists>k. fmlookup m k = Some i)"
  by (auto simp: sortedItems_def image_iff Bex_def in_sorted_list_of_fmap)

lemma sortedItems_names:
  assumes "\<And>k i. fmlookup m k = Some i \<Longrightarrow> piName i = k"
  shows "map piName (sortedItems m) = sorted_list_of_fset (fmdom m)"
proof -
  have "map piName (sortedItems m) = map fst (sorted_list_of_fmap m)"
    unfolding sortedItems_def map_map
    by (rule map_cong) (auto simp: in_sorted_list_of_fmap dest: assms)
  then show ?thesis by (simp add: sorted_list_of_fmap_keys)
qed

lemma sortedItems_sorted:
  assumes "\<And>k i. fmlookup m k = Some i \<Longrightarrow> piName i = k"
  shows "sorted (map piName (sortedItems m))" "distinct (map piName (sortedItems m))"
proof -
  have n: "map piName (sortedItems m) = sorted_list_of_fset (fmdom m)"
    by (rule sortedItems_names) (rule assms)
  show "sorted (map piName (sortedItems m))" "distinct (map piName (sortedItems m))"
    unfolding n by (simp_all add: sorted_list_of_fset.rep_eq)
qed

definition openShiftItem :: "'w reconciler \<Rightarrow> pluginItem" where
  "openShiftItem r = \<lparr>piName = OpenShiftRolloutPluginName, piLocation = OpenShiftRoutePluginLocation r, piSha256 = ''''\<rparr>"

definition trafficMap :: "'w reconciler \<Rightarrow> rollout_manager \<Rightarrow> (string, pluginItem) fmap" where
  "trafficMap r cr = foldl addPlugin (fmap_of_list [(OpenShiftRolloutPluginName, openShiftItem r)])
     (TrafficManagement (Plugins (rmSpec cr)))"

lemma lookup_trafficMap:
  "fmlookup (trafficMap r cr) n = (if n = OpenShiftRolloutPluginName then Some (openShiftItem r)
     else map_option itemOf (pluginNamed n (TrafficManagement (Plugins (rmSpec cr)))))"
  by (simp add: trafficMap_def lookup_addPlugins)

lemma trafficMap_name: "fmlookup (trafficMap r cr) k = Some i \<Longrightarrow> piName i = k"
  by (auto simp: lookup_trafficMap openShiftItem_def itemOf_def dest: pluginNamed_name split: if_splits)

lemma trafficRouterPlugins_eq:
  "trafficRouterPlugins r cr =
     (if OpenShiftRolloutPluginName \<in> pluginName ` set (TrafficManagement (Plugins (rmSpec cr)))
      then Inl (errors_New (''the plugin '' @ OpenShiftRolloutPluginName @
        '' cannot be modified or added through the RolloutManager CR''))
      else Inr (sortedItems (trafficMap r cr)))"
  by (simp add: trafficRouterPlugins_def addTrafficPlugins_eq trafficMap_def openShiftItem_def)

lemma lookup_metricMap:
  "fmlookup (foldl addPlugin fmempty ps) n = map_option itemOf (pluginNamed n ps)"
  by (simp add: lookup_addPlugins)

lemma metricMap_name: "fmlookup (foldl addPlugin fmempty ps) k = Some i \<Longrightarrow> piName i = k"
  by (auto simp: lookup_metricMap itemOf_def dest: pluginNamed_name)

section \<open>The restart\<close>

text \<open>The pods a restart deletes: those the selector matches that are not on their way out.\<close>

definition restartedPods :: "string \<Rightarrow> strmap \<Rightarrow> cluster \<Rightarrow> namespaced_name set" where
  "restartedPods ns sel c = {k. \<exists>p. fmlookup (cluPods c) k = Some p \<and> nnNamespace k = ns \<and>
     entries sel \<subseteq>\<^sub>f entries (mLabels (podMeta p)) \<and> mDeletionTimestamp (podMeta p) = None}"

definition liveKeys :: "pod list \<Rightarrow> namespaced_name set" where
  "liveKeys ps = {k. \<exists>p\<in>set ps. mDeletionTimestamp (podMeta p) = None \<and> metaKey (podMeta p) = k}"

lemma fmfilter_drop: "fmfilter P (fmdrop k m) = fmfilter (\<lambda>x. x \<noteq> k \<and> P x) m"
  by (rule fmap_ext) simp

lemma deletePods_drops:
  assumes "cluster_api view (Client r)"
  shows "\<exists>w'. deletePods r ps w = (Ok (), w') \<and> view w' = cluPods_update (fmfilter (\<lambda>k. k \<notin> liveKeys ps)) (view w)"
proof (induction ps arbitrary: w)
  case Nil
  have "fmfilter (\<lambda>k. k \<notin> liveKeys []) (cluPods (view w)) = cluPods (view w)"
    by (rule fmfilter_id) (simp add: liveKeys_def)
  then show ?case using kind_api.put_unchanged [OF api_pods [OF assms]] by fastforce
next
  case (Cons p ps)
  note pods = api_pods [OF assms]
  let ?k = "metaKey (podMeta p)"
  show ?case
  proof (cases "mDeletionTimestamp (podMeta p)")
    case (Some t)
    then have "liveKeys (p # ps) = liveKeys ps" by (auto simp: liveKeys_def)
    with Cons.IH [of w] Some show ?thesis by simp
  next
    case None
    have "\<exists>w1. deletePods r (p # ps) w = deletePods r ps w1 \<and> view w1 = cluPods_update (fmdrop ?k) (view w)"
    proof (cases "fmlookup (cluPods (view w)) ?k")
      case None
      from kind_api.delete_missing [OF pods this] kind_api.put_drop_absent [OF pods this] \<open>mDeletionTimestamp (podMeta p) = None\<close>
      show ?thesis by auto
    next
      case (Some q)
      from kind_api.delete_found [OF pods this] \<open>mDeletionTimestamp (podMeta p) = None\<close> show ?thesis by auto
    qed
    then obtain w1 where w1: "deletePods r (p # ps) w = deletePods r ps w1" "view w1 = cluPods_update (fmdrop ?k) (view w)"
      by blast
    have "liveKeys (p # ps) = insert ?k (liveKeys ps)" using None by (auto simp: liveKeys_def)
    then have "cluPods_update (fmfilter (\<lambda>k. k \<notin> liveKeys ps)) (cluPods_update (fmdrop ?k) (view w)) =
        cluPods_update (fmfilter (\<lambda>k. k \<notin> liveKeys (p # ps))) (view w)"
      by (cases "view w") (simp add: fmfilter_drop)
    with Cons.IH [of w1] w1 show ?thesis by simp
  qed
qed

lemma restart_deletes:
  assumes "cluster_api view (Client r)" "keyed podMeta (cluPods (view w))"
    and "fmlookup (cluDeployments (view w)) (NamespacedName ns DefaultArgoRolloutsResourceName) = Some d"
    and "dsSelector (dSpec d) = Some sel"
  shows "\<exists>w'. restartRolloutsPod r ns w = (Ok (), w') \<and>
    view w' = cluPods_update (fmfilter (\<lambda>k. k \<notin> restartedPods ns (lsMatchLabels sel) (view w))) (view w)"
proof -
  obtain w1 where g: "kget (kDeployments (Client r)) (NamespacedName ns DefaultArgoRolloutsResourceName) w = (Inr d, w1)"
      "view w1 = view w"
    using kind_api.get_found [OF api_deployments [OF assms(1)] assms(3)] by blast
  obtain xs w2 where l: "klist (kPods (Client r)) (Some ns) (lsMatchLabels sel) w1 = (Inr xs, w2)" "view w2 = view w1"
      "set xs = {x. \<exists>k. fmlookup (cluPods (view w1)) k = Some x \<and> (\<forall>n. Some ns = Some n \<longrightarrow> nnNamespace k = n) \<and>
        entries (lsMatchLabels sel) \<subseteq>\<^sub>f entries (mLabels (podMeta x))}"
    using kind_api.list_all [OF api_pods [OF assms(1)], of "Some ns" "lsMatchLabels sel" w1] by blast
  have "liveKeys xs = restartedPods ns (lsMatchLabels sel) (view w)"
    using keyedD [OF assms(2)] by (auto simp: liveKeys_def restartedPods_def l(3) g(2))
  with deletePods_drops [OF assms(1), of xs w2] g l(1,2) assms(4) show ?thesis
    by (simp add: restartRolloutsPod_def)
qed

lemma restart_without_deployment:
  assumes "cluster_api view (Client r)"
    and "fmlookup (cluDeployments (view w)) (NamespacedName ns DefaultArgoRolloutsResourceName) = None"
  shows "\<exists>w'. restartRolloutsPod r ns w = (Ok (), w') \<and> view w' = view w"
  using kind_api.get_missing [OF api_deployments [OF assms(1)] assms(2)] by (auto simp: restartRolloutsPod_def)

section \<open>What one run leaves behind\<close>

abbreviation configKey :: "rollout_manager \<Rightarrow> namespaced_name" where
  "configKey cr \<equiv> NamespacedName (crNamespace cr) DefaultRolloutsConfigMapName"

text \<open>The YAML codec reads back what it wrote.\<close>

definition yaml_contract :: "platform \<Rightarrow> bool" where
  "yaml_contract p \<longleftrightarrow> (\<forall>xs. \<exists>s. yaml_Marshal p xs = Inr s \<and> yaml_Unmarshal p s = Inr (Some xs))"

definition configCurrent :: "'w reconciler \<Rightarrow> rollout_manager \<Rightarrow> config_map \<Rightarrow> bool" where
  "configCurrent r cr cm \<longleftrightarrow>
     (case trafficRouterPlugins r cr of Inl _ \<Rightarrow> False
      | Inr traffic \<Rightarrow>
          yaml_Unmarshal (Platform r) (dataAt (cmData cm) TrafficRouterPluginConfigMapKey) = Inr (slice traffic) \<and>
          yaml_Unmarshal (Platform r) (dataAt (cmData cm) MetricPluginConfigMapKey) = Inr (slice (metricPlugins cr)) \<and>
          mlookup (cmData cm) MetricPluginConfigMapKey_PreviousInvalidKey = None)"

definition configSettled :: "'w reconciler \<Rightarrow> rollout_manager \<Rightarrow> cluster \<Rightarrow> bool" where
  "configSettled r cr c \<longleftrightarrow> (case fmlookup (cluConfigMaps c) (configKey cr) of None \<Rightarrow> False
     | Some cm \<Rightarrow> configCurrent r cr cm)"

text \<open>A ConfigMap that the reconciler can work with: it has data, and both entries parse.\<close>

definition usableConfigMap :: "platform \<Rightarrow> config_map \<Rightarrow> bool" where
  "usableConfigMap p cm \<longleftrightarrow> cmData cm \<noteq> None \<and>
     \<not> isl (yaml_Unmarshal p (dataAt (cmData cm) TrafficRouterPluginConfigMapKey)) \<and>
     \<not> isl (yaml_Unmarshal p (dataAt (cmData cm) MetricPluginConfigMapKey))"

definition configReady :: "platform \<Rightarrow> rollout_manager \<Rightarrow> cluster \<Rightarrow> bool" where
  "configReady p cr c \<longleftrightarrow>
     (case fmlookup (cluConfigMaps c) (configKey cr) of None \<Rightarrow> True | Some cm \<Rightarrow> usableConfigMap p cm) \<and>
     (case fmlookup (cluDeployments c) (rolloutsKey cr) of None \<Rightarrow> True | Some d \<Rightarrow> dsSelector (dSpec d) \<noteq> None)"

definition pluginsAllowed :: "'w reconciler \<Rightarrow> rollout_manager \<Rightarrow> bool" where
  "pluginsAllowed r cr \<longleftrightarrow> OpenShiftRoutePluginLocation r \<noteq> '''' \<and>
     OpenShiftRolloutPluginName \<notin> pluginName ` set (TrafficManagement (Plugins (rmSpec cr)))"

lemma pluginsAllowed_traffic:
  "pluginsAllowed r cr \<Longrightarrow> trafficRouterPlugins r cr = Inr (sortedItems (trafficMap r cr))"
  by (simp add: pluginsAllowed_def trafficRouterPlugins_eq)

lemma desiredConfigMap_name [simp]:
  "mName (cmMeta (desiredConfigMap r cr)) = DefaultRolloutsConfigMapName"
  "metaKey (cmMeta (desiredConfigMap r cr)) = configKey cr"
  by (simp_all add: desiredConfigMap_def setCustomLabels_def Let_def metaKey_def)

text \<open>What the reconciler does once the desired strings are known.\<close>

lemma reconcileConfigMap_eq:
  assumes "pluginsAllowed r cr"
    and "yaml_Marshal (Platform r) (sortedItems (trafficMap r cr)) = Inr t"
    and "yaml_Marshal (Platform r) (metricPlugins cr) = Inr m"
  shows "reconcileConfigMap r cr w =
     (case kget (kConfigMaps (Client r)) (configKey cr) w of
        (Inl err, w1) \<Rightarrow>
          if IsNotFound err then discard (lift (kcreate (kConfigMaps (Client r)) ((desiredConfigMap r cr)\<lparr>cmData :=
              strmap_of [(TrafficRouterPluginConfigMapKey, t), (MetricPluginConfigMapKey, m)]\<rparr>) w1))
          else (Err (errorf_w (''failed to get the ConfigMap associated with '' @ DefaultRolloutsConfigMapName @ '': '') err), w1)
      | (Inr actual, w1) \<Rightarrow> compareConfigMap r cr actual (sortedItems (trafficMap r cr)) t m w1)"
  using assms pluginsAllowed_traffic [OF assms(1)]
  by (simp add: reconcileConfigMap_def pluginsAllowed_def Let_def split: prod.split sum.split)

lemma dataAt_same: "strmap_same a b \<Longrightarrow> dataAt b k = dataAt a k \<and> mlookup b k = mlookup a k"
  by (simp add: dataAt_def mlookup_def strmap_same_def)

lemma configCurrent_written:
  assumes "pluginsAllowed r cr" "strmap_same d (cmData cm)"
    and "mlookup d TrafficRouterPluginConfigMapKey = Some t" "mlookup d MetricPluginConfigMapKey = Some m"
    and "mlookup d MetricPluginConfigMapKey_PreviousInvalidKey = None"
    and "yaml_Unmarshal (Platform r) t = Inr (Some (sortedItems (trafficMap r cr)))"
    and "yaml_Unmarshal (Platform r) m = Inr (Some (metricPlugins cr))"
  shows "configCurrent r cr cm"
  using assms dataAt_same [OF assms(2)]
  by (simp add: configCurrent_def pluginsAllowed_traffic dataAt_def slice_def)

lemma restart_settles:
  assumes "cluster_api view (Client r)" "keyed podMeta (cluPods (view w))"
    and "case fmlookup (cluDeployments (view w)) (rolloutsKey cr) of None \<Rightarrow> True | Some d \<Rightarrow> dsSelector (dSpec d) \<noteq> None"
  shows "\<exists>ps w'. restartRolloutsPod r (crNamespace cr) w = (Ok (), w') \<and> keyed podMeta ps \<and>
    view w' = (view w)\<lparr>cluPods := ps\<rparr>"
proof (cases "fmlookup (cluDeployments (view w)) (rolloutsKey cr)")
  case None
  from restart_without_deployment [OF assms(1) this] assms(2) show ?thesis by fastforce
next
  case (Some d)
  with assms(3) obtain sel where "dsSelector (dSpec d) = Some sel" by auto
  from restart_deletes [OF assms(1,2) Some this] obtain w' where w': "restartRolloutsPod r (crNamespace cr) w = (Ok (), w')"
      "view w' = cluPods_update (fmfilter (\<lambda>k. k \<notin> restartedPods (crNamespace cr) (lsMatchLabels sel) (view w))) (view w)"
    by blast
  have "keyed podMeta (fmfilter P (cluPods (view w)))" for P
    using assms(2) by (auto simp: keyed_def fmpred_iff)
  moreover have "view w' = (view w)\<lparr>cluPods := fmfilter (\<lambda>k. k \<notin> restartedPods (crNamespace cr) (lsMatchLabels sel) (view w)) (cluPods (view w))\<rparr>"
    unfolding w'(2) by (cases "view w") simp
  ultimately show ?thesis using w'(1) by blast
qed

lemma config_map_created:
  assumes "cluster_api view (Client r)" "yaml_contract (Platform r)" "pluginsAllowed r cr"
    and "fmlookup (cluConfigMaps (view w)) (configKey cr) = None"
  shows "\<exists>y w'. reconcileConfigMap r cr w = (Ok (), w') \<and> metaKey (cmMeta y) = configKey cr \<and> configCurrent r cr y \<and>
    view w' = cluConfigMaps_update (fmupd (configKey cr) y) (view w)"
proof -
  note cms = api_config_maps [OF assms(1)]
  obtain t where t: "yaml_Marshal (Platform r) (sortedItems (trafficMap r cr)) = Inr t"
      "yaml_Unmarshal (Platform r) t = Inr (Some (sortedItems (trafficMap r cr)))"
    using assms(2) by (auto simp: yaml_contract_def)
  obtain m where m: "yaml_Marshal (Platform r) (metricPlugins cr) = Inr m"
      "yaml_Unmarshal (Platform r) m = Inr (Some (metricPlugins cr))"
    using assms(2) by (auto simp: yaml_contract_def)
  obtain e w1 where g: "kget (kConfigMaps (Client r)) (configKey cr) w = (Inl e, w1)" "IsNotFound e" "view w1 = view w"
    using kind_api.get_missing [OF cms assms(4)] by blast
  let ?d = "strmap_of [(TrafficRouterPluginConfigMapKey, t), (MetricPluginConfigMapKey, m)]"
  let ?new = "(desiredConfigMap r cr)\<lparr>cmData := ?d\<rparr>"
  obtain y w2 where c: "kcreate (kConfigMaps (Client r)) ?new w1 = (Inr y, w2)" "same_config_map ?new y"
      "view w2 = cluConfigMaps_update (fmupd (configKey cr) y) (view w)"
    using kind_api.create_fresh [OF cms, of w1 ?new] assms(4) g(3) by auto
  have "configCurrent r cr y"
    by (rule configCurrent_written [OF assms(3), where d = ?d])
      (use c(2) t(2) m(2) in \<open>simp_all add: same_config_map_def mlookup_def config_keys\<close>)
  moreover have "metaKey (cmMeta y) = configKey cr" using kind_api.same_key [OF cms, OF c(2)] by simp
  ultimately show ?thesis using c(1,3) g by (auto simp: reconcileConfigMap_eq [OF assms(3) t(1) m(1)])
qed

lemma updateConfigMap_writes:
  assumes "cluster_api view (Client r)" "keyed podMeta (cluPods (view w))"
    and "case fmlookup (cluDeployments (view w)) (rolloutsKey cr) of None \<Rightarrow> True | Some d \<Rightarrow> dsSelector (dSpec d) \<noteq> None"
    and "fmlookup (cluConfigMaps (view w)) (metaKey (cmMeta x)) = Some z" "cmData x = Some d"
  shows "\<exists>y ps w'. updateConfigMap r cr x t m w = (Ok (), w') \<and> metaKey (cmMeta y) = metaKey (cmMeta x) \<and>
    strmap_same (Some (fmupd MetricPluginConfigMapKey m (fmupd TrafficRouterPluginConfigMapKey t d))) (cmData y) \<and>
    keyed podMeta ps \<and>
    view w' = (view w)\<lparr>cluConfigMaps := fmupd (metaKey (cmMeta x)) y (cluConfigMaps (view w)), cluPods := ps\<rparr>"
proof -
  note cms = api_config_maps [OF assms(1)]
  let ?x = "x\<lparr>cmData := Some (fmupd MetricPluginConfigMapKey m (fmupd TrafficRouterPluginConfigMapKey t d))\<rparr>"
  obtain y w1 where c: "kupdate (kConfigMaps (Client r)) ?x w = (Inr y, w1)" "same_config_map ?x y"
      "view w1 = cluConfigMaps_update (fmupd (metaKey (cmMeta x)) y) (view w)"
    using kind_api.update_found [OF cms, of w ?x z] assms(4) by auto
  obtain ps w2 where p: "restartRolloutsPod r (crNamespace cr) w1 = (Ok (), w2)" "keyed podMeta ps"
      "view w2 = (view w1)\<lparr>cluPods := ps\<rparr>"
    using restart_settles [OF assms(1), of w1 cr] assms(2,3) c(3) by auto
  have "view w2 = (view w)\<lparr>cluConfigMaps := fmupd (metaKey (cmMeta x)) y (cluConfigMaps (view w)), cluPods := ps\<rparr>"
    unfolding p(3) c(3) by (cases "view w") simp
  moreover have "metaKey (cmMeta y) = metaKey (cmMeta x)" using kind_api.same_key [OF cms, OF c(2)] by simp
  ultimately show ?thesis using c(1,2) p(1,2) assms(5)
    by (auto simp: updateConfigMap_def same_config_map_def)
qed

lemma usableE:
  assumes "usableConfigMap p cm"
  obtains d t m where "cmData cm = Some d"
    "yaml_Unmarshal p (dataAt (cmData cm) TrafficRouterPluginConfigMapKey) = Inr t"
    "yaml_Unmarshal p (dataAt (cmData cm) MetricPluginConfigMapKey) = Inr m"
  using assms
  by (cases "yaml_Unmarshal p (dataAt (cmData cm) TrafficRouterPluginConfigMapKey)";
      cases "yaml_Unmarshal p (dataAt (cmData cm) MetricPluginConfigMapKey)")
    (auto simp: usableConfigMap_def)

lemma compareConfigMap_outdated:
  assumes "pluginsAllowed r cr" "\<not> configCurrent r cr cm" "usableConfigMap (Platform r) cm"
  obtains x d where "\<And>w. compareConfigMap r cr cm (sortedItems (trafficMap r cr)) t m w = updateConfigMap r cr x t m w"
    "cmData x = Some d" "cmMeta x = cmMeta cm" "fmlookup d MetricPluginConfigMapKey_PreviousInvalidKey = None"
proof -
  obtain d t' m' where ready: "cmData cm = Some d"
      "yaml_Unmarshal (Platform r) (dataAt (cmData cm) TrafficRouterPluginConfigMapKey) = Inr t'"
      "yaml_Unmarshal (Platform r) (dataAt (cmData cm) MetricPluginConfigMapKey) = Inr m'"
    using assms(3) by (rule usableE)
  define x where "x = (if mlookup (cmData cm) MetricPluginConfigMapKey_PreviousInvalidKey \<noteq> None
    then cm\<lparr>cmData := Some (fmdrop MetricPluginConfigMapKey_PreviousInvalidKey d)\<rparr> else cm)"
  have run: "compareConfigMap r cr cm (sortedItems (trafficMap r cr)) t m w = updateConfigMap r cr x t m w" for w
    using assms(2) ready by (auto simp: compareConfigMap_def configCurrent_def pluginsAllowed_traffic [OF assms(1)] x_def Let_def)
  show ?thesis
    using ready(1) by (cases "fmlookup d MetricPluginConfigMapKey_PreviousInvalidKey")
      (auto simp: x_def mlookup_def intro!: that [OF run])
qed

lemma compareConfigMap_settles:
  assumes "cluster_api view (Client r)" "pluginsAllowed r cr" "configReady (Platform r) cr (view w)"
    and "keyed cmMeta (cluConfigMaps (view w))" "keyed podMeta (cluPods (view w))"
    and "fmlookup (cluConfigMaps (view w)) (configKey cr) = Some cm"
    and "yaml_Unmarshal (Platform r) t = Inr (Some (sortedItems (trafficMap r cr)))"
    and "yaml_Unmarshal (Platform r) m = Inr (Some (metricPlugins cr))"
  shows "\<exists>y ps w'. compareConfigMap r cr cm (sortedItems (trafficMap r cr)) t m w = (Ok (), w') \<and>
    metaKey (cmMeta y) = configKey cr \<and> configCurrent r cr y \<and> keyed podMeta ps \<and>
    view w' = (view w)\<lparr>cluConfigMaps := fmupd (configKey cr) y (cluConfigMaps (view w)), cluPods := ps\<rparr>"
proof -
  have k: "metaKey (cmMeta cm) = configKey cr" using keyedD [OF assms(4,6)] .
  have usable: "usableConfigMap (Platform r) cm" using assms(3,6) by (simp add: configReady_def)
  show ?thesis
  proof (cases "configCurrent r cr cm")
    case True
    then have "compareConfigMap r cr cm (sortedItems (trafficMap r cr)) t m w = (Ok (), w)"
      by (simp add: compareConfigMap_def configCurrent_def pluginsAllowed_traffic [OF assms(2)])
    moreover have "view w = (view w)\<lparr>cluConfigMaps := fmupd (configKey cr) cm (cluConfigMaps (view w)), cluPods := cluPods (view w)\<rparr>"
      using assms(6) by (cases "view w") (simp add: fmupd_same)
    ultimately show ?thesis using True k assms(5) by blast
  next
    case False
    obtain x d' where x: "compareConfigMap r cr cm (sortedItems (trafficMap r cr)) t m w = updateConfigMap r cr x t m w"
        "cmData x = Some d'" "metaKey (cmMeta x) = configKey cr"
        "fmlookup d' MetricPluginConfigMapKey_PreviousInvalidKey = None"
      by (rule compareConfigMap_outdated [OF assms(2) False usable, of t m]) (use k in simp)
    obtain y ps w' where y: "updateConfigMap r cr x t m w = (Ok (), w')" "metaKey (cmMeta y) = configKey cr"
        "strmap_same (Some (fmupd MetricPluginConfigMapKey m (fmupd TrafficRouterPluginConfigMapKey t d'))) (cmData y)"
        "keyed podMeta ps"
        "view w' = (view w)\<lparr>cluConfigMaps := fmupd (configKey cr) y (cluConfigMaps (view w)), cluPods := ps\<rparr>"
      using updateConfigMap_writes [OF assms(1,5), of cr x cm d' t m] assms(3,6) x by (auto simp: configReady_def)
    have "configCurrent r cr y"
      by (rule configCurrent_written [OF assms(2) y(3)]) (use x(4) assms(7,8) in \<open>simp_all add: mlookup_def config_keys\<close>)
    with y x(1) show ?thesis by auto
  qed
qed
lemma config_map_settles:
  assumes "cluster_api view (Client r)" "yaml_contract (Platform r)" "pluginsAllowed r cr"
    and "configReady (Platform r) cr (view w)"
    and "keyed cmMeta (cluConfigMaps (view w))" "keyed podMeta (cluPods (view w))"
  shows "\<exists>y ps w'. reconcileConfigMap r cr w = (Ok (), w') \<and> metaKey (cmMeta y) = configKey cr \<and>
    configCurrent r cr y \<and> keyed podMeta ps \<and>
    view w' = (view w)\<lparr>cluConfigMaps := fmupd (configKey cr) y (cluConfigMaps (view w)), cluPods := ps\<rparr>"
proof (cases "fmlookup (cluConfigMaps (view w)) (configKey cr)")
  case None
  obtain y w' where y: "reconcileConfigMap r cr w = (Ok (), w')" "metaKey (cmMeta y) = configKey cr" "configCurrent r cr y"
      "view w' = cluConfigMaps_update (fmupd (configKey cr) y) (view w)"
    using config_map_created [OF assms(1-3) None] by blast
  have "view w' = (view w)\<lparr>cluConfigMaps := fmupd (configKey cr) y (cluConfigMaps (view w)), cluPods := cluPods (view w)\<rparr>"
    unfolding y(4) by (cases "view w") simp
  with y assms(6) show ?thesis by blast
next
  case (Some cm)
  obtain t where t: "yaml_Marshal (Platform r) (sortedItems (trafficMap r cr)) = Inr t"
      "yaml_Unmarshal (Platform r) t = Inr (Some (sortedItems (trafficMap r cr)))"
    using assms(2) by (auto simp: yaml_contract_def)
  obtain m where m: "yaml_Marshal (Platform r) (metricPlugins cr) = Inr m"
      "yaml_Unmarshal (Platform r) m = Inr (Some (metricPlugins cr))"
    using assms(2) by (auto simp: yaml_contract_def)
  obtain w1 where g: "kget (kConfigMaps (Client r)) (configKey cr) w = (Inr cm, w1)" "view w1 = view w"
    using kind_api.get_found [OF api_config_maps [OF assms(1)] Some] by blast
  have run: "reconcileConfigMap r cr w = compareConfigMap r cr cm (sortedItems (trafficMap r cr)) t m w1"
    using g(1) by (simp add: reconcileConfigMap_eq [OF assms(3) t(1) m(1)])
  show ?thesis unfolding run
    using compareConfigMap_settles [OF assms(1,3), of w1 cm t m] assms(4-6) Some t(2) m(2) g(2) by simp
qed

lemma config_map_kept:
  assumes "kind_api view (kConfigMaps (Client r)) cmMeta cluConfigMaps cluConfigMaps_update same_config_map"
    and "yaml_contract (Platform r)" "pluginsAllowed r cr" "configSettled r cr (view w)"
  shows "\<exists>w'. reconcileConfigMap r cr w = (Ok (), w') \<and> view w' = view w"
proof -
  obtain cm where cm: "fmlookup (cluConfigMaps (view w)) (configKey cr) = Some cm" "configCurrent r cr cm"
    using assms(4) by (auto simp: configSettled_def split: option.splits)
  obtain t m where "yaml_Marshal (Platform r) (sortedItems (trafficMap r cr)) = Inr t"
      "yaml_Marshal (Platform r) (metricPlugins cr) = Inr m"
    using assms(2) by (meson yaml_contract_def)
  note run = reconcileConfigMap_eq [OF assms(3) this]
  obtain w1 where g: "kget (kConfigMaps (Client r)) (configKey cr) w = (Inr cm, w1)" "view w1 = view w"
    using kind_api.get_found [OF assms(1) cm(1)] by blast
  have "compareConfigMap r cr cm (sortedItems (trafficMap r cr)) t m w1 = (Ok (), w1)"
    using cm(2) by (simp add: compareConfigMap_def configCurrent_def pluginsAllowed_traffic [OF assms(3)])
  with run g show ?thesis by simp
qed

lemma config_map_settled:
  assumes "cluster_api view (Client r)" "yaml_contract (Platform r)" "pluginsAllowed r cr" "configSettled r cr (view w)"
  shows "\<exists>w'. reconcileConfigMap r cr w = (Ok (), w') \<and> view w' = view w"
  by (rule config_map_kept [OF api_config_maps [OF assms(1)] assms(2-4)])

section \<open>A codec for the witnesses\<close>

text \<open>
  Every character is preceded by a plus sign and a string ends with a full stop; a list of items
  ends with a semicolon. Parsing undoes it, and the empty text is the nil slice.
\<close>

definition writeString :: "string \<Rightarrow> string" where
  "writeString s = concat (map (\<lambda>c. [CHR ''+'', c]) s) @ ''.''"

fun writeItems :: "pluginItem list \<Rightarrow> string" where
  "writeItems [] = '';''"
| "writeItems (i # is) = writeString (piName i) @ writeString (piLocation i) @ writeString (piSha256 i) @ writeItems is"

fun readString :: "string \<Rightarrow> string \<times> string" where
  "readString (p # s) = (if p = CHR ''+'' then
     (case s of [] \<Rightarrow> ([], []) | c # rest \<Rightarrow> (case readString rest of (t, rest) \<Rightarrow> (c # t, rest))) else ([], s))"
| "readString [] = ([], [])"

fun readItems :: "nat \<Rightarrow> string \<Rightarrow> pluginItem list" where
  "readItems 0 s = []"
| "readItems (Suc n) s = (if s = [] \<or> hd s = CHR '';'' then [] else
     (case readString s of (name, s1) \<Rightarrow> (case readString s1 of (location, s2) \<Rightarrow>
     (case readString s2 of (sha, s3) \<Rightarrow>
        \<lparr>piName = name, piLocation = location, piSha256 = sha\<rparr> # readItems n s3))))"

lemma readString_write [simp]: "readString (writeString s @ rest) = (s, rest)"
  by (induction s) (simp_all add: writeString_def)

lemma writeString_start: "\<exists>c s'. writeString s @ rest = c # s' \<and> c \<noteq> CHR '';''"
  by (cases s) (auto simp: writeString_def)

lemma readItems_write: "length is < n \<Longrightarrow> readItems n (writeItems is) = is"
proof (induction "is" arbitrary: n)
  case Nil
  then show ?case by (cases n) simp_all
next
  case (Cons i "is")
  then obtain n' where n: "n = Suc n'" "length is < n'" by (cases n) auto
  obtain c s' where "writeItems (i # is) = c # s'" "c \<noteq> CHR '';''"
    using writeString_start [of "piName i" "writeString (piLocation i) @ writeString (piSha256 i) @ writeItems is"] by auto
  then have start: "writeItems (i # is) \<noteq> []" "hd (writeItems (i # is)) \<noteq> CHR '';''" by simp_all
  have "readString (writeItems (i # is)) =
      (piName i, writeString (piLocation i) @ writeString (piSha256 i) @ writeItems is)" by simp
  with start show ?case by (simp add: n(1) Cons.IH [OF n(2)] del: writeItems.simps)
qed

lemma length_writeItems: "length is < length (writeItems is)"
  by (induction "is") (auto simp: writeString_def)

definition codecPlatform :: platform where
  "codecPlatform = emptyPlatform\<lparr>yaml_Marshal := (\<lambda>xs. Inr (writeItems xs)),
     yaml_Unmarshal := (\<lambda>s. Inr (if s = '''' then None else Some (readItems (length s) s)))\<rparr>"

lemma yaml_contract_codec [simp]: "yaml_contract codecPlatform"
proof -
  have "writeItems xs \<noteq> ''''" for xs using length_writeItems [of xs] by auto
  then show ?thesis by (simp add: yaml_contract_def codecPlatform_def readItems_write length_writeItems)
qed

lemma owner_contract_codec [simp]: "owner_contract codecPlatform"
  using owner_contract_empty by (simp add: owner_contract_def codecPlatform_def)

definition codecReconciler :: "bool \<Rightarrow> cluster reconciler" where
  "codecReconciler nsScoped = (memReconciler nsScoped)\<lparr>Platform := codecPlatform\<rparr>"

lemma codecReconciler_simps [simp]:
  "Client (codecReconciler b) = mem_client" "Platform (codecReconciler b) = codecPlatform"
  "ResourceLabels (codecReconciler b) = None" "NamespaceScopedArgoRolloutsController (codecReconciler b) = b"
  "OpenShiftRoutePluginLocation (codecReconciler b) = DefaultOpenShiftRoutePluginURL"
  by (simp_all add: codecReconciler_def) (simp add: memReconciler_def)
section \<open>Properties\<close>

text \<open>
  C20: The list of traffic router plugins: a resource that names the OpenShift plugin is refused;
  otherwise the list is sorted by name without repetition, holds the OpenShift plugin at the
  location the operator was started with, and for every other name the first entry of the resource.
\<close>

theorem traffic_plugins_correct:
  "case trafficRouterPlugins r cr of
     Inl err \<Rightarrow> OpenShiftRolloutPluginName \<in> pluginName ` set (TrafficManagement (Plugins (rmSpec cr))) \<and>
       errText err = ''the plugin '' @ OpenShiftRolloutPluginName @
         '' cannot be modified or added through the RolloutManager CR''
   | Inr items \<Rightarrow> OpenShiftRolloutPluginName \<notin> pluginName ` set (TrafficManagement (Plugins (rmSpec cr))) \<and>
       sorted (map piName items) \<and> distinct (map piName items) \<and>
       set items = insert (openShiftItem r)
         {itemOf p | p n. pluginNamed n (TrafficManagement (Plugins (rmSpec cr))) = Some p}"
proof -
  let ?ps = "TrafficManagement (Plugins (rmSpec cr))"
  have "set (sortedItems (trafficMap r cr)) = insert (openShiftItem r) {itemOf p | p n. pluginNamed n ?ps = Some p}"
    if "OpenShiftRolloutPluginName \<notin> pluginName ` set ?ps"
  proof (rule set_eqI)
    fix i
    have none: "pluginNamed OpenShiftRolloutPluginName ?ps = None" using that by (simp add: pluginNamed_None)
    have "i \<in> set (sortedItems (trafficMap r cr)) \<longleftrightarrow> (\<exists>k. fmlookup (trafficMap r cr) k = Some i)"
      by (rule sortedItems_set)
    also have "\<dots> \<longleftrightarrow> i = openShiftItem r \<or> (\<exists>p n. pluginNamed n ?ps = Some p \<and> itemOf p = i)"
    proof
      assume "\<exists>k. fmlookup (trafficMap r cr) k = Some i"
      then show "i = openShiftItem r \<or> (\<exists>p n. pluginNamed n ?ps = Some p \<and> itemOf p = i)"
        by (auto simp: lookup_trafficMap split: if_splits)
    next
      assume "i = openShiftItem r \<or> (\<exists>p n. pluginNamed n ?ps = Some p \<and> itemOf p = i)"
      then show "\<exists>k. fmlookup (trafficMap r cr) k = Some i"
      proof (elim disjE exE conjE)
        assume "i = openShiftItem r"
        then show ?thesis by (intro exI [of _ OpenShiftRolloutPluginName]) (simp add: lookup_trafficMap)
      next
        fix p n assume "pluginNamed n ?ps = Some p" "itemOf p = i"
        with none show ?thesis by (intro exI [of _ n]) (auto simp: lookup_trafficMap)
      qed
    qed
    finally show "i \<in> set (sortedItems (trafficMap r cr)) \<longleftrightarrow>
        i \<in> insert (openShiftItem r) {itemOf p | p n. pluginNamed n ?ps = Some p}" by blast
  qed
  moreover have "sorted (map piName (sortedItems (trafficMap r cr)))" "distinct (map piName (sortedItems (trafficMap r cr)))"
    by (rule sortedItems_sorted, erule trafficMap_name)+
  ultimately show ?thesis by (simp add: trafficRouterPlugins_eq)
qed

text \<open>
  When the plugins of a list have different names, the order they are written in does not
  matter, for either list.
\<close>

theorem plugin_order_irrelevant:
  assumes "set (TrafficManagement (Plugins (rmSpec a))) = set (TrafficManagement (Plugins (rmSpec b)))"
    and "set (Metric (Plugins (rmSpec a))) = set (Metric (Plugins (rmSpec b)))"
    and "distinct (map pluginName (TrafficManagement (Plugins (rmSpec a))))"
      "distinct (map pluginName (TrafficManagement (Plugins (rmSpec b))))"
    and "distinct (map pluginName (Metric (Plugins (rmSpec a))))" "distinct (map pluginName (Metric (Plugins (rmSpec b))))"
  shows "trafficRouterPlugins r a = trafficRouterPlugins r b \<and> metricPlugins a = metricPlugins b"
proof -
  have same: "pluginNamed n ps = pluginNamed n qs"
    if "set ps = set qs" "distinct (map pluginName ps)" "distinct (map pluginName qs)" for n ps qs
  proof (cases "pluginNamed n ps")
    case None
    then show ?thesis using that(1) by (metis pluginNamed_None)
  next
    case (Some p)
    with that pluginNamed_name [OF Some] pluginNamed_unique [OF that(3), of p] show ?thesis by auto
  qed
  have "trafficMap r a = trafficMap r b"
    by (rule fmap_ext) (simp add: lookup_trafficMap same [OF assms(1,3,4)])
  moreover have "foldl addPlugin fmempty (Metric (Plugins (rmSpec a))) = foldl addPlugin fmempty (Metric (Plugins (rmSpec b)))"
    by (rule fmap_ext) (simp add: lookup_metricMap same [OF assms(2,5,6)])
  ultimately show ?thesis using assms(1) by (simp add: trafficRouterPlugins_eq metricPlugins_def)
qed

definition twoPlugins :: "plugin list \<Rightarrow> rollout_manager" where
  "twoPlugins ps = (basicRolloutManager ''rm'' ''ns'' True)\<lparr>rmSpec :=
     (rmSpec (basicRolloutManager ''rm'' ''ns'' True))\<lparr>Plugins := \<lparr>TrafficManagement = ps, Metric = []\<rparr>\<rparr>\<rparr>"

theorem plugin_order_irrelevant_witness:
  "trafficRouterPlugins (memReconciler True) (twoPlugins
     [\<lparr>pluginName = ''b'', pluginLocation = ''x'', pluginSHA256 = ''''\<rparr>, \<lparr>pluginName = ''a'', pluginLocation = ''y'', pluginSHA256 = ''''\<rparr>]) =
   trafficRouterPlugins (memReconciler True) (twoPlugins
     [\<lparr>pluginName = ''a'', pluginLocation = ''y'', pluginSHA256 = ''''\<rparr>, \<lparr>pluginName = ''b'', pluginLocation = ''x'', pluginSHA256 = ''''\<rparr>])"
  by (rule plugin_order_irrelevant [THEN conjunct1]) (auto simp: twoPlugins_def)

text \<open>
  C12: After the ConfigMap step on a conforming cluster, with a ConfigMap that can be parsed or
  none, both entries parse to the desired lists and the obsolete key is gone; nothing but this
  ConfigMap and the pods has changed, and a second run changes nothing at all.
\<close>

theorem config_map_reconciled:
  assumes "cluster_api view (Client r)" "yaml_contract (Platform r)" "pluginsAllowed r cr"
    and "configReady (Platform r) cr (view w)"
    and "keyed cmMeta (cluConfigMaps (view w))" "keyed podMeta (cluPods (view w))"
  shows "\<exists>y ps w1 w2. reconcileConfigMap r cr w = (Ok (), w1) \<and>
    view w1 = (view w)\<lparr>cluConfigMaps := fmupd (configKey cr) y (cluConfigMaps (view w)), cluPods := ps\<rparr> \<and>
    (case trafficRouterPlugins r cr of Inl _ \<Rightarrow> False | Inr traffic \<Rightarrow>
      yaml_Unmarshal (Platform r) (dataAt (cmData y) TrafficRouterPluginConfigMapKey) = Inr (Some traffic)) \<and>
    yaml_Unmarshal (Platform r) (dataAt (cmData y) MetricPluginConfigMapKey) = Inr (Some (metricPlugins cr)) \<and>
    mlookup (cmData y) MetricPluginConfigMapKey_PreviousInvalidKey = None \<and>
    reconcileConfigMap r cr w1 = (Ok (), w2) \<and> view w2 = view w1"
proof -
  obtain y ps w1 where y: "reconcileConfigMap r cr w = (Ok (), w1)" "configCurrent r cr y"
      "view w1 = (view w)\<lparr>cluConfigMaps := fmupd (configKey cr) y (cluConfigMaps (view w)), cluPods := ps\<rparr>"
    using config_map_settles [OF assms] by blast
  have "configSettled r cr (view w1)" using y(2) by (simp add: configSettled_def y(3))
  from config_map_settled [OF assms(1-3) this] obtain w2 where
    "reconcileConfigMap r cr w1 = (Ok (), w2)" "view w2 = view w1" by blast
  moreover have "case trafficRouterPlugins r cr of Inl _ \<Rightarrow> False | Inr traffic \<Rightarrow>
      yaml_Unmarshal (Platform r) (dataAt (cmData y) TrafficRouterPluginConfigMapKey) = Inr (Some traffic)"
    "yaml_Unmarshal (Platform r) (dataAt (cmData y) MetricPluginConfigMapKey) = Inr (Some (metricPlugins cr))"
    "mlookup (cmData y) MetricPluginConfigMapKey_PreviousInvalidKey = None"
    using y(2) by (auto simp: configCurrent_def slice_def split: sum.splits)
  ultimately show ?thesis using y(1,3) by blast
qed

lemma pluginsAllowed_basic [simp]: "pluginsAllowed (codecReconciler b) (basicRolloutManager n ns b')"
  by (simp add: pluginsAllowed_def DefaultOpenShiftRoutePluginURL_def)

theorem config_map_reconciled_witness:
  "\<exists>y w1. reconcileConfigMap (codecReconciler True) (basicRolloutManager ''rm'' ''ns'' True) emptyCluster = (Ok (), w1) \<and>
     fmlookup (cluConfigMaps w1) (NamespacedName ''ns'' DefaultRolloutsConfigMapName) = Some y \<and>
     yaml_Unmarshal codecPlatform (dataAt (cmData y) MetricPluginConfigMapKey) = Inr (Some [])"
proof -
  let ?cr = "basicRolloutManager ''rm'' ''ns'' True"
  have api: "cluster_api (\<lambda>c. c) (Client (codecReconciler True))" "yaml_contract (Platform (codecReconciler True))"
    by (simp_all add: mem_cluster_api)
  have "metricPlugins ?cr = []" by (simp add: metricPlugins_def sortedItems_def sorted_list_of_fmap_def sorted_list_of_fset.rep_eq)
  with config_map_reconciled [where view = "\<lambda>c. c" and w = emptyCluster and cr = ?cr, OF api]
  show ?thesis by (fastforce simp: emptyCluster_def configReady_def)
qed

text \<open>
  An update of the ConfigMap restarts the controller: on a conforming cluster the restart
  deletes exactly the pods of the namespace that the selector of the Deployment matches and that
  are not being deleted already, and leaves everything else alone.
\<close>

theorem restart_deletes_matching_pods:
  assumes "cluster_api view (Client r)" "keyed podMeta (cluPods (view w))"
    and "fmlookup (cluDeployments (view w)) (NamespacedName ns DefaultArgoRolloutsResourceName) = Some d"
    and "dsSelector (dSpec d) = Some sel"
  shows "\<exists>w' ps. restartRolloutsPod r ns w = (Ok (), w') \<and> view w' = (view w)\<lparr>cluPods := ps\<rparr> \<and>
    (\<forall>k. fmlookup ps k = (case fmlookup (cluPods (view w)) k of None \<Rightarrow> None
       | Some p \<Rightarrow> if nnNamespace k = ns \<and> entries (lsMatchLabels sel) \<subseteq>\<^sub>f entries (mLabels (podMeta p)) \<and>
            mDeletionTimestamp (podMeta p) = None then None else Some p))"
proof -
  let ?gone = "restartedPods ns (lsMatchLabels sel) (view w)"
  obtain w' where w': "restartRolloutsPod r ns w = (Ok (), w')"
      "view w' = cluPods_update (fmfilter (\<lambda>k. k \<notin> ?gone)) (view w)"
    using restart_deletes [OF assms] by blast
  have "view w' = (view w)\<lparr>cluPods := fmfilter (\<lambda>k. k \<notin> ?gone) (cluPods (view w))\<rparr>"
    unfolding w'(2) by (cases "view w") simp
  then show ?thesis using w'(1)
    by (intro exI [of _ w'] exI [of _ "fmfilter (\<lambda>k. k \<notin> ?gone) (cluPods (view w))"])
      (auto simp: restartedPods_def split: option.split)
qed

definition onePod :: pod where
  "onePod = \<lparr>podMeta = (newMeta ''p'' ''ns'')\<lparr>mLabels := strmap_of [(''app'', ''x'')]\<rparr>\<rparr>"

definition selectingDeployment :: deployment where
  "selectingDeployment = \<lparr>dMeta = newMeta DefaultArgoRolloutsResourceName ''ns'',
     dSpec = \<lparr>dsReplicas = None, dsSelector = Some \<lparr>lsMatchLabels = strmap_of [(''app'', ''x'')], lsMatchExpressions = None\<rparr>,
       dsTemplate = \<lparr>ptLabels = None, ptAnnotations = None, ptSpec = \<lparr>psNodeSelector = None, psTolerations = None,
         psServiceAccountName = '''', psSecurityContext = None, psContainers = None, psInitContainers = None,
         psVolumes = None, psAffinity = None, psRestartPolicy = '''', psDNSPolicy = '''', psSchedulerName = '''',
         psTerminationGracePeriodSeconds = None\<rparr>\<rparr>,
       dsStrategy = \<lparr>stType = '''', stRollingUpdate = None\<rparr>, dsRevisionHistoryLimit = None,
       dsProgressDeadlineSeconds = None\<rparr>, dReadyReplicas = 0\<rparr>"

theorem restart_deletes_matching_pods_witness:
  "\<exists>w'. restartRolloutsPod (memReconciler True) ''ns'' (emptyCluster\<lparr>
       cluPods := fmap_of_list [(NamespacedName ''ns'' ''p'', onePod)],
       cluDeployments := fmap_of_list [(NamespacedName ''ns'' DefaultArgoRolloutsResourceName, selectingDeployment)]\<rparr>) = (Ok (), w') \<and>
     fmlookup (cluPods w') (NamespacedName ''ns'' ''p'') = None"
proof -
  let ?c = "emptyCluster\<lparr>cluPods := fmap_of_list [(NamespacedName ''ns'' ''p'', onePod)],
       cluDeployments := fmap_of_list [(NamespacedName ''ns'' DefaultArgoRolloutsResourceName, selectingDeployment)]\<rparr>"
  let ?sel = "\<lparr>lsMatchLabels = strmap_of [(''app'', ''x'')], lsMatchExpressions = None\<rparr>"
  have api: "cluster_api (\<lambda>c. c) (Client (memReconciler True))" by (simp add: mem_cluster_api)
  have k: "keyed podMeta (cluPods ?c)" by (auto simp: emptyCluster_def onePod_def metaKey_def)
  have d: "fmlookup (cluDeployments ?c) (NamespacedName ''ns'' DefaultArgoRolloutsResourceName) = Some selectingDeployment"
      "dsSelector (dSpec selectingDeployment) = Some ?sel"
    by (simp_all add: selectingDeployment_def)
  obtain w' ps where w': "restartRolloutsPod (memReconciler True) ''ns'' ?c = (Ok (), w')" "w' = ?c\<lparr>cluPods := ps\<rparr>"
      "\<And>k. fmlookup ps k = (case fmlookup (cluPods ?c) k of None \<Rightarrow> None
       | Some p \<Rightarrow> if nnNamespace k = ''ns'' \<and> entries (lsMatchLabels ?sel) \<subseteq>\<^sub>f entries (mLabels (podMeta p)) \<and>
            mDeletionTimestamp (podMeta p) = None then None else Some p)"
    using restart_deletes_matching_pods [where view = "\<lambda>c. c" and w = ?c, OF api k d] by blast
  have "fmlookup ps (NamespacedName ''ns'' ''p'') = None" by (simp add: w'(3) onePod_def fmsubset.rep_eq)
  with w'(1,2) show ?thesis by auto
qed

text \<open>
  C36: A ConfigMap without data makes the reconciler panic: its empty entries differ from the
  desired ones, and the update writes to a nil map. This is every ConfigMap of the reserved name
  that somebody created empty.
\<close>

theorem config_map_without_data_panics:
  assumes "yaml_contract (Platform r)" "pluginsAllowed r cr" "yaml_Unmarshal (Platform r) '''' = Inr None"
    and "kget (kConfigMaps (Client r)) (configKey cr) w = (Inr cm, w1)" "cmData cm = None"
  shows "reconcileConfigMap r cr w = (Panic ''assignment to entry in nil map'', w1)"
proof -
  obtain t m where "yaml_Marshal (Platform r) (sortedItems (trafficMap r cr)) = Inr t"
      "yaml_Marshal (Platform r) (metricPlugins cr) = Inr m"
    using assms(1) by (meson yaml_contract_def)
  note run = reconcileConfigMap_eq [OF assms(2) this]
  have "compareConfigMap r cr cm (sortedItems (trafficMap r cr)) t m w1 = (Panic ''assignment to entry in nil map'', w1)"
    using assms(3,5) by (simp add: compareConfigMap_def dataAt_def mlookup_def slice_def updateConfigMap_def)
  with run assms(4) show ?thesis by simp
qed

theorem config_map_without_data_panics_witness:
  "fst (reconcileConfigMap (codecReconciler True) (basicRolloutManager ''rm'' ''ns'' True)
     (emptyCluster\<lparr>cluConfigMaps := fmap_of_list [(NamespacedName ''ns'' DefaultRolloutsConfigMapName,
        \<lparr>cmMeta = newMeta DefaultRolloutsConfigMapName ''ns'', cmData = None\<rparr>)]\<rparr>)) =
   Panic ''assignment to entry in nil map''"
proof -
  let ?c = "emptyCluster\<lparr>cluConfigMaps := fmap_of_list [(NamespacedName ''ns'' DefaultRolloutsConfigMapName,
        \<lparr>cmMeta = newMeta DefaultRolloutsConfigMapName ''ns'', cmData = None\<rparr>)]\<rparr>"
  have "reconcileConfigMap (codecReconciler True) (basicRolloutManager ''rm'' ''ns'' True) ?c =
      (Panic ''assignment to entry in nil map'', ?c)"
    by (rule config_map_without_data_panics [where cm = "\<lparr>cmMeta = newMeta DefaultRolloutsConfigMapName ''ns'', cmData = None\<rparr>"])
      (simp_all add: codecPlatform_def [THEN arg_cong [where f = yaml_Unmarshal]] mem_client_def mem_ops_def)
  then show ?thesis by simp
qed

text \<open>
  C13: A restart that fails is lost: when a ConfigMap that can be parsed is out of date and the run
  ends in an error, which can only be that of the restart of the pods, then the ConfigMap has been
  updated already, and the next run finds it as desired and succeeds without deleting a pod. The
  controller goes on with the old plugins.
\<close>

theorem failed_restart_lost:
  fixes view :: "'w \<Rightarrow> cluster"
  assumes "kind_api view (kConfigMaps (Client r)) cmMeta cluConfigMaps cluConfigMaps_update same_config_map"
    and "yaml_contract (Platform r)" "pluginsAllowed r cr"
    and "fmlookup (cluConfigMaps (view w)) (configKey cr) = Some cm" "metaKey (cmMeta cm) = configKey cr"
    and "usableConfigMap (Platform r) cm" "\<not> configCurrent r cr cm"
    and "\<And>w1 x w2. restartRolloutsPod r (crNamespace cr) w1 = (x, w2) \<Longrightarrow> cluConfigMaps (view w2) = cluConfigMaps (view w1)"
    and "reconcileConfigMap r cr w = (Err e, w')"
  shows "(\<exists>w1. restartRolloutsPod r (crNamespace cr) w1 = (Err e, w')) \<and>
    (\<exists>w''. reconcileConfigMap r cr w' = (Ok (), w'') \<and> view w'' = view w')"
proof -
  obtain t where t: "yaml_Marshal (Platform r) (sortedItems (trafficMap r cr)) = Inr t"
      "yaml_Unmarshal (Platform r) t = Inr (Some (sortedItems (trafficMap r cr)))"
    using assms(2) by (auto simp: yaml_contract_def)
  obtain m where m: "yaml_Marshal (Platform r) (metricPlugins cr) = Inr m"
      "yaml_Unmarshal (Platform r) m = Inr (Some (metricPlugins cr))"
    using assms(2) by (auto simp: yaml_contract_def)
  obtain w1 where g: "kget (kConfigMaps (Client r)) (configKey cr) w = (Inr cm, w1)" "view w1 = view w"
    using kind_api.get_found [OF assms(1,4)] by blast
  obtain x d where x: "compareConfigMap r cr cm (sortedItems (trafficMap r cr)) t m w1 = updateConfigMap r cr x t m w1"
      "cmData x = Some d" "metaKey (cmMeta x) = configKey cr" "fmlookup d MetricPluginConfigMapKey_PreviousInvalidKey = None"
    by (rule compareConfigMap_outdated [OF assms(3,7,6), of t m]) (use assms(5) in simp)
  let ?x = "x\<lparr>cmData := Some (fmupd MetricPluginConfigMapKey m (fmupd TrafficRouterPluginConfigMapKey t d))\<rparr>"
  obtain y w2 where c: "kupdate (kConfigMaps (Client r)) ?x w1 = (Inr y, w2)" "same_config_map ?x y"
      "view w2 = cluConfigMaps_update (fmupd (configKey cr) y) (view w)"
    using kind_api.update_found [OF assms(1), of w1 ?x cm] assms(4) g(2) x(3) by auto
  have failed: "restartRolloutsPod r (crNamespace cr) w2 = (Err e, w')"
    using assms(9) g(1) x(1,2) c(1) by (simp add: reconcileConfigMap_eq [OF assms(3) t(1) m(1)] updateConfigMap_def)
  have "configCurrent r cr y"
    by (rule configCurrent_written [OF assms(3), where d = "cmData ?x"])
      (use c(2) x(4) t(2) m(2) in \<open>simp_all add: same_config_map_def mlookup_def config_keys\<close>)
  then have "configSettled r cr (view w')"
    using assms(8) [OF failed] c(3) by (simp add: configSettled_def)
  then show ?thesis using failed config_map_kept [OF assms(1-3)] by blast
qed

text \<open>A client that may not list pods.\<close>

definition podlessReconciler :: "cluster reconciler" where
  "podlessReconciler = (codecReconciler True)\<lparr>Client := mem_client\<lparr>kPods := (kPods mem_client)\<lparr>klist :=
     \<lambda>_ _ c. (Inl (errors_New ''pods is forbidden''), c)\<rparr>\<rparr>\<rparr>"

definition outdatedConfigMap :: config_map where
  "outdatedConfigMap = \<lparr>cmMeta = newMeta DefaultRolloutsConfigMapName ''ns'', cmData = Some fmempty\<rparr>"

definition outdatedCluster :: cluster where
  "outdatedCluster = emptyCluster\<lparr>
     cluConfigMaps := fmap_of_list [(NamespacedName ''ns'' DefaultRolloutsConfigMapName, outdatedConfigMap)],
     cluDeployments := fmap_of_list [(NamespacedName ''ns'' DefaultArgoRolloutsResourceName, selectingDeployment)]\<rparr>"

theorem failed_restart_lost_witness:
  "\<exists>e w' w''. reconcileConfigMap podlessReconciler (basicRolloutManager ''rm'' ''ns'' True) outdatedCluster = (Err e, w') \<and>
     reconcileConfigMap podlessReconciler (basicRolloutManager ''rm'' ''ns'' True) w' = (Ok (), w'')"
proof -
  let ?cr = "basicRolloutManager ''rm'' ''ns'' True"
  have fields [simp]: "Platform podlessReconciler = codecPlatform" "kConfigMaps (Client podlessReconciler) = kConfigMaps mem_client"
      "kDeployments (Client podlessReconciler) = kDeployments mem_client"
      "klist (kPods (Client podlessReconciler)) ns sel c = (Inl (errors_New ''pods is forbidden''), c)" for ns sel c
    by (simp_all add: podlessReconciler_def)
  have api: "kind_api (\<lambda>c. c) (kConfigMaps (Client podlessReconciler)) cmMeta cluConfigMaps cluConfigMaps_update same_config_map"
    using api_config_maps [OF mem_cluster_api] by simp
  have allowed: "pluginsAllowed podlessReconciler ?cr"
    by (simp add: pluginsAllowed_def podlessReconciler_def DefaultOpenShiftRoutePluginURL_def)
  have outdated: "usableConfigMap codecPlatform outdatedConfigMap" "\<not> configCurrent podlessReconciler ?cr outdatedConfigMap"
    by (simp_all add: usableConfigMap_def outdatedConfigMap_def codecPlatform_def configCurrent_def dataAt_def mlookup_def
        slice_def split: sum.split)
  have restart: "cluConfigMaps w2 = cluConfigMaps w1" if "restartRolloutsPod podlessReconciler (crNamespace ?cr) w1 = (x, w2)" for w1 x w2
    using that by (auto simp: restartRolloutsPod_def mem_client_def mem_ops_def split: option.splits if_splits)
  have found: "fmlookup (cluConfigMaps outdatedCluster) (configKey ?cr) = Some outdatedConfigMap"
      "metaKey (cmMeta outdatedConfigMap) = configKey ?cr"
    by (simp_all add: outdatedCluster_def outdatedConfigMap_def metaKey_def)
  let ?items = "sortedItems (trafficMap podlessReconciler ?cr)"
  obtain x d where x: "compareConfigMap podlessReconciler ?cr outdatedConfigMap ?items (writeItems ?items)
        (writeItems (metricPlugins ?cr)) outdatedCluster =
      updateConfigMap podlessReconciler ?cr x (writeItems ?items) (writeItems (metricPlugins ?cr)) outdatedCluster"
      "cmData x = Some d" "cmMeta x = cmMeta outdatedConfigMap"
    by (rule compareConfigMap_outdated [OF allowed outdated(2), of "writeItems ?items" "writeItems (metricPlugins ?cr)"])
      (simp_all add: outdated(1))
  have "fmlookup (cluDeployments outdatedCluster) (rolloutsKey ?cr) = Some selectingDeployment"
    by (simp add: outdatedCluster_def)
  then have "\<exists>e w'. updateConfigMap podlessReconciler ?cr x t m outdatedCluster = (Err e, w')" for t m
    using x(2,3) found by (simp add: updateConfigMap_def restartRolloutsPod_def mem_client_def mem_ops_def selectingDeployment_def)
  then have "\<exists>e w'. reconcileConfigMap podlessReconciler ?cr outdatedCluster = (Err e, w')"
    using x(1) found by (simp add: reconcileConfigMap_eq [OF allowed, of "writeItems ?items" "writeItems (metricPlugins ?cr)"]
        codecPlatform_def mem_client_def mem_ops_def)
  then show ?thesis
    using failed_restart_lost [OF api _ allowed found(1) found(2) _ outdated(2) restart] outdated(1) by fastforce
qed

end
