(* ===== verification/Deployment.thy ===== *)
theory Deployment
  imports Plugin_Config
begin

text \<open>
  The Deployment of the Argo Rollouts controller (\<open>controllers/deployment.go\<close>): the desired
  object, the normal form in which live and desired objects are compared, and the reconciler that
  creates, updates or recreates the Deployment. A Go function that returns an error together with
  the zero value is a sum here, and the zero value is put back where the caller goes on with it.
\<close>

section \<open>The desired Deployment\<close>

definition zeroPodSpec :: pod_spec where
  "zeroPodSpec = \<lparr>psNodeSelector = None, psTolerations = None, psServiceAccountName = '''',
     psSecurityContext = None, psContainers = None, psInitContainers = None, psVolumes = None,
     psAffinity = None, psRestartPolicy = '''', psDNSPolicy = '''', psSchedulerName = '''',
     psTerminationGracePeriodSeconds = None\<rparr>"

definition zeroDeploymentSpec :: deployment_spec where
  "zeroDeploymentSpec = \<lparr>dsReplicas = None, dsSelector = None,
     dsTemplate = \<lparr>ptLabels = None, ptAnnotations = None, ptSpec = zeroPodSpec\<rparr>,
     dsStrategy = \<lparr>stType = '''', stRollingUpdate = None\<rparr>, dsRevisionHistoryLimit = None,
     dsProgressDeadlineSeconds = None\<rparr>"

definition zeroDeployment :: deployment where
  "zeroDeployment = \<lparr>dMeta = newMeta '''' '''', dSpec = zeroDeploymentSpec, dReadyReplicas = 0\<rparr>"

definition rolloutsPodLabels :: "rollout_manager \<Rightarrow> (string, string) fmap" where
  "rolloutsPodLabels cr =
     fmap_of_list [(DefaultRolloutsSelectorKey, DefaultArgoRolloutsResourceName)] ++\<^sub>f extraLabels cr"

definition labelSelector :: "strmap \<Rightarrow> label_selector" where
  "labelSelector m = \<lparr>lsMatchLabels = m, lsMatchExpressions = None\<rparr>"

definition antiAffinity :: "strmap \<Rightarrow> string \<Rightarrow> int \<Rightarrow> string \<Rightarrow> pod_anti_affinity" where
  "antiAffinity labels preferredKey weight requiredKey = \<lparr>
     paaPreferred = slice [\<lparr>wpatWeight = weight, wpatTerm = \<lparr>patLabelSelector = Some (labelSelector labels),
       patTopologyKey = preferredKey, patNamespaces = None\<rparr>\<rparr>],
     paaRequired = slice [\<lparr>patLabelSelector = Some (labelSelector labels), patTopologyKey = requiredKey,
       patNamespaces = None\<rparr>]\<rparr>"

definition desiredAffinity :: "rollout_manager \<Rightarrow> strmap \<Rightarrow> affinity option" where
  "desiredAffinity cr labels =
     (if ha_enabled cr then Some \<lparr>affNodeAffinity = None, affPodAffinity = None,
        affPodAntiAffinity = Some (antiAffinity labels TopologyKubernetesZoneLabel 100 KubernetesHostnameLabel)\<rparr>
      else None)"

definition desiredVolumes :: "volume list" where
  "desiredVolumes = [\<lparr>volName = ''plugin-bin'', volSource = EmptyDir\<rparr>, \<lparr>volName = ''tmp'', volSource = EmptyDir\<rparr>]"

definition generateDesiredRolloutsDeployment ::
    "platform \<Rightarrow> rollout_manager \<Rightarrow> service_account \<Rightarrow> go_error + deployment" where
  "generateDesiredRolloutsDeployment p cr sa =
     (let labels = Some (rolloutsPodLabels cr);
          annotations = Some (extraAnnotations cr);
          replicas = (if ha_enabled cr then 2 else 1);
          linux = strmap_of [(''kubernetes.io/os'', ''linux'')];
          (nodeSelector, tolerations) = (case NodePlacement (rmSpec cr) of None \<Rightarrow> (linux, None)
            | Some np \<Rightarrow> (appendStringMap linux (placeNodeSelector np), placeTolerations np))
      in case rolloutsContainer p cr of
           Inl err \<Rightarrow> Inl err
         | Inr rolloutsCont \<Rightarrow> Inr \<lparr>
             dMeta = setRolloutsLabelsAndAnnotationsToObject (newMeta DefaultArgoRolloutsResourceName (crNamespace cr)) cr,
             dSpec = zeroDeploymentSpec\<lparr>
               dsReplicas := Some replicas,
               dsSelector := Some (labelSelector labels),
               dsTemplate := \<lparr>ptLabels = labels, ptAnnotations = annotations,
                 ptSpec = zeroPodSpec\<lparr>
                   psNodeSelector := nodeSelector,
                   psTolerations := tolerations,
                   psAffinity := desiredAffinity cr labels,
                   psSecurityContext := Some \<lparr>pscRunAsNonRoot = Some True, pscFSGroup = None\<rparr>,
                   psServiceAccountName := mName (saMeta sa),
                   psContainers := slice [rolloutsCont],
                   psVolumes := slice desiredVolumes\<rparr>\<rparr>,
               dsStrategy := \<lparr>stType = ''RollingUpdate'', stRollingUpdate = None\<rparr>\<rparr>,
             dReadyReplicas = 0\<rparr>)"

section \<open>The normal form\<close>

definition normalizeMap :: "strmap \<Rightarrow> strmap" where
  "normalizeMap m = (if mempty m then Some fmempty else m)"

text \<open>The name, the namespace, and the labels and annotations under the keys of the operator.\<close>

definition normalizeMeta :: "object_meta \<Rightarrow> rollout_manager \<Rightarrow> object_meta" where
  "normalizeMeta input cr =
     (let standard = setRolloutsLabelsAndAnnotationsToObject input cr
      in (newMeta (mName input) (mNamespace input))\<lparr>
           mLabels := map_option (fmfilter (\<lambda>k. mlookup (mLabels standard) k \<noteq> None)) (mLabels input),
           mAnnotations := map_option (fmfilter (\<lambda>k. mlookup (mAnnotations standard) k \<noteq> None)) (mAnnotations input)\<rparr>)"

text \<open>The checks of the container and the copy of its fields.\<close>

definition normalizeProbe :: "probe \<Rightarrow> http_get_action \<Rightarrow> probe" where
  "normalizeProbe pr hg = \<lparr>
     prHTTPGet = Some \<lparr>hgPath = hgPath hg, hgPort = hgPort hg, hgHost = '''', hgScheme = ''''\<rparr>,
     prFailureThreshold = prFailureThreshold pr, prInitialDelaySeconds = prInitialDelaySeconds pr,
     prPeriodSeconds = prPeriodSeconds pr, prSuccessThreshold = prSuccessThreshold pr,
     prTimeoutSeconds = prTimeoutSeconds pr\<rparr>"

definition normalizePort :: "container_port \<Rightarrow> container_port" where
  "normalizePort cp = \<lparr>cpName = cpName cp, cpContainerPort = cpContainerPort cp, cpHostPort = 0, cpProtocol = ''''\<rparr>"

definition normalizeMount :: "volume_mount \<Rightarrow> volume_mount" where
  "normalizeMount vm = \<lparr>vmName = vmName vm, vmMountPath = vmMountPath vm, vmReadOnly = False, vmSubPath = ''''\<rparr>"

definition normalizeSecurityContext :: "security_context \<Rightarrow> capabilities \<Rightarrow> security_context" where
  "normalizeSecurityContext sc cap = \<lparr>
     scCapabilities = Some \<lparr>capAdd = None, capDrop = capDrop cap\<rparr>,
     scAllowPrivilegeEscalation = scAllowPrivilegeEscalation sc,
     scReadOnlyRootFilesystem = scReadOnlyRootFilesystem sc, scRunAsNonRoot = scRunAsNonRoot sc,
     scSeccompProfile = scSeccompProfile sc, scPrivileged = None, scRunAsUser = None\<rparr>"

definition emptyIfNil :: "'a slice \<Rightarrow> 'a slice" where
  "emptyIfNil s = (if elems s = [] then slice [] else s)"

definition normalizeContainer :: "container \<Rightarrow> go_error + container" where
  "normalizeContainer c =
     (case cLivenessProbe c of None \<Rightarrow> Inl (errors_New ''incorrect liveness probe'') | Some pr \<Rightarrow>
     (case prHTTPGet pr of None \<Rightarrow> Inl (errors_New ''incorrect http get in liveness probe'') | Some hg \<Rightarrow>
     (if length (elems (cPorts c)) \<noteq> 2 then Inl (errors_New ''incorrect input ports'') else
     (case cSecurityContext c of None \<Rightarrow> Inl (errors_New ''incorrect security context'') | Some sc \<Rightarrow>
     (case scCapabilities sc of None \<Rightarrow> Inl (errors_New ''incorrect security context'') | Some cap \<Rightarrow>
     (if length (elems (cVolumeMounts c)) \<noteq> 2 then Inl (errors_New ''incorrect volume mounts'') else
     Inr \<lparr>cName = cName c, cImage = cImage c, cCommand = None, cArgs = emptyIfNil (cArgs c),
       cEnv = emptyIfNil (cEnv c), cImagePullPolicy = cImagePullPolicy c,
       cLivenessProbe = Some (normalizeProbe pr hg), cReadinessProbe = cReadinessProbe c,
       cPorts = slice [normalizePort (elems (cPorts c) ! 0), normalizePort (elems (cPorts c) ! 1)],
       cResources = cResources c, cSecurityContext = Some (normalizeSecurityContext sc cap),
       cVolumeMounts = slice [normalizeMount (elems (cVolumeMounts c) ! 0), normalizeMount (elems (cVolumeMounts c) ! 1)],
       cTerminationMessagePath = '''', cTerminationMessagePolicy = ''''\<rparr>))))))"

definition normalizeAffinity :: "strmap \<Rightarrow> affinity option \<Rightarrow> go_error + affinity option" where
  "normalizeAffinity matchLabels a =
     (case a of None \<Rightarrow> Inr None | Some aff \<Rightarrow>
        (case affPodAntiAffinity aff of
           None \<Rightarrow> Inr (Some \<lparr>affNodeAffinity = None, affPodAffinity = affPodAffinity aff, affPodAntiAffinity = None\<rparr>)
         | Some anti \<Rightarrow>
             (if length (elems (paaPreferred anti)) \<noteq> 1 then
                Inl (errors_New ''incorrect number of anti-affinity PreferredDuringSchedulingIgnoredDuringExecution'')
              else if length (elems (paaRequired anti)) \<noteq> 1 then
                Inl (errors_New ''incorrect number of anti-affinity RequiredDuringSchedulingIgnoredDuringExecution'')
              else Inr (Some \<lparr>affNodeAffinity = None, affPodAffinity = affPodAffinity aff,
                affPodAntiAffinity = Some (antiAffinity (normalizeMap matchLabels)
                  (patTopologyKey (wpatTerm (elems (paaPreferred anti) ! 0)))
                  (wpatWeight (elems (paaPreferred anti) ! 0))
                  (patTopologyKey (elems (paaRequired anti) ! 0)))\<rparr>))))"

definition normalizeDeployment :: "deployment \<Rightarrow> rollout_manager \<Rightarrow> go_error + deployment" where
  "normalizeDeployment input cr =
     (let template = dsTemplate (dSpec input); podSpec = ptSpec template in
     (case dsSelector (dSpec input) of None \<Rightarrow> Inl (errors_New ''missing .spec.selector'') | Some selector \<Rightarrow>
     (case psSecurityContext podSpec of None \<Rightarrow> Inl (errors_New ''missing .spec.template.spec.securityContext'') | Some psc \<Rightarrow>
     (if length (elems (psVolumes podSpec)) \<noteq> 2 then Inl (errors_New ''missing .spec.template.spec.volumes'') else
     (if length (elems (psContainers podSpec)) \<noteq> 1 then
        Inl (errors_New ''incorrect number of .spec.template.spec.containers'') else
     (case normalizeContainer (elems (psContainers podSpec) ! 0) of Inl err \<Rightarrow> Inl err | Inr c \<Rightarrow>
     (case normalizeAffinity (lsMatchLabels selector) (psAffinity podSpec) of Inl err \<Rightarrow> Inl err | Inr aff \<Rightarrow>
     Inr \<lparr>dMeta = normalizeMeta (dMeta input) cr,
       dSpec = zeroDeploymentSpec\<lparr>
         dsReplicas := Some (case dsReplicas (dSpec input) of None \<Rightarrow> 1 | Some n \<Rightarrow> n),
         dsSelector := Some (labelSelector (normalizeMap (lsMatchLabels selector))),
         dsTemplate := \<lparr>ptLabels = normalizeMap (ptLabels template), ptAnnotations = normalizeMap (ptAnnotations template),
           ptSpec = zeroPodSpec\<lparr>
             psNodeSelector := psNodeSelector podSpec,
             psTolerations := psTolerations podSpec,
             psAffinity := aff,
             psSecurityContext := Some \<lparr>pscRunAsNonRoot = pscRunAsNonRoot psc, pscFSGroup = None\<rparr>,
             psServiceAccountName := psServiceAccountName podSpec,
             psContainers := slice [c],
             psVolumes := slice [elems (psVolumes podSpec) ! 0, elems (psVolumes podSpec) ! 1]\<rparr>\<rparr>,
         dsStrategy := \<lparr>stType = stType (dsStrategy (dSpec input)), stRollingUpdate = None\<rparr>\<rparr>,
       dReadyReplicas = 0\<rparr>)))))))"

section \<open>The reconciler\<close>

definition identifyDeploymentDifference :: "deployment \<Rightarrow> deployment \<Rightarrow> string" where
  "identifyDeploymentDifference x y =
     (let xPodSpec = ptSpec (dsTemplate (dSpec x)); yPodSpec = ptSpec (dsTemplate (dSpec y)) in
      if psContainers xPodSpec \<noteq> psContainers yPodSpec then ''Spec.Template.Spec.Containers''
      else if psServiceAccountName xPodSpec \<noteq> psServiceAccountName yPodSpec then ''ServiceAccountName''
      else if dsStrategy (dSpec x) \<noteq> dsStrategy (dSpec y) then ''.Spec.Strategy''
      else if mLabels (dMeta x) \<noteq> mLabels (dMeta y) then ''Labels''
      else if mAnnotations (dMeta x) \<noteq> mAnnotations (dMeta y) then ''Annotations''
      else if ptLabels (dsTemplate (dSpec x)) \<noteq> ptLabels (dsTemplate (dSpec y)) then ''.Spec.Template.Labels''
      else if ptAnnotations (dsTemplate (dSpec x)) \<noteq> ptAnnotations (dsTemplate (dSpec y)) then ''.Spec.Template.Annotations''
      else if dsSelector (dSpec x) \<noteq> dsSelector (dSpec y) then ''.Spec.Selector''
      else if psNodeSelector xPodSpec \<noteq> psNodeSelector yPodSpec then ''Spec.Template.Spec.NodeSelector''
      else if psTolerations xPodSpec \<noteq> psTolerations yPodSpec then ''Spec.Template.Spec.Tolerations''
      else if psSecurityContext xPodSpec \<noteq> psSecurityContext yPodSpec then ''Spec.Template.Spec.SecurityContext''
      else if psVolumes xPodSpec \<noteq> psVolumes yPodSpec then ''Spec.Template.Spec.Volumes''
      else if dsReplicas (dSpec x) \<noteq> dsReplicas (dSpec y) then ''Spec.Replicas''
      else if psAffinity xPodSpec \<noteq> psAffinity yPodSpec then ''Spec.Template.Spec.Affinity''
      else '''')"

definition createNewRolloutsDeployment :: "'w reconciler \<Rightarrow> rollout_manager \<Rightarrow> deployment \<Rightarrow> 'w \<Rightarrow> unit res \<times> 'w" where
  "createNewRolloutsDeployment r cr desired w =
     (case SetControllerReference (Platform r) cr (dMeta desired) of
        Inl err \<Rightarrow> (Err err, w)
      | Inr m \<Rightarrow> discard (lift (kcreate (kDeployments (Client r)) (desired\<lparr>dMeta := m\<rparr>) w)))"

text \<open>The assignments before the Update call, field by field.\<close>

definition mergeDeployment :: "deployment \<Rightarrow> deployment \<Rightarrow> deployment" where
  "mergeDeployment actual desired =
     (let dt = dsTemplate (dSpec desired); ds = ptSpec dt
      in actual\<lparr>
        dMeta := adoptMeta (dMeta actual) (dMeta desired),
        dSpec := (dSpec actual)\<lparr>
          dsStrategy := dsStrategy (dSpec desired),
          dsReplicas := dsReplicas (dSpec desired),
          dsSelector := dsSelector (dSpec desired),
          dsTemplate := (dsTemplate (dSpec actual))\<lparr>
            ptLabels := ptLabels dt,
            ptAnnotations := ptAnnotations dt,
            ptSpec := (ptSpec (dsTemplate (dSpec actual)))\<lparr>
              psContainers := psContainers ds,
              psServiceAccountName := psServiceAccountName ds,
              psAffinity := psAffinity ds,
              psNodeSelector := psNodeSelector ds,
              psTolerations := psTolerations ds,
              psSecurityContext := psSecurityContext ds,
              psVolumes := psVolumes ds\<rparr>\<rparr>\<rparr>\<rparr>)"

definition orZero :: "go_error + deployment \<Rightarrow> deployment" where
  "orZero d = (case d of Inl _ \<Rightarrow> zeroDeployment | Inr x \<Rightarrow> x)"

text \<open>The two sanity checks of the code only write to the log.\<close>

definition reconcileRolloutsDeployment ::
    "'w reconciler \<Rightarrow> rollout_manager \<Rightarrow> service_account \<Rightarrow> 'w \<Rightarrow> unit res \<times> 'w" where
  "reconcileRolloutsDeployment r cr sa w =
     (case generateDesiredRolloutsDeployment (Platform r) cr sa of
        Inl err \<Rightarrow> (Err err, w)
      | Inr desired \<Rightarrow>
     (let normalizedDesired = orZero (normalizeDeployment desired cr); ops = kDeployments (Client r)
      in case fetchObject ops (crNamespace cr) DefaultArgoRolloutsResourceName w of
           (Inl err, w1) \<Rightarrow>
             if \<not> IsNotFound err then
               (Err (errorf_w (''failed to get the Deployment '' @ DefaultArgoRolloutsResourceName @ '': '') err), w1)
             else createNewRolloutsDeployment r cr desired w1
         | (Inr actual, w1) \<Rightarrow>
             (let normalized = normalizeDeployment actual cr; normalizedActual = orZero normalized
              in if isl normalized \<or> normalizedActual \<noteq> normalizedDesired then
                   (if dsSelector (dSpec normalizedActual) \<noteq> dsSelector (dSpec normalizedDesired) then
                      andThen (lift_with (errorf_w ''unable to delete Rollouts Deployment after .spec.selector change: '')
                          (kdelete ops desired w1))
                        (\<lambda>_ w2. createNewRolloutsDeployment r cr desired w2)
                    else discard (lift (kupdate ops (mergeDeployment actual desired) w1)))
                 else (Ok (), w1))))"

section \<open>The desired Deployment is in normal form\<close>

lemma normalizeMap_simps [simp]: "normalizeMap (Some m) = Some m" "normalizeMap None = Some fmempty"
  by (simp_all add: normalizeMap_def)

lemma normalizeMap_entries: "normalizeMap m = Some (entries m)"
  by (cases m) simp_all

lemma normalizeMap_same: "strmap_same a b \<Longrightarrow> normalizeMap b = normalizeMap a"
  by (simp add: normalizeMap_entries strmap_same_def)

lemma rolloutsContainer_normal:
  assumes "rolloutsContainer p cr = Inr c"
  shows "normalizeContainer c = Inr c"
  using assms
  by (auto simp: rolloutsContainer_def Let_def normalizeContainer_def rolloutsLivenessProbe_def
      rolloutsSecurityContext_def slice_def normalizeProbe_def normalizePort_def normalizeMount_def
      normalizeSecurityContext_def emptyIfNil_def split: sum.splits)

lemma normalizeMeta_eq:
  "normalizeMeta m cr = (newMeta (mName m) (mNamespace m))\<lparr>
     mLabels := map_option (fmfilter (\<lambda>k. fmlookup (managedLabels cr) k \<noteq> None)) (mLabels m),
     mAnnotations := map_option (fmfilter (\<lambda>k. fmlookup (extraAnnotations cr) k \<noteq> None)) (mAnnotations m)\<rparr>"
  by (simp add: normalizeMeta_def Let_def mlookup_def)

lemma fmfilter_own: "fmfilter (\<lambda>k. fmlookup m k \<noteq> None) m = m"
  by (rule fmfilter_id) simp

lemma expected_meta_fields:
  "setRolloutsLabelsAndAnnotationsToObject (newMeta n ns) cr =
     (newMeta n ns)\<lparr>mLabels := Some (managedLabels cr), mAnnotations := Some (extraAnnotations cr)\<rparr>"
  by (simp add: setRolloutsLabelsAndAnnotationsToObject_def setRolloutsLabelsAndAnnotations_def
      setAdditionalRolloutsLabelsAndAnnotationsToObject_def managedLabels_def standardLabels_def
      strmap_of_def extraLabels_def extraAnnotations_def split: option.split)

lemma normalizeMeta_expected:
  "normalizeMeta (setRolloutsLabelsAndAnnotationsToObject (newMeta n ns) cr) cr =
     setRolloutsLabelsAndAnnotationsToObject (newMeta n ns) cr"
  unfolding normalizeMeta_eq expected_meta_fields by (simp add: fmfilter_own del: not_None_eq)

lemma normalizeAffinity_desired:
  "normalizeAffinity (Some m) (desiredAffinity cr (Some m)) = Inr (desiredAffinity cr (Some m))"
  by (simp add: normalizeAffinity_def desiredAffinity_def antiAffinity_def slice_def)

lemma generated_cases:
  assumes "generateDesiredRolloutsDeployment p cr sa = Inr d"
  obtains c where "rolloutsContainer p cr = Inr c"
    "dMeta d = setRolloutsLabelsAndAnnotationsToObject (newMeta DefaultArgoRolloutsResourceName (crNamespace cr)) cr"
    "dsSelector (dSpec d) = Some (labelSelector (Some (rolloutsPodLabels cr)))"
    "psContainers (ptSpec (dsTemplate (dSpec d))) = slice [c]"
    "psTolerations (ptSpec (dsTemplate (dSpec d))) = (case NodePlacement (rmSpec cr) of None \<Rightarrow> None | Some np \<Rightarrow> placeTolerations np)"
  using assms by (auto simp: generateDesiredRolloutsDeployment_def Let_def split: sum.splits prod.splits option.splits)

lemma generated_normal:
  assumes "generateDesiredRolloutsDeployment p cr sa = Inr d"
  shows "normalizeDeployment d cr = Inr d"
proof -
  obtain c where c: "rolloutsContainer p cr = Inr c" using assms by (rule generated_cases)
  note n = rolloutsContainer_normal [OF c]
  obtain ns tol where nt: "(case NodePlacement (rmSpec cr) of
        None \<Rightarrow> (strmap_of [(''kubernetes.io/os'', ''linux'')], None)
      | Some np \<Rightarrow> (appendStringMap (strmap_of [(''kubernetes.io/os'', ''linux'')]) (placeNodeSelector np), placeTolerations np))
      = (ns, tol)" by fastforce
  show ?thesis
    using assms
    by (auto simp: generateDesiredRolloutsDeployment_def Let_def c nt normalizeDeployment_def n
        normalizeAffinity_desired normalizeMeta_expected labelSelector_def slice_def desiredVolumes_def
        zeroPodSpec_def zeroDeploymentSpec_def)
qed

section \<open>Normal forms are stable\<close>

text \<open>The normal form of a container, given the parts that the checks ask for.\<close>

definition containerForm :: "container \<Rightarrow> probe \<Rightarrow> http_get_action \<Rightarrow> security_context \<Rightarrow> capabilities \<Rightarrow> container" where
  "containerForm c pr hg sc cap = \<lparr>cName = cName c, cImage = cImage c, cCommand = None, cArgs = emptyIfNil (cArgs c),
     cEnv = emptyIfNil (cEnv c), cImagePullPolicy = cImagePullPolicy c,
     cLivenessProbe = Some (normalizeProbe pr hg), cReadinessProbe = cReadinessProbe c,
     cPorts = slice [normalizePort (elems (cPorts c) ! 0), normalizePort (elems (cPorts c) ! 1)],
     cResources = cResources c, cSecurityContext = Some (normalizeSecurityContext sc cap),
     cVolumeMounts = slice [normalizeMount (elems (cVolumeMounts c) ! 0), normalizeMount (elems (cVolumeMounts c) ! 1)],
     cTerminationMessagePath = '''', cTerminationMessagePolicy = ''''\<rparr>"

lemma emptyIfNil_idem [simp]: "emptyIfNil (emptyIfNil s) = emptyIfNil s"
  by (simp add: emptyIfNil_def slice_def)

lemma normalizeContainer_Inr:
  "normalizeContainer c = Inr d \<longleftrightarrow> (\<exists>pr hg sc cap. cLivenessProbe c = Some pr \<and> prHTTPGet pr = Some hg \<and>
     length (elems (cPorts c)) = 2 \<and> cSecurityContext c = Some sc \<and> scCapabilities sc = Some cap \<and>
     length (elems (cVolumeMounts c)) = 2 \<and> d = containerForm c pr hg sc cap)"
  unfolding normalizeContainer_def containerForm_def [symmetric]
  by (cases "cLivenessProbe c"; simp) (auto split: option.split)

lemma normalizeContainer_idem:
  assumes "normalizeContainer c = Inr d"
  shows "normalizeContainer d = Inr d"
proof -
  obtain pr hg sc cap where d: "d = containerForm c pr hg sc cap"
    using assms by (auto simp: normalizeContainer_Inr)
  show ?thesis
    unfolding normalizeContainer_Inr
    by (rule exI [of _ "normalizeProbe pr hg"],
        rule exI [of _ "\<lparr>hgPath = hgPath hg, hgPort = hgPort hg, hgHost = '''', hgScheme = ''''\<rparr>"],
        rule exI [of _ "normalizeSecurityContext sc cap"], rule exI [of _ "\<lparr>capAdd = None, capDrop = capDrop cap\<rparr>"])
      (simp add: d containerForm_def normalizeProbe_def normalizePort_def normalizeMount_def
        normalizeSecurityContext_def slice_def)
qed

lemma normalizeAffinity_idem:
  assumes "normalizeAffinity m a = Inr b"
  shows "normalizeAffinity (normalizeMap m) b = Inr b"
  using assms
  by (auto simp: normalizeAffinity_def antiAffinity_def slice_def normalizeMap_entries split: option.splits if_splits)

lemma normalizeMeta_idem: "normalizeMeta (normalizeMeta m cr) cr = normalizeMeta m cr"
  by (cases "mLabels m"; cases "mAnnotations m") (simp_all add: normalizeMeta_eq fmfilter_comp del: not_None_eq)

lemma normalizeDeployment_idem:
  assumes "normalizeDeployment d cr = Inr x"
  shows "normalizeDeployment x cr = Inr x"
proof -
  let ?ps = "ptSpec (dsTemplate (dSpec d))"
  obtain sel psc c aff where s: "dsSelector (dSpec d) = Some sel" "psSecurityContext ?ps = Some psc"
      "normalizeContainer (elems (psContainers ?ps) ! 0) = Inr c"
      "normalizeAffinity (lsMatchLabels sel) (psAffinity ?ps) = Inr aff"
    using assms by (auto simp: normalizeDeployment_def Let_def split: option.splits sum.splits if_splits)
  show ?thesis
    using assms normalizeContainer_idem [OF s(3)] normalizeAffinity_idem [OF s(4)]
    by (auto simp: normalizeDeployment_def Let_def s normalizeMeta_idem labelSelector_def slice_def
        normalizeMap_entries zeroPodSpec_def zeroDeploymentSpec_def split: if_splits)
qed

section \<open>What the server fills in is invisible\<close>

text \<open>
  A Deployment that the encoding does not change in a field the comparison looks at: no list of
  tolerations and no resource map is empty without being nil.
\<close>

definition exactResources :: "resource_requirements \<Rightarrow> bool" where
  "exactResources rr \<longleftrightarrow> rrLimits rr \<noteq> Some fmempty \<and> rrRequests rr \<noteq> Some fmempty"

definition wireExact :: "deployment \<Rightarrow> bool" where
  "wireExact d \<longleftrightarrow> psTolerations (ptSpec (dsTemplate (dSpec d))) \<noteq> Some [] \<and>
     list_all (\<lambda>c. exactResources (cResources c)) (elems (psContainers (ptSpec (dsTemplate (dSpec d)))))"

lemma exact_resources_stored: "exactResources a \<Longrightarrow> resources_stored a b \<Longrightarrow> b = a"
  by (cases a; cases b; cases "rrLimits a"; cases "rrRequests a")
    (auto simp: exactResources_def resources_stored_def)

lemma exact_slice_stored: "a \<noteq> Some [] \<Longrightarrow> slice_stored a b \<Longrightarrow> b = a"
  by (cases a) (auto simp: slice_stored_def)

lemma normalizeProbe_same:
  assumes "same_probe x y" "prHTTPGet x = Some hg"
  shows "\<exists>hg'. prHTTPGet y = Some hg' \<and> normalizeProbe y hg' = normalizeProbe x hg"
  using assms by (auto simp: same_probe_def normalizeProbe_def)

lemma normalizePort_same: "same_port x y \<Longrightarrow> normalizePort y = normalizePort x"
  by (auto simp: same_port_def normalizePort_def)

lemma emptyIfNil_same: "slice_same a b \<Longrightarrow> emptyIfNil b = emptyIfNil a"
  by (cases a; cases b) (auto simp: slice_same_def emptyIfNil_def slice_def)

lemma rel_option_elems: "rel_option (list_all2 R) a b \<Longrightarrow> list_all2 R (elems a) (elems b)"
  by (cases a; cases b) auto

lemma normalizeContainer_same:
  assumes "same_container x y" "exactResources (cResources x)"
  shows "normalizeContainer y = normalizeContainer x"
proof -
  have e: "cName y = cName x" "cImage y = cImage x" "emptyIfNil (cArgs y) = emptyIfNil (cArgs x)"
      "emptyIfNil (cEnv y) = emptyIfNil (cEnv x)" "cImagePullPolicy y = cImagePullPolicy x"
      "cReadinessProbe y = cReadinessProbe x" "cResources y = cResources x"
      "cSecurityContext y = cSecurityContext x" "cVolumeMounts y = cVolumeMounts x"
      "rel_option same_probe (cLivenessProbe x) (cLivenessProbe y)"
      "list_all2 same_port (elems (cPorts x)) (elems (cPorts y))"
    using assms exact_resources_stored [OF assms(2)] rel_option_elems
    by (auto simp: same_container_def emptyIfNil_same)
  have len: "length (elems (cPorts y)) = length (elems (cPorts x))" using e(11) by (simp add: list_all2_lengthD)
  have port: "normalizePort (elems (cPorts y) ! i) = normalizePort (elems (cPorts x) ! i)"
    if "length (elems (cPorts x)) = 2" "i < 2" for i
    by (rule normalizePort_same, rule list_all2_nthD [OF e(11)]) (use that in simp)
  have ports: "length (elems (cPorts x)) = 2 \<Longrightarrow>
      normalizePort (elems (cPorts y) ! 0) = normalizePort (elems (cPorts x) ! 0) \<and>
      normalizePort (elems (cPorts y) ! 1) = normalizePort (elems (cPorts x) ! 1)"
    using port [of 0] port [of 1] by simp
  show ?thesis
  proof (cases "cLivenessProbe x")
    case None
    then show ?thesis using e(10) by (simp add: normalizeContainer_def)
  next
    case (Some pr)
    then obtain pr' where pr': "cLivenessProbe y = Some pr'" "same_probe pr pr'"
      using e(10) by (cases "cLivenessProbe y") auto
    show ?thesis
    proof (cases "prHTTPGet pr")
      case None
      then have "prHTTPGet pr' = None" using pr'(2) by (auto simp: same_probe_def)
      then show ?thesis using None Some pr'(1) by (simp add: normalizeContainer_def)
    next
      case (Some hg)
      then obtain hg' where "prHTTPGet pr' = Some hg'" "normalizeProbe pr' hg' = normalizeProbe pr hg"
        using normalizeProbe_same [OF pr'(2)] by blast
      then show ?thesis
        unfolding normalizeContainer_def e(1-9) len \<open>cLivenessProbe x = Some pr\<close> pr'(1) option.case Some
        using ports by (auto split: option.split)
    qed
  qed
qed

lemma normalizeMeta_same:
  assumes "same_deployment x y" "mAnnotations (dMeta x) = Some b" "fmlookup (extraAnnotations cr) revisionAnnotation = None"
  shows "normalizeMeta (dMeta y) cr = normalizeMeta (dMeta x) cr"
proof -
  obtain a where a: "mAnnotations (dMeta y) = Some a" "fmdrop revisionAnnotation a = fmdrop revisionAnnotation b"
    using assms(1,2) by (auto simp: same_deployment_def)
  have "fmfilter (\<lambda>k. fmlookup (extraAnnotations cr) k \<noteq> None) a = fmfilter (\<lambda>k. fmlookup (extraAnnotations cr) k \<noteq> None) b"
  proof (rule fmap_ext)
    fix k
    show "fmlookup (fmfilter (\<lambda>k. fmlookup (extraAnnotations cr) k \<noteq> None) a) k =
        fmlookup (fmfilter (\<lambda>k. fmlookup (extraAnnotations cr) k \<noteq> None) b) k"
      using assms(3) arg_cong [OF a(2), of "\<lambda>m. fmlookup m k"] by (cases "k = revisionAnnotation") auto
  qed
  with assms(1,2) a(1) show ?thesis by (simp add: normalizeMeta_eq same_deployment_def del: not_None_eq)
qed

lemma normalizeDeployment_same:
  assumes "same_deployment x y" "wireExact x" "mAnnotations (dMeta x) = Some b"
    and "fmlookup (extraAnnotations cr) revisionAnnotation = None"
  shows "normalizeDeployment y cr = normalizeDeployment x cr"
proof -
  let ?px = "ptSpec (dsTemplate (dSpec x))" and ?py = "ptSpec (dsTemplate (dSpec y))"
  have spec: "same_deployment_spec (dSpec x) (dSpec y)" using assms(1) by (simp add: same_deployment_def)
  then have pod: "same_pod_spec ?px ?py" by (simp add: same_deployment_spec_def)
  have e: "dsSelector (dSpec y) = dsSelector (dSpec x)" "dsReplicas (dSpec y) = dsReplicas (dSpec x)"
      "normalizeMap (ptLabels (dsTemplate (dSpec y))) = normalizeMap (ptLabels (dsTemplate (dSpec x)))"
      "normalizeMap (ptAnnotations (dsTemplate (dSpec y))) = normalizeMap (ptAnnotations (dsTemplate (dSpec x)))"
      "stType (dsStrategy (dSpec y)) = stType (dsStrategy (dSpec x))"
    using spec by (auto simp: same_deployment_spec_def normalizeMap_same)
  have f: "psNodeSelector ?py = psNodeSelector ?px" "psTolerations ?py = psTolerations ?px"
      "psServiceAccountName ?py = psServiceAccountName ?px" "psSecurityContext ?py = psSecurityContext ?px"
      "psVolumes ?py = psVolumes ?px" "psAffinity ?py = psAffinity ?px"
    using pod assms(2) exact_slice_stored by (auto simp: same_pod_spec_def wireExact_def)
  have cs: "list_all2 same_container (elems (psContainers ?px)) (elems (psContainers ?py))"
    using pod rel_option_elems by (auto simp: same_pod_spec_def)
  then have len: "length (elems (psContainers ?py)) = length (elems (psContainers ?px))" by (simp add: list_all2_lengthD)
  have c: "normalizeContainer (elems (psContainers ?py) ! 0) = normalizeContainer (elems (psContainers ?px) ! 0)"
    if "length (elems (psContainers ?px)) = 1"
    by (rule normalizeContainer_same [OF list_all2_nthD [OF cs]])
      (use that assms(2) in \<open>auto simp: wireExact_def list_all_length\<close>)
  show ?thesis
    unfolding normalizeDeployment_def Let_def e f len normalizeMeta_same [OF assms(1,3,4)]
    using c by (auto split: option.split)
qed

section \<open>The merged Deployment\<close>

lemma normalizeMeta_adopted:
  assumes "mName m = n" "mNamespace m = ns"
  shows "normalizeMeta (adoptMeta m (setRolloutsLabelsAndAnnotationsToObject (newMeta n ns) cr)) cr =
    setRolloutsLabelsAndAnnotationsToObject (newMeta n ns) cr"
proof -
  let ?e = "setRolloutsLabelsAndAnnotationsToObject (newMeta n ns) cr"
  have l: "mLabels (adoptMeta m ?e) = Some (entries (mLabels m) ++\<^sub>f managedLabels cr)"
      "mAnnotations (adoptMeta m ?e) = Some (entries (mAnnotations m) ++\<^sub>f extraAnnotations cr)"
    using adoptMeta_simps(1,2) [of m ?e]
    by (simp_all add: adoptMeta_def combineStringMaps_def slice_def split: option.splits)
  have "fmfilter (\<lambda>k. fmlookup o' k \<noteq> None) (a ++\<^sub>f o') = o'" for a o' :: "(string, string) fmap"
    by (rule fmfilter_add_right) auto
  then show ?thesis
    unfolding normalizeMeta_eq l by (simp add: expected_meta_fields assms del: not_None_eq)
qed

lemma merged_fields:
  "dMeta (mergeDeployment a d) = adoptMeta (dMeta a) (dMeta d)"
  "dsReplicas (dSpec (mergeDeployment a d)) = dsReplicas (dSpec d)"
  "dsSelector (dSpec (mergeDeployment a d)) = dsSelector (dSpec d)"
  "dsStrategy (dSpec (mergeDeployment a d)) = dsStrategy (dSpec d)"
  "ptLabels (dsTemplate (dSpec (mergeDeployment a d))) = ptLabels (dsTemplate (dSpec d))"
  "ptAnnotations (dsTemplate (dSpec (mergeDeployment a d))) = ptAnnotations (dsTemplate (dSpec d))"
  "psContainers (ptSpec (dsTemplate (dSpec (mergeDeployment a d)))) = psContainers (ptSpec (dsTemplate (dSpec d)))"
  "psServiceAccountName (ptSpec (dsTemplate (dSpec (mergeDeployment a d)))) = psServiceAccountName (ptSpec (dsTemplate (dSpec d)))"
  "psAffinity (ptSpec (dsTemplate (dSpec (mergeDeployment a d)))) = psAffinity (ptSpec (dsTemplate (dSpec d)))"
  "psNodeSelector (ptSpec (dsTemplate (dSpec (mergeDeployment a d)))) = psNodeSelector (ptSpec (dsTemplate (dSpec d)))"
  "psTolerations (ptSpec (dsTemplate (dSpec (mergeDeployment a d)))) = psTolerations (ptSpec (dsTemplate (dSpec d)))"
  "psSecurityContext (ptSpec (dsTemplate (dSpec (mergeDeployment a d)))) = psSecurityContext (ptSpec (dsTemplate (dSpec d)))"
  "psVolumes (ptSpec (dsTemplate (dSpec (mergeDeployment a d)))) = psVolumes (ptSpec (dsTemplate (dSpec d)))"
  by (simp_all add: mergeDeployment_def Let_def)

lemma normalize_merged:
  assumes "generateDesiredRolloutsDeployment p cr sa = Inr d"
    and "metaKey (dMeta actual) = rolloutsKey cr"
  shows "normalizeDeployment (mergeDeployment actual d) cr = Inr d"
proof -
  have m: "dMeta d = setRolloutsLabelsAndAnnotationsToObject (newMeta DefaultArgoRolloutsResourceName (crNamespace cr)) cr"
    using assms(1) by (rule generated_cases)
  have meta: "normalizeMeta (adoptMeta (dMeta actual) (dMeta d)) cr = dMeta d"
    unfolding m by (rule normalizeMeta_adopted) (use assms(2) in \<open>simp_all add: metaKey_def\<close>)
  have "normalizeMeta (dMeta d) cr = dMeta d" unfolding m by (rule normalizeMeta_expected)
  note own = this
  have "normalizeDeployment (mergeDeployment actual d) cr = normalizeDeployment d cr"
    unfolding normalizeDeployment_def Let_def merged_fields meta own ..
  with generated_normal [OF assms(1)] show ?thesis by simp
qed

lemma merged_exact: "wireExact (mergeDeployment actual d) \<longleftrightarrow> wireExact d"
  by (simp add: wireExact_def mergeDeployment_def Let_def)

lemma merged_key: "metaKey (dMeta (mergeDeployment actual d)) = metaKey (dMeta actual)"
  by (simp add: mergeDeployment_def Let_def)

lemma merged_annotations: "\<exists>b. mAnnotations (dMeta (mergeDeployment actual d)) = Some b"
  by (simp add: mergeDeployment_def Let_def adoptMeta_def combineStringMaps_def slice_def)

section \<open>What one run leaves behind\<close>

text \<open>
  What has to hold of a resource for its Deployment to come back from the server as it was sent,
  where the comparison looks at it: neither the tolerations nor the resource maps are empty
  without being nil, and the user does not annotate the revision of the Deployment.
\<close>

definition wireSafe :: "rollout_manager \<Rightarrow> bool" where
  "wireSafe cr \<longleftrightarrow>
     (case NodePlacement (rmSpec cr) of None \<Rightarrow> True | Some np \<Rightarrow> placeTolerations np \<noteq> Some []) \<and>
     (case ControllerResources (rmSpec cr) of None \<Rightarrow> True | Some rr \<Rightarrow> exactResources rr) \<and>
     fmlookup (extraAnnotations cr) revisionAnnotation = None"

definition deploymentSettled :: "platform \<Rightarrow> rollout_manager \<Rightarrow> service_account \<Rightarrow> cluster \<Rightarrow> bool" where
  "deploymentSettled p cr sa c \<longleftrightarrow>
     (case fmlookup (cluDeployments c) (rolloutsKey cr) of None \<Rightarrow> False
      | Some d \<Rightarrow> normalizeDeployment d cr = generateDesiredRolloutsDeployment p cr sa)"

lemma generated_exact:
  assumes "generateDesiredRolloutsDeployment p cr sa = Inr d" "wireSafe cr"
  shows "wireExact d"
proof -
  obtain c where c: "rolloutsContainer p cr = Inr c" "psContainers (ptSpec (dsTemplate (dSpec d))) = slice [c]"
      "psTolerations (ptSpec (dsTemplate (dSpec d))) = (case NodePlacement (rmSpec cr) of None \<Rightarrow> None | Some np \<Rightarrow> placeTolerations np)"
    using assms(1) by (rule generated_cases)
  have "cResources c = (case ControllerResources (rmSpec cr) of None \<Rightarrow> defaultRolloutsContainerResources | Some r \<Rightarrow> r)"
    using c(1) by (auto simp: rolloutsContainer_def Let_def split: sum.splits)
  moreover have "exactResources defaultRolloutsContainerResources"
    using fmlookup_of_list [of "[(''ephemeral-storage'', ''1Gi'')]"]
    by (auto simp: exactResources_def defaultRolloutsContainerResources_def strmap_of_def)
  ultimately show ?thesis using assms(2) c(2,3)
    by (auto simp: wireExact_def wireSafe_def slice_def split: option.splits)
qed

lemma generated_key [simp]:
  assumes "generateDesiredRolloutsDeployment p cr sa = Inr d"
  shows "metaKey (dMeta d) = rolloutsKey cr" "mOwners (dMeta d) = []" "mNamespace (dMeta d) = crNamespace cr"
    "mAnnotations (dMeta d) = Some (extraAnnotations cr)"
  using assms by (auto elim: generated_cases)

lemma same_deployment_owner:
  "meta_same (dMeta d) m \<Longrightarrow> mLabels m = mLabels (dMeta d) \<Longrightarrow> mAnnotations m = mAnnotations (dMeta d) \<Longrightarrow>
     same_deployment (d\<lparr>dMeta := m\<rparr>) y \<Longrightarrow> same_deployment d y"
  by (simp add: same_deployment_def meta_same_def)

lemma createNew_settles:
  assumes "cluster_api view (Client r)" "owner_contract (Platform r)" "wireSafe cr"
    and "generateDesiredRolloutsDeployment (Platform r) cr sa = Inr d"
    and "fmlookup (cluDeployments (view w)) (rolloutsKey cr) = None"
  shows "\<exists>y w'. createNewRolloutsDeployment r cr d w = (Ok (), w') \<and> normalizeDeployment y cr = Inr d \<and>
    metaKey (dMeta y) = rolloutsKey cr \<and> view w' = cluDeployments_update (fmupd (rolloutsKey cr) y) (view w)"
proof -
  note api = api_deployments [OF assms(1)] and d = generated_key [OF assms(4)]
  obtain os where m: "SetControllerReference (Platform r) cr (dMeta d) = Inr ((dMeta d)\<lparr>mOwners := os\<rparr>)"
    using assms(2) d(2,3) by (auto simp: owner_contract_def)
  let ?new = "d\<lparr>dMeta := (dMeta d)\<lparr>mOwners := os\<rparr>\<rparr>"
  have k: "metaKey (dMeta ?new) = rolloutsKey cr" using d(1) by (simp add: metaKey_def)
  obtain y w' where c: "kcreate (kDeployments (Client r)) ?new w = (Inr y, w')" "same_deployment ?new y"
      "view w' = cluDeployments_update (fmupd (rolloutsKey cr) y) (view w)"
    using kind_api.create_fresh [OF api, of w ?new] assms(5) k by auto
  have "same_deployment d y" by (rule same_deployment_owner [OF _ _ _ c(2)]) simp_all
  then have "normalizeDeployment y cr = normalizeDeployment d cr"
    by (rule normalizeDeployment_same) (use d(4) assms(3) generated_exact [OF assms(4,3)] in \<open>auto simp: wireSafe_def\<close>)
  moreover have "metaKey (dMeta y) = rolloutsKey cr" using same_deployment_key [OF c(2)] k by simp
  ultimately show ?thesis using c(1,3) m generated_normal [OF assms(4)]
    by (auto simp: createNewRolloutsDeployment_def)
qed

lemma replaceDeployment_settles:
  assumes "cluster_api view (Client r)" "owner_contract (Platform r)" "wireSafe cr"
    and "generateDesiredRolloutsDeployment (Platform r) cr sa = Inr d"
    and "fmlookup (cluDeployments (view w)) (rolloutsKey cr) = Some x"
  shows "\<exists>y w'. andThen (lift_with wrap (kdelete (kDeployments (Client r)) d w))
      (\<lambda>_ w2. createNewRolloutsDeployment r cr d w2) = (Ok (), w') \<and> normalizeDeployment y cr = Inr d \<and>
    metaKey (dMeta y) = rolloutsKey cr \<and> view w' = cluDeployments_update (fmupd (rolloutsKey cr) y) (view w)"
proof -
  note api = api_deployments [OF assms(1)]
  obtain w1 where w1: "kdelete (kDeployments (Client r)) d w = (Inr (), w1)"
      "view w1 = cluDeployments_update (fmdrop (rolloutsKey cr)) (view w)"
    using kind_api.delete_found [OF api, of w d x] assms(5) generated_key(1) [OF assms(4)] by auto
  have upd: "fmupd k y (fmdrop k m) = fmupd k y m" for k :: namespaced_name and y :: deployment and m
    by (rule fmap_ext) simp
  have absent: "fmlookup (cluDeployments (view w1)) (rolloutsKey cr) = None" by (simp add: w1(2))
  obtain y w' where y: "createNewRolloutsDeployment r cr d w1 = (Ok (), w')" "normalizeDeployment y cr = Inr d"
      "metaKey (dMeta y) = rolloutsKey cr" "view w' = cluDeployments_update (fmupd (rolloutsKey cr) y) (view w1)"
    using createNew_settles [OF assms(1-4) absent] by blast
  have "view w' = cluDeployments_update (fmupd (rolloutsKey cr) y) (view w)"
    unfolding y(4) w1(2) by (cases "view w") (simp add: upd)
  with y(1-3) w1(1) show ?thesis by auto
qed

lemma updateDeployment_settles:
  assumes "cluster_api view (Client r)" "wireSafe cr"
    and "generateDesiredRolloutsDeployment (Platform r) cr sa = Inr d"
    and "fmlookup (cluDeployments (view w)) (rolloutsKey cr) = Some x" "metaKey (dMeta x) = rolloutsKey cr"
  shows "\<exists>y w'. kupdate (kDeployments (Client r)) (mergeDeployment x d) w = (Inr y, w') \<and>
    normalizeDeployment y cr = Inr d \<and> metaKey (dMeta y) = rolloutsKey cr \<and>
    view w' = cluDeployments_update (fmupd (rolloutsKey cr) y) (view w)"
proof -
  note api = api_deployments [OF assms(1)]
  have k: "metaKey (dMeta (mergeDeployment x d)) = rolloutsKey cr" using assms(5) by (simp add: merged_key)
  obtain y w' where c: "kupdate (kDeployments (Client r)) (mergeDeployment x d) w = (Inr y, w')"
      "same_deployment (mergeDeployment x d) y" "view w' = cluDeployments_update (fmupd (rolloutsKey cr) y) (view w)"
    using kind_api.update_found [OF api, of w "mergeDeployment x d" x] assms(4) k by auto
  obtain b where b: "mAnnotations (dMeta (mergeDeployment x d)) = Some b" using merged_annotations by blast
  have "normalizeDeployment y cr = normalizeDeployment (mergeDeployment x d) cr"
    by (rule normalizeDeployment_same [OF c(2) _ b])
      (use assms(2) generated_exact [OF assms(3,2)] in \<open>auto simp: merged_exact wireSafe_def\<close>)
  with normalize_merged [OF assms(3,5)] c(1,3) k same_deployment_key [OF c(2)] show ?thesis by auto
qed

lemma deployment_settles:
  assumes "cluster_api view (Client r)" "owner_contract (Platform r)" "keyed dMeta (cluDeployments (view w))"
    and "wireSafe cr" "generateDesiredRolloutsDeployment (Platform r) cr sa = Inr d"
  shows "\<exists>y w'. reconcileRolloutsDeployment r cr sa w = (Ok (), w') \<and> normalizeDeployment y cr = Inr d \<and>
    metaKey (dMeta y) = rolloutsKey cr \<and> view w' = cluDeployments_update (fmupd (rolloutsKey cr) y) (view w)"
proof (cases "fmlookup (cluDeployments (view w)) (rolloutsKey cr)")
  case None
  obtain e w1 where g: "kget (kDeployments (Client r)) (rolloutsKey cr) w = (Inl e, w1)" "IsNotFound e" "view w1 = view w"
    using kind_api.get_missing [OF api_deployments [OF assms(1)] None] by blast
  have "reconcileRolloutsDeployment r cr sa w = createNewRolloutsDeployment r cr d w1"
    using g assms(5) by (simp add: reconcileRolloutsDeployment_def Let_def)
  with createNew_settles [OF assms(1,2,4,5), of w1] None g(3) show ?thesis by simp
next
  case (Some x)
  note d = generated_normal [OF assms(5)]
  have xk: "metaKey (dMeta x) = rolloutsKey cr" using keyedD [OF assms(3) Some] .
  obtain w1 where g: "kget (kDeployments (Client r)) (rolloutsKey cr) w = (Inr x, w1)" "view w1 = view w"
    using kind_api.get_found [OF api_deployments [OF assms(1)] Some] by blast
  let ?n = "normalizeDeployment x cr"
  let ?del = "andThen (lift_with (errorf_w ''unable to delete Rollouts Deployment after .spec.selector change: '')
      (kdelete (kDeployments (Client r)) d w1)) (\<lambda>_ w2. createNewRolloutsDeployment r cr d w2)"
  have run: "reconcileRolloutsDeployment r cr sa w =
      (if isl ?n \<or> orZero ?n \<noteq> d then
         (if dsSelector (dSpec (orZero ?n)) \<noteq> dsSelector (dSpec d) then ?del
          else discard (lift (kupdate (kDeployments (Client r)) (mergeDeployment x d) w1)))
       else (Ok (), w1))"
    using g assms(5) d by (simp add: reconcileRolloutsDeployment_def Let_def orZero_def)
  have someW1: "fmlookup (cluDeployments (view w1)) (rolloutsKey cr) = Some x" using Some g(2) by simp
  consider "?n = Inr d" | "isl ?n \<or> orZero ?n \<noteq> d" by (cases ?n) (auto simp: orZero_def)
  then show ?thesis
  proof cases
    case 1
    then have "reconcileRolloutsDeployment r cr sa w = (Ok (), w1)" using run by (simp add: orZero_def)
    moreover have "view w1 = cluDeployments_update (fmupd (rolloutsKey cr) x) (view w)"
      using Some g(2) by (cases "view w") (simp add: fmupd_same)
    ultimately show ?thesis using 1 xk by blast
  next
    case 2
    then show ?thesis
      using replaceDeployment_settles [OF assms(1,2,4,5) someW1] updateDeployment_settles [OF assms(1,4,5) someW1 xk]
      unfolding run g(2) by auto
  qed
qed

lemma deployment_settled:
  assumes "cluster_api view (Client r)" "deploymentSettled (Platform r) cr sa (view w)"
    and "generateDesiredRolloutsDeployment (Platform r) cr sa = Inr d"
  shows "\<exists>w'. reconcileRolloutsDeployment r cr sa w = (Ok (), w') \<and> view w' = view w"
proof -
  obtain x where x: "fmlookup (cluDeployments (view w)) (rolloutsKey cr) = Some x" "normalizeDeployment x cr = Inr d"
    using assms(2,3) by (auto simp: deploymentSettled_def split: option.splits)
  obtain w1 where "kget (kDeployments (Client r)) (rolloutsKey cr) w = (Inr x, w1)" "view w1 = view w"
    using kind_api.get_found [OF api_deployments [OF assms(1)] x(1)] by blast
  then show ?thesis using assms(3) x(2) generated_normal [OF assms(3)]
    by (simp add: reconcileRolloutsDeployment_def Let_def orZero_def)
qed

section \<open>Properties\<close>

text \<open>
  The desired Deployment is its own normal form, for every resource, service account and
  environment: the two sanity checks of the reconciler never fire, and comparing normal forms
  compares with what is wanted.
\<close>

theorem desired_deployment_is_normal:
  "case generateDesiredRolloutsDeployment p cr sa of Inl _ \<Rightarrow> isl (rolloutsContainer p cr)
   | Inr d \<Rightarrow> normalizeDeployment d cr = Inr d"
proof (cases "generateDesiredRolloutsDeployment p cr sa")
  case (Inl err)
  then show ?thesis
    by (auto simp: generateDesiredRolloutsDeployment_def Let_def split: sum.splits prod.splits)
qed (simp add: generated_normal)

text \<open>
  Normalizing is idempotent: a normal form has a normal form, itself.
\<close>

theorem normalize_idempotent:
  "case normalizeDeployment d cr of Inl _ \<Rightarrow> True | Inr x \<Rightarrow> normalizeDeployment x cr = Inr x"
  by (cases "normalizeDeployment d cr") (simp_all add: normalizeDeployment_idem)

text \<open>
  C11: On normal forms of the same object the textual comparison is complete: it finds no
  difference exactly when the Deployments are equal, so that the warning about a difference that
  only DeepEqual sees never appears after a successful normalization.
\<close>

theorem identify_difference_complete:
  assumes "normalizeDeployment a cr = Inr x" "normalizeDeployment b cr = Inr y"
    and "metaKey (dMeta a) = metaKey (dMeta b)"
  shows "identifyDeploymentDifference x y = '''' \<longleftrightarrow> x = y"
proof
  assume same: "identifyDeploymentDifference x y = ''''"
  have shape: "\<exists>m sel reps tl ta ns tol aff psc sa cs vols st. n = \<lparr>dMeta = (newMeta (mName (dMeta d)) (mNamespace (dMeta d)))\<lparr>
        mLabels := fst m, mAnnotations := snd m\<rparr>,
      dSpec = zeroDeploymentSpec\<lparr>dsReplicas := reps, dsSelector := sel,
        dsTemplate := \<lparr>ptLabels = tl, ptAnnotations = ta, ptSpec = zeroPodSpec\<lparr>psNodeSelector := ns, psTolerations := tol,
          psAffinity := aff, psSecurityContext := psc, psServiceAccountName := sa, psContainers := cs, psVolumes := vols\<rparr>\<rparr>,
        dsStrategy := st\<rparr>, dReadyReplicas = 0\<rparr>"
    if "normalizeDeployment d cr = Inr n" for d n
    using that by (fastforce simp: normalizeDeployment_def Let_def normalizeMeta_eq split: option.splits sum.splits if_splits)
  show "x = y"
    using same shape [OF assms(1)] shape [OF assms(2)] assms(3)
    by (auto simp: identifyDeploymentDifference_def Let_def metaKey_def zeroDeploymentSpec_def zeroPodSpec_def split: if_splits)
qed (simp add: identifyDeploymentDifference_def Let_def)

lemma generated_basic:
  obtains d where "generateDesiredRolloutsDeployment emptyPlatform (basicRolloutManager n ns b) sa = Inr d"
proof -
  obtain c where "rolloutsContainer emptyPlatform (basicRolloutManager n ns b) = Inr c"
    using rolloutsContainer_basic by blast
  then show ?thesis using that by (simp add: generateDesiredRolloutsDeployment_def Let_def)
qed

definition basicAccount :: service_account where
  "basicAccount = \<lparr>saMeta = newMeta DefaultArgoRolloutsResourceName ''ns''\<rparr>"

theorem identify_difference_complete_witness:
  "\<exists>x. normalizeDeployment (orZero (generateDesiredRolloutsDeployment emptyPlatform (basicRolloutManager ''rm'' ''ns'' True) basicAccount))
       (basicRolloutManager ''rm'' ''ns'' True) = Inr x \<and> identifyDeploymentDifference x x = ''''"
proof -
  let ?cr = "basicRolloutManager ''rm'' ''ns'' True"
  obtain d where d: "generateDesiredRolloutsDeployment emptyPlatform ?cr basicAccount = Inr d" by (rule generated_basic)
  note n = generated_normal [OF d]
  from identify_difference_complete [OF n n refl] n show ?thesis by (simp add: d orZero_def)
qed

text \<open>
  C5: The Deployment step on a conforming cluster, for a resource whose fields survive the
  encoding: it succeeds, afterwards the Deployment on the cluster has the desired normal form
  whatever was there before, nothing else has changed, and a second run changes nothing.
\<close>

theorem deployment_reconciled:
  assumes "cluster_api view (Client r)" "owner_contract (Platform r)" "keyed dMeta (cluDeployments (view w))"
    and "wireSafe cr" "generateDesiredRolloutsDeployment (Platform r) cr sa = Inr d"
  shows "\<exists>y w1 w2. reconcileRolloutsDeployment r cr sa w = (Ok (), w1) \<and> normalizeDeployment y cr = Inr d \<and>
    view w1 = cluDeployments_update (fmupd (rolloutsKey cr) y) (view w) \<and>
    reconcileRolloutsDeployment r cr sa w1 = (Ok (), w2) \<and> view w2 = view w1"
proof -
  obtain y w1 where y: "reconcileRolloutsDeployment r cr sa w = (Ok (), w1)" "normalizeDeployment y cr = Inr d"
      "view w1 = cluDeployments_update (fmupd (rolloutsKey cr) y) (view w)"
    using deployment_settles [OF assms] by blast
  have "deploymentSettled (Platform r) cr sa (view w1)"
    using y(2) by (simp add: deploymentSettled_def y(3) assms(5))
  from deployment_settled [OF assms(1) this assms(5)] y show ?thesis by blast
qed

theorem deployment_reconciled_witness:
  "\<exists>y w1. reconcileRolloutsDeployment (memReconciler True) (basicRolloutManager ''rm'' ''ns'' True) basicAccount emptyCluster = (Ok (), w1) \<and>
     fmlookup (cluDeployments w1) (NamespacedName ''ns'' DefaultArgoRolloutsResourceName) = Some y"
proof -
  let ?cr = "basicRolloutManager ''rm'' ''ns'' True"
  obtain d where d: "generateDesiredRolloutsDeployment emptyPlatform ?cr basicAccount = Inr d" by (rule generated_basic)
  have api: "cluster_api (\<lambda>c. c) (Client (memReconciler True))" "owner_contract (Platform (memReconciler True))"
    by (simp_all add: mem_cluster_api)
  have "ControllerResources (rmSpec ?cr) = None" by (simp add: basicRolloutManager_def)
  then have "wireSafe ?cr" by (simp add: wireSafe_def)
  with deployment_reconciled [where view = "\<lambda>c. c" and w = emptyCluster and cr = ?cr, OF api] d
  show ?thesis by (fastforce simp: emptyCluster_def)
qed

text \<open>
  C24: The command line. It is refused exactly when an extra argument repeats a flag that the
  operator sets itself, --namespaced for a namespace-scoped resource or --leader-elect with high
  availability, letter by letter: an argument --leader-elect=false is not recognised. On a refusal
  the Deployment step returns the error before any call of the client; otherwise the container of
  the desired Deployment gets the operator's arguments followed by all the extra ones.
\<close>

theorem command_args_decision:
  "let extra = ExtraCommandArgs (rmSpec cr);
       ha = (case HA (rmSpec cr) of None \<Rightarrow> False | Some h \<Rightarrow> haEnabled h);
       own = (if NamespaceScoped (rmSpec cr) then [''--namespaced''] else []) @ (if ha then [''--leader-elect'', ''true''] else [])
   in if NamespaceScoped (rmSpec cr) \<and> ''--namespaced'' \<in> set extra \<or> ha \<and> ''--leader-elect'' \<in> set extra
      then reconcileRolloutsDeployment r cr sa w = (Err (errors_New ''duplicate argument error''), w)
      else getRolloutsCommandArgs cr = Inr (own @ extra) \<and>
        (\<forall>d. generateDesiredRolloutsDeployment (Platform r) cr sa = Inr d \<longrightarrow>
           map (elems \<circ> cArgs) (elems (psContainers (ptSpec (dsTemplate (dSpec d))))) = [own @ extra])"
proof (cases "getRolloutsCommandArgs cr")
  case (Inl e)
  then have "rolloutsContainer (Platform r) cr = Inl e" by (simp add: rolloutsContainer_def Let_def)
  then have "reconcileRolloutsDeployment r cr sa w = (Err e, w)"
    by (simp add: reconcileRolloutsDeployment_def generateDesiredRolloutsDeployment_def Let_def split: prod.split)
  with Inl show ?thesis
    unfolding getRolloutsCommandArgs_eq Let_def ha_enabled_def [symmetric] by (auto split: if_splits)
next
  case (Inr args)
  have "map (elems \<circ> cArgs) (elems (psContainers (ptSpec (dsTemplate (dSpec d))))) = [args]"
    if d: "generateDesiredRolloutsDeployment (Platform r) cr sa = Inr d" for d
  proof -
    obtain c where c: "rolloutsContainer (Platform r) cr = Inr c" "psContainers (ptSpec (dsTemplate (dSpec d))) = slice [c]"
      by (rule generated_cases [OF d])
    have "elems (cArgs c) = args" using c(1) Inr by (auto simp: rolloutsContainer_def Let_def slice_def elems_def split: sum.splits)
    then show ?thesis by (simp add: c(2) slice_def elems_def)
  qed
  with Inr show ?thesis
    unfolding getRolloutsCommandArgs_eq Let_def ha_enabled_def [symmetric]
    by (auto simp: defaultCommandArgs_def split: if_splits)
qed

theorem command_args_decision_witness:
  "getRolloutsCommandArgs ((basicRolloutManager ''rm'' ''ns'' True)\<lparr>rmSpec :=
       (rmSpec (basicRolloutManager ''rm'' ''ns'' True))\<lparr>HA := Some \<lparr>haEnabled = True\<rparr>,
          ExtraCommandArgs := [''--leader-elect=false'']\<rparr>\<rparr>) =
     Inr [''--namespaced'', ''--leader-elect'', ''true'', ''--leader-elect=false'']"
proof -
  let ?cr = "(basicRolloutManager ''rm'' ''ns'' True)\<lparr>rmSpec :=
       (rmSpec (basicRolloutManager ''rm'' ''ns'' True))\<lparr>HA := Some \<lparr>haEnabled = True\<rparr>,
          ExtraCommandArgs := [''--leader-elect=false'']\<rparr>\<rparr>"
  have "NamespaceScoped (rmSpec ?cr)" "HA (rmSpec ?cr) = Some \<lparr>haEnabled = True\<rparr>"
    "ExtraCommandArgs (rmSpec ?cr) = [''--leader-elect=false'']" by (simp_all add: basicRolloutManager_def)
  with command_args_decision [where cr = ?cr and r = "memReconciler True" and sa = "expectedServiceAccount ?cr" and w = emptyCluster]
  show ?thesis by (simp only: Let_def) simp
qed

text \<open>
  C35: A live Deployment that has no normal form is deleted and created anew, also when its
  selector is the desired one: the comparison of the selectors is made with the zero Deployment
  that the failed normalization left behind.
\<close>

theorem unreadable_deployment_recreated:
  assumes "generateDesiredRolloutsDeployment (Platform r) cr sa = Inr d"
    and "kget (kDeployments (Client r)) (rolloutsKey cr) w = (Inr live, w1)" "normalizeDeployment live cr = Inl err"
  shows "reconcileRolloutsDeployment r cr sa w =
    andThen (lift_with (errorf_w ''unable to delete Rollouts Deployment after .spec.selector change: '')
        (kdelete (kDeployments (Client r)) d w1))
      (\<lambda>_ w2. createNewRolloutsDeployment r cr d w2)"
proof -
  have "dsSelector (dSpec d) = Some (labelSelector (Some (rolloutsPodLabels cr)))" using assms(1) by (rule generated_cases)
  then have "dsSelector (dSpec zeroDeployment) \<noteq> dsSelector (dSpec d)"
    by (simp add: zeroDeployment_def zeroDeploymentSpec_def)
  then show ?thesis using assms generated_normal [OF assms(1)]
    by (simp add: reconcileRolloutsDeployment_def Let_def orZero_def)
qed

definition noContainers :: "deployment \<Rightarrow> deployment" where
  "noContainers d = d\<lparr>dSpec := (dSpec d)\<lparr>dsTemplate := (dsTemplate (dSpec d))\<lparr>ptSpec :=
     (ptSpec (dsTemplate (dSpec d)))\<lparr>psContainers := None\<rparr>\<rparr>\<rparr>\<rparr>"

theorem unreadable_deployment_recreated_witness:
  "\<exists>d err. generateDesiredRolloutsDeployment emptyPlatform (basicRolloutManager ''rm'' ''ns'' True) basicAccount = Inr d \<and>
     normalizeDeployment (noContainers d) (basicRolloutManager ''rm'' ''ns'' True) = Inl err \<and>
     dsSelector (dSpec (noContainers d)) = dsSelector (dSpec d) \<and>
     reconcileRolloutsDeployment (memReconciler True) (basicRolloutManager ''rm'' ''ns'' True) basicAccount
       (emptyCluster\<lparr>cluDeployments := fmupd (NamespacedName ''ns'' DefaultArgoRolloutsResourceName) (noContainers d) fmempty\<rparr>) =
     andThen (lift_with (errorf_w ''unable to delete Rollouts Deployment after .spec.selector change: '')
         (kdelete (kDeployments mem_client) d
           (emptyCluster\<lparr>cluDeployments := fmupd (NamespacedName ''ns'' DefaultArgoRolloutsResourceName) (noContainers d) fmempty\<rparr>)))
       (\<lambda>_ w2. createNewRolloutsDeployment (memReconciler True) (basicRolloutManager ''rm'' ''ns'' True) d w2)"
proof -
  let ?cr = "basicRolloutManager ''rm'' ''ns'' True"
  obtain d where d: "generateDesiredRolloutsDeployment emptyPlatform ?cr basicAccount = Inr d" by (rule generated_basic)
  let ?c = "emptyCluster\<lparr>cluDeployments := fmupd (rolloutsKey ?cr) (noContainers d) fmempty\<rparr>"
  have "psContainers (ptSpec (dsTemplate (dSpec (noContainers d)))) = None" by (simp add: noContainers_def)
  then have "isl (normalizeDeployment (noContainers d) ?cr)"
    by (auto simp: normalizeDeployment_def Let_def split: option.split)
  then obtain err where n: "normalizeDeployment (noContainers d) ?cr = Inl err" by (auto simp: isl_def)
  have sel: "dsSelector (dSpec (noContainers d)) = dsSelector (dSpec d)" by (simp add: noContainers_def)
  have g: "kget (kDeployments (Client (memReconciler True))) (rolloutsKey ?cr) ?c = (Inr (noContainers d), ?c)"
    by (simp add: mem_client_def mem_ops_def)
  have "generateDesiredRolloutsDeployment (Platform (memReconciler True)) ?cr basicAccount = Inr d" using d by simp
  from unreadable_deployment_recreated [OF this g n] d n sel show ?thesis by auto
qed

text \<open>
  C37: Tolerations given as an empty list never settle: the desired Deployment keeps the empty
  list, the server gives back none, and the comparison tells the two apart, so that a Deployment
  that is right in everything else is updated by every reconciliation.
\<close>

theorem empty_tolerations_never_settle:
  assumes "generateDesiredRolloutsDeployment (Platform r) cr sa = Inr d"
    and "NodePlacement (rmSpec cr) = Some np" "placeTolerations np = Some []"
    and "kget (kDeployments (Client r)) (rolloutsKey cr) w = (Inr live, w1)"
    and "normalizeDeployment live cr = Inr x" "psTolerations (ptSpec (dsTemplate (dSpec live))) = None"
    and "dsSelector (dSpec x) = dsSelector (dSpec d)"
  shows "reconcileRolloutsDeployment r cr sa w = discard (lift (kupdate (kDeployments (Client r)) (mergeDeployment live d) w1))"
proof -
  have "psTolerations (ptSpec (dsTemplate (dSpec d))) = Some []"
    using assms(1-3) by (auto elim: generated_cases)
  moreover have "psTolerations (ptSpec (dsTemplate (dSpec x))) = None"
    using assms(5,6) by (auto simp: normalizeDeployment_def Let_def split: option.splits sum.splits if_splits)
  ultimately have "x \<noteq> d" by auto
  then show ?thesis using assms(1,4,5,7) generated_normal [OF assms(1)]
    by (simp add: reconcileRolloutsDeployment_def Let_def orZero_def)
qed

definition untolerant :: rollout_manager where
  "untolerant = (basicRolloutManager ''rm'' ''ns'' True)\<lparr>rmSpec := (rmSpec (basicRolloutManager ''rm'' ''ns'' True))\<lparr>
     NodePlacement := Some \<lparr>placeNodeSelector = None, placeTolerations = Some []\<rparr>\<rparr>\<rparr>"

definition withoutTolerations :: "deployment \<Rightarrow> deployment" where
  "withoutTolerations d = d\<lparr>dSpec := (dSpec d)\<lparr>dsTemplate := (dsTemplate (dSpec d))\<lparr>ptSpec :=
     (ptSpec (dsTemplate (dSpec d)))\<lparr>psTolerations := None\<rparr>\<rparr>\<rparr>\<rparr>"

lemma normalize_withoutTolerations:
  "normalizeDeployment (withoutTolerations d) cr = map_sum (\<lambda>e. e) withoutTolerations (normalizeDeployment d cr)"
  by (auto simp: normalizeDeployment_def withoutTolerations_def Let_def split: option.split sum.split)

theorem empty_tolerations_never_settle_witness:
  "\<exists>d. generateDesiredRolloutsDeployment emptyPlatform untolerant basicAccount = Inr d \<and>
     reconcileRolloutsDeployment (memReconciler True) untolerant basicAccount
       (emptyCluster\<lparr>cluDeployments := fmupd (rolloutsKey untolerant) (withoutTolerations d) fmempty\<rparr>) =
     discard (lift (kupdate (kDeployments mem_client) (mergeDeployment (withoutTolerations d) d)
       (emptyCluster\<lparr>cluDeployments := fmupd (rolloutsKey untolerant) (withoutTolerations d) fmempty\<rparr>)))"
proof -
  have spec: "NodePlacement (rmSpec untolerant) = Some \<lparr>placeNodeSelector = None, placeTolerations = Some []\<rparr>"
    by (simp add: untolerant_def)
  have "\<exists>c. rolloutsContainer emptyPlatform untolerant = Inr c"
    by (simp add: rolloutsContainer_def getRolloutsCommandArgs_def getRolloutsContainerImage_def
      getImagePullPolicy_def emptyPlatform_def untolerant_def basicRolloutManager_def Let_def)
  then obtain c where c: "rolloutsContainer emptyPlatform untolerant = Inr c" ..
  obtain d where d: "generateDesiredRolloutsDeployment emptyPlatform untolerant basicAccount = Inr d"
    by (simp add: generateDesiredRolloutsDeployment_def Let_def spec c)
  let ?c = "emptyCluster\<lparr>cluDeployments := fmupd (rolloutsKey untolerant) (withoutTolerations d) fmempty\<rparr>"
  have n: "normalizeDeployment (withoutTolerations d) untolerant = Inr (withoutTolerations d)"
    by (simp add: normalize_withoutTolerations generated_normal [OF d])
  have g: "kget (kDeployments (Client (memReconciler True))) (rolloutsKey untolerant) ?c = (Inr (withoutTolerations d), ?c)"
    by (simp add: mem_client_def mem_ops_def)
  have d': "generateDesiredRolloutsDeployment (Platform (memReconciler True)) untolerant basicAccount = Inr d" using d by simp
  have "reconcileRolloutsDeployment (memReconciler True) untolerant basicAccount ?c =
      discard (lift (kupdate (kDeployments (Client (memReconciler True))) (mergeDeployment (withoutTolerations d) d) ?c))"
    by (rule empty_tolerations_never_settle [OF d' spec _ g n]) (simp_all add: withoutTolerations_def)
  with d show ?thesis by auto
qed

text \<open>
  The normal form does not look at the init containers of the pod, its other settings, or the
  command of the container: changes there are neither detected nor reverted.
\<close>

theorem init_containers_not_compared:
  "normalizeDeployment (d\<lparr>dSpec := (dSpec d)\<lparr>dsTemplate := (dsTemplate (dSpec d))\<lparr>ptSpec :=
      (ptSpec (dsTemplate (dSpec d)))\<lparr>psInitContainers := inits,
        psContainers := map_option (map (\<lambda>c. c\<lparr>cCommand := cmd c\<rparr>)) (psContainers (ptSpec (dsTemplate (dSpec d))))\<rparr>\<rparr>\<rparr>\<rparr>) cr =
   normalizeDeployment d cr"
proof -
  have e: "elems (map_option (map f) s) = map f (elems s)" for f :: "container \<Rightarrow> container" and s by (cases s) simp_all
  have c: "normalizeContainer (map (\<lambda>c. c\<lparr>cCommand := cmd c\<rparr>) cs ! 0) = normalizeContainer (cs ! 0)"
    if "length cs = 1" for cs
  proof -
    have n: "map (\<lambda>c. c\<lparr>cCommand := cmd c\<rparr>) cs ! 0 = (cs ! 0)\<lparr>cCommand := cmd (cs ! 0)\<rparr>" using that by simp
    show ?thesis unfolding n by (simp add: normalizeContainer_def cong: option.case_cong if_cong)
  qed
  show ?thesis
  proof (cases "length (elems (psContainers (ptSpec (dsTemplate (dSpec d))))) = 1")
    case True
    show ?thesis
      unfolding normalizeDeployment_def Let_def by (simp add: e c [OF True] cong: option.case_cong sum.case_cong if_cong)
  next
    case False
    then show ?thesis
      unfolding normalizeDeployment_def Let_def by (auto simp: e split: option.split)
  qed
qed

end
