(* ===== verification/Reconcile.thy ===== *)
theory Reconcile
  imports Deployment
begin

text \<open>
  One reconciliation of a RolloutManager: \<open>reconcileRolloutsManager\<close>
  (\<open>controllers/reconcile.go\<close>) chains the reconcilers of the single objects, and
  \<open>Reconcile\<close> (\<open>controllers/argorollouts_controller.go\<close>) decides from the namespace and
  the resource what there is to do and writes the status. The lemmas show that an accepted
  resource is established by one run, and that a further run changes nothing.
\<close>

section \<open>The chain\<close>

text \<open>The pointers \<open>role\<close> and \<open>clusterRole\<close>: the one of the other scope stays nil.\<close>

definition reconcileRoles :: "'w reconciler \<Rightarrow> rollout_manager \<Rightarrow> 'w \<Rightarrow> (role option \<times> cluster_role option) res \<times> 'w" where
  "reconcileRoles r cr w =
     (if NamespaceScoped (rmSpec cr)
      then andThen (reconcileRolloutsRole r cr w) (\<lambda>role w. (Ok (Some role, None), w))
      else andThen (reconcileRolloutsClusterRole r cr w) (\<lambda>clusterRole w. (Ok (None, Some clusterRole), w)))"

text \<open>The three aggregated ClusterRoles, one after the other.\<close>

definition reconcileAggregates :: "'w reconciler \<Rightarrow> rollout_manager \<Rightarrow> 'w \<Rightarrow> unit res \<times> 'w" where
  "reconcileAggregates r cr w =
     andThen (reconcileRolloutsAggregateToAdminClusterRole r cr w) (\<lambda>_ w.
     andThen (reconcileRolloutsAggregateToEditClusterRole r cr w) (\<lambda>_ w.
     reconcileRolloutsAggregateToViewClusterRole r cr w))"

definition reconcileBindings :: "'w reconciler \<Rightarrow> rollout_manager \<Rightarrow> role option \<Rightarrow> cluster_role option \<Rightarrow>
    service_account option \<Rightarrow> 'w \<Rightarrow> unit res \<times> 'w" where
  "reconcileBindings r cr role clusterRole sa w =
     (if NamespaceScoped (rmSpec cr) then reconcileRolloutsRoleBinding r cr role sa w
      else reconcileRolloutsClusterRoleBinding r clusterRole sa cr w)"

text \<open>
  Every error of the chain is handled by the same statement, so that the chain can be read in
  two halves: who may do what, and what runs.
\<close>

definition reconcileAccess :: "'w reconciler \<Rightarrow> rollout_manager \<Rightarrow> 'w \<Rightarrow> service_account res \<times> 'w" where
  "reconcileAccess r cr w =
     andThen (reconcileRolloutsServiceAccount r cr w) (\<lambda>sa w.
     andThen (reconcileRoles r cr w) (\<lambda>(role, clusterRole) w.
     andThen (reconcileAggregates r cr w) (\<lambda>_ w.
     andThen (reconcileBindings r cr role clusterRole (Some sa) w) (\<lambda>_ w. (Ok sa, w)))))"

definition reconcileWorkload :: "'w reconciler \<Rightarrow> rollout_manager \<Rightarrow> service_account \<Rightarrow> 'w \<Rightarrow> unit res \<times> 'w" where
  "reconcileWorkload r cr sa w =
     andThen (reconcileRolloutsSecrets r cr w) (\<lambda>_ w.
     andThen (reconcileConfigMap r cr w) (\<lambda>_ w.
     andThen (reconcileRolloutsDeployment r cr sa w) (\<lambda>_ w.
     andThen (reconcileRolloutsMetricsServiceAndMonitor r cr w) (\<lambda>_ w.
     reconcileRolloutsNetworkPolicy r cr w))))"

text \<open>The result and the error, both of which the caller uses.\<close>

type_synonym outcome = "reconcileStatusResult \<times> go_error option"

definition failWith :: "go_error \<Rightarrow> outcome" where
  "failWith err = (wrapCondition (createCondition (errText err) []), Some err)"

definition orFail :: "'a res \<times> 'w \<Rightarrow> ('a \<Rightarrow> 'w \<Rightarrow> outcome res \<times> 'w) \<Rightarrow> outcome res \<times> 'w" where
  "orFail x k = (case x of (Ok a, w) \<Rightarrow> k a w | (Err err, w) \<Rightarrow> (Ok (failWith err), w) | (Panic p, w) \<Rightarrow> (Panic p, w))"

definition reconcileAccepted :: "'w reconciler \<Rightarrow> rollout_manager \<Rightarrow> 'w \<Rightarrow> outcome res \<times> 'w" where
  "reconcileAccepted r cr w =
     orFail (reconcileAccess r cr w) (\<lambda>sa w.
     orFail (reconcileWorkload r cr sa w) (\<lambda>_ w.
     orFail (determineStatusPhase r cr w) (\<lambda>rr w.
       (Ok (rr\<lparr>rrCondition := createCondition '''' []\<rparr>, None), w))))"

definition ofAdmission :: "admission \<times> 'w \<Rightarrow> ('w \<Rightarrow> outcome res \<times> 'w) \<Rightarrow> outcome res \<times> 'w" where
  "ofAdmission x k = (case x of
      (Accepted, w) \<Rightarrow> k w
    | (Rejected rr, w) \<Rightarrow> (Ok (rr, None), w)
    | (Failed err, w) \<Rightarrow> (Ok (failWith err), w)
    | (Crashed, w) \<Rightarrow> (Panic ''invalid memory address or nil pointer dereference'', w))"

definition reconcileRolloutsManager :: "'w reconciler \<Rightarrow> rollout_manager \<Rightarrow> 'w \<Rightarrow> outcome res \<times> 'w" where
  "reconcileRolloutsManager r cr w =
     ofAdmission (admitScope r cr, w) (\<lambda>w.
     ofAdmission (admitSingle r cr w) (\<lambda>w. reconcileAccepted r cr w))"

section \<open>The controller\<close>

definition Reconcile :: "'w reconciler \<Rightarrow> int \<Rightarrow> namespaced_name \<Rightarrow> 'w \<Rightarrow> unit res \<times> 'w" where
  "Reconcile r now req w =
     (case kget (kNamespaces (Client r)) (NamespacedName '''' (nnNamespace req)) w of
        (Inl err, w1) \<Rightarrow>
          if IsNotFound err then removeClusterScopedResourcesIfApplicable r w1 else (Err err, w1)
      | (Inr rolloutManagerNamespace, w1) \<Rightarrow>
          if mDeletionTimestamp (nsMeta rolloutManagerNamespace) \<noteq> None then (Ok (), w1)
          else (case kget (kRolloutManagers (Client r)) req w1 of
             (Inl err, w2) \<Rightarrow>
               if IsNotFound err then removeClusterScopedResourcesIfApplicable r w2 else (Err err, w2)
           | (Inr rolloutManager, w2) \<Rightarrow>
               (case reconcileRolloutsManager r rolloutManager w2 of
                  (Panic p, w3) \<Rightarrow> (Panic p, w3)
                | (Err err, w3) \<Rightarrow> (Err err, w3)
                | (Ok (result, reconcileErr), w3) \<Rightarrow>
                    andThen (updateStatusConditionOfRolloutManager now result rolloutManager (Client r) w3) (\<lambda>_ w4.
                      (case reconcileErr of Some err \<Rightarrow> (Err err, w4) | None \<Rightarrow> (Ok (), w4))))))"

section \<open>Who is told about a change\<close>

text \<open>
  The watches of \<open>SetupWithManager\<close>, as the requests that an event on an object leads to.
  Finding the controller owner of an object is left to the library.
\<close>

datatype watched = WRolloutManager | WNetworkPolicy | WConfigMap | WSecret | WService | WDeployment | WRole
  | WRoleBinding | WClusterRole | WClusterRoleBinding | WServiceMonitor | WServiceAccount

datatype event_kind = CreateEvent | UpdateEvent bool | DeleteEvent | GenericEvent

text \<open>An update event carries whether the generation of the object changed.\<close>

fun createdOrDeletedPredicate :: "event_kind \<Rightarrow> bool" where
  "createdOrDeletedPredicate CreateEvent = True"
| "createdOrDeletedPredicate DeleteEvent = True"
| "createdOrDeletedPredicate GenericEvent = False"
| "createdOrDeletedPredicate (UpdateEvent _) = False"

fun generationChanged :: "event_kind \<Rightarrow> bool" where
  "generationChanged (UpdateEvent changed) = changed"
| "generationChanged _ = True"

definition enqueueOtherRolloutManagersExceptObj :: "'w reconciler \<Rightarrow> object_meta \<Rightarrow> 'w \<Rightarrow> namespaced_name list \<times> 'w" where
  "enqueueOtherRolloutManagersExceptObj r obj w =
     (case klist (kRolloutManagers (Client r)) None None w of
        (Inl err, w1) \<Rightarrow> ([], w1)
      | (Inr items, w1) \<Rightarrow> (map (\<lambda>rm. metaKey (rmMeta rm))
          (filter (\<lambda>rm. \<not> (crName rm = mName obj \<and> crNamespace rm = mNamespace obj)) items), w1))"

definition enqueueAllRolloutManagers :: "'w reconciler \<Rightarrow> 'w \<Rightarrow> namespaced_name list \<times> 'w" where
  "enqueueAllRolloutManagers r w =
     (case klist (kRolloutManagers (Client r)) None None w of
        (Inl err, w1) \<Rightarrow> ([], w1)
      | (Inr items, w1) \<Rightarrow> (map (\<lambda>rm. metaKey (rmMeta rm)) items, w1))"

definition ownerRequests :: "platform \<Rightarrow> object_meta \<Rightarrow> namespaced_name list" where
  "ownerRequests p obj = (case GetControllerOf p obj of None \<Rightarrow> []
     | Some owner \<Rightarrow> if orKind owner = ''RolloutManager'' then [NamespacedName (mNamespace obj) (orName owner)] else [])"

text \<open>The discovery client, when it can be made, lists the resources of a group version.\<close>

definition doesCRDExist :: "go_error + (string \<Rightarrow> go_error + string list) \<Rightarrow> string \<Rightarrow> go_error + bool" where
  "doesCRDExist discoveryClient crdName =
     (case discoveryClient of
        Inl err \<Rightarrow> Inl err
      | Inr serverResourcesForGroupVersion \<Rightarrow>
     (case serverResourcesForGroupVersion ''monitoring.coreos.com/v1'' of
        Inl err \<Rightarrow> if IsNotFound err then Inr False else Inl err
      | Inr resources \<Rightarrow> Inr (list_ex (\<lambda>name. name = crdName) resources)))"

definition watchRequests :: "bool \<Rightarrow> 'w reconciler \<Rightarrow> watched \<Rightarrow> event_kind \<Rightarrow> object_meta \<Rightarrow> 'w \<Rightarrow> namespaced_name list \<times> 'w" where
  "watchRequests crdExists r kind event obj w =
     (case kind of
        WRolloutManager \<Rightarrow>
          (let (others, w1) = (if generationChanged event \<or> createdOrDeletedPredicate event
               then enqueueOtherRolloutManagersExceptObj r obj w else ([], w))
           in (metaKey obj # others, w1))
      | WClusterRole \<Rightarrow> if mName obj = DefaultArgoRolloutsResourceName then enqueueAllRolloutManagers r w else ([], w)
      | WClusterRoleBinding \<Rightarrow> if mName obj = DefaultArgoRolloutsResourceName then enqueueAllRolloutManagers r w else ([], w)
      | WServiceMonitor \<Rightarrow> (if crdExists then ownerRequests (Platform r) obj else [], w)
      | WServiceAccount \<Rightarrow> ([], w)
      | _ \<Rightarrow> (ownerRequests (Platform r) obj, w))"

section \<open>The cluster as the operator wants it\<close>

text \<open>
  The two halves of the chain work on two parts of the cluster, and neither touches the
  namespaces and the RolloutManagers.
\<close>

definition accessPart where
  "accessPart c = (cluServiceAccounts c, cluRoles c, cluClusterRoles c, cluRoleBindings c, cluClusterRoleBindings c)"

definition workloadPart where
  "workloadPart c = (cluSecrets c, cluConfigMaps c, cluDeployments c, cluPods c, cluServices c,
     cluServiceMonitors c, cluNetworkPolicies c, cluCRDs c)"

definition requestPart where
  "requestPart c = (cluNamespaces c, cluRolloutManagers c)"

definition keyedAccess :: "cluster \<Rightarrow> bool" where
  "keyedAccess c \<longleftrightarrow> keyed saMeta (cluServiceAccounts c) \<and> keyed roleMeta (cluRoles c) \<and>
     keyed roleMeta (cluClusterRoles c) \<and> keyed rbMeta (cluRoleBindings c) \<and> keyed rbMeta (cluClusterRoleBindings c)"

definition keyedWorkload :: "cluster \<Rightarrow> bool" where
  "keyedWorkload c \<longleftrightarrow> keyed secMeta (cluSecrets c) \<and> keyed cmMeta (cluConfigMaps c) \<and>
     keyed dMeta (cluDeployments c) \<and> keyed podMeta (cluPods c) \<and> keyed svcMeta (cluServices c) \<and>
     keyed smMeta (cluServiceMonitors c) \<and> keyed npMeta (cluNetworkPolicies c)"

definition keyedCluster :: "cluster \<Rightarrow> bool" where
  "keyedCluster c \<longleftrightarrow> keyedAccess c \<and> keyedWorkload c"

lemmas part_defs = accessPart_def workloadPart_def requestPart_def

definition aggregatesSettled :: "rollout_manager \<Rightarrow> cluster \<Rightarrow> bool" where
  "aggregatesSettled cr c \<longleftrightarrow>
     settledAt (cluClusterRoles c) (aggregateKey ''aggregate-to-admin'')
       (aggregateRepair ''aggregate-to-admin'' GetAggregateToAdminPolicyRules cr) \<and>
     settledAt (cluClusterRoles c) (aggregateKey ''aggregate-to-edit'')
       (aggregateRepair ''aggregate-to-edit'' GetAggregateToEditPolicyRules cr) \<and>
     settledAt (cluClusterRoles c) (aggregateKey ''aggregate-to-view'')
       (aggregateRepair ''aggregate-to-view'' GetAggregateToViewPolicyRules cr)"

text \<open>The account, the roles and the bindings of the scope, and no leftovers of the other scope.\<close>

definition rolesSettled :: "rollout_manager \<Rightarrow> cluster \<Rightarrow> bool" where
  "rolesSettled cr c \<longleftrightarrow>
     (if NamespaceScoped (rmSpec cr)
      then settledAt (cluRoles c) (rolloutsKey cr) (ns_role.repair cr) \<and> fmlookup (cluClusterRoles c) clusterKey = None
      else settledAt (cluClusterRoles c) clusterKey (cl_role.repair cr) \<and> fmlookup (cluRoles c) (rolloutsKey cr) = None)"

definition bindingsSettled :: "rollout_manager \<Rightarrow> cluster \<Rightarrow> bool" where
  "bindingsSettled cr c \<longleftrightarrow>
     (if NamespaceScoped (rmSpec cr)
      then settledAt (cluRoleBindings c) (rolloutsKey cr) (bindingRepair cr (crNamespace cr)) \<and>
        fmlookup (cluClusterRoleBindings c) clusterKey = None
      else settledAt (cluClusterRoleBindings c) clusterKey (bindingRepair cr '''') \<and>
        fmlookup (cluRoleBindings c) (rolloutsKey cr) = None)"

definition accessSettled :: "rollout_manager \<Rightarrow> cluster \<Rightarrow> bool" where
  "accessSettled cr c \<longleftrightarrow>
     settledAt (cluServiceAccounts c) (rolloutsKey cr) (service_account.repair cr) \<and>
     rolesSettled cr c \<and> aggregatesSettled cr c \<and> bindingsSettled cr c"

definition secretSettled :: "'w reconciler \<Rightarrow> rollout_manager \<Rightarrow> cluster \<Rightarrow> bool" where
  "secretSettled r cr c \<longleftrightarrow>
     (if SkipNotificationSecretDeployment (rmSpec cr)
      then (case fmlookup (cluSecrets c) (secretKey cr) of None \<Rightarrow> True
        | Some s \<Rightarrow> map_option orName (GetControllerOf (Platform r) (secMeta s)) \<noteq> Some (crName cr))
      else settledAt (cluSecrets c) (secretKey cr)
        (repairObject secMeta secMeta_update cr (secMeta (expectedSecret r cr)) (\<lambda>_. None)))"

definition workloadSettled :: "'w reconciler \<Rightarrow> rollout_manager \<Rightarrow> service_account \<Rightarrow> cluster \<Rightarrow> bool" where
  "workloadSettled r cr sa c \<longleftrightarrow> secretSettled r cr c \<and> configSettled r cr c \<and>
     deploymentSettled (Platform r) cr sa c \<and>
     settledAt (cluServices c) (svcKey cr) (metrics_service.repair cr) \<and> monitorSettled cr c \<and> policySettled cr c"

definition settled :: "'w reconciler \<Rightarrow> rollout_manager \<Rightarrow> cluster \<Rightarrow> bool" where
  "settled r cr c \<longleftrightarrow> accessSettled cr c \<and> workloadSettled r cr (expectedServiceAccount cr) c"

definition aggregatesReady :: "rollout_manager \<Rightarrow> cluster \<Rightarrow> bool" where
  "aggregatesReady cr c \<longleftrightarrow>
     tameAt roleMeta (cluClusterRoles c) (aggregateKey ''aggregate-to-admin'')
       (roleMeta (expectedAggregateRole ''aggregate-to-admin'' cr)) \<and>
     tameAt roleMeta (cluClusterRoles c) (aggregateKey ''aggregate-to-edit'')
       (roleMeta (expectedAggregateRole ''aggregate-to-edit'' cr)) \<and>
     tameAt roleMeta (cluClusterRoles c) (aggregateKey ''aggregate-to-view'')
       (roleMeta (expectedAggregateRole ''aggregate-to-view'' cr))"

text \<open>
  What has to hold of the cluster found: the objects that are there carry no aggregation label
  of somebody else, the ConfigMap can be read, and the Deployment has a selector.
\<close>

definition rolesReady :: "rollout_manager \<Rightarrow> cluster \<Rightarrow> bool" where
  "rolesReady cr c \<longleftrightarrow>
     (if NamespaceScoped (rmSpec cr)
      then tameAt roleMeta (cluRoles c) (rolloutsKey cr) (roleMeta (expectedRole cr))
      else tameAt roleMeta (cluClusterRoles c) clusterKey (roleMeta (expectedClusterRole cr)))"

definition bindingsReady :: "rollout_manager \<Rightarrow> cluster \<Rightarrow> bool" where
  "bindingsReady cr c \<longleftrightarrow>
     (if NamespaceScoped (rmSpec cr)
      then tameAt rbMeta (cluRoleBindings c) (rolloutsKey cr)
        (setRolloutsLabelsAndAnnotationsToObject (newMeta DefaultArgoRolloutsResourceName (crNamespace cr)) cr)
      else tameAt rbMeta (cluClusterRoleBindings c) clusterKey
        (setRolloutsLabelsAndAnnotationsToObject (newMeta DefaultArgoRolloutsResourceName '''') cr))"

definition accessReady :: "rollout_manager \<Rightarrow> cluster \<Rightarrow> bool" where
  "accessReady cr c \<longleftrightarrow>
     tameAt saMeta (cluServiceAccounts c) (rolloutsKey cr) (saMeta (expectedServiceAccount cr)) \<and>
     rolesReady cr c \<and> aggregatesReady cr c \<and> bindingsReady cr c"

definition workloadReady :: "'w reconciler \<Rightarrow> rollout_manager \<Rightarrow> cluster \<Rightarrow> bool" where
  "workloadReady r cr c \<longleftrightarrow>
     (SkipNotificationSecretDeployment (rmSpec cr) \<or>
        tameAt secMeta (cluSecrets c) (secretKey cr) (secMeta (expectedSecret r cr))) \<and>
     configReady (Platform r) cr c \<and>
     tameAt svcMeta (cluServices c) (svcKey cr) (svcMeta (expectedSvc cr)) \<and>
     (IsEnabled (NetworkPolicy (rmSpec cr)) \<longrightarrow>
        tameAt npMeta (cluNetworkPolicies c) (policyKey cr) (npMeta (desiredNetworkPolicy cr)))"

text \<open>
  What has to hold of the resource and the operator's settings, whatever the cluster holds: custom
  labels of the Secret are under managed keys, the plugins are allowed, and the server keeps the
  optional fields of the Deployment as they are sent.
\<close>

definition supported :: "'w reconciler \<Rightarrow> rollout_manager \<Rightarrow> bool" where
  "supported r cr \<longleftrightarrow>
     (SkipNotificationSecretDeployment (rmSpec cr) \<or> managedCustomLabels r cr) \<and>
     pluginsAllowed r cr \<and> wireSafe cr \<and>
     \<not> isl (generateDesiredRolloutsDeployment (Platform r) cr (expectedServiceAccount cr))"

definition ready :: "'w reconciler \<Rightarrow> rollout_manager \<Rightarrow> cluster \<Rightarrow> bool" where
  "ready r cr c \<longleftrightarrow> accessReady cr c \<and> workloadReady r cr c"

text \<open>What the reconcilers rely on.\<close>

definition conforming :: "('w \<Rightarrow> cluster) \<Rightarrow> 'w reconciler \<Rightarrow> bool" where
  "conforming view r \<longleftrightarrow> cluster_api view (Client r) \<and> owner_contract (Platform r) \<and> yaml_contract (Platform r)"

lemma aggregate_keys [simp]:
  "aggregateKey ''aggregate-to-admin'' \<noteq> clusterKey" "clusterKey \<noteq> aggregateKey ''aggregate-to-admin''"
  "aggregateKey ''aggregate-to-edit'' \<noteq> clusterKey" "clusterKey \<noteq> aggregateKey ''aggregate-to-edit''"
  "aggregateKey ''aggregate-to-view'' \<noteq> clusterKey" "clusterKey \<noteq> aggregateKey ''aggregate-to-view''"
  "aggregateKey ''aggregate-to-admin'' \<noteq> aggregateKey ''aggregate-to-edit''"
  "aggregateKey ''aggregate-to-admin'' \<noteq> aggregateKey ''aggregate-to-view''"
  "aggregateKey ''aggregate-to-edit'' \<noteq> aggregateKey ''aggregate-to-admin''"
  "aggregateKey ''aggregate-to-edit'' \<noteq> aggregateKey ''aggregate-to-view''"
  "aggregateKey ''aggregate-to-view'' \<noteq> aggregateKey ''aggregate-to-admin''"
  "aggregateKey ''aggregate-to-view'' \<noteq> aggregateKey ''aggregate-to-edit''"
  by (simp_all add: aggregateRoleName_def)

lemma tameAt_other [simp]: "k \<noteq> k' \<Longrightarrow> tameAt f (fmupd k' x m) k e = tameAt f m k e"
  "k \<noteq> k' \<Longrightarrow> tameAt f (fmdrop k' m) k e = tameAt f m k e"
  by (simp_all add: tameAt_def)

lemma settledAt_other [simp]: "k \<noteq> k' \<Longrightarrow> settledAt (fmupd k' x m) k f = settledAt m k f"
  "k \<noteq> k' \<Longrightarrow> settledAt (fmdrop k' m) k f = settledAt m k f"
  by (simp_all add: settledAt_def)

lemma settledAt_here [simp]: "settledAt (fmupd k x m) k f \<longleftrightarrow> f x = None"
  by (simp add: settledAt_def)

lemma expected_binding_meta [simp]:
  "rbMeta (expectedRoleBinding cr role sa) =
     setRolloutsLabelsAndAnnotationsToObject (newMeta DefaultArgoRolloutsResourceName (crNamespace cr)) cr"
  "rbMeta (expectedClusterRoleBinding cr role sa) =
     setRolloutsLabelsAndAnnotationsToObject (newMeta DefaultArgoRolloutsResourceName '''') cr"
  by (simp_all add: expectedRoleBinding_def expectedClusterRoleBinding_def)

section \<open>Access\<close>

lemma roles_settle:
  assumes "conforming view r" "keyedAccess (view w)" "rolesReady cr (view w)"
  shows "\<exists>role clusterRole w'. reconcileRoles r cr w = (Ok (role, clusterRole), w') \<and>
    (if NamespaceScoped (rmSpec cr)
     then \<exists>x. role = Some x \<and> clusterRole = None \<and> ns_role.repair cr x = None \<and> metaKey (roleMeta x) = rolloutsKey cr \<and>
       view w' = cluRoles_update (fmupd (rolloutsKey cr) x) (cluClusterRoles_update (fmdrop clusterKey) (view w))
     else \<exists>x. role = None \<and> clusterRole = Some x \<and> cl_role.repair cr x = None \<and> metaKey (roleMeta x) = clusterKey \<and>
       view w' = cluClusterRoles_update (fmupd clusterKey x) (cluRoles_update (fmdrop (rolloutsKey cr)) (view w)))"
proof (cases "NamespaceScoped (rmSpec cr)")
  case True
  obtain x w' where "reconcileRolloutsRole r cr w = (Ok x, w')" "ns_role.repair cr x = None"
    "metaKey (roleMeta x) = rolloutsKey cr"
    "view w' = cluRoles_update (fmupd (rolloutsKey cr) x) (cluClusterRoles_update (fmdrop clusterKey) (view w))"
    using role_settles [of view r w cr] assms True by (auto simp: conforming_def keyedAccess_def rolesReady_def)
  with True show ?thesis by (simp add: reconcileRoles_def)
next
  case False
  obtain x w' where "reconcileRolloutsClusterRole r cr w = (Ok x, w')" "cl_role.repair cr x = None"
    "metaKey (roleMeta x) = clusterKey"
    "view w' = cluClusterRoles_update (fmupd clusterKey x) (cluRoles_update (fmdrop (rolloutsKey cr)) (view w))"
    using clusterRole_settles [of view r w cr] assms False by (auto simp: conforming_def keyedAccess_def rolesReady_def)
  with False show ?thesis by (simp add: reconcileRoles_def)
qed

lemma aggregates_settle:
  assumes "cluster_api view (Client r)" "keyed roleMeta (cluClusterRoles (view w))" "aggregatesReady cr (view w)"
  shows "\<exists>m w'. reconcileAggregates r cr w = (Ok (), w') \<and> keyed roleMeta m \<and>
    view w' = (view w)\<lparr>cluClusterRoles := m\<rparr> \<and> fmlookup m clusterKey = fmlookup (cluClusterRoles (view w)) clusterKey \<and>
    aggregatesSettled cr (view w')"
proof -
  note run = aggregate_run_settles [OF assms(1)]
  obtain x1 w1 where x1: "reconcileRolloutsAggregateToAdminClusterRole r cr w = (Ok (), w1)"
    "aggregateRepair ''aggregate-to-admin'' GetAggregateToAdminPolicyRules cr x1 = None"
    "metaKey (roleMeta x1) = aggregateKey ''aggregate-to-admin''"
    "view w1 = cluClusterRoles_update (fmupd (aggregateKey ''aggregate-to-admin'') x1) (view w)"
    using run [OF assms(2) _ aggregate_types(1)] assms(3) unfolding aggregate_runs aggregatesReady_def by blast
  have k1: "keyed roleMeta (cluClusterRoles (view w1))"
    using assms(2) x1(3) by (auto simp: x1(4))
  have t2: "tameAt roleMeta (cluClusterRoles (view w1)) (aggregateKey ''aggregate-to-edit'')
      (roleMeta (expectedAggregateRole ''aggregate-to-edit'' cr))"
    using assms(3) by (simp add: x1(4) aggregatesReady_def del: namespaced_name.inject)
  obtain x2 w2 where x2: "reconcileRolloutsAggregateToEditClusterRole r cr w1 = (Ok (), w2)"
    "aggregateRepair ''aggregate-to-edit'' GetAggregateToEditPolicyRules cr x2 = None"
    "metaKey (roleMeta x2) = aggregateKey ''aggregate-to-edit''"
    "view w2 = cluClusterRoles_update (fmupd (aggregateKey ''aggregate-to-edit'') x2) (view w1)"
    using run [OF k1 t2 aggregate_types(2)] unfolding aggregate_runs by blast
  have k2: "keyed roleMeta (cluClusterRoles (view w2))"
    using k1 x2(3) by (auto simp: x2(4))
  have t3: "tameAt roleMeta (cluClusterRoles (view w2)) (aggregateKey ''aggregate-to-view'')
      (roleMeta (expectedAggregateRole ''aggregate-to-view'' cr))"
    using assms(3) by (simp add: x1(4) x2(4) aggregatesReady_def del: namespaced_name.inject)
  obtain x3 w3 where x3: "reconcileRolloutsAggregateToViewClusterRole r cr w2 = (Ok (), w3)"
    "aggregateRepair ''aggregate-to-view'' GetAggregateToViewPolicyRules cr x3 = None"
    "metaKey (roleMeta x3) = aggregateKey ''aggregate-to-view''"
    "view w3 = cluClusterRoles_update (fmupd (aggregateKey ''aggregate-to-view'') x3) (view w2)"
    using run [OF k2 t3 aggregate_types(3)] unfolding aggregate_runs by blast
  have k3: "keyed roleMeta (cluClusterRoles (view w3))"
    using k2 x3(3) by (auto simp: x3(4))
  have "reconcileAggregates r cr w = (Ok (), w3)"
    unfolding reconcileAggregates_def x1(1) andThen_simps x2(1) x3(1) ..
  moreover have "view w3 = (view w)\<lparr>cluClusterRoles := cluClusterRoles (view w3)\<rparr>"
    by (simp add: x1(4) x2(4) x3(4))
  moreover have "fmlookup (cluClusterRoles (view w3)) clusterKey = fmlookup (cluClusterRoles (view w)) clusterKey"
    by (simp add: x1(4) x2(4) x3(4) del: namespaced_name.inject)
  moreover have "aggregatesSettled cr (view w3)"
    by (simp add: aggregatesSettled_def x1 x2 x3 del: namespaced_name.inject)
  ultimately show ?thesis using k3 by blast
qed

lemma aggregates_settled:
  assumes "cluster_api view (Client r)" "keyed roleMeta (cluClusterRoles (view w))" "aggregatesSettled cr (view w)"
  shows "\<exists>w'. reconcileAggregates r cr w = (Ok (), w') \<and> view w' = view w"
proof -
  note run = aggregate_run_settled [OF assms(1)]
  obtain w1 where w1: "reconcileRolloutsAggregateToAdminClusterRole r cr w = (Ok (), w1)" "view w1 = view w"
    using run [OF assms(2) _ aggregate_types(1)] assms(3) unfolding aggregate_runs aggregatesSettled_def by blast
  obtain w2 where w2: "reconcileRolloutsAggregateToEditClusterRole r cr w1 = (Ok (), w2)" "view w2 = view w"
    using run [OF _ _ aggregate_types(2), of w1] assms(2,3) unfolding aggregate_runs aggregatesSettled_def w1(2) by blast
  obtain w3 where w3: "reconcileRolloutsAggregateToViewClusterRole r cr w2 = (Ok (), w3)" "view w3 = view w"
    using run [OF _ _ aggregate_types(3), of w2] assms(2,3) unfolding aggregate_runs aggregatesSettled_def w2(2) by blast
  show ?thesis unfolding reconcileAggregates_def w1(1) andThen_simps w2(1) w3(1) using w3(2) by blast
qed

lemma bindings_settle:
  assumes "conforming view r" "keyedAccess (view w)" "bindingsReady cr (view w)"
    and "if NamespaceScoped (rmSpec cr) then role \<noteq> None else clusterRole \<noteq> None"
    and "metaKey (saMeta sa) = rolloutsKey cr"
  shows "\<exists>x w'. reconcileBindings r cr role clusterRole (Some sa) w = (Ok (), w') \<and>
    (if NamespaceScoped (rmSpec cr)
     then bindingRepair cr (crNamespace cr) x = None \<and> metaKey (rbMeta x) = rolloutsKey cr \<and>
       view w' = cluRoleBindings_update (fmupd (rolloutsKey cr) x) (cluClusterRoleBindings_update (fmdrop clusterKey) (view w))
     else bindingRepair cr '''' x = None \<and> metaKey (rbMeta x) = clusterKey \<and>
       view w' = cluClusterRoleBindings_update (fmupd clusterKey x) (cluRoleBindings_update (fmdrop (rolloutsKey cr)) (view w)))"
proof (cases "NamespaceScoped (rmSpec cr)")
  case True
  then obtain x where x: "role = Some x" using assms(4) by auto
  show ?thesis
    using roleBinding_settles [of view r w cr x sa] assms True
    by (simp add: conforming_def keyedAccess_def reconcileBindings_def bindingsReady_def x)
next
  case False
  then obtain x where x: "clusterRole = Some x" using assms(4) by auto
  show ?thesis
    using clusterRoleBinding_settles [of view r w cr x sa] assms False
    by (simp add: conforming_def keyedAccess_def reconcileBindings_def bindingsReady_def x)
qed

text \<open>What each group of objects depends on.\<close>

lemma ready_frames [simp]:
  "rolesReady cr (cluServiceAccounts_update a c) = rolesReady cr c"
  "aggregatesReady cr (cluServiceAccounts_update a c) = aggregatesReady cr c"
  "bindingsReady cr (cluServiceAccounts_update a c) = bindingsReady cr c"
  "bindingsReady cr (cluRoles_update b c) = bindingsReady cr c"
  "bindingsReady cr (cluClusterRoles_update d c) = bindingsReady cr c"
  "aggregatesReady cr (cluRoles_update b c) = aggregatesReady cr c"
  by (simp_all add: rolesReady_def aggregatesReady_def bindingsReady_def)

lemma settled_frames [simp]:
  "rolesSettled cr (cluRoleBindings_update a c) = rolesSettled cr c"
  "rolesSettled cr (cluClusterRoleBindings_update b c) = rolesSettled cr c"
  "aggregatesSettled cr (cluRoleBindings_update a c) = aggregatesSettled cr c"
  "aggregatesSettled cr (cluClusterRoleBindings_update b c) = aggregatesSettled cr c"
  by (simp_all add: rolesSettled_def aggregatesSettled_def)

lemma roles_step:
  assumes "conforming view r" "keyedAccess (view w)" "rolesReady cr (view w)" "aggregatesReady cr (view w)"
  obtains role clusterRole w' where "reconcileRoles r cr w = (Ok (role, clusterRole), w')"
    "if NamespaceScoped (rmSpec cr) then role \<noteq> None else clusterRole \<noteq> None"
    "rolesSettled cr (view w')" "keyedAccess (view w')" "aggregatesReady cr (view w')"
    "\<exists>f g. view w' = cluRoles_update f (cluClusterRoles_update g (view w))"
proof -
  obtain role clusterRole w' where run: "reconcileRoles r cr w = (Ok (role, clusterRole), w')"
    and post: "if NamespaceScoped (rmSpec cr)
     then \<exists>x. role = Some x \<and> clusterRole = None \<and> ns_role.repair cr x = None \<and> metaKey (roleMeta x) = rolloutsKey cr \<and>
       view w' = cluRoles_update (fmupd (rolloutsKey cr) x) (cluClusterRoles_update (fmdrop clusterKey) (view w))
     else \<exists>x. role = None \<and> clusterRole = Some x \<and> cl_role.repair cr x = None \<and> metaKey (roleMeta x) = clusterKey \<and>
       view w' = cluClusterRoles_update (fmupd clusterKey x) (cluRoles_update (fmdrop (rolloutsKey cr)) (view w))"
    using roles_settle [OF assms(1-3)] by blast
  have swap: "cluClusterRoles_update f (cluRoles_update g c) = cluRoles_update g (cluClusterRoles_update f c)" for f g c
    by (cases c) simp
  show ?thesis
    using run
  proof (rule that)
    show "if NamespaceScoped (rmSpec cr) then role \<noteq> None else clusterRole \<noteq> None"
      using post by (auto split: if_splits)
    show "rolesSettled cr (view w')" using post by (auto simp: rolesSettled_def split: if_splits)
    show "keyedAccess (view w')" using post assms(2) by (auto simp: keyedAccess_def split: if_splits)
    show "aggregatesReady cr (view w')"
      using post assms(4) by (auto simp: aggregatesReady_def simp del: namespaced_name.inject split: if_splits)
    show "\<exists>f g. view w' = cluRoles_update f (cluClusterRoles_update g (view w))"
      using post swap by (metis (no_types))
  qed
qed

lemma bindings_step:
  assumes "conforming view r" "keyedAccess (view w)" "bindingsReady cr (view w)"
    and "if NamespaceScoped (rmSpec cr) then role \<noteq> None else clusterRole \<noteq> None"
    and "metaKey (saMeta sa) = rolloutsKey cr"
  obtains w' where "reconcileBindings r cr role clusterRole (Some sa) w = (Ok (), w')"
    "bindingsSettled cr (view w')" "keyedAccess (view w')"
    "\<exists>f g. view w' = cluRoleBindings_update f (cluClusterRoleBindings_update g (view w))"
proof -
  obtain x w' where run: "reconcileBindings r cr role clusterRole (Some sa) w = (Ok (), w')"
    and post: "if NamespaceScoped (rmSpec cr)
     then bindingRepair cr (crNamespace cr) x = None \<and> metaKey (rbMeta x) = rolloutsKey cr \<and>
       view w' = cluRoleBindings_update (fmupd (rolloutsKey cr) x) (cluClusterRoleBindings_update (fmdrop clusterKey) (view w))
     else bindingRepair cr '''' x = None \<and> metaKey (rbMeta x) = clusterKey \<and>
       view w' = cluClusterRoleBindings_update (fmupd clusterKey x) (cluRoleBindings_update (fmdrop (rolloutsKey cr)) (view w))"
    using bindings_settle [OF assms] by blast
  have swap: "cluClusterRoleBindings_update f (cluRoleBindings_update g c) =
      cluRoleBindings_update g (cluClusterRoleBindings_update f c)" for f g c
    by (cases c) simp
  show ?thesis
    using run
  proof (rule that)
    show "bindingsSettled cr (view w')" using post by (auto simp: bindingsSettled_def split: if_splits)
    show "keyedAccess (view w')" using post assms(2) by (auto simp: keyedAccess_def split: if_splits)
    show "\<exists>f g. view w' = cluRoleBindings_update f (cluClusterRoleBindings_update g (view w))"
      using post swap by (metis (no_types))
  qed
qed

lemma access_settles:
  assumes "conforming view r" "keyedAccess (view w)" "accessReady cr (view w)"
  shows "\<exists>sa w'. reconcileAccess r cr w = (Ok sa, w') \<and> metaKey (saMeta sa) = rolloutsKey cr \<and>
    accessSettled cr (view w') \<and> keyedAccess (view w') \<and>
    workloadPart (view w') = workloadPart (view w) \<and> requestPart (view w') = requestPart (view w)"
proof -
  have api: "cluster_api view (Client r)" "owner_contract (Platform r)" using assms(1) by (simp_all add: conforming_def)
  obtain sa w1 where sa: "reconcileRolloutsServiceAccount r cr w = (Ok sa, w1)" "service_account.repair cr sa = None"
    "metaKey (saMeta sa) = rolloutsKey cr"
    and v1: "view w1 = cluServiceAccounts_update (fmupd (rolloutsKey cr) sa) (view w)"
    using serviceAccount_settles [OF api, of w cr] assms(2,3) by (auto simp: keyedAccess_def accessReady_def)
  have k1: "keyedAccess (view w1)" using assms(2) sa(3) by (auto simp: keyedAccess_def v1)
  have r1: "rolesReady cr (view w1)" and a1: "aggregatesReady cr (view w1)"
    using assms(3) by (simp_all add: accessReady_def v1)
  obtain role clusterRole w2 where roles: "reconcileRoles r cr w1 = (Ok (role, clusterRole), w2)"
    "if NamespaceScoped (rmSpec cr) then role \<noteq> None else clusterRole \<noteq> None"
    and s2: "rolesSettled cr (view w2)" and k2: "keyedAccess (view w2)"
    and a2: "aggregatesReady cr (view w2)"
    and v2: "\<exists>f g. view w2 = cluRoles_update f (cluClusterRoles_update g (view w1))"
    by (rule roles_step [OF assms(1) k1 r1 a1])
  obtain m w3 where agg: "reconcileAggregates r cr w2 = (Ok (), w3)"
    and m: "keyed roleMeta m" "fmlookup m clusterKey = fmlookup (cluClusterRoles (view w2)) clusterKey"
    and v3: "view w3 = (view w2)\<lparr>cluClusterRoles := m\<rparr>" and s3: "aggregatesSettled cr (view w3)"
    using aggregates_settle [OF api(1), of w2 cr] k2 a2 by (auto simp: keyedAccess_def)
  have k3: "keyedAccess (view w3)" using k2 m(1) by (simp add: keyedAccess_def v3)
  have b3: "bindingsReady cr (view w3)" using assms(3) v2 by (auto simp: accessReady_def v3 v1)
  have rs3: "rolesSettled cr (view w3)" using s2 m(2) by (auto simp: rolesSettled_def settledAt_def v3 split: if_splits)
  obtain w4 where binds: "reconcileBindings r cr role clusterRole (Some sa) w3 = (Ok (), w4)"
    and s4: "bindingsSettled cr (view w4)" and k4: "keyedAccess (view w4)"
    and v4: "\<exists>f g. view w4 = cluRoleBindings_update f (cluClusterRoleBindings_update g (view w3))"
    by (rule bindings_step [OF assms(1) k3 b3 roles(2) sa(3)])
  have run: "reconcileAccess r cr w = (Ok sa, w4)"
    unfolding reconcileAccess_def sa(1) andThen_simps roles(1) prod.case agg binds ..
  have "accessSettled cr (view w4)"
    using s3 s4 rs3 v4 v2 sa(2) by (auto simp: accessSettled_def v3 v1)
  moreover have "workloadPart (view w4) = workloadPart (view w)" "requestPart (view w4) = requestPart (view w)"
    using v2 v4 by (auto simp: part_defs v3 v1)
  ultimately show ?thesis using run sa(3) k4 by blast
qed

lemma roles_settled:
  assumes "cluster_api view (Client r)" "keyedAccess (view w)" "rolesSettled cr (view w)"
  obtains role clusterRole w' where "reconcileRoles r cr w = (Ok (role, clusterRole), w')"
    "if NamespaceScoped (rmSpec cr) then role \<noteq> None else clusterRole \<noteq> None" "view w' = view w"
proof (cases "NamespaceScoped (rmSpec cr)")
  case True
  obtain x w' where "reconcileRolloutsRole r cr w = (Ok x, w')" "view w' = view w"
    using role_settled [of view r w cr] assms True by (auto simp: keyedAccess_def rolesSettled_def)
  with True that show ?thesis by (simp add: reconcileRoles_def)
next
  case False
  obtain x w' where "reconcileRolloutsClusterRole r cr w = (Ok x, w')" "view w' = view w"
    using clusterRole_settled [of view r w cr] assms False by (auto simp: keyedAccess_def rolesSettled_def)
  with False that show ?thesis by (simp add: reconcileRoles_def)
qed

lemma bindings_settled:
  assumes "cluster_api view (Client r)" "keyedAccess (view w)" "bindingsSettled cr (view w)"
    and "if NamespaceScoped (rmSpec cr) then role \<noteq> None else clusterRole \<noteq> None"
    and "metaKey (saMeta sa) = rolloutsKey cr"
  shows "\<exists>w'. reconcileBindings r cr role clusterRole (Some sa) w = (Ok (), w') \<and> view w' = view w"
proof (cases "NamespaceScoped (rmSpec cr)")
  case True
  then obtain x where x: "role = Some x" using assms(4) by auto
  show ?thesis
    using roleBinding_settled [of view r w cr sa x] assms True
    by (simp add: keyedAccess_def reconcileBindings_def bindingsSettled_def x)
next
  case False
  then obtain x where x: "clusterRole = Some x" using assms(4) by auto
  show ?thesis
    using clusterRoleBinding_settled [of view r w cr sa x] assms False
    by (simp add: keyedAccess_def reconcileBindings_def bindingsSettled_def x)
qed

lemma access_settled:
  assumes "cluster_api view (Client r)" "keyedAccess (view w)" "accessSettled cr (view w)"
  shows "\<exists>sa w'. reconcileAccess r cr w = (Ok sa, w') \<and> metaKey (saMeta sa) = rolloutsKey cr \<and> view w' = view w"
proof -
  obtain sa w1 where sa: "reconcileRolloutsServiceAccount r cr w = (Ok sa, w1)"
    "metaKey (saMeta sa) = rolloutsKey cr" "view w1 = view w"
    using serviceAccount_settled [OF assms(1), of w cr] assms(2,3) by (auto simp: keyedAccess_def accessSettled_def)
  obtain role clusterRole w2 where roles: "reconcileRoles r cr w1 = (Ok (role, clusterRole), w2)"
    "if NamespaceScoped (rmSpec cr) then role \<noteq> None else clusterRole \<noteq> None" "view w2 = view w"
    using roles_settled [OF assms(1), of w1 cr] assms(2,3) unfolding sa(3) accessSettled_def by metis
  obtain w3 where agg: "reconcileAggregates r cr w2 = (Ok (), w3)" "view w3 = view w"
    using aggregates_settled [OF assms(1), of w2 cr] assms(2,3) by (auto simp: keyedAccess_def accessSettled_def roles(3))
  obtain w4 where binds: "reconcileBindings r cr role clusterRole (Some sa) w3 = (Ok (), w4)" "view w4 = view w"
    using bindings_settled [OF assms(1) _ _ roles(2) sa(2), of w3] assms(2,3) by (auto simp: accessSettled_def agg(2))
  have "reconcileAccess r cr w = (Ok sa, w4)"
    unfolding reconcileAccess_def sa(1) andThen_simps roles(1) prod.case agg(1) binds(1) ..
  with sa(2) binds(2) show ?thesis by blast
qed

section \<open>Workload\<close>

lemma secret_skipped:
  assumes "SkipNotificationSecretDeployment (rmSpec cr)"
  shows "reconcileRolloutsSecrets r cr w =
     (case kget (kSecrets (Client r)) (secretKey cr) w of
        (Inl err, w1) \<Rightarrow> if IsNotFound err then (Ok (), w1)
          else (Err (errorf_w (''failed to get the Secret '' @ DefaultRolloutsNotificationSecretName @ '': '') err), w1)
      | (Inr live, w1) \<Rightarrow>
          if map_option orName (GetControllerOf (Platform r) (secMeta live)) = Some (crName cr)
          then lift (kdelete (kSecrets (Client r)) live w1) else (Ok (), w1))"
  using assms by (auto simp: reconcileRolloutsSecrets_def Let_def split: prod.split sum.split option.split)

lemma secret_skip_settled:
  assumes "cluster_api view (Client r)" "SkipNotificationSecretDeployment (rmSpec cr)" "secretSettled r cr (view w)"
  shows "\<exists>w'. reconcileRolloutsSecrets r cr w = (Ok (), w') \<and> view w' = view w"
proof -
  note api = api_secrets [OF assms(1)]
  show ?thesis
  proof (cases "fmlookup (cluSecrets (view w)) (secretKey cr)")
    case None
    from kind_api.get_missing [OF api None] show ?thesis by (auto simp: secret_skipped [OF assms(2)])
  next
    case (Some s)
    from kind_api.get_found [OF api Some] show ?thesis
      using assms(3) by (auto simp: secret_skipped [OF assms(2)] secretSettled_def assms(2) Some)
  qed
qed

lemma secret_skip_step:
  assumes "cluster_api view (Client r)" "keyed secMeta (cluSecrets (view w))" "SkipNotificationSecretDeployment (rmSpec cr)"
  obtains m w' where "reconcileRolloutsSecrets r cr w = (Ok (), w')" "keyed secMeta m"
    "view w' = (view w)\<lparr>cluSecrets := m\<rparr>" "secretSettled r cr (view w')"
proof (cases "secretSettled r cr (view w)")
  case True
  with that [where m = "cluSecrets (view w)"] secret_skip_settled [OF assms(1,3) True] assms(2) show ?thesis by auto
next
  case False
  note api = api_secrets [OF assms(1)]
  obtain s where s: "fmlookup (cluSecrets (view w)) (secretKey cr) = Some s"
    "map_option orName (GetControllerOf (Platform r) (secMeta s)) = Some (crName cr)"
    using False assms(3) by (auto simp: secretSettled_def split: option.splits)
  obtain w1 where w1: "kget (kSecrets (Client r)) (secretKey cr) w = (Inr s, w1)" "view w1 = view w"
    using kind_api.get_found [OF api s(1)] by blast
  have k: "metaKey (secMeta s) = secretKey cr" using keyedD [OF assms(2) s(1)] .
  obtain w2 where w2: "kdelete (kSecrets (Client r)) s w1 = (Inr (), w2)"
    "view w2 = cluSecrets_update (fmdrop (secretKey cr)) (view w)"
    using kind_api.delete_found [OF api, of w1 s s] s(1) k w1(2) by auto
  show ?thesis
    by (rule that [of w2 "fmdrop (secretKey cr) (cluSecrets (view w))"])
      (use s(2) w1 w2 assms(2) in \<open>auto simp: secret_skipped [OF assms(3)] secretSettled_def assms(3)\<close>)
qed

lemma secret_step:
  assumes "conforming view r" "keyed secMeta (cluSecrets (view w))"
    and "SkipNotificationSecretDeployment (rmSpec cr) \<or> managedCustomLabels r cr \<and>
      tameAt secMeta (cluSecrets (view w)) (secretKey cr) (secMeta (expectedSecret r cr))"
  obtains m w' where "reconcileRolloutsSecrets r cr w = (Ok (), w')" "keyed secMeta m"
    "view w' = (view w)\<lparr>cluSecrets := m\<rparr>" "secretSettled r cr (view w')"
proof (cases "SkipNotificationSecretDeployment (rmSpec cr)")
  case False
  obtain x w' where x: "reconcileRolloutsSecrets r cr w = (Ok (), w')"
    "repairObject secMeta secMeta_update cr (secMeta (expectedSecret r cr)) (\<lambda>_. None) x = None"
    "metaKey (secMeta x) = secretKey cr" "view w' = cluSecrets_update (fmupd (secretKey cr) x) (view w)"
    using secret_settles [of view r w cr] assms False by (auto simp: conforming_def)
  show ?thesis
    by (rule that [OF x(1), where m = "fmupd (secretKey cr) x (cluSecrets (view w))"])
      (use x(2,3) assms(2) False in \<open>auto simp: x(4) secretSettled_def\<close>)
next
  case True
  show ?thesis using secret_skip_step [where view = view and w = w, OF _ assms(2) True] assms(1) that unfolding conforming_def by metis
qed


lemma policy_step:
  assumes "conforming view r" "keyed npMeta (cluNetworkPolicies (view w))"
    and "IsEnabled (NetworkPolicy (rmSpec cr)) \<Longrightarrow>
      tameAt npMeta (cluNetworkPolicies (view w)) (policyKey cr) (npMeta (desiredNetworkPolicy cr))"
  obtains m w' where "reconcileRolloutsNetworkPolicy r cr w = (Ok (), w')" "keyed npMeta m"
    "view w' = (view w)\<lparr>cluNetworkPolicies := m\<rparr>" "policySettled cr (view w')"
proof (cases "IsEnabled (NetworkPolicy (rmSpec cr))")
  case True
  obtain x w' where x: "reconcileRolloutsNetworkPolicy r cr w = (Ok (), w')" "network_policy.repair cr x = None"
    "metaKey (npMeta x) = policyKey cr" "view w' = cluNetworkPolicies_update (fmupd (policyKey cr) x) (view w)"
    using policy_settles [of view r w cr] assms True by (auto simp: conforming_def)
  show ?thesis
    by (rule that [OF x(1), of "fmupd (policyKey cr) x (cluNetworkPolicies (view w))"])
      (use x(2,3) assms(2) True in \<open>auto simp: x(4) policySettled_def\<close>)
next
  case False
  obtain w' where x: "reconcileRolloutsNetworkPolicy r cr w = (Ok (), w')"
    "view w' = cluNetworkPolicies_update (fmdrop (policyKey cr)) (view w)"
    using policy_deleted [of view r w cr] assms False by (auto simp: conforming_def)
  show ?thesis
    by (rule that [OF x(1), of "fmdrop (policyKey cr) (cluNetworkPolicies (view w))"])
      (use assms(2) False in \<open>auto simp: x(2) policySettled_def\<close>)
qed

text \<open>The desired Deployment takes the name of the account and nothing else from it.\<close>

lemma generate_account:
  assumes "metaKey (saMeta sa) = rolloutsKey cr"
  shows "generateDesiredRolloutsDeployment p cr sa = generateDesiredRolloutsDeployment p cr (expectedServiceAccount cr)"
proof -
  have "mName (saMeta sa) = mName (saMeta (expectedServiceAccount cr))"
    using assms by (simp add: metaKey_def)
  then show ?thesis unfolding generateDesiredRolloutsDeployment_def by (rule arg_cong)
qed

lemma desired_exists:
  assumes "supported r cr" "metaKey (saMeta sa) = rolloutsKey cr"
  obtains d where "generateDesiredRolloutsDeployment (Platform r) cr sa = Inr d"
  using assms(1) by (cases "generateDesiredRolloutsDeployment (Platform r) cr sa")
    (auto simp: supported_def generate_account [OF assms(2)])

lemma workload_settled_account:
  assumes "metaKey (saMeta sa) = rolloutsKey cr"
  shows "workloadSettled r cr sa c = workloadSettled r cr (expectedServiceAccount cr) c"
  unfolding workloadSettled_def deploymentSettled_def generate_account [OF assms] ..

lemma workload_settles:
  assumes "conforming view r" "keyedWorkload (view w)" "workloadReady r cr (view w)"
    and "metaKey (saMeta sa) = rolloutsKey cr" "supported r cr"
  shows "\<exists>w'. reconcileWorkload r cr sa w = (Ok (), w') \<and> workloadSettled r cr (expectedServiceAccount cr) (view w') \<and>
    keyedWorkload (view w') \<and> accessPart (view w') = accessPart (view w) \<and> requestPart (view w') = requestPart (view w)"
proof -
  have api: "cluster_api view (Client r)" "owner_contract (Platform r)" "yaml_contract (Platform r)"
    using assms(1) by (simp_all add: conforming_def)
  obtain d where d: "generateDesiredRolloutsDeployment (Platform r) cr sa = Inr d"
    by (rule desired_exists [OF assms(5,4)])
  obtain m1 w1 where s1: "reconcileRolloutsSecrets r cr w = (Ok (), w1)" "keyed secMeta m1"
    and v1: "view w1 = (view w)\<lparr>cluSecrets := m1\<rparr>" and p1: "secretSettled r cr (view w1)"
    using secret_step [where view = view and w = w, OF assms(1)] assms(2,3,5) unfolding keyedWorkload_def workloadReady_def supported_def by metis
  obtain cm ps w2 where s2: "reconcileConfigMap r cr w1 = (Ok (), w2)" "metaKey (cmMeta cm) = configKey cr"
    "configCurrent r cr cm" "keyed podMeta ps"
    and v2: "view w2 = (view w1)\<lparr>cluConfigMaps := fmupd (configKey cr) cm (cluConfigMaps (view w1)), cluPods := ps\<rparr>"
    using config_map_settles [OF api(1,3), of cr w1] assms(2,3,5)
    by (auto simp: keyedWorkload_def workloadReady_def supported_def v1 configReady_def)
  obtain dep w3 where s3: "reconcileRolloutsDeployment r cr sa w2 = (Ok (), w3)"
    "normalizeDeployment dep cr = Inr d" "metaKey (dMeta dep) = rolloutsKey cr"
    and v3: "view w3 = cluDeployments_update (fmupd (rolloutsKey cr) dep) (view w2)"
    using deployment_settles [OF api(1,2) _ _ d, of w2] assms(2,3,5)
    by (auto simp: keyedWorkload_def workloadReady_def supported_def v2 v1)
  obtain svc sms w4 where s4: "reconcileRolloutsMetricsServiceAndMonitor r cr w3 = (Ok (), w4)"
    "metrics_service.repair cr svc = None" "metaKey (svcMeta svc) = svcKey cr" "keyed smMeta sms"
    and v4: "view w4 = (view w3)\<lparr>cluServices := fmupd (svcKey cr) svc (cluServices (view w3)), cluServiceMonitors := sms\<rparr>"
    and p4: "monitorSettled cr (view w4)"
    using metrics_settles [OF api(1,2), of w3 cr] assms(2,3,5)
    by (auto simp: keyedWorkload_def workloadReady_def supported_def v3 v2 v1)
  obtain m5 w5 where s5: "reconcileRolloutsNetworkPolicy r cr w4 = (Ok (), w5)" "keyed npMeta m5"
    and v5: "view w5 = (view w4)\<lparr>cluNetworkPolicies := m5\<rparr>" and p5: "policySettled cr (view w5)"
  proof (rule policy_step [where view = view and w = w4, OF assms(1)])
    show "keyed npMeta (cluNetworkPolicies (view w4))" using assms(2) by (simp add: keyedWorkload_def v4 v3 v2 v1)
    show "IsEnabled (NetworkPolicy (rmSpec cr)) \<Longrightarrow>
      tameAt npMeta (cluNetworkPolicies (view w4)) (policyKey cr) (npMeta (desiredNetworkPolicy cr))"
      using assms(3) by (simp add: workloadReady_def v4 v3 v2 v1)
  qed
  have run: "reconcileWorkload r cr sa w = (Ok (), w5)"
    unfolding reconcileWorkload_def s1(1) andThen_simps s2(1) s3(1) s4(1) s5(1) ..
  have "workloadSettled r cr sa (view w5)"
    unfolding workloadSettled_def
  proof (intro conjI)
    show "secretSettled r cr (view w5)" using p1 by (simp add: secretSettled_def v5 v4 v3 v2)
    show "configSettled r cr (view w5)" using s2(3) by (simp add: configSettled_def v5 v4 v3 v2)
    show "deploymentSettled (Platform r) cr sa (view w5)" using s3(2) d by (simp add: deploymentSettled_def v5 v4 v3)
    show "settledAt (cluServices (view w5)) (svcKey cr) (metrics_service.repair cr)" using s4(2) by (simp add: v5 v4)
    show "monitorSettled cr (view w5)" using p4 by (simp add: monitorSettled_def v5 cong: option.case_cong)
    show "policySettled cr (view w5)" by (rule p5)
  qed
  moreover have "keyedWorkload (view w5)"
    using assms(2) s1(2) s2(2,4) s3(3) s4(3,4) s5(2) by (auto simp: keyedWorkload_def v5 v4 v3 v2 v1)
  ultimately show ?thesis
    using run by (simp add: workload_settled_account [OF assms(4)] part_defs) (simp add: v5 v4 v3 v2 v1)
qed

lemma workload_settled:
  assumes "conforming view r" "keyedWorkload (view w)" "supported r cr"
    and "metaKey (saMeta sa) = rolloutsKey cr"
    and "workloadSettled r cr (expectedServiceAccount cr) (view w)"
  shows "\<exists>w'. reconcileWorkload r cr sa w = (Ok (), w') \<and> view w' = view w"
proof -
  have api: "cluster_api view (Client r)" "owner_contract (Platform r)" "yaml_contract (Platform r)"
    using assms(1) by (simp_all add: conforming_def)
  obtain d where d: "generateDesiredRolloutsDeployment (Platform r) cr sa = Inr d"
    by (rule desired_exists [OF assms(3,4)])
  have ok: "workloadSettled r cr sa (view w)" using assms(5) by (simp add: workload_settled_account [OF assms(4)])
  obtain w1 where s1: "reconcileRolloutsSecrets r cr w = (Ok (), w1)" "view w1 = view w"
    using secret_skip_settled [OF api(1), of cr w] secret_settled [OF api(1), of w cr] assms(2,3) ok
    by (cases "SkipNotificationSecretDeployment (rmSpec cr)")
      (auto simp: workloadSettled_def secretSettled_def keyedWorkload_def supported_def)
  obtain w2 where s2: "reconcileConfigMap r cr w1 = (Ok (), w2)" "view w2 = view w"
    using config_map_settled [OF api(1,3), of cr w1] assms(3) ok
    by (auto simp: workloadSettled_def supported_def s1(2))
  obtain w3 where s3: "reconcileRolloutsDeployment r cr sa w2 = (Ok (), w3)" "view w3 = view w"
    using deployment_settled [OF api(1) _ d, of w2] ok by (auto simp: workloadSettled_def s2(2))
  obtain w4 where s4: "reconcileRolloutsMetricsServiceAndMonitor r cr w3 = (Ok (), w4)" "view w4 = view w"
    using metrics_settled [OF api(1), of w3 cr] assms(2) ok by (auto simp: workloadSettled_def keyedWorkload_def s3(2))
  obtain w5 where s5: "reconcileRolloutsNetworkPolicy r cr w4 = (Ok (), w5)" "view w5 = view w"
    using policy_settled [OF api(1,2), of w4 cr] assms(2) ok by (auto simp: workloadSettled_def keyedWorkload_def s4(2))
  have "reconcileWorkload r cr sa w = (Ok (), w5)"
    unfolding reconcileWorkload_def s1(1) andThen_simps s2(1) s3(1) s4(1) s5(1) ..
  with s5(2) show ?thesis by blast
qed


section \<open>The whole chain\<close>

definition admissible :: "'w reconciler \<Rightarrow> rollout_manager \<Rightarrow> cluster \<Rightarrow> bool" where
  "admissible r cr c \<longleftrightarrow> admitScope r cr = Accepted \<and>
     (NamespaceScoped (rmSpec cr) \<or>
      (\<forall>k x. fmlookup (cluRolloutManagers c) k = Some x \<longrightarrow> NamespaceScoped (rmSpec x) \<or> sameResource x cr))"

lemma admitSingle_accepts:
  assumes "cluster_api view (Client r)" "admissible r cr (view w)"
  shows "\<exists>w'. admitSingle r cr w = (Accepted, w') \<and> view w' = view w"
proof -
  obtain xs w1 where xs: "klist (kRolloutManagers (Client r)) None None w = (Inr xs, w1)" "view w1 = view w"
    "set xs = {x. \<exists>k. fmlookup (cluRolloutManagers (view w)) k = Some x}"
    using kind_api.list_all [OF api_rollout_managers [OF assms(1)], where ns = None and sel = None and w = w] by auto
  show ?thesis
    using assms(2) xs(1,2) by (auto simp: admitSingle_eq admissible_def xs(3))
qed

text \<open>The phase that a Deployment stands for, and the result with it.\<close>

definition deploymentPhase :: "deployment \<Rightarrow> phase" where
  "deploymentPhase d = (case dsReplicas (dSpec d) of None \<Rightarrow> PhaseUnknown
     | Some n \<Rightarrow> if dReadyReplicas d = n then PhaseAvailable else PhasePending)"

definition successResult :: "rollout_manager \<Rightarrow> cluster \<Rightarrow> reconcileStatusResult" where
  "successResult cr c =
     (let p = (case fmlookup (cluDeployments c) (rolloutsKey cr) of None \<Rightarrow> PhaseFailure | Some d \<Rightarrow> deploymentPhase d)
      in \<lparr>rrCondition = createCondition '''' [],
          rrRolloutController = (if stRolloutController (rmStatus cr) \<noteq> p then Some p else None),
          rrPhase = (if stPhase (rmStatus cr) \<noteq> p then Some p else None)\<rparr>)"

lemma phase_found:
  assumes "cluster_api view (Client r)"
  shows "\<exists>rr w'. determineStatusPhase r cr w = (Ok rr, w') \<and> view w' = view w \<and>
    rr\<lparr>rrCondition := createCondition '''' []\<rparr> = successResult cr (view w)"
proof (cases "fmlookup (cluDeployments (view w)) (rolloutsKey cr)")
  case None
  from kind_api.get_missing [OF api_deployments [OF assms] None] show ?thesis
    by (auto simp: determineStatusPhase_def successResult_def zeroResult_def None Let_def)
next
  case (Some d)
  from kind_api.get_found [OF api_deployments [OF assms] Some] show ?thesis
    by (auto simp: determineStatusPhase_def successResult_def zeroResult_def Some Let_def deploymentPhase_def
        split: option.split)
qed

lemma orFail_simps [simp]:
  "orFail (Ok a, w) k = k a w" "orFail (Err e, w) k = (Ok (failWith e), w)" "orFail (Panic p, w) k = (Panic p, w)"
  by (simp_all add: orFail_def)

lemma ofAdmission_simps [simp]: "ofAdmission (Accepted, w) k = k w"
  by (simp add: ofAdmission_def)

lemma admitted_run:
  assumes "cluster_api view (Client r)" "admissible r cr (view w)"
  obtains w1 where "reconcileRolloutsManager r cr w = reconcileAccepted r cr w1" "view w1 = view w"
proof -
  obtain w1 where "admitSingle r cr w = (Accepted, w1)" "view w1 = view w"
    using admitSingle_accepts [OF assms] by blast
  with assms(2) that show ?thesis by (simp add: reconcileRolloutsManager_def admissible_def)
qed

lemma access_frame:
  assumes "workloadPart c = workloadPart c'"
  shows "workloadReady r cr c = workloadReady r cr c'" "keyedWorkload c = keyedWorkload c'"
proof -
  have e: "cluSecrets c = cluSecrets c'" "cluConfigMaps c = cluConfigMaps c'" "cluDeployments c = cluDeployments c'"
    "cluPods c = cluPods c'" "cluServices c = cluServices c'" "cluServiceMonitors c = cluServiceMonitors c'"
    "cluNetworkPolicies c = cluNetworkPolicies c'" "cluCRDs c = cluCRDs c'"
    using assms by (simp_all add: part_defs)
  show "workloadReady r cr c = workloadReady r cr c'" "keyedWorkload c = keyedWorkload c'"
    by (simp_all only: workloadReady_def configReady_def keyedWorkload_def e)
qed

lemma workload_frame: "accessPart c = accessPart c' \<Longrightarrow> accessSettled cr c = accessSettled cr c'"
  "accessPart c = accessPart c' \<Longrightarrow> keyedAccess c = keyedAccess c'"
  by (auto simp: part_defs accessSettled_def rolesSettled_def bindingsSettled_def aggregatesSettled_def keyedAccess_def)

lemma chain_settles:
  assumes "conforming view r" "admissible r cr (view w)" "supported r cr" "ready r cr (view w)" "keyedCluster (view w)"
  obtains w' where "reconcileRolloutsManager r cr w = (Ok (successResult cr (view w'), None), w')"
    "settled r cr (view w')" "keyedCluster (view w')" "requestPart (view w') = requestPart (view w)"
proof -
  have api: "cluster_api view (Client r)" using assms(1) by (simp add: conforming_def)
  obtain w1 where w1: "reconcileRolloutsManager r cr w = reconcileAccepted r cr w1" "view w1 = view w"
    by (rule admitted_run [OF api assms(2)])
  have k1: "keyedAccess (view w1)" "keyedWorkload (view w1)" using assms(5) by (simp_all add: keyedCluster_def w1(2))
  have r1: "accessReady cr (view w1)" "workloadReady r cr (view w1)" using assms(4) by (simp_all add: ready_def w1(2))
  obtain sa w2 where sa: "reconcileAccess r cr w1 = (Ok sa, w2)" "metaKey (saMeta sa) = rolloutsKey cr"
    "accessSettled cr (view w2)" "keyedAccess (view w2)"
    and p2: "workloadPart (view w2) = workloadPart (view w1)" "requestPart (view w2) = requestPart (view w1)"
    using access_settles [OF assms(1) k1(1) r1(1)] by blast
  obtain w3 where wl: "reconcileWorkload r cr sa w2 = (Ok (), w3)"
    "workloadSettled r cr (expectedServiceAccount cr) (view w3)" "keyedWorkload (view w3)"
    and p3: "accessPart (view w3) = accessPart (view w2)" "requestPart (view w3) = requestPart (view w2)"
    using workload_settles [OF assms(1) _ _ sa(2) assms(3), of w2] k1(2) r1(2) access_frame [OF p2(1)] by blast
  obtain rr w4 where ph: "determineStatusPhase r cr w3 = (Ok rr, w4)" "view w4 = view w3"
    "rr\<lparr>rrCondition := createCondition '''' []\<rparr> = successResult cr (view w3)"
    using phase_found [OF api] by blast
  have "reconcileRolloutsManager r cr w = (Ok (successResult cr (view w4), None), w4)"
    unfolding w1(1) reconcileAccepted_def sa(1) orFail_simps wl(1) ph(1) ph(2,3) ..
  moreover have "settled r cr (view w4)" "keyedCluster (view w4)"
    using sa(3,4) wl(2,3) workload_frame [OF p3(1)] by (simp_all add: settled_def keyedCluster_def ph(2))
  moreover have "requestPart (view w4) = requestPart (view w)" using p2(2) p3(2) ph(2) w1(2) by simp
  ultimately show ?thesis by (rule that)
qed

lemma chain_settled:
  assumes "conforming view r" "admissible r cr (view w)" "supported r cr" "settled r cr (view w)" "keyedCluster (view w)"
  obtains w' where "reconcileRolloutsManager r cr w = (Ok (successResult cr (view w), None), w')" "view w' = view w"
proof -
  have api: "cluster_api view (Client r)" using assms(1) by (simp add: conforming_def)
  obtain w1 where w1: "reconcileRolloutsManager r cr w = reconcileAccepted r cr w1" "view w1 = view w"
    by (rule admitted_run [OF api assms(2)])
  obtain sa w2 where sa: "reconcileAccess r cr w1 = (Ok sa, w2)" "metaKey (saMeta sa) = rolloutsKey cr" "view w2 = view w"
    using access_settled [OF api, of w1 cr] assms(4,5) by (auto simp: settled_def keyedCluster_def w1(2))
  obtain w3 where wl: "reconcileWorkload r cr sa w2 = (Ok (), w3)" "view w3 = view w"
    using workload_settled [OF assms(1) _ assms(3) sa(2), of w2] assms(4,5) by (auto simp: settled_def keyedCluster_def sa(3))
  obtain rr w4 where ph: "determineStatusPhase r cr w3 = (Ok rr, w4)" "view w4 = view w"
    "rr\<lparr>rrCondition := createCondition '''' []\<rparr> = successResult cr (view w)"
    using phase_found [OF api, of cr w3] unfolding wl(2) by blast
  have "reconcileRolloutsManager r cr w = (Ok (successResult cr (view w), None), w4)"
    unfolding w1(1) reconcileAccepted_def sa(1) orFail_simps wl(1) ph(1,3) ..
  then show ?thesis using ph(2) by (rule that)
qed


section \<open>The status does not matter\<close>

text \<open>Nothing the operator wants depends on the status it writes itself.\<close>

lemma status_free_metadata [simp]:
  "ha_enabled (rmStatus_update f cr) = ha_enabled cr" "extraLabels (rmStatus_update f cr) = extraLabels cr"
  "extraAnnotations (rmStatus_update f cr) = extraAnnotations cr"
  by (simp_all add: ha_enabled_def extraLabels_def extraAnnotations_def)

lemma status_free_labels [simp]:
  "setAdditionalRolloutsLabelsAndAnnotationsToObject m (rmStatus_update f cr) = setAdditionalRolloutsLabelsAndAnnotationsToObject m cr"
  "managedLabels (rmStatus_update f cr) = managedLabels cr"
  "removeUserLabelsAndAnnotations m (rmStatus_update f cr) = removeUserLabelsAndAnnotations m cr"
  by (simp_all add: setAdditionalRolloutsLabelsAndAnnotationsToObject_def managedLabels_def removeUserLabelsAndAnnotations_def)

lemma status_free_objects [simp]:
  "setRolloutsLabelsAndAnnotationsToObject m (rmStatus_update f cr) = setRolloutsLabelsAndAnnotationsToObject m cr"
  "metaOutdated (rmStatus_update f cr) = metaOutdated cr"
  "keptLabel (rmStatus_update f cr) = keptLabel cr"
  by (simp_all add: setRolloutsLabelsAndAnnotationsToObject_def metaOutdated_def fun_eq_iff keptLabel_def)

lemma status_free_repair [simp]: "repairObject g u (rmStatus_update f cr) = repairObject g u cr"
  by (simp add: repairObject_def fun_eq_iff)

lemma status_free_rbac [simp]:
  "expectedServiceAccount (rmStatus_update f cr) = expectedServiceAccount cr"
  "expectedRole (rmStatus_update f cr) = expectedRole cr"
  "expectedClusterRole (rmStatus_update f cr) = expectedClusterRole cr"
  "expectedAggregateRole t (rmStatus_update f cr) = expectedAggregateRole t cr"
  "bindingRepair (rmStatus_update f cr) ns = bindingRepair cr ns"
  by (simp_all add: expectedServiceAccount_def expectedRole_def expectedClusterRole_def expectedAggregateRole_def
      bindingRepair_def rolloutsSubject_def)

lemma status_free_resources [simp]:
  "expectedSecret r (rmStatus_update f cr) = expectedSecret r cr" "expectedSvc (rmStatus_update f cr) = expectedSvc cr"
  "desiredNetworkPolicy (rmStatus_update f cr) = desiredNetworkPolicy cr"
  "managedCustomLabels r (rmStatus_update f cr) = managedCustomLabels r cr"
  by (simp_all add: expectedSecret_def expectedSvc_def desiredNetworkPolicy_def generateNetworkPolicyHeaders_def
      managedCustomLabels_def)

lemma status_free_plugins [simp]:
  "trafficRouterPlugins r (rmStatus_update f cr) = trafficRouterPlugins r cr"
  "metricPlugins (rmStatus_update f cr) = metricPlugins cr"
  "pluginsAllowed r (rmStatus_update f cr) = pluginsAllowed r cr"
  by (simp_all add: trafficRouterPlugins_def metricPlugins_def pluginsAllowed_def)

lemma status_free_config [simp]: "configCurrent r (rmStatus_update f cr) = configCurrent r cr"
  unfolding configCurrent_def status_free_plugins ..

lemma status_free_container [simp]:
  "getRolloutsCommandArgs (rmStatus_update f cr) = getRolloutsCommandArgs cr"
  "getRolloutsContainerImage p (rmStatus_update f cr) = getRolloutsContainerImage p cr"
  "getImagePullPolicy p (rmStatus_update f cr) = getImagePullPolicy p cr"
  by (simp_all add: getRolloutsCommandArgs_def defaultCommandArgs_def getRolloutsContainerImage_def
      getImagePullPolicy_def cong: option.case_cong sum.case_cong if_cong)

lemma status_free_rolloutsContainer [simp]: "rolloutsContainer p (rmStatus_update f cr) = rolloutsContainer p cr"
  by (simp add: rolloutsContainer_def cong: option.case_cong sum.case_cong if_cong)

lemma status_free_deployment [simp]:
  "generateDesiredRolloutsDeployment p (rmStatus_update f cr) sa = generateDesiredRolloutsDeployment p cr sa"
  "normalizeDeployment d (rmStatus_update f cr) = normalizeDeployment d cr"
  "wireSafe (rmStatus_update f cr) = wireSafe cr"
  by (simp_all add: generateDesiredRolloutsDeployment_def normalizeDeployment_def normalizeMeta_def wireSafe_def
      rolloutsPodLabels_def desiredAffinity_def cong: option.case_cong sum.case_cong if_cong)

lemma status_free_access: "accessSettled cr' c = accessSettled cr c" if "cr' = rmStatus_update f cr"
  by (simp add: that accessSettled_def rolesSettled_def bindingsSettled_def aggregatesSettled_def aggregateRepair_def)

lemma status_free_workload: "workloadSettled r cr' sa c = workloadSettled r cr sa c" if "cr' = rmStatus_update f cr"
  by (simp add: that workloadSettled_def secretSettled_def configSettled_def deploymentSettled_def monitorSettled_def
      policySettled_def cong: option.case_cong if_cong)

lemma status_free_settled [simp]: "settled r (rmStatus_update f cr) c = settled r cr c"
  by (simp add: settled_def status_free_access [OF refl] status_free_workload [OF refl])

lemma status_free_supported [simp]: "supported r (rmStatus_update f cr) = supported r cr"
  by (simp add: supported_def)


section \<open>The controller\<close>

lemma insertOrUpdate_again:
  assumes "insertOrUpdateConditionsInSlice now c cs = (changed, ds)"
  shows "insertOrUpdateConditionsInSlice now' c ds = (False, ds)" "\<exists>d. conditionOf (cdType c) ds = Some d \<and> sameContent d c"
proof -
  obtain d where d: "conditionOf (cdType c) ds = Some d" "sameContent d c"
    using assms
  proof (cases rule: insertOrUpdate_cases)
    case insert
    then show ?thesis using that by (auto simp: conditionOf_append)
  next
    case (replace i old)
    have "indexOfType (cdType (c\<lparr>cdLastTransitionTime := now\<rparr>)) cs = Some i" using replace by simp
    from conditionOf_update [OF this] replace show ?thesis using that by auto
  qed (use that in auto)
  obtain changed' es where es: "insertOrUpdateConditionsInSlice now' c ds = (changed', es)" by (rule prod.exhaust)
  then show "insertOrUpdateConditionsInSlice now' c ds = (False, ds)"
    using d es by (cases rule: insertOrUpdate_cases) (auto dest: indexOfType_Some)
  show "\<exists>d. conditionOf (cdType c) ds = Some d \<and> sameContent d c" using d by blast
qed

lemma requestedStatus_again:
  assumes "rrCondition rr' = rrCondition rr" "rrPhase rr' = None" "rrRolloutController rr' = None"
  shows "requestedStatus now' rr' (requestedStatus now rr st) = requestedStatus now rr st"
  using assms insertOrUpdate_again(1) [of now "rrCondition rr" "stConditions st"]
  by (cases "insertOrUpdateConditionsInSlice now (rrCondition rr) (stConditions st)") (simp add: requestedStatus_def)

lemma status_stored:
  assumes "cluster_api view (Client r)" "fmlookup (cluRolloutManagers (view w)) (metaKey (rmMeta cr)) = Some cr"
  obtains w' where "updateStatusConditionOfRolloutManager now rr cr (Client r) w = (Ok (), w')"
    "view w' = cluRolloutManagers_update (fmupd (metaKey (rmMeta cr)) (cr\<lparr>rmStatus := requestedStatus now rr (rmStatus cr)\<rparr>)) (view w)"
proof (cases "requestedStatus now rr (rmStatus cr) = rmStatus cr")
  case True
  have "fmupd (metaKey (rmMeta cr)) cr (cluRolloutManagers (view w)) = cluRolloutManagers (view w)"
    by (rule fmupd_same [OF assms(2)])
  then show ?thesis using that [of w] True by (cases "view w") (simp add: updateStatus_eq)
next
  case False
  let ?x = "cr\<lparr>rmStatus := requestedStatus now rr (rmStatus cr)\<rparr>"
  obtain w' where w': "kStatusUpdate (Client r) ?x w = (Inr ?x, w')"
    "view w' = cluRolloutManagers_update (fmupd (metaKey (rmMeta cr)) ?x) (view w)"
    using api_status [OF assms(1), unfolded status_api_def, rule_format, of w ?x cr] assms(2) by auto
  show ?thesis by (rule that [of w']) (use w' False in \<open>simp_all add: updateStatus_eq\<close>)
qed

lemma reconcile_found:
  assumes "cluster_api view (Client r)"
    and "fmlookup (cluNamespaces (view w)) (NamespacedName '''' (nnNamespace req)) = Some ns" "mDeletionTimestamp (nsMeta ns) = None"
    and "fmlookup (cluRolloutManagers (view w)) req = Some cr"
  obtains w' where "view w' = view w" "Reconcile r now req w =
    (case reconcileRolloutsManager r cr w' of
       (Panic p, w3) \<Rightarrow> (Panic p, w3)
     | (Err err, w3) \<Rightarrow> (Err err, w3)
     | (Ok (result, reconcileErr), w3) \<Rightarrow>
         andThen (updateStatusConditionOfRolloutManager now result cr (Client r) w3) (\<lambda>_ w4.
           (case reconcileErr of Some err \<Rightarrow> (Err err, w4) | None \<Rightarrow> (Ok (), w4))))"
proof -
  obtain w1 where w1: "kget (kNamespaces (Client r)) (NamespacedName '''' (nnNamespace req)) w = (Inr ns, w1)" "view w1 = view w"
    using kind_api.get_found [OF api_namespaces [OF assms(1)] assms(2)] by blast
  obtain w2 where w2: "kget (kRolloutManagers (Client r)) req w1 = (Inr cr, w2)" "view w2 = view w"
    using kind_api.get_found [OF api_rollout_managers [OF assms(1)], of w1 req cr] assms(4) w1(2) by auto
  show ?thesis
    by (rule that [OF w2(2)]) (simp add: Reconcile_def w1(1) w2(1) assms(3))
qed

lemma request_frame:
  assumes "accessPart c = accessPart c'" "workloadPart c = workloadPart c'"
  shows "settled r cr c = settled r cr c'" "keyedCluster c = keyedCluster c'" "successResult cr c = successResult cr c'"
proof -
  have e: "cluSecrets c = cluSecrets c'" "cluConfigMaps c = cluConfigMaps c'" "cluDeployments c = cluDeployments c'"
    "cluPods c = cluPods c'" "cluServices c = cluServices c'" "cluServiceMonitors c = cluServiceMonitors c'"
    "cluNetworkPolicies c = cluNetworkPolicies c'" "cluCRDs c = cluCRDs c'"
    using assms(2) by (simp_all add: part_defs)
  have "workloadSettled r cr sa c = workloadSettled r cr sa c'" for sa
    unfolding workloadSettled_def secretSettled_def configSettled_def deploymentSettled_def monitorSettled_def
      policySettled_def e ..
  then show "settled r cr c = settled r cr c'" using workload_frame(1) [OF assms(1)] by (simp add: settled_def)
  show "keyedCluster c = keyedCluster c'"
    using workload_frame(2) [OF assms(1)] access_frame(2) [OF assms(2)] by (simp add: keyedCluster_def)
  show "successResult cr c = successResult cr c'" unfolding successResult_def e ..
qed

lemma parts_rollout_managers [simp]:
  "accessPart (cluRolloutManagers_update f c) = accessPart c" "workloadPart (cluRolloutManagers_update f c) = workloadPart c"
  by (simp_all add: part_defs)


lemma successResult_again:
  assumes "rr = successResult cr c" "cr' = cr\<lparr>rmStatus := requestedStatus now rr (rmStatus cr)\<rparr>"
  shows "requestedStatus now' (successResult cr' c) (rmStatus cr') = rmStatus cr'"
proof -
  have "rrCondition (successResult cr' c) = rrCondition rr" "rrPhase (successResult cr' c) = None"
    "rrRolloutController (successResult cr' c) = None"
    using assms by (auto simp: successResult_def Let_def requestedStatus_def)
  from requestedStatus_again [OF this] assms(2) show ?thesis by simp
qed

lemma admissible_again:
  assumes "admissible r cr c" "cr' = rmStatus_update f cr"
  shows "admissible r cr' (cluRolloutManagers_update (fmupd (metaKey (rmMeta cr)) cr') c)"
proof -
  have "admitScope r cr' = admitScope r cr"
    unfolding admitScope_eq allowedClusterScopedNamespace_iff assms(2) by simp
  with assms show ?thesis by (auto simp: admissible_def sameResource_def split: if_splits)
qed

text \<open>What the status says after a successful run.\<close>

definition statusCurrent :: "rollout_manager \<Rightarrow> cluster \<Rightarrow> bool" where
  "statusCurrent cr c \<longleftrightarrow>
     (case fmlookup (cluRolloutManagers c) (metaKey (rmMeta cr)) of None \<Rightarrow> False
      | Some x \<Rightarrow> rmMeta x = rmMeta cr \<and> rmSpec x = rmSpec cr \<and>
          (\<exists>d. fmlookup (cluDeployments c) (rolloutsKey cr) = Some d \<and> stPhase (rmStatus x) = deploymentPhase d \<and>
             stRolloutController (rmStatus x) = deploymentPhase d) \<and>
          (\<exists>cond. conditionOf ''Reconciled'' (stConditions (rmStatus x)) = Some cond \<and>
             cdStatus cond = ''True'' \<and> cdReason cond = ''Success'' \<and> cdMessage cond = ''''))"

lemma settled_deployment:
  "settled r cr c \<Longrightarrow> \<exists>d. fmlookup (cluDeployments c) (rolloutsKey cr) = Some d"
  by (auto simp: settled_def workloadSettled_def deploymentSettled_def split: option.splits)

lemma requested_current:
  assumes "rr = successResult cr c" "fmlookup (cluDeployments c) (rolloutsKey cr) = Some d"
    and "st = requestedStatus now rr (rmStatus cr)"
  shows "stPhase st = deploymentPhase d" "stRolloutController st = deploymentPhase d"
    "\<exists>cond. conditionOf ''Reconciled'' (stConditions st) = Some cond \<and>
       cdStatus cond = ''True'' \<and> cdReason cond = ''Success'' \<and> cdMessage cond = ''''"
proof -
  show "stPhase st = deploymentPhase d" "stRolloutController st = deploymentPhase d"
    using assms(2) by (simp_all add: assms(1,3) requestedStatus_def successResult_def Let_def)
  let ?c = "createCondition '''' []"
  obtain changed ds where ds: "insertOrUpdateConditionsInSlice now ?c (stConditions (rmStatus cr)) = (changed, ds)"
    by (rule prod.exhaust)
  have "stConditions st = ds" using assms ds by (simp add: requestedStatus_def successResult_def Let_def)
  moreover have "cdType ?c = ''Reconciled''" "cdStatus ?c = ''True''" "cdReason ?c = ''Success''" "cdMessage ?c = ''''"
    by (simp_all add: createCondition_def RolloutManagerConditionType_def ConditionTrue_def RolloutManagerReasonSuccess_def)
  ultimately show "\<exists>cond. conditionOf ''Reconciled'' (stConditions st) = Some cond \<and>
       cdStatus cond = ''True'' \<and> cdReason cond = ''Success'' \<and> cdMessage cond = ''''"
    using insertOrUpdate_again(2) [OF ds] by (auto simp: sameContent_def)
qed

lemma reconcile_settles:
  assumes "conforming view r" "supported r cr" "admissible r cr (view w)" "ready r cr (view w)" "keyedCluster (view w)"
    and "fmlookup (cluNamespaces (view w)) (NamespacedName '''' (crNamespace cr)) = Some ns" "mDeletionTimestamp (nsMeta ns) = None"
    and "fmlookup (cluRolloutManagers (view w)) (metaKey (rmMeta cr)) = Some cr"
  obtains c w1 where "Reconcile r now (metaKey (rmMeta cr)) w = (Ok (), w1)" "settled r cr c" "keyedCluster c"
    "requestPart c = requestPart (view w)"
    "view w1 = cluRolloutManagers_update (fmupd (metaKey (rmMeta cr))
       (cr\<lparr>rmStatus := requestedStatus now (successResult cr c) (rmStatus cr)\<rparr>)) c"
proof -
  have api: "cluster_api view (Client r)" using assms(1) by (simp add: conforming_def)
  have ns: "fmlookup (cluNamespaces (view w)) (NamespacedName '''' (nnNamespace (metaKey (rmMeta cr)))) = Some ns"
    using assms(6) by (simp add: metaKey_def)
  obtain w0 where w0: "view w0 = view w" and run: "Reconcile r now (metaKey (rmMeta cr)) w =
    (case reconcileRolloutsManager r cr w0 of
       (Panic p, w3) \<Rightarrow> (Panic p, w3)
     | (Err err, w3) \<Rightarrow> (Err err, w3)
     | (Ok (result, reconcileErr), w3) \<Rightarrow>
         andThen (updateStatusConditionOfRolloutManager now result cr (Client r) w3) (\<lambda>_ w4.
           (case reconcileErr of Some err \<Rightarrow> (Err err, w4) | None \<Rightarrow> (Ok (), w4))))"
    by (rule reconcile_found [OF api ns assms(7,8)])
  obtain w1 where w1: "reconcileRolloutsManager r cr w0 = (Ok (successResult cr (view w1), None), w1)"
    "settled r cr (view w1)" "keyedCluster (view w1)" "requestPart (view w1) = requestPart (view w0)"
    by (rule chain_settles [where view = view and w = w0, OF assms(1) _ assms(2)]) (use assms(3-5) in \<open>simp_all add: w0\<close>)
  have "fmlookup (cluRolloutManagers (view w1)) (metaKey (rmMeta cr)) = Some cr"
    using w1(4) assms(8) by (simp add: part_defs w0)
  from status_stored [where view = view, OF api this, of now "successResult cr (view w1)"]
  obtain w2 where w2: "updateStatusConditionOfRolloutManager now (successResult cr (view w1)) cr (Client r) w1 = (Ok (), w2)"
    "view w2 = cluRolloutManagers_update (fmupd (metaKey (rmMeta cr))
       (cr\<lparr>rmStatus := requestedStatus now (successResult cr (view w1)) (rmStatus cr)\<rparr>)) (view w1)" by metis
  show ?thesis
    by (rule that [of w2 "view w1"]) (use w1 w2 w0 in \<open>simp_all add: run\<close>)
qed

lemma reconcile_settled:
  assumes "conforming view r" "supported r cr" "admissible r cr (view w)" "settled r cr (view w)" "keyedCluster (view w)"
    and "fmlookup (cluNamespaces (view w)) (NamespacedName '''' (crNamespace cr)) = Some ns" "mDeletionTimestamp (nsMeta ns) = None"
    and "fmlookup (cluRolloutManagers (view w)) (metaKey (rmMeta cr)) = Some cr"
    and "requestedStatus now (successResult cr (view w)) (rmStatus cr) = rmStatus cr"
  shows "\<exists>w1. Reconcile r now (metaKey (rmMeta cr)) w = (Ok (), w1) \<and> view w1 = view w"
proof -
  have api: "cluster_api view (Client r)" using assms(1) by (simp add: conforming_def)
  have ns: "fmlookup (cluNamespaces (view w)) (NamespacedName '''' (nnNamespace (metaKey (rmMeta cr)))) = Some ns"
    using assms(6) by (simp add: metaKey_def)
  obtain w0 where w0: "view w0 = view w" and run: "Reconcile r now (metaKey (rmMeta cr)) w =
    (case reconcileRolloutsManager r cr w0 of
       (Panic p, w3) \<Rightarrow> (Panic p, w3)
     | (Err err, w3) \<Rightarrow> (Err err, w3)
     | (Ok (result, reconcileErr), w3) \<Rightarrow>
         andThen (updateStatusConditionOfRolloutManager now result cr (Client r) w3) (\<lambda>_ w4.
           (case reconcileErr of Some err \<Rightarrow> (Err err, w4) | None \<Rightarrow> (Ok (), w4))))"
    by (rule reconcile_found [OF api ns assms(7,8)])
  obtain w1 where w1: "reconcileRolloutsManager r cr w0 = (Ok (successResult cr (view w), None), w1)" "view w1 = view w"
    by (rule chain_settled [where view = view and w = w0, OF assms(1) _ assms(2)]) (use assms(3-5) in \<open>simp_all add: w0\<close>)
  have "updateStatusConditionOfRolloutManager now (successResult cr (view w)) cr (Client r) w1 = (Ok (), w1)"
    by (simp add: updateStatus_eq assms(9))
  then show ?thesis by (simp add: run w1)
qed

text \<open>A run on a settled cluster writes the status of its resource at most.\<close>

lemma settled_run_keeps:
  assumes "conforming view r" "supported r cr" "admissible r cr (view w)" "settled r cr (view w)" "keyedCluster (view w)"
    and "fmlookup (cluNamespaces (view w)) (NamespacedName '''' (crNamespace cr)) = Some ns" "mDeletionTimestamp (nsMeta ns) = None"
    and "fmlookup (cluRolloutManagers (view w)) (metaKey (rmMeta cr)) = Some cr"
  shows "\<exists>st w1. Reconcile r now (metaKey (rmMeta cr)) w = (Ok (), w1) \<and>
    view w1 = cluRolloutManagers_update (fmupd (metaKey (rmMeta cr)) (cr\<lparr>rmStatus := st\<rparr>)) (view w)"
proof -
  have api: "cluster_api view (Client r)" using assms(1) by (simp add: conforming_def)
  have ns: "fmlookup (cluNamespaces (view w)) (NamespacedName '''' (nnNamespace (metaKey (rmMeta cr)))) = Some ns"
    using assms(6) by (simp add: metaKey_def)
  obtain w0 where w0: "view w0 = view w" and run: "Reconcile r now (metaKey (rmMeta cr)) w =
    (case reconcileRolloutsManager r cr w0 of
       (Panic p, w3) \<Rightarrow> (Panic p, w3)
     | (Err err, w3) \<Rightarrow> (Err err, w3)
     | (Ok (result, reconcileErr), w3) \<Rightarrow>
         andThen (updateStatusConditionOfRolloutManager now result cr (Client r) w3) (\<lambda>_ w4.
           (case reconcileErr of Some err \<Rightarrow> (Err err, w4) | None \<Rightarrow> (Ok (), w4))))"
    by (rule reconcile_found [OF api ns assms(7,8)])
  obtain w1 where w1: "reconcileRolloutsManager r cr w0 = (Ok (successResult cr (view w), None), w1)" "view w1 = view w"
    by (rule chain_settled [where view = view and w = w0, OF assms(1) _ assms(2)]) (use assms(3-5) in \<open>simp_all add: w0\<close>)
  have "fmlookup (cluRolloutManagers (view w1)) (metaKey (rmMeta cr)) = Some cr" using assms(8) by (simp add: w1(2))
  from status_stored [where view = view, OF api this, of now "successResult cr (view w)"]
  obtain w2 where "updateStatusConditionOfRolloutManager now (successResult cr (view w)) cr (Client r) w1 = (Ok (), w2)"
    "view w2 = cluRolloutManagers_update (fmupd (metaKey (rmMeta cr))
       (cr\<lparr>rmStatus := requestedStatus now (successResult cr (view w)) (rmStatus cr)\<rparr>)) (view w1)" by metis
  then show ?thesis using w1 by (auto simp: run)
qed

text \<open>What the result of a rejection makes of a status.\<close>

definition rejectedResult :: "reconcileStatusResult \<Rightarrow> bool" where
  "rejectedResult rr \<longleftrightarrow> rrPhase rr = Some PhaseFailure \<and> rrRolloutController rr = Some PhaseFailure \<and>
     cdType (rrCondition rr) = ''Reconciled'' \<and> cdStatus (rrCondition rr) = ''False''"

lemma condition_requested:
  "\<exists>cond. conditionOf (cdType (rrCondition rr)) (stConditions (requestedStatus now rr st)) = Some cond \<and>
     sameContent cond (rrCondition rr)"
  by (cases "insertOrUpdateConditionsInSlice now (rrCondition rr) (stConditions st)")
    (auto simp: requestedStatus_def dest: insertOrUpdate_again(2))

lemma rejected_status:
  assumes "rejectedResult rr"
  shows "stPhase (requestedStatus now rr st) = ''Failure''" "stRolloutController (requestedStatus now rr st) = ''Failure''"
    "\<exists>cond. conditionOf ''Reconciled'' (stConditions (requestedStatus now rr st)) = Some cond \<and> cdStatus cond = ''False''"
  using assms condition_requested [of rr now st]
  by (auto simp: rejectedResult_def sameContent_def) (simp_all add: requestedStatus_def PhaseFailure_def)

lemma rejection_result:
  "t \<noteq> '''' \<Longrightarrow> rejectedResult (phaseFailureResult\<lparr>rrCondition := createCondition t [reason]\<rparr>)"
  by (simp add: rejectedResult_def phaseFailureResult_def createCondition_def RolloutManagerConditionType_def ConditionFalse_def)

lemma admitScope_rejects:
  assumes "admitScope r cr \<noteq> Accepted"
  obtains rr where "admitScope r cr = Rejected rr" "rejectedResult rr"
proof -
  have "UnsupportedRolloutManagerClusterScoped \<noteq> ''''" "UnsupportedRolloutManagerNamespaceScoped \<noteq> ''''"
    "UnsupportedRolloutManagerClusterScopedNamespace \<noteq> ''''" by (simp_all add: scope_texts)
  with assms that show ?thesis
    unfolding admitScope_eq by (simp only: split: if_splits) (auto intro: rejection_result)
qed

lemma admitSingle_rejects:
  assumes "cluster_api view (Client r)" "admitScope r cr = Accepted" "\<not> admissible r cr (view w)"
  obtains rr w' where "admitSingle r cr w = (Rejected rr, w')" "view w' = view w" "rejectedResult rr"
proof -
  obtain xs w1 where xs: "klist (kRolloutManagers (Client r)) None None w = (Inr xs, w1)" "view w1 = view w"
    "set xs = {x. \<exists>k. fmlookup (cluRolloutManagers (view w)) k = Some x}"
    using kind_api.list_all [OF api_rollout_managers [OF assms(1)], where ns = None and sel = None and w = w] by auto
  have "UnsupportedRolloutManagerConfiguration \<noteq> ''''" by (simp add: scope_texts)
  note rej = rejection_result [OF this, of RolloutManagerReasonMultipleClusterScopedRolloutManager]
  have "\<not> NamespaceScoped (rmSpec cr)" "\<exists>x\<in>set xs. \<not> sameResource x cr \<and> \<not> NamespaceScoped (rmSpec x)"
    using assms(2,3) by (auto simp: admissible_def xs(3))
  then show ?thesis using that [OF _ xs(2) rej] xs(1) by (simp add: admitSingle_eq)
qed

lemma rejected_run:
  assumes "cluster_api view (Client r)" "\<not> admissible r cr (view w)"
  obtains rr w' where "reconcileRolloutsManager r cr w = (Ok (rr, None), w')" "view w' = view w" "rejectedResult rr"
proof (cases "admitScope r cr = Accepted")
  case True
  obtain rr w' where "admitSingle r cr w = (Rejected rr, w')" "view w' = view w" "rejectedResult rr"
    by (rule admitSingle_rejects [OF assms(1) True assms(2)])
  with True that show ?thesis by (simp add: reconcileRolloutsManager_def ofAdmission_def)
next
  case False
  obtain rr where "admitScope r cr = Rejected rr" "rejectedResult rr" by (rule admitScope_rejects [OF False])
  with that [of rr w] show ?thesis by (simp add: reconcileRolloutsManager_def ofAdmission_def)
qed

text \<open>The namespace of the request is gone, or the resource is.\<close>

definition requestGone :: "namespaced_name \<Rightarrow> cluster \<Rightarrow> bool" where
  "requestGone req c \<longleftrightarrow> (case fmlookup (cluNamespaces c) (NamespacedName '''' (nnNamespace req)) of
     None \<Rightarrow> True
   | Some ns \<Rightarrow> mDeletionTimestamp (nsMeta ns) = None \<and> fmlookup (cluRolloutManagers c) req = None)"

lemma removal_run:
  assumes "cluster_api view (Client r)" "keyed roleMeta (cluClusterRoles (view w))" "keyed rbMeta (cluClusterRoleBindings (view w))"
    and "requestGone req (view w)"
  obtains w' where "Reconcile r now req w = (Ok (), w')" "view w' = (view w)\<lparr>
      cluClusterRoles := fmdrop (aggregateKey ''aggregate-to-view'') (fmdrop (aggregateKey ''aggregate-to-edit'')
        (fmdrop (aggregateKey ''aggregate-to-admin'') (fmdrop clusterKey (cluClusterRoles (view w))))),
      cluClusterRoleBindings := fmdrop clusterKey (cluClusterRoleBindings (view w))\<rparr>"
proof -
  obtain w1 where w1: "Reconcile r now req w = removeClusterScopedResourcesIfApplicable r w1" "view w1 = view w"
  proof (cases "fmlookup (cluNamespaces (view w)) (NamespacedName '''' (nnNamespace req))")
    case None
    from kind_api.get_missing [OF api_namespaces [OF assms(1)] None] that show ?thesis by (auto simp: Reconcile_def)
  next
    case (Some ns)
    obtain w1 where w1: "kget (kNamespaces (Client r)) (NamespacedName '''' (nnNamespace req)) w = (Inr ns, w1)" "view w1 = view w"
      using kind_api.get_found [OF api_namespaces [OF assms(1)] Some] by blast
    have gone: "mDeletionTimestamp (nsMeta ns) = None" "fmlookup (cluRolloutManagers (view w1)) req = None"
      using assms(4) by (simp_all add: requestGone_def Some w1(2))
    from kind_api.get_missing [OF api_rollout_managers [OF assms(1)] gone(2)] that show ?thesis
      by (auto simp: Reconcile_def w1 gone(1))
  qed
  have "keyed roleMeta (cluClusterRoles (view w1))" "keyed rbMeta (cluClusterRoleBindings (view w1))"
    using assms(2,3) by (simp_all add: w1(2))
  from clusterScopedResources_dropped [OF assms(1) this] show ?thesis
    unfolding w1(2) w1(1) [symmetric] using that by blast
qed

section \<open>The reconcilers in their order\<close>

text \<open>
  The order of the reconcilers as a list. A step gets what the earlier ones found on the cluster:
  the account, the Role or the ClusterRole, and at the end the phase for the status.
\<close>

record found =
  fAccount :: "service_account option"
  fRole :: "role option"
  fClusterRole :: "cluster_role option"
  fResult :: reconcileStatusResult

definition nothingFound :: found where
  "nothingFound = \<lparr>fAccount = None, fRole = None, fClusterRole = None, fResult = zeroResult\<rparr>"

type_synonym 'w step = "found \<Rightarrow> 'w \<Rightarrow> found res \<times> 'w"

definition finding :: "('w \<Rightarrow> 'a res \<times> 'w) \<Rightarrow> ('a \<Rightarrow> found \<Rightarrow> found) \<Rightarrow> 'w step" where
  "finding run put x w = andThen (run w) (\<lambda>a w1. (Ok (put a x), w1))"

definition acting :: "('w \<Rightarrow> unit res \<times> 'w) \<Rightarrow> 'w step" where
  "acting run = finding run (\<lambda>_ x. x)"

definition steps :: "'w reconciler \<Rightarrow> rollout_manager \<Rightarrow> 'w step list" where
  "steps r cr = [
     finding (reconcileRolloutsServiceAccount r cr) (\<lambda>sa. fAccount_update (\<lambda>_. Some sa)),
     if NamespaceScoped (rmSpec cr) then finding (reconcileRolloutsRole r cr) (\<lambda>role. fRole_update (\<lambda>_. Some role))
     else finding (reconcileRolloutsClusterRole r cr) (\<lambda>role. fClusterRole_update (\<lambda>_. Some role)),
     acting (reconcileRolloutsAggregateToAdminClusterRole r cr),
     acting (reconcileRolloutsAggregateToEditClusterRole r cr),
     acting (reconcileRolloutsAggregateToViewClusterRole r cr),
     if NamespaceScoped (rmSpec cr) then (\<lambda>x. acting (reconcileRolloutsRoleBinding r cr (fRole x) (fAccount x)) x)
     else (\<lambda>x. acting (reconcileRolloutsClusterRoleBinding r (fClusterRole x) (fAccount x) cr) x),
     acting (reconcileRolloutsSecrets r cr),
     acting (reconcileConfigMap r cr),
     (\<lambda>x. acting (reconcileRolloutsDeployment r cr (the (fAccount x))) x),
     acting (reconcileRolloutsMetricsServiceAndMonitor r cr),
     acting (reconcileRolloutsNetworkPolicy r cr),
     finding (determineStatusPhase r cr) (\<lambda>rr. fResult_update (\<lambda>_. rr))]"

fun runSteps :: "'w step list \<Rightarrow> 'w step" where
  "runSteps [] x w = (Ok x, w)"
| "runSteps (s # ss) x w = andThen (s x w) (runSteps ss)"

lemma andThen_assoc: "andThen (andThen m f) g = andThen m (\<lambda>a w. andThen (f a w) g)"
  by (auto simp: andThen_def split: prod.split res.split)

lemma runSteps_append: "runSteps (ss @ ts) x w = andThen (runSteps ss x w) (runSteps ts)"
  by (induction ss arbitrary: x w) (auto simp: andThen_def split: prod.split res.split)

lemma runSteps_error:
  assumes "runSteps ss x w = (Ok y, w1)" "s y w1 = (Err e, w2)"
  shows "runSteps (ss @ s # ts) x w = (Err e, w2)"
  using assms by (simp add: runSteps_append)

lemma orFail_andThen: "orFail (andThen m f) k = orFail m (\<lambda>a w. orFail (f a w) k)"
  by (auto simp: andThen_def orFail_def split: prod.split res.split)

lemma reconcileAccepted_steps:
  "reconcileAccepted r cr w =
     orFail (runSteps (steps r cr) nothingFound w) (\<lambda>x w1. (Ok ((fResult x)\<lparr>rrCondition := createCondition '''' []\<rparr>, None), w1))"
  by (cases "NamespaceScoped (rmSpec cr)")
    (simp_all add: reconcileAccepted_def reconcileAccess_def reconcileWorkload_def reconcileRoles_def reconcileAggregates_def
      reconcileBindings_def steps_def finding_def acting_def orFail_andThen andThen_assoc nothingFound_def)

section \<open>A removal and a run\<close>

text \<open>A removal leaves another RolloutManager ready for a run, but no longer settled.\<close>

lemma tameAt_drop: "tameAt f m k e \<Longrightarrow> tameAt f (fmdrop k' m) k e"
  by (cases "k = k'") (simp_all add: tameAt_def)

lemma ready_after_removal:
  assumes "ready r cr c"
  shows "ready r cr (c\<lparr>cluClusterRoles := fmdrop k1 (fmdrop k2 (fmdrop k3 (fmdrop k4 (cluClusterRoles c)))),
     cluClusterRoleBindings := fmdrop k5 (cluClusterRoleBindings c)\<rparr>)" (is "ready r cr ?c")
proof -
  have "workloadReady r cr ?c = workloadReady r cr c" by (simp add: workloadReady_def configReady_def)
  moreover have "accessReady cr ?c"
    using assms by (cases "NamespaceScoped (rmSpec cr)")
      (simp_all add: ready_def accessReady_def rolesReady_def bindingsReady_def aggregatesReady_def tameAt_drop)
  ultimately show ?thesis using assms by (simp add: ready_def)
qed

lemma removal_then_run:
  assumes "conforming view r" "supported r cr" "admissible r cr (view w)" "ready r cr (view w)" "keyedCluster (view w)"
    and "fmlookup (cluNamespaces (view w)) (NamespacedName '''' (crNamespace cr)) = Some ns" "mDeletionTimestamp (nsMeta ns) = None"
    and "fmlookup (cluRolloutManagers (view w)) (metaKey (rmMeta cr)) = Some cr" "requestGone gone (view w)"
  shows "\<exists>w1 w2. Reconcile r now gone w = (Ok (), w1) \<and> Reconcile r now (metaKey (rmMeta cr)) w1 = (Ok (), w2) \<and>
    settled r cr (view w2)"
proof -
  have api: "cluster_api view (Client r)" using assms(1) by (simp add: conforming_def)
  have keyed: "keyed roleMeta (cluClusterRoles (view w))" "keyed rbMeta (cluClusterRoleBindings (view w))"
    using assms(5) by (simp_all add: keyedCluster_def keyedAccess_def)
  obtain w1 where w1: "Reconcile r now gone w = (Ok (), w1)" "view w1 = (view w)\<lparr>
      cluClusterRoles := fmdrop (aggregateKey ''aggregate-to-view'') (fmdrop (aggregateKey ''aggregate-to-edit'')
        (fmdrop (aggregateKey ''aggregate-to-admin'') (fmdrop clusterKey (cluClusterRoles (view w))))),
      cluClusterRoleBindings := fmdrop clusterKey (cluClusterRoleBindings (view w))\<rparr>"
    by (rule removal_run [OF api keyed assms(9)])
  have "admissible r cr (view w1)" using assms(3) by (simp add: admissible_def w1(2))
  moreover have "ready r cr (view w1)" unfolding w1(2) by (rule ready_after_removal [OF assms(4)])
  moreover have "keyedCluster (view w1)" 
    using assms(5) by (simp add: w1(2) keyedCluster_def keyedAccess_def keyedWorkload_def keyed_drop)
  ultimately obtain c w2 where "Reconcile r now (metaKey (rmMeta cr)) w1 = (Ok (), w2)" "settled r cr c"
    "view w2 = cluRolloutManagers_update (fmupd (metaKey (rmMeta cr))
       (cr\<lparr>rmStatus := requestedStatus now (successResult cr c) (rmStatus cr)\<rparr>)) c"
    by (rule reconcile_settles [where w = w1 and view = view and now = now and ns = ns, OF assms(1,2)])
      (use assms(6-8) in \<open>simp_all add: w1(2)\<close>)
  moreover have "settled r cr (view w2) = settled r cr c" unfolding calculation(3) by (rule request_frame; simp)
  ultimately show ?thesis using w1(1) by blast
qed

lemma run_then_removal:
  assumes "conforming view r" "supported r cr" "admissible r cr (view w)" "ready r cr (view w)" "keyedCluster (view w)"
    and "fmlookup (cluNamespaces (view w)) (NamespacedName '''' (crNamespace cr)) = Some ns" "mDeletionTimestamp (nsMeta ns) = None"
    and "fmlookup (cluRolloutManagers (view w)) (metaKey (rmMeta cr)) = Some cr"
    and "NamespaceScoped (rmSpec cr)" "requestGone gone (view w)"
  shows "\<exists>w1 w2. Reconcile r now (metaKey (rmMeta cr)) w = (Ok (), w1) \<and> settled r cr (view w1) \<and>
      Reconcile r now gone w1 = (Ok (), w2) \<and> \<not> settled r cr (view w2) \<and>
      view w2 = (view w1)\<lparr>cluClusterRoles := cluClusterRoles (view w2)\<rparr> \<and>
      (\<forall>k role. fmlookup (cluClusterRoles (view w1)) k = Some role \<and> fmlookup (cluClusterRoles (view w2)) k \<noteq> Some role \<longrightarrow>
         fmlookup (cluClusterRoles (view w2)) k = None \<and>
         (\<forall>crdExists event w3. watchRequests crdExists r WClusterRole event (roleMeta role) w3 = ([], w3)))"
proof -
  have api: "cluster_api view (Client r)" using assms(1) by (simp add: conforming_def)
  obtain c w1 where w1: "Reconcile r now (metaKey (rmMeta cr)) w = (Ok (), w1)" "settled r cr c" "keyedCluster c"
    "requestPart c = requestPart (view w)"
    "view w1 = cluRolloutManagers_update (fmupd (metaKey (rmMeta cr))
       (cr\<lparr>rmStatus := requestedStatus now (successResult cr c) (rmStatus cr)\<rparr>)) c"
    by (rule reconcile_settles [where view = view and w = w and now = now, OF assms(1-8)])
  have s: "settled r cr (view w1) = settled r cr c" unfolding w1(5) by (rule request_frame; simp)
  have keyed: "keyed roleMeta (cluClusterRoles (view w1))" "keyed rbMeta (cluClusterRoleBindings (view w1))"
    using w1(3) by (simp_all add: keyedCluster_def keyedAccess_def w1(5))
  have "gone \<noteq> metaKey (rmMeta cr)" using assms(6-8,10) by (auto simp: requestGone_def metaKey_def)
  then have "requestGone gone (view w1)" using assms(10) w1(4) by (simp add: requestGone_def part_defs w1(5) cong: option.case_cong)
  from removal_run [OF api keyed this]
  obtain w2 where w2: "Reconcile r now gone w1 = (Ok (), w2)" "view w2 = (view w1)\<lparr>
      cluClusterRoles := fmdrop (aggregateKey ''aggregate-to-view'') (fmdrop (aggregateKey ''aggregate-to-edit'')
        (fmdrop (aggregateKey ''aggregate-to-admin'') (fmdrop clusterKey (cluClusterRoles (view w1))))),
      cluClusterRoleBindings := fmdrop clusterKey (cluClusterRoleBindings (view w1))\<rparr>" by metis
  have none: "fmlookup (cluClusterRoles (view w1)) clusterKey = None" "fmlookup (cluClusterRoleBindings (view w1)) clusterKey = None"
    using w1(2) s assms(9) by (simp_all add: settled_def accessSettled_def rolesSettled_def bindingsSettled_def)
  have "\<not> settled r cr (view w2)"
    by (simp add: settled_def accessSettled_def aggregatesSettled_def settledAt_def w2(2))
  moreover have "fmdrop clusterKey (cluClusterRoleBindings (view w1)) = cluClusterRoleBindings (view w1)"
    using none(2) by (intro fmap_ext) auto
  then have "view w2 = (view w1)\<lparr>cluClusterRoles := cluClusterRoles (view w2)\<rparr>" by (simp add: w2(2))
  moreover have "fmlookup (cluClusterRoles (view w2)) k = None \<and> (\<forall>crdExists event w3. watchRequests crdExists r WClusterRole event (roleMeta role) w3 = ([], w3))"
    if "fmlookup (cluClusterRoles (view w1)) k = Some role" "fmlookup (cluClusterRoles (view w2)) k \<noteq> Some role" for k role
  proof -
    have "mName (roleMeta role) = nnName k" using keyedD [OF keyed(1) that(1)] by (auto simp: metaKey_def)
    moreover have "k \<noteq> clusterKey" using that(1) none(1) by auto
    ultimately show ?thesis using that(2) by (auto simp: w2(2) watchRequests_def aggregateRoleName_def that(1) split: if_splits)
  qed
  ultimately show ?thesis using w1(1,2) s w2(1) by blast
qed

section \<open>Properties\<close>

text \<open>
  C1: Convergence: for a resource that is admitted and supported, in a namespace that exists and
  is not going away, on a conforming client, one \<open>Reconcile\<close> succeeds, leaves every object
  of the resource as it is wanted and a status that says so, with the phase of the Deployment;
  and the next one changes nothing at all.
\<close>

theorem reconcile_converges:
  assumes "conforming view r" "supported r cr" "admissible r cr (view w)" "ready r cr (view w)" "keyedCluster (view w)"
    and "fmlookup (cluNamespaces (view w)) (NamespacedName '''' (crNamespace cr)) = Some ns" "mDeletionTimestamp (nsMeta ns) = None"
    and "fmlookup (cluRolloutManagers (view w)) (metaKey (rmMeta cr)) = Some cr"
  shows "\<exists>w1. Reconcile r now (metaKey (rmMeta cr)) w = (Ok (), w1) \<and>
    settled r cr (view w1) \<and> statusCurrent cr (view w1) \<and>
    (\<exists>w2. Reconcile r now' (metaKey (rmMeta cr)) w1 = (Ok (), w2) \<and> view w2 = view w1)"
proof -
  obtain c w1 where w1: "Reconcile r now (metaKey (rmMeta cr)) w = (Ok (), w1)" "settled r cr c" "keyedCluster c"
    "requestPart c = requestPart (view w)"
    "view w1 = cluRolloutManagers_update (fmupd (metaKey (rmMeta cr))
       (cr\<lparr>rmStatus := requestedStatus now (successResult cr c) (rmStatus cr)\<rparr>)) c"
    by (rule reconcile_settles [where view = view and w = w and now = now, OF assms])
  let ?cr = "cr\<lparr>rmStatus := requestedStatus now (successResult cr c) (rmStatus cr)\<rparr>"
  have "settled r cr (view w1) = settled r cr c" "keyedCluster (view w1) = keyedCluster c"
    unfolding w1(5) by (rule request_frame; simp)+
  then have s: "settled r cr (view w1)" "keyedCluster (view w1)" using w1(2,3) by simp_all
  have ns: "cluNamespaces (view w1) = cluNamespaces (view w)" "cluRolloutManagers c = cluRolloutManagers (view w)"
    using w1(4) by (simp_all add: part_defs w1(5))
  obtain d where d: "fmlookup (cluDeployments c) (rolloutsKey cr) = Some d" using settled_deployment [OF w1(2)] by blast
  have current: "statusCurrent cr (view w1)"
    using requested_current [OF refl d refl, of now] d by (simp add: statusCurrent_def w1(5))
  have "\<exists>w2. Reconcile r now' (metaKey (rmMeta ?cr)) w1 = (Ok (), w2) \<and> view w2 = view w1"
  proof (rule reconcile_settled [OF assms(1)])
    show "supported r ?cr" "settled r ?cr (view w1)" "keyedCluster (view w1)" using assms(2) s by simp_all
    show "admissible r ?cr (view w1)"
    proof -
      have "admissible r cr c" using assms(3) ns(2) by (simp add: admissible_def)
      from admissible_again [OF this refl] show ?thesis by (simp add: w1(5))
    qed
    show "fmlookup (cluNamespaces (view w1)) (NamespacedName '''' (crNamespace ?cr)) = Some ns" using assms(6) by (simp add: ns)
    show "mDeletionTimestamp (nsMeta ns) = None" by (rule assms(7))
    show "fmlookup (cluRolloutManagers (view w1)) (metaKey (rmMeta ?cr)) = Some ?cr" by (simp add: w1(5))
    have "successResult ?cr (view w1) = successResult ?cr c"
      by (rule request_frame(3)) (simp_all add: w1(5))
    then show "requestedStatus now' (successResult ?cr (view w1)) (rmStatus ?cr) = rmStatus ?cr"
      using successResult_again [where c = c and cr = cr and now = now and now' = now', OF refl refl] by simp
  qed
  with w1(1) s(1) current show ?thesis by auto
qed

text \<open>A cluster with a namespace and a resource in it, and nothing else.\<close>

definition freshCluster :: "rollout_manager \<Rightarrow> cluster" where
  "freshCluster cr = emptyCluster\<lparr>
     cluNamespaces := fmap_of_list [(NamespacedName '''' (crNamespace cr), \<lparr>nsMeta = newMeta (crNamespace cr) ''''\<rparr>)],
     cluRolloutManagers := fmap_of_list [(metaKey (rmMeta cr), cr)]\<rparr>"

lemma generated_codec:
  obtains d where "generateDesiredRolloutsDeployment codecPlatform (basicRolloutManager n ns b) sa = Inr d"
proof -
  have "\<exists>c. rolloutsContainer codecPlatform (basicRolloutManager n ns b) = Inr c"
    by (simp add: rolloutsContainer_def getRolloutsCommandArgs_def getRolloutsContainerImage_def
        getImagePullPolicy_def emptyPlatform_def codecPlatform_def basicRolloutManager_def Let_def)
  then show ?thesis using that by (auto simp: generateDesiredRolloutsDeployment_def Let_def)
qed

lemma fresh_ready:
  "ready (codecReconciler b) cr (freshCluster cr)" "keyedCluster (freshCluster cr)"
  by (simp_all add: freshCluster_def emptyCluster_def ready_def accessReady_def rolesReady_def bindingsReady_def
      aggregatesReady_def workloadReady_def configReady_def tameAt_def keyedCluster_def keyedAccess_def keyedWorkload_def)

lemma supported_basic [simp]: "supported (codecReconciler b) (basicRolloutManager n ns b')"
proof -
  obtain d where "generateDesiredRolloutsDeployment codecPlatform (basicRolloutManager n ns b')
      (expectedServiceAccount (basicRolloutManager n ns b')) = Inr d"
    by (rule generated_codec)
  moreover have "NodePlacement (rmSpec (basicRolloutManager n ns b')) = None"
    "ControllerResources (rmSpec (basicRolloutManager n ns b')) = None" "extraAnnotations (basicRolloutManager n ns b') = fmempty"
    by (simp_all add: basicRolloutManager_def extraAnnotations_def)
  ultimately show ?thesis by (simp add: supported_def managedCustomLabels_def wireSafe_def)
qed

theorem reconcile_converges_witness:
  "\<exists>w1. Reconcile (codecReconciler True) 5 (NamespacedName ''ns'' ''rm'') (freshCluster (basicRolloutManager ''rm'' ''ns'' True)) = (Ok (), w1) \<and>
     settled (codecReconciler True) (basicRolloutManager ''rm'' ''ns'' True) w1 \<and>
     Reconcile (codecReconciler True) 9 (NamespacedName ''ns'' ''rm'') w1 = (Ok (), w1)"
proof -
  let ?cr = "basicRolloutManager ''rm'' ''ns'' True" and ?r = "codecReconciler True"
  let ?ns = "\<lparr>nsMeta = newMeta ''ns'' ''''\<rparr>"
  have c: "conforming (\<lambda>c. c) ?r" by (simp add: conforming_def mem_cluster_api)
  have a: "admissible ?r ?cr (freshCluster ?cr)" by (simp add: admissible_def admitScope_eq)
  have n: "fmlookup (cluNamespaces (freshCluster ?cr)) (NamespacedName '''' (crNamespace ?cr)) = Some ?ns"
    "mDeletionTimestamp (nsMeta ?ns) = None" "fmlookup (cluRolloutManagers (freshCluster ?cr)) (metaKey (rmMeta ?cr)) = Some ?cr"
    by (simp_all add: freshCluster_def newMeta_def)
  have k: "metaKey (rmMeta ?cr) = NamespacedName ''ns'' ''rm''" by (simp add: metaKey_def)
  from reconcile_converges [where view = "\<lambda>c. c" and w = "freshCluster ?cr" and now = 5 and now' = 9,
      OF c supported_basic a fresh_ready n]
  show ?thesis unfolding k by blast
qed

text \<open>
  C2: A resource that is not admitted, because its scope or its namespace does not fit the
  operator or because another cluster-scoped RolloutManager exists, gets its status and nothing
  else: of all objects on the cluster only its own changes, to phase Failure with a condition that
  is False, and the run is not reported as an error, so that it is not tried again.
\<close>

theorem rejected_changes_only_status:
  assumes "cluster_api view (Client r)" "\<not> admissible r cr (view w)"
    and "fmlookup (cluNamespaces (view w)) (NamespacedName '''' (crNamespace cr)) = Some ns" "mDeletionTimestamp (nsMeta ns) = None"
    and "fmlookup (cluRolloutManagers (view w)) (metaKey (rmMeta cr)) = Some cr"
  shows "\<exists>st w1. Reconcile r now (metaKey (rmMeta cr)) w = (Ok (), w1) \<and>
    view w1 = cluRolloutManagers_update (fmupd (metaKey (rmMeta cr)) (cr\<lparr>rmStatus := st\<rparr>)) (view w) \<and>
    stPhase st = ''Failure'' \<and> stRolloutController st = ''Failure'' \<and>
    (\<exists>cond. conditionOf ''Reconciled'' (stConditions st) = Some cond \<and> cdStatus cond = ''False'')"
proof -
  have ns: "fmlookup (cluNamespaces (view w)) (NamespacedName '''' (nnNamespace (metaKey (rmMeta cr)))) = Some ns"
    using assms(3) by (simp add: metaKey_def)
  obtain w0 where w0: "view w0 = view w" and run: "Reconcile r now (metaKey (rmMeta cr)) w =
    (case reconcileRolloutsManager r cr w0 of
       (Panic p, w3) \<Rightarrow> (Panic p, w3)
     | (Err err, w3) \<Rightarrow> (Err err, w3)
     | (Ok (result, reconcileErr), w3) \<Rightarrow>
         andThen (updateStatusConditionOfRolloutManager now result cr (Client r) w3) (\<lambda>_ w4.
           (case reconcileErr of Some err \<Rightarrow> (Err err, w4) | None \<Rightarrow> (Ok (), w4))))"
    by (rule reconcile_found [OF assms(1) ns assms(4,5)])
  obtain rr w1 where rr: "reconcileRolloutsManager r cr w0 = (Ok (rr, None), w1)" "view w1 = view w"
    "rejectedResult rr"
    by (rule rejected_run [where view = view and w = w0 and cr = cr, OF assms(1)]) (use assms(2) in \<open>simp_all add: w0\<close>)
  have "fmlookup (cluRolloutManagers (view w1)) (metaKey (rmMeta cr)) = Some cr" using assms(5) by (simp add: rr(2))
  from status_stored [where view = view, OF assms(1) this, of now rr]
  obtain w2 where w2: "updateStatusConditionOfRolloutManager now rr cr (Client r) w1 = (Ok (), w2)"
    "view w2 = cluRolloutManagers_update (fmupd (metaKey (rmMeta cr))
       (cr\<lparr>rmStatus := requestedStatus now rr (rmStatus cr)\<rparr>)) (view w1)" by metis
  show ?thesis
    using w2 rr(2) rejected_status [OF rr(3), of now "rmStatus cr"] by (auto simp: run rr(1))
qed

theorem rejected_changes_only_status_witness:
  "\<exists>st. Reconcile (codecReconciler False) 5 (NamespacedName ''ns'' ''rm'') (freshCluster (basicRolloutManager ''rm'' ''ns'' True)) =
     (Ok (), cluRolloutManagers_update (fmupd (NamespacedName ''ns'' ''rm'') ((basicRolloutManager ''rm'' ''ns'' True)\<lparr>rmStatus := st\<rparr>))
        (freshCluster (basicRolloutManager ''rm'' ''ns'' True))) \<and> stPhase st = ''Failure''"
proof -
  let ?cr = "basicRolloutManager ''rm'' ''ns'' True" and ?r = "codecReconciler False"
  let ?ns = "\<lparr>nsMeta = newMeta ''ns'' ''''\<rparr>"
  have c: "cluster_api (\<lambda>c. c) (Client ?r)" by (simp add: mem_cluster_api)
  have a: "\<not> admissible ?r ?cr (freshCluster ?cr)" by (simp add: admissible_def admitScope_eq)
  have n: "fmlookup (cluNamespaces (freshCluster ?cr)) (NamespacedName '''' (crNamespace ?cr)) = Some ?ns"
    "mDeletionTimestamp (nsMeta ?ns) = None" "fmlookup (cluRolloutManagers (freshCluster ?cr)) (metaKey (rmMeta ?cr)) = Some ?cr"
    by (simp_all add: freshCluster_def newMeta_def)
  have k: "metaKey (rmMeta ?cr) = NamespacedName ''ns'' ''rm''" by (simp add: metaKey_def)
  from rejected_changes_only_status [where view = "\<lambda>c. c" and w = "freshCluster ?cr" and now = 5, OF c a n]
  show ?thesis unfolding k by blast
qed

text \<open>
  C7: An error of any reconciler ends the run where it happens. In the list of the reconcilers in
  their order, when all before one have succeeded and that one returns an error, no client call
  follows but the one that writes the status, with a condition that is False, has reason
  ErrorOccurred and the text of the error, and leaves the phases alone; then \<open>Reconcile\<close>
  returns the error, so that the request is tried again.
\<close>

theorem step_error_reported:
  assumes "kget (kNamespaces (Client r)) (NamespacedName '''' (nnNamespace req)) w = (Inr ns, w1)"
    and "mDeletionTimestamp (nsMeta ns) = None" and "kget (kRolloutManagers (Client r)) req w1 = (Inr cr, w2)"
    and "admitScope r cr = Accepted" "admitSingle r cr w2 = (Accepted, w3)"
    and "steps r cr = before @ step # after" "runSteps before nothingFound w3 = (Ok x, w4)" "step x w4 = (Err e, w5)"
    and "errText e \<noteq> ''''"
  shows "Reconcile r now req w =
    andThen (updateStatusConditionOfRolloutManager now (zeroResult\<lparr>rrCondition := zeroCondition\<lparr>cdType := ''Reconciled'',
        cdStatus := ''False'', cdReason := ''ErrorOccurred'', cdMessage := errText e\<rparr>\<rparr>) cr (Client r) w5)
      (\<lambda>_ w6. (Err e, w6))"
proof -
  have "reconcileRolloutsManager r cr w2 = (Ok (failWith e), w5)"
    using assms(4,5) by (simp add: reconcileRolloutsManager_def ofAdmission_def reconcileAccepted_steps orFail_def
        assms(6) runSteps_error [where s = step, OF assms(7,8)])
  moreover have "fst (failWith e) = zeroResult\<lparr>rrCondition := zeroCondition\<lparr>cdType := ''Reconciled'',
        cdStatus := ''False'', cdReason := ''ErrorOccurred'', cdMessage := errText e\<rparr>\<rparr>" "snd (failWith e) = Some e"
    using assms(9) by (simp_all add: failWith_def wrapCondition_def zeroResult_def zeroCondition_def createCondition_def
        RolloutManagerConditionType_def RolloutManagerReasonErrorOccurred_def ConditionFalse_def)
  ultimately show ?thesis
    by (cases "failWith e") (simp add: Reconcile_def assms(1-3))
qed

text \<open>A server that answers every read of a ServiceAccount with an error.\<close>

definition forbidden :: go_error where
  "forbidden = GoError ''forbidden'' OtherReason"

definition forbiddingReconciler :: "cluster reconciler" where
  "forbiddingReconciler = (codecReconciler True)\<lparr>Client := mem_client\<lparr>kServiceAccounts :=
     (kServiceAccounts mem_client)\<lparr>kget := (\<lambda>k c. (Inl forbidden, c))\<rparr>\<rparr>\<rparr>"

theorem step_error_reported_witness:
  "\<exists>e c. Reconcile forbiddingReconciler 5 (NamespacedName ''ns'' ''rm'') (freshCluster (basicRolloutManager ''rm'' ''ns'' True)) = (Err e, c) \<and>
     (\<exists>x. fmlookup (cluRolloutManagers c) (NamespacedName ''ns'' ''rm'') = Some x \<and> map cdMessage (stConditions (rmStatus x)) = [errText e])"
proof -
  let ?cr = "basicRolloutManager ''rm'' ''ns'' True" and ?r = forbiddingReconciler
  let ?c = "freshCluster ?cr" and ?ns = "\<lparr>nsMeta = newMeta ''ns'' ''''\<rparr>"
  define e where "e = errorf_w (''failed to get the ServiceAccount associated with '' @ DefaultArgoRolloutsResourceName @ '': '') forbidden"
  have e: "errText e \<noteq> ''''" by (simp add: e_def errorf_w_def)
  have k: "metaKey (rmMeta ?cr) = NamespacedName ''ns'' ''rm''" by (simp add: metaKey_def)
  have get: "kget (kNamespaces (Client ?r)) (NamespacedName '''' (nnNamespace (NamespacedName ''ns'' ''rm''))) ?c = (Inr ?ns, ?c)"
    "mDeletionTimestamp (nsMeta ?ns) = None" "kget (kRolloutManagers (Client ?r)) (NamespacedName ''ns'' ''rm'') ?c = (Inr ?cr, ?c)"
    by (simp_all add: forbiddingReconciler_def mem_client_def mem_ops_def freshCluster_def k)
  have admit: "admitScope ?r ?cr = Accepted" "admitSingle ?r ?cr ?c = (Accepted, ?c)"
    by (simp_all add: admitScope_eq admitSingle_eq forbiddingReconciler_def)
  have first: "steps ?r ?cr = [] @ hd (steps ?r ?cr) # tl (steps ?r ?cr)" by (simp add: steps_def)
  have fails: "hd (steps ?r ?cr) nothingFound ?c = (Err e, ?c)"
    by (simp add: steps_def finding_def andThen_simps reconcileRolloutsServiceAccount_def forbiddingReconciler_def Let_def
        forbidden_def e_def)
  note run = step_error_reported [where now = 5, OF get admit first runSteps.simps(1) fails e]
  have u: "kStatusUpdate (Client ?r) x ?c = (Inr (?cr\<lparr>rmStatus := rmStatus x\<rparr>),
      cluRolloutManagers_update (fmupd (NamespacedName ''ns'' ''rm'') (?cr\<lparr>rmStatus := rmStatus x\<rparr>)) ?c)"
    if "metaKey (rmMeta x) = NamespacedName ''ns'' ''rm''" for x
    by (simp add: forbiddingReconciler_def mem_client_def mem_status_update_def freshCluster_def that k)
  have s: "stConditions (rmStatus ?cr) = []" by (simp add: basicRolloutManager_def)
  show ?thesis
    unfolding run
    by (simp add: updateStatusConditionOfRolloutManager_def u k s insertOrUpdateConditionsInSlice_def zeroResult_def
        lift_def discard_def)
qed

text \<open>
  C9: When the namespace of a request or its resource is gone, \<open>Reconcile\<close> deletes the
  ClusterRole of the operator, its three aggregated ClusterRoles and its ClusterRoleBinding, as
  far as they exist, and nothing else on the cluster.
\<close>

theorem removal_cleans_cluster_scope:
  assumes "cluster_api view (Client r)" "keyed roleMeta (cluClusterRoles (view w))" "keyed rbMeta (cluClusterRoleBindings (view w))"
    and "requestGone req (view w)"
  shows "\<exists>w'. Reconcile r now req w = (Ok (), w') \<and>
    view w' = (view w)\<lparr>
      cluClusterRoles := fmfilter (\<lambda>k. k \<notin> NamespacedName '''' ` {''argo-rollouts'', ''argo-rollouts-aggregate-to-admin'',
        ''argo-rollouts-aggregate-to-edit'', ''argo-rollouts-aggregate-to-view''}) (cluClusterRoles (view w)),
      cluClusterRoleBindings := fmdrop (NamespacedName '''' ''argo-rollouts'') (cluClusterRoleBindings (view w))\<rparr>"
proof -
  obtain w' where w': "Reconcile r now req w = (Ok (), w')" "view w' = (view w)\<lparr>
      cluClusterRoles := fmdrop (aggregateKey ''aggregate-to-view'') (fmdrop (aggregateKey ''aggregate-to-edit'')
        (fmdrop (aggregateKey ''aggregate-to-admin'') (fmdrop clusterKey (cluClusterRoles (view w))))),
      cluClusterRoleBindings := fmdrop clusterKey (cluClusterRoleBindings (view w))\<rparr>"
    by (rule removal_run [OF assms])
  have "fmdrop (aggregateKey ''aggregate-to-view'') (fmdrop (aggregateKey ''aggregate-to-edit'')
        (fmdrop (aggregateKey ''aggregate-to-admin'') (fmdrop clusterKey m))) =
      fmfilter (\<lambda>k. k \<notin> NamespacedName '''' ` {''argo-rollouts'', ''argo-rollouts-aggregate-to-admin'',
        ''argo-rollouts-aggregate-to-edit'', ''argo-rollouts-aggregate-to-view''}) m" for m :: "(namespaced_name, role) fmap"
    by (rule fmap_ext) (auto simp: aggregateRoleName_def DefaultArgoRolloutsResourceName_def)
  with w' show ?thesis by (simp add: DefaultArgoRolloutsResourceName_def)
qed

theorem removal_cleans_cluster_scope_witness:
  "\<exists>w'. Reconcile (memReconciler False) 5 (NamespacedName ''ns'' ''rm'')
      (emptyCluster\<lparr>cluClusterRoles := fmap_of_list [(clusterKey, expectedClusterRole (basicRolloutManager ''rm'' ''ns'' False))]\<rparr>) =
    (Ok (), w') \<and> fmlookup (cluClusterRoles w') clusterKey = None"
proof -
  let ?c = "emptyCluster\<lparr>cluClusterRoles := fmap_of_list [(clusterKey, expectedClusterRole (basicRolloutManager ''rm'' ''ns'' False))]\<rparr>"
  have api: "cluster_api (\<lambda>c. c) (Client (memReconciler False))" by (simp add: memReconciler_def mem_cluster_api)
  have k: "keyed roleMeta (cluClusterRoles ?c)" "keyed rbMeta (cluClusterRoleBindings ?c)"
    by (auto simp: emptyCluster_def expectedClusterRole_def)
  have g: "requestGone (NamespacedName ''ns'' ''rm'') ?c" by (simp add: requestGone_def emptyCluster_def)
  from removal_cleans_cluster_scope [where view = "\<lambda>c. c" and w = ?c and now = 5, OF api k g]
  show ?thesis by (auto simp: DefaultArgoRolloutsResourceName_def)
qed

text \<open>
  C10: The removal takes the aggregated ClusterRoles away from every other RolloutManager too, and
  the order of the requests decides whether they come back. When one RolloutManager is gone and
  another, namespace-scoped one is there, the request of the first followed by that of the second
  leaves the second with all its objects. The other order leaves it without its aggregated
  ClusterRoles: these are all that the removal deletes, and no event on one of them, whatever the
  world has become, leads to a request that would bring them back.
\<close>

theorem removal_unsettles_others:
  assumes "conforming view r" "supported r cr" "admissible r cr (view w)" "ready r cr (view w)" "keyedCluster (view w)"
    and "fmlookup (cluNamespaces (view w)) (NamespacedName '''' (crNamespace cr)) = Some ns" "mDeletionTimestamp (nsMeta ns) = None"
    and "fmlookup (cluRolloutManagers (view w)) (metaKey (rmMeta cr)) = Some cr"
    and "NamespaceScoped (rmSpec cr)" "requestGone gone (view w)"
  shows "(\<exists>w1 w2. Reconcile r now gone w = (Ok (), w1) \<and> Reconcile r now (metaKey (rmMeta cr)) w1 = (Ok (), w2) \<and>
      settled r cr (view w2)) \<and>
    (\<exists>w1 w2. Reconcile r now (metaKey (rmMeta cr)) w = (Ok (), w1) \<and> settled r cr (view w1) \<and>
      Reconcile r now gone w1 = (Ok (), w2) \<and> \<not> settled r cr (view w2) \<and>
      view w2 = (view w1)\<lparr>cluClusterRoles := cluClusterRoles (view w2)\<rparr> \<and>
      (\<forall>k role. fmlookup (cluClusterRoles (view w1)) k = Some role \<and> fmlookup (cluClusterRoles (view w2)) k \<noteq> Some role \<longrightarrow>
         fmlookup (cluClusterRoles (view w2)) k = None \<and>
         (\<forall>crdExists event w3. watchRequests crdExists r WClusterRole event (roleMeta role) w3 = ([], w3))))"
  using removal_then_run [where now = now, OF assms(1-8,10)] run_then_removal [where now = now, OF assms] by blast

theorem removal_unsettles_others_witness:
  "\<exists>w1 w2. Reconcile (codecReconciler True) 5 (NamespacedName ''ns'' ''rm'') (freshCluster (basicRolloutManager ''rm'' ''ns'' True)) = (Ok (), w1) \<and>
     Reconcile (codecReconciler True) 5 (NamespacedName ''ns'' ''gone'') w1 = (Ok (), w2) \<and>
     \<not> settled (codecReconciler True) (basicRolloutManager ''rm'' ''ns'' True) w2"
proof -
  let ?cr = "basicRolloutManager ''rm'' ''ns'' True" and ?r = "codecReconciler True"
  let ?c = "freshCluster ?cr" and ?ns = "\<lparr>nsMeta = newMeta ''ns'' ''''\<rparr>"
  have c: "conforming (\<lambda>c. c) ?r" by (simp add: conforming_def mem_cluster_api)
  have a: "admissible ?r ?cr ?c" by (simp add: admissible_def admitScope_eq)
  have n: "fmlookup (cluNamespaces ?c) (NamespacedName '''' (crNamespace ?cr)) = Some ?ns"
    "mDeletionTimestamp (nsMeta ?ns) = None" "fmlookup (cluRolloutManagers ?c) (metaKey (rmMeta ?cr)) = Some ?cr"
    "NamespaceScoped (rmSpec ?cr)"
    by (simp_all add: freshCluster_def newMeta_def)
  have g: "requestGone (NamespacedName ''ns'' ''gone'') ?c"
    by (simp add: requestGone_def freshCluster_def metaKey_def newMeta_def)
  have k: "metaKey (rmMeta ?cr) = NamespacedName ''ns'' ''rm''" by (simp add: metaKey_def)
  from removal_unsettles_others [where view = "\<lambda>c. c" and w = ?c and now = 5, OF c supported_basic a fresh_ready n g]
  show ?thesis unfolding k by blast
qed

text \<open>
  C8: A change of a RolloutManager, except an update that leaves the generation as it was, leads
  to a request for every RolloutManager of the cluster, itself included even when it was deleted;
  a change of the ClusterRole of the operator leads to a request for every one of them, and a change
  of another ClusterRole to none.
\<close>

theorem change_reaches_all:
  assumes "cluster_api view (Client r)" "keyed rmMeta (cluRolloutManagers (view w))"
  shows "set (fst (watchRequests b r WRolloutManager event obj w)) =
      (if event = UpdateEvent False then {metaKey obj} else insert (metaKey obj) (fmdom' (cluRolloutManagers (view w)))) \<and>
    set (fst (watchRequests b r WClusterRole event' obj w)) =
      (if mName obj = ''argo-rollouts'' then fmdom' (cluRolloutManagers (view w)) else {})"
proof -
  obtain xs w1 where xs: "klist (kRolloutManagers (Client r)) None None w = (Inr xs, w1)"
    "set xs = {x. \<exists>k. fmlookup (cluRolloutManagers (view w)) k = Some x}"
    using kind_api.list_all [OF api_rollout_managers [OF assms(1)], where ns = None and sel = None and w = w] by auto
  have keys: "(\<lambda>x. metaKey (rmMeta x)) ` set xs = fmdom' (cluRolloutManagers (view w))"
    using keyedD [OF assms(2)] by (fastforce simp: xs(2) fmlookup_dom'_iff)
  have same: "crName x = mName obj \<and> crNamespace x = mNamespace obj \<longleftrightarrow> metaKey (rmMeta x) = metaKey obj" for x
    by (auto simp: metaKey_def)
  have "insert (metaKey obj) ((\<lambda>x. metaKey (rmMeta x)) ` {x \<in> set xs. metaKey (rmMeta x) \<noteq> metaKey obj}) =
      insert (metaKey obj) (fmdom' (cluRolloutManagers (view w)))"
    unfolding keys [symmetric] by auto
  moreover have "(generationChanged event \<or> createdOrDeletedPredicate event) \<longleftrightarrow> event \<noteq> UpdateEvent False"
    by (cases event) auto
  ultimately show ?thesis
    using keys by (simp add: watchRequests_def enqueueOtherRolloutManagersExceptObj_def enqueueAllRolloutManagers_def xs(1)
        same DefaultArgoRolloutsResourceName_def)
qed

theorem change_reaches_all_witness:
  "set (fst (watchRequests False (memReconciler True) WRolloutManager DeleteEvent (newMeta ''gone'' ''ns'')
     (freshCluster (basicRolloutManager ''rm'' ''ns'' True)))) = {NamespacedName ''ns'' ''gone'', NamespacedName ''ns'' ''rm''}"
proof -
  let ?c = "freshCluster (basicRolloutManager ''rm'' ''ns'' True)"
  have api: "cluster_api (\<lambda>c. c) (Client (memReconciler True))" by (simp add: memReconciler_def mem_cluster_api)
  have k: "keyed rmMeta (cluRolloutManagers ?c)" by (auto simp: freshCluster_def)
  from change_reaches_all [where view = "\<lambda>c. c" and w = ?c and event = DeleteEvent and event' = DeleteEvent, OF api k]
  show ?thesis by (simp add: freshCluster_def)
qed

text \<open>
  C40: The test whether ServiceMonitors exist compares the full name of their
  CustomResourceDefinition with names of resources in a group version, which hold no dot; it is
  never True, and a change of a ServiceMonitor leads to no request.
\<close>

theorem service_monitors_never_owned:
  assumes "\<And>serverResources gv names n. discoveryClient = Inr serverResources \<Longrightarrow> serverResources gv = Inr names \<Longrightarrow>
    n \<in> set names \<Longrightarrow> CHR ''.'' \<notin> set n"
  shows "doesCRDExist discoveryClient serviceMonitorsCRDName \<noteq> Inr True \<and>
    (\<forall>crdExists event obj. doesCRDExist discoveryClient serviceMonitorsCRDName = Inr crdExists \<longrightarrow>
       watchRequests crdExists r WServiceMonitor event obj w = ([], w))"
proof -
  have "CHR ''.'' \<in> set serviceMonitorsCRDName" by (simp add: serviceMonitorsCRDName_def)
  then have "\<not> list_ex (\<lambda>name. name = serviceMonitorsCRDName) names"
    if "discoveryClient = Inr serverResources" "serverResources ''monitoring.coreos.com/v1'' = Inr names"
    for serverResources names
    using assms [OF that] by (auto simp: list_ex_iff)
  then have "doesCRDExist discoveryClient serviceMonitorsCRDName \<noteq> Inr True"
    by (auto simp: doesCRDExist_def split: sum.split)
  then show ?thesis by (auto simp: watchRequests_def)
qed

theorem service_monitors_never_owned_witness:
  "doesCRDExist (Inr (\<lambda>_. Inr [''servicemonitors'', ''servicemonitors/status'', ''prometheuses''])) serviceMonitorsCRDName \<noteq> Inr True"
  by (rule service_monitors_never_owned [THEN conjunct1]) auto

end
