(* ===== verification/Confinement.thy ===== *)
theory Confinement
  imports Reconcile
begin

text \<open>
  What a run of \<open>Reconcile\<close> can touch at all, on an API server that may fail, lie or be
  written to by others: no contract is assumed here. The locale lists the calls of the client that
  the controllers make, kind by kind, and a property of the world that each of them keeps is kept
  by every run, however it ends.
\<close>

section \<open>Calls that keep a property of the world\<close>

definition leaves :: "('w \<Rightarrow> bool) \<Rightarrow> 'a \<times> 'w \<Rightarrow> bool" where
  "leaves K r \<longleftrightarrow> K (snd r)"

definition keeps :: "('w \<Rightarrow> bool) \<Rightarrow> ('w \<Rightarrow> 'a \<times> 'w) \<Rightarrow> bool" where
  "keeps K call \<longleftrightarrow> (\<forall>w. K w \<longrightarrow> leaves K (call w))"

lemma keepsD: "keeps K call \<Longrightarrow> K w \<Longrightarrow> leaves K (call w)"
  by (simp add: keeps_def)

lemma leaves_pair [simp]: "leaves K (x, w) \<longleftrightarrow> K w"
  by (simp add: leaves_def)

lemma leaves_sum:
  assumes "leaves K r" "\<And>e w. K w \<Longrightarrow> leaves K (f e w)" "\<And>x w. K w \<Longrightarrow> leaves K (g x w)"
  shows "leaves K (case r of (Inl e, w) \<Rightarrow> f e w | (Inr x, w) \<Rightarrow> g x w)"
  using assms by (auto simp: leaves_def split: prod.split sum.split)

lemma leaves_res:
  assumes "leaves K r" "\<And>x w. K w \<Longrightarrow> leaves K (f x w)" "\<And>e w. K w \<Longrightarrow> leaves K (g e w)"
    "\<And>p w. K w \<Longrightarrow> leaves K (h p w)"
  shows "leaves K (case r of (Ok x, w) \<Rightarrow> f x w | (Err e, w) \<Rightarrow> g e w | (Panic p, w) \<Rightarrow> h p w)"
  using assms by (auto simp: leaves_def split: prod.split res.split)

lemma leaves_andThen:
  "leaves K r \<Longrightarrow> (\<And>x w. K w \<Longrightarrow> leaves K (k x w)) \<Longrightarrow> leaves K (andThen r k)"
  unfolding andThen_def by (rule leaves_res) simp_all

lemma leaves_if: "(b \<Longrightarrow> leaves K x) \<Longrightarrow> (\<not> b \<Longrightarrow> leaves K y) \<Longrightarrow> leaves K (if b then x else y)"
  by simp

lemma leaves_case_sum:
  "(\<And>e. leaves K (f e)) \<Longrightarrow> (\<And>x. leaves K (g x)) \<Longrightarrow> leaves K (case s of Inl e \<Rightarrow> f e | Inr x \<Rightarrow> g x)"
  by (simp split: sum.split)

lemma leaves_case_option:
  "leaves K n \<Longrightarrow> (\<And>x. leaves K (h x)) \<Longrightarrow> leaves K (case opt of None \<Rightarrow> n | Some x \<Rightarrow> h x)"
  by (simp split: option.split)

lemma leaves_wrapped [simp]:
  "leaves K (lift r) = leaves K r" "leaves K (lift_with f r) = leaves K r" "leaves K (discard x) = leaves K x"
  by (auto simp: leaves_def lift_def lift_with_def discard_def split: prod.split sum.split res.split)

lemma leaves_orFail: "leaves K x \<Longrightarrow> (\<And>a w. K w \<Longrightarrow> leaves K (k a w)) \<Longrightarrow> leaves K (orFail x k)"
  unfolding orFail_def by (intro leaves_res) simp_all

lemma leaves_ofAdmission: "leaves K x \<Longrightarrow> (\<And>w. K w \<Longrightarrow> leaves K (k w)) \<Longrightarrow> leaves K (ofAdmission x k)"
  by (auto simp: ofAdmission_def leaves_def split: prod.split admission.split)

lemma leaves_updateIfNeeded: "keeps K (kupdate ops live) \<Longrightarrow> K w \<Longrightarrow> leaves K (updateIfNeeded ops b live w)"
  by (simp add: updateIfNeeded_def keepsD)

lemmas leaves_rules = leaves_sum leaves_res leaves_andThen leaves_if leaves_case_sum leaves_case_option

lemma leaves_dropStale:
  assumes "keeps K (kget ops (NamespacedName ns name))" "\<And>x. keeps K (kdelete ops x)" "K w"
  shows "leaves K (dropStale ops ns name wrap w)"
  unfolding dropStale_def by (intro leaves_rules) (simp_all add: assms keepsD)

lemma leaves_removeIfExists:
  assumes "keeps K (kget ops key)" "\<And>x. keeps K (kdelete ops x)" "K w"
  shows "leaves K (removeIfExists ops key w)"
  unfolding removeIfExists_def by (intro leaves_rules) (simp_all add: assms keepsD)

section \<open>The calls of the controllers\<close>

locale confined =
  fixes c :: "'w client" and K :: "'w \<Rightarrow> bool"
  assumes reads: "keeps K (kget (kNamespaces c) key)" "keeps K (kget (kRolloutManagers c) key)"
      "keeps K (kget (kServiceAccounts c) key)" "keeps K (kget (kRoles c) key)"
      "keeps K (kget (kClusterRoles c) key)" "keeps K (kget (kRoleBindings c) key)"
      "keeps K (kget (kClusterRoleBindings c) key)" "keeps K (kget (kSecrets c) key)"
      "keeps K (kget (kConfigMaps c) key)" "keeps K (kget (kDeployments c) key)"
      "keeps K (kget (kServices c) key)" "keeps K (kget (kServiceMonitors c) key)"
      "keeps K (kget (kNetworkPolicies c) key)" "keeps K (kget (kCRDs c) key)"
    and lists: "keeps K (klist (kRolloutManagers c) None None)" "keeps K (klist (kPods c) ns sel)"
    and creates: "keeps K (kcreate (kServiceAccounts c) sa)" "keeps K (kcreate (kRoles c) role)"
      "keeps K (kcreate (kClusterRoles c) role)" "keeps K (kcreate (kRoleBindings c) rb)"
      "keeps K (kcreate (kClusterRoleBindings c) rb)" "keeps K (kcreate (kSecrets c) sec)"
      "keeps K (kcreate (kConfigMaps c) cm)" "keeps K (kcreate (kDeployments c) d)"
      "keeps K (kcreate (kServices c) svc)" "keeps K (kcreate (kServiceMonitors c) sm)"
      "keeps K (kcreate (kNetworkPolicies c) np)"
    and updates: "keeps K (kupdate (kServiceAccounts c) sa)" "keeps K (kupdate (kRoles c) role)"
      "keeps K (kupdate (kClusterRoles c) role)" "keeps K (kupdate (kRoleBindings c) rb)"
      "keeps K (kupdate (kClusterRoleBindings c) rb)" "keeps K (kupdate (kSecrets c) sec)"
      "keeps K (kupdate (kConfigMaps c) cm)" "keeps K (kupdate (kDeployments c) d)"
      "keeps K (kupdate (kServices c) svc)" "keeps K (kupdate (kServiceMonitors c) sm)"
      "keeps K (kupdate (kNetworkPolicies c) np)"
    and deletes: "keeps K (kdelete (kRoles c) role)" "keeps K (kdelete (kClusterRoles c) role)"
      "keeps K (kdelete (kRoleBindings c) rb)" "keeps K (kdelete (kClusterRoleBindings c) rb)"
      "keeps K (kdelete (kSecrets c) sec)" "keeps K (kdelete (kDeployments c) d)"
      "keeps K (kdelete (kPods c) p)" "keeps K (kdelete (kNetworkPolicies c) np)"
    and status: "keeps K (kStatusUpdate c rm)"
begin

lemmas calls = reads [THEN keepsD] lists [THEN keepsD] creates [THEN keepsD] updates [THEN keepsD]
  deletes [THEN keepsD] status [THEN keepsD]

lemma serviceAccount_keeps:
  assumes "Client r = c" "K w"
  shows "leaves K (reconcileRolloutsServiceAccount r cr w)"
  unfolding reconcileRolloutsServiceAccount_def Let_def assms(1)
  by (intro leaves_rules) (simp_all add: assms calls updates leaves_updateIfNeeded)

lemma role_keeps:
  assumes "Client r = c" "K w"
  shows "leaves K (reconcileRolloutsRole r cr w)" and "leaves K (reconcileRolloutsClusterRole r cr w)"
  unfolding reconcileRolloutsRole_def reconcileRolloutsClusterRole_def Let_def assms(1)
  by (intro leaves_rules; simp add: assms calls reads updates deletes leaves_updateIfNeeded leaves_dropStale
      split: prod.split)+

lemma aggregates_keep:
  assumes "Client r = c" "K w"
  shows "leaves K (reconcileRolloutsAggregateToAdminClusterRole r cr w)"
    and "leaves K (reconcileRolloutsAggregateToEditClusterRole r cr w)"
    and "leaves K (reconcileRolloutsAggregateToViewClusterRole r cr w)"
  unfolding reconcileRolloutsAggregateToAdminClusterRole_def reconcileRolloutsAggregateToEditClusterRole_def
    reconcileRolloutsAggregateToViewClusterRole_def Let_def assms(1)
  by (intro leaves_rules; simp add: assms calls updates leaves_updateIfNeeded split: prod.split)+

lemma bindings_keep:
  assumes "Client r = c" "K w"
  shows "leaves K (reconcileRolloutsRoleBinding r cr role sa w)"
    and "leaves K (reconcileRolloutsClusterRoleBinding r clusterRole sa cr w)"
  unfolding reconcileRolloutsRoleBinding_def reconcileRolloutsClusterRoleBinding_def Let_def assms(1)
  by (intro leaves_rules; simp add: assms calls reads updates deletes leaves_updateIfNeeded leaves_dropStale
      split: prod.split)+

lemma access_keeps:
  assumes "Client r = c" "K w"
  shows "leaves K (reconcileAccess r cr w)"
  unfolding reconcileAccess_def reconcileRoles_def reconcileAggregates_def reconcileBindings_def
  by (intro leaves_rules)
    (simp_all add: assms serviceAccount_keeps role_keeps aggregates_keep bindings_keep leaves_andThen
      split: prod.split)

lemma removal_keeps:
  assumes "Client r = c" "K w"
  shows "leaves K (removeClusterScopedResourcesIfApplicable r w)"
proof -
  have "K w \<Longrightarrow> leaves K (removeAggregateRoles r sfxs w)" for sfxs w
    by (induction sfxs arbitrary: w)
      (simp_all add: leaves_andThen leaves_removeIfExists assms(1) reads deletes)
  then show ?thesis
    unfolding removeClusterScopedResourcesIfApplicable_def
    by (intro leaves_andThen) (simp_all add: leaves_removeIfExists assms reads deletes)
qed

lemma secret_keeps:
  assumes "Client r = c" "K w"
  shows "leaves K (reconcileRolloutsSecrets r cr w)"
  unfolding reconcileRolloutsSecrets_def Let_def assms(1)
  by (intro leaves_rules) (simp_all add: assms calls updates leaves_updateIfNeeded)

lemma configMap_keeps:
  assumes "Client r = c" "K w"
  shows "leaves K (reconcileConfigMap r cr w)"
proof -
  have pods: "K w \<Longrightarrow> leaves K (deletePods r ps w)" for ps w
    by (induction ps arbitrary: w) (simp_all add: assms(1) leaves_sum leaves_if calls)
  have "K w \<Longrightarrow> leaves K (restartRolloutsPod r ns w)" for ns w
    unfolding restartRolloutsPod_def assms(1) by (intro leaves_rules) (simp_all add: calls pods)
  then have "K w \<Longrightarrow> leaves K (updateConfigMap r cr actual t m w)" for actual t m w
    unfolding updateConfigMap_def assms(1) by (intro leaves_rules) (simp_all add: calls)
  then have "K w \<Longrightarrow> leaves K (compareConfigMap r cr actual traffic t m w)" for actual traffic t m w
    unfolding compareConfigMap_def Let_def by (intro leaves_rules) simp_all
  then show ?thesis
    unfolding reconcileConfigMap_def Let_def assms(1) by (intro leaves_rules) (simp_all add: assms(2) calls)
qed

lemma deployment_keeps:
  assumes "Client r = c" "K w"
  shows "leaves K (reconcileRolloutsDeployment r cr sa w)"
proof -
  have "K w \<Longrightarrow> leaves K (createNewRolloutsDeployment r cr d w)" for d w
    unfolding createNewRolloutsDeployment_def assms(1) by (intro leaves_rules) (simp_all add: calls)
  then show ?thesis
    unfolding reconcileRolloutsDeployment_def Let_def assms(1)
    by (intro leaves_rules) (simp_all add: assms(2) calls)
qed

lemma metrics_keep:
  assumes "Client r = c" "K w"
  shows "leaves K (reconcileRolloutsMetricsServiceAndMonitor r cr w)"
proof -
  have "K w \<Longrightarrow> leaves K (updateMetricsService r cr svc live w)" for svc live w
    unfolding updateMetricsService_def Let_def assms(1)
    by (simp add: leaves_updateIfNeeded updates split: prod.split)
  then have service: "leaves K (reconcileRolloutsMetricsService r cr w)"
    unfolding reconcileRolloutsMetricsService_def Let_def assms(1)
    by (intro leaves_rules) (simp_all add: assms(2) calls)
  have "K w \<Longrightarrow> leaves K (createServiceMonitorIfAbsent r ns cr n l w)" for ns n l w
    unfolding createServiceMonitorIfAbsent_def Let_def assms(1) by (intro leaves_rules) (simp_all add: calls)
  then have "K w \<Longrightarrow> leaves K (reconcileServiceMonitor r cr n w)" for n w
    unfolding reconcileServiceMonitor_def assms(1) by (intro leaves_rules) (simp_all add: calls)
  then show ?thesis
    unfolding reconcileRolloutsMetricsServiceAndMonitor_def by (intro leaves_rules) (simp_all add: service)
qed

lemma networkPolicy_keeps:
  assumes "Client r = c" "K w"
  shows "leaves K (reconcileRolloutsNetworkPolicy r cr w)"
  unfolding reconcileRolloutsNetworkPolicy_def deleteRolloutsNetworkPolicies_def Let_def assms(1)
  by (intro leaves_rules) (simp_all add: assms(2) calls split: prod.split)

lemma workload_keeps:
  assumes "Client r = c" "K w"
  shows "leaves K (reconcileWorkload r cr sa w)"
  unfolding reconcileWorkload_def
  by (intro leaves_andThen)
    (simp_all add: assms secret_keeps configMap_keeps deployment_keeps metrics_keep networkPolicy_keeps)

lemma run_keeps:
  assumes "Client r = c" "K w"
  shows "leaves K (reconcileRolloutsManager r cr w)"
proof -
  have "K w \<Longrightarrow> leaves K (determineStatusPhase r cr w)" for w
    unfolding determineStatusPhase_def Let_def assms(1)
    by (intro leaves_rules) (simp_all add: calls split: option.split)
  then have accepted: "K w \<Longrightarrow> leaves K (reconcileAccepted r cr w)" for w
    unfolding reconcileAccepted_def
    by (intro leaves_orFail) (simp_all add: assms(1) access_keeps workload_keeps)
  have "leaves K (checkForExistingRolloutManager c cr w)" if "K w" for w
    unfolding checkForExistingRolloutManager_def by (intro leaves_rules) (simp_all add: calls that)
  then have "K w \<Longrightarrow> leaves K (admitSingle r cr w)" for w
    unfolding admitSingle_def assms(1) by (force simp: leaves_def split: prod.split option.split)
  then show ?thesis
    unfolding reconcileRolloutsManager_def
    by (intro leaves_ofAdmission) (simp_all add: assms accepted)
qed

lemma reconcile_keeps:
  assumes "Client r = c" "K w"
  shows "leaves K (Reconcile r now req w)"
proof -
  have status: "K w \<Longrightarrow> leaves K (updateStatusConditionOfRolloutManager now rr rm c w)" for rr rm w
    unfolding updateStatusConditionOfRolloutManager_def Let_def
    by (auto simp: calls split: prod.split option.split)
  have run: "leaves K (case run of (Ok (result, err), w) \<Rightarrow> andThen (updateStatusConditionOfRolloutManager now result rm c w)
        (\<lambda>_ w. case err of None \<Rightarrow> (Ok (), w) | Some e \<Rightarrow> (Err e, w)) | (Err e, w) \<Rightarrow> (Err e, w) | (Panic p, w) \<Rightarrow> (Panic p, w))"
    if "leaves K run" for run :: "outcome res \<times> 'w" and rm
    using that by (intro leaves_res) (auto intro!: leaves_andThen simp: status split: prod.split option.split)
  show ?thesis
    unfolding Reconcile_def assms(1)
    by (intro leaves_sum leaves_if) (simp_all add: assms calls removal_keeps run run_keeps)
qed

end

section \<open>The cluster in memory\<close>

text \<open>Every object is stored under its own name.\<close>

lemma mem_ops_keep:
  fixes look :: "cluster \<Rightarrow> (namespaced_name, 'o) fmap"
  assumes "\<And>x w. K w \<Longrightarrow> K (put (fmupd (metaKey (metaOf x)) (server x)) w)"
    and "\<And>k w. K w \<Longrightarrow> K (put (fmdrop k) w)"
  shows "keeps K (kget (mem_ops metaOf look put server) key)"
    and "keeps K (klist (mem_ops metaOf look put server) ns sel)"
    and "keeps K (kcreate (mem_ops metaOf look put server) x)"
    and "keeps K (kupdate (mem_ops metaOf look put server) x)"
    and "keeps K (kdelete (mem_ops metaOf look put server) x)"
  using assms by (auto simp: keeps_def mem_ops_def leaves_def split: option.split)

lemma mem_reads_keep:
  "keeps K (kget (mem_ops metaOf look put server) key)" "keeps K (klist (mem_ops metaOf look put server) ns sel)"
  by (auto simp: keeps_def mem_ops_def leaves_def split: option.split)

lemma stored_key [simp]: "metaKey (stored_meta m) = metaKey m" "metaKey (dMeta (stored_deployment d)) = metaKey (dMeta d)"
  by (simp_all add: stored_meta_def stored_deployment_def metaKey_def)

lemma status_keeps_keyed: "keeps keyedCluster (mem_status_update rm)"
  by (auto simp: keeps_def leaves_def mem_status_update_def keyedCluster_def keyedAccess_def keyedWorkload_def
      split: option.split)

lemmas keyed_parts = keyedCluster_def keyedAccess_def keyedWorkload_def

interpretation mem_keyed: confined mem_client keyedCluster
  by unfold_locales
    (simp_all add: mem_client_def mem_reads_keep status_keeps_keyed,
     (rule mem_ops_keep; simp add: keyed_parts keyed_upd keyed_drop)+)

section \<open>Properties\<close>

text \<open>
  C3: Whatever a property of the world is about, a run of \<open>Reconcile\<close> keeps it, with success,
  an error or a panic, on an API server without any contract, provided that these calls keep it:
  reads; create and update of the eleven managed kinds; delete of roles, bindings, Secrets,
  Deployments, NetworkPolicies and pods; and the update of the status of a RolloutManager. The
  controllers make no other call: they write no Namespace, no CustomResourceDefinition, no pod and
  no specification of a RolloutManager, and delete no ServiceAccount, ConfigMap, Service or
  ServiceMonitor.
\<close>

theorem reconcile_confined:
  assumes "confined (Client r) K" "K w"
  shows "K (snd (Reconcile r now req w))"
  using confined.reconcile_keeps [OF assms(1) refl assms(2)] by (simp add: leaves_def)

text \<open>Witnesses.\<close>

lemma mem_foreign_kinds: "confined mem_client (\<lambda>w. cluNamespaces w = ns \<and> cluCRDs w = crds)"
  by unfold_locales
    (simp_all add: mem_client_def mem_reads_keep keeps_def leaves_def mem_ops_def mem_status_update_def
      split: option.split)

theorem reconcile_confined_witness:
  "cluNamespaces (snd (Reconcile (memReconciler False) 0 (NamespacedName ''ns'' ''a'') emptyCluster)) = fmempty"
  using reconcile_confined [of "memReconciler False" "\<lambda>w. cluNamespaces w = fmempty \<and> cluCRDs w = fmempty" emptyCluster]
  by (simp add: memReconciler_def mem_foreign_kinds emptyCluster_def)

end
