(* ===== verification/Tenancy.thy ===== *)
theory Tenancy
  imports Confinement
begin

text \<open>
  Which objects a run can touch, by their names. The API server may fail at any call, and a call
  that fails may have taken effect; all that is asked of it is that a call concerns the object it
  names. Then a run for a request stays, however it ends, within the objects that carry the
  operator's fixed names: in the namespace of the request, and five in the scope of the cluster.
\<close>

section \<open>Calls on the objects of one kind\<close>

definition gives :: "('a \<Rightarrow> bool) \<Rightarrow> ('w \<Rightarrow> bool) \<Rightarrow> (go_error + 'a) \<times> 'w \<Rightarrow> bool" where
  "gives P K r \<longleftrightarrow> K (snd r) \<and> (case fst r of Inl _ \<Rightarrow> True | Inr x \<Rightarrow> P x)"

lemma gives_leaves: "gives P K r \<Longrightarrow> leaves K r"
  by (simp add: gives_def leaves_def)

lemma gives_sum:
  assumes "gives P K r" "\<And>e w. K w \<Longrightarrow> leaves K (f e w)" "\<And>x w. P x \<Longrightarrow> K w \<Longrightarrow> leaves K (g x w)"
  shows "leaves K (case r of (Inl e, w) \<Rightarrow> f e w | (Inr x, w) \<Rightarrow> g x w)"
  using assms by (auto simp: gives_def split: prod.split sum.split)

locale named_calls =
  fixes ops :: "('o, 'w) kind_ops"
    and metaOf :: "'o \<Rightarrow> object_meta"
    and K :: "'w \<Rightarrow> bool"
    and own :: "namespaced_name set"
  assumes get: "K w \<Longrightarrow> gives (\<lambda>x. metaKey (metaOf x) = k) K (kget ops k w)"
    and create: "K w \<Longrightarrow> metaKey (metaOf x) \<in> own \<Longrightarrow> gives (\<lambda>y. metaKey (metaOf y) = metaKey (metaOf x)) K (kcreate ops x w)"
    and update: "K w \<Longrightarrow> metaKey (metaOf x) \<in> own \<Longrightarrow> leaves K (kupdate ops x w)"
    and delete: "K w \<Longrightarrow> metaKey (metaOf x) \<in> own \<Longrightarrow> leaves K (kdelete ops x w)"
    and listed: "K w \<Longrightarrow> gives (\<lambda>xs. \<forall>x\<in>set xs. \<forall>n. ns = Some n \<longrightarrow> mNamespace (metaOf x) = n) K (klist ops ns sel w)"
begin

lemma ensure_leaves:
  assumes "key \<in> own" "\<And>x. fresh = Inr x \<Longrightarrow> metaKey (metaOf x) = key"
    and "\<And>x y. repair x = Some y \<Longrightarrow> metaKey (metaOf y) = metaKey (metaOf x)" "K w"
  shows "leaves K (ensure ops key wg wc wu fresh repair w)"
  unfolding ensure_def
proof (rule gives_sum [OF get [OF assms(4)]])
  fix e w assume w: "K w"
  have "leaves K (kcreate ops x w)" if "fresh = Inr x" for x
    by (rule gives_leaves [OF create [OF w]]) (use assms(1) assms(2) [OF that] in simp)
  then show "leaves K (if \<not> IsNotFound e then (Err (wg e), w)
      else case fresh of Inl e \<Rightarrow> (Err e, w) | Inr new \<Rightarrow> lift_with wc (kcreate ops new w))"
    using w by (auto split: sum.split)
next
  fix live w assume live: "metaKey (metaOf live) = key" and w: "K w"
  show "leaves K (case repair live of None \<Rightarrow> (Ok live, w) | Some live' \<Rightarrow> lift_with wu (kupdate ops live' w))"
    using w assms(1,3) live by (auto intro!: update split: option.split)
qed

lemma dropStale_leaves: "NamespacedName ns name \<in> own \<Longrightarrow> K w \<Longrightarrow> leaves K (dropStale ops ns name wrap w)"
  unfolding dropStale_def fetchObject_kget by (rule gives_sum [OF get]) (auto intro: delete)

lemma removeIfExists_leaves: "key \<in> own \<Longrightarrow> K w \<Longrightarrow> leaves K (removeIfExists ops key w)"
  unfolding removeIfExists_def by (rule gives_sum [OF get]) (auto intro!: leaves_sum delete)

end

lemma repairObject_key:
  assumes "repairObject metaOf metaUpd cr e fixBody x = Some y"
    and "\<And>f x. metaOf (metaUpd f x) = f (metaOf x)" "\<And>x y. fixBody x = Some y \<Longrightarrow> metaOf y = metaOf x"
  shows "metaKey (metaOf y) = metaKey (metaOf x)"
  using assms by (auto simp: repairObject_def Let_def split: if_splits option.splits)

lemma repair_keys:
  "repairObject saMeta saMeta_update cr e (\<lambda>_. None) a = Some a' \<Longrightarrow> metaKey (saMeta a') = metaKey (saMeta a)"
  "repairObject roleMeta roleMeta_update cr e (fixRules rules) x = Some x' \<Longrightarrow> metaKey (roleMeta x') = metaKey (roleMeta x)"
  "repairObject rbMeta rbMeta_update cr e (fixSubjects subjects) b = Some b' \<Longrightarrow> metaKey (rbMeta b') = metaKey (rbMeta b)"
  "repairObject secMeta secMeta_update cr e (\<lambda>_. None) s = Some s' \<Longrightarrow> metaKey (secMeta s') = metaKey (secMeta s)"
  "repairObject svcMeta svcMeta_update cr e (fixPorts ports) v = Some v' \<Longrightarrow> metaKey (svcMeta v') = metaKey (svcMeta v)"
  "repairObject npMeta npMeta_update cr e (fixPolicy np) q = Some q' \<Longrightarrow> metaKey (npMeta q') = metaKey (npMeta q)"
  by (erule repairObject_key; auto simp: fixRules_def fixSubjects_def fixPorts_def fixPolicy_def split: if_splits)+

lemma expected_keys [simp]:
  "metaKey (saMeta (expectedServiceAccount cr)) = rolloutsKey cr" "metaKey (roleMeta (expectedRole cr)) = rolloutsKey cr"
  "metaKey (roleMeta (expectedClusterRole cr)) = clusterKey"
  by (simp_all add: expectedServiceAccount_def expectedRole_def expectedClusterRole_def)

text \<open>Making an object owned leaves its name and namespace alone.\<close>

definition owner_keeps_key :: "platform \<Rightarrow> bool" where
  "owner_keeps_key p \<longleftrightarrow> (\<forall>cr m m'. SetControllerReference p cr m = Inr m' \<longrightarrow> metaKey m' = metaKey m)"

lemma withOwner_key:
  assumes "owner_keeps_key p" "withOwner p cr metaUpd m x = Inr y" "\<And>f x. metaOf (metaUpd f x) = f (metaOf x)"
  shows "metaKey (metaOf y) = metaKey m"
  using assms by (auto simp: withOwner_def owner_keeps_key_def split: sum.splits)

section \<open>The calls of the controllers\<close>

text \<open>The names in the scope of the cluster.\<close>

definition clusterRoleKeys :: "namespaced_name set" where
  "clusterRoleKeys = NamespacedName '''' ` {''argo-rollouts'', ''argo-rollouts-aggregate-to-admin'',
     ''argo-rollouts-aggregate-to-edit'', ''argo-rollouts-aggregate-to-view''}"

lemma clusterRoleKeys_simps [simp]:
  "clusterKey \<in> clusterRoleKeys" "aggregateKey ''aggregate-to-admin'' \<in> clusterRoleKeys"
  "aggregateKey ''aggregate-to-edit'' \<in> clusterRoleKeys" "aggregateKey ''aggregate-to-view'' \<in> clusterRoleKeys"
  by (simp_all add: clusterRoleKeys_def aggregateRoleName_def DefaultArgoRolloutsResourceName_def)

locale tenant =
  fixes c :: "'w client" and p :: platform and K :: "'w \<Rightarrow> bool" and req :: namespaced_name
  assumes owners: "owner_keeps_key p"
    and namespaces: "named_calls (kNamespaces c) nsMeta K {}"
    and managers: "named_calls (kRolloutManagers c) rmMeta K {}"
    and accounts: "named_calls (kServiceAccounts c) saMeta K {NamespacedName (nnNamespace req) DefaultArgoRolloutsResourceName}"
    and roles: "named_calls (kRoles c) roleMeta K {NamespacedName (nnNamespace req) DefaultArgoRolloutsResourceName}"
    and cluster_roles: "named_calls (kClusterRoles c) roleMeta K clusterRoleKeys"
    and bindings: "named_calls (kRoleBindings c) rbMeta K {NamespacedName (nnNamespace req) DefaultArgoRolloutsResourceName}"
    and cluster_bindings: "named_calls (kClusterRoleBindings c) rbMeta K {clusterKey}"
    and secrets: "named_calls (kSecrets c) secMeta K {NamespacedName (nnNamespace req) DefaultRolloutsNotificationSecretName}"
    and config_maps: "named_calls (kConfigMaps c) cmMeta K {NamespacedName (nnNamespace req) DefaultRolloutsConfigMapName}"
    and deployments: "named_calls (kDeployments c) dMeta K {NamespacedName (nnNamespace req) DefaultArgoRolloutsResourceName}"
    and pods: "named_calls (kPods c) podMeta K {k. nnNamespace k = nnNamespace req}"
    and services: "named_calls (kServices c) svcMeta K {NamespacedName (nnNamespace req) DefaultArgoRolloutsMetricsServiceName}"
    and monitors: "named_calls (kServiceMonitors c) smMeta K {NamespacedName (nnNamespace req) DefaultArgoRolloutsResourceName}"
    and policies: "named_calls (kNetworkPolicies c) npMeta K {NamespacedName (nnNamespace req) DefaultRolloutsNetworkPolicy}"
    and crds: "named_calls (kCRDs c) crdMeta K {}"
    and status: "K w \<Longrightarrow> metaKey (rmMeta x) = req \<Longrightarrow> leaves K (kStatusUpdate c x w)"
begin

lemma reads:
  "K w \<Longrightarrow> leaves K (kget (kNamespaces c) k w)" "K w \<Longrightarrow> leaves K (kget (kDeployments c) k w)" "K w \<Longrightarrow> leaves K (kget (kCRDs c) k w)"
  "K w \<Longrightarrow> leaves K (klist (kRolloutManagers c) ns sel w)"
  by (rule gives_leaves, rule named_calls.get named_calls.listed,
      rule namespaces deployments crds managers, assumption)+

lemma serviceAccount_stays:
  assumes "Client r = c" "Platform r = p" "crNamespace cr = nnNamespace req" "K w"
  shows "leaves K (reconcileRolloutsServiceAccount r cr w)"
  unfolding serviceAccount_ensure assms(1-3)
  by (rule named_calls.ensure_leaves [OF accounts _ _ _ assms(4)])
    (use assms(3) in \<open>auto dest: repair_keys withOwner_key [where metaOf = saMeta, OF owners]\<close>)

lemma roles_stay:
  assumes "Client r = c" "Platform r = p" "crNamespace cr = nnNamespace req" "K w"
  shows "leaves K (reconcileRolloutsRole r cr w)" and "leaves K (reconcileRolloutsClusterRole r cr w)"
proof -
  show "leaves K (reconcileRolloutsRole r cr w)"
    unfolding role_ensure assms(1-3)
    by (rule leaves_andThen, rule named_calls.dropStale_leaves [OF cluster_roles],
        simp, rule assms(4), rule named_calls.ensure_leaves [OF roles])
      (use assms(3) in \<open>auto dest: repair_keys withOwner_key [where metaOf = roleMeta, OF owners]\<close>)
  show "leaves K (reconcileRolloutsClusterRole r cr w)"
    unfolding clusterRole_ensure assms(1-3)
    by (rule leaves_andThen, rule named_calls.dropStale_leaves [OF roles],
        simp, rule assms(4), rule named_calls.ensure_leaves [OF cluster_roles])
      (auto dest: repair_keys)
qed

lemma aggregates_stay:
  assumes "Client r = c" "K w"
  shows "leaves K (reconcileRolloutsAggregateToAdminClusterRole r cr w)"
    and "leaves K (reconcileRolloutsAggregateToEditClusterRole r cr w)"
    and "leaves K (reconcileRolloutsAggregateToViewClusterRole r cr w)"
  unfolding aggregate_ensure assms(1) leaves_wrapped
  by (rule named_calls.ensure_leaves [OF cluster_roles _ _ _ assms(2)]; auto dest: repair_keys)+

lemma bindings_stay:
  assumes "Client r = c" "Platform r = p" "crNamespace cr = nnNamespace req" "K w"
  shows "leaves K (reconcileRolloutsRoleBinding r cr role sa w)"
    and "leaves K (reconcileRolloutsClusterRoleBinding r clusterRole sa cr w)"
proof -
  have crb: "K w \<Longrightarrow> leaves K (dropStale (kClusterRoleBindings c) '''' DefaultArgoRolloutsResourceName wrap w)" for wrap w
    by (rule named_calls.dropStale_leaves [OF cluster_bindings]) simp
  have rb: "K w \<Longrightarrow> leaves K (dropStale (kRoleBindings c) (nnNamespace req) DefaultArgoRolloutsResourceName wrap w)" for wrap w
    by (rule named_calls.dropStale_leaves [OF bindings]) simp
  show "leaves K (reconcileRolloutsRoleBinding r cr role sa w)"
  proof (cases "role = None \<or> sa = None")
    case True
    then show ?thesis unfolding reconcileRolloutsRoleBinding_def assms(1)
      by (intro leaves_andThen) (auto simp: crb assms(4) split: option.split)
  next
    case False
    then obtain x y where "role = Some x" "sa = Some y" by auto
    then show ?thesis
      unfolding roleBinding_ensure [where role = x and sa = y] \<open>role = Some x\<close> \<open>sa = Some y\<close> assms(1-3)
      by (intro leaves_andThen, simp add: crb assms(4), unfold leaves_wrapped,
          intro named_calls.ensure_leaves [OF bindings])
        (use assms(3) in \<open>auto dest: repair_keys withOwner_key [where metaOf = rbMeta, OF owners]\<close>)
  qed
  show "leaves K (reconcileRolloutsClusterRoleBinding r clusterRole sa cr w)"
  proof (cases "clusterRole = None \<or> sa = None")
    case True
    then show ?thesis unfolding reconcileRolloutsClusterRoleBinding_def assms(1,3)
      by (intro leaves_andThen) (auto simp: rb assms(4) split: option.split)
  next
    case False
    then obtain x y where "clusterRole = Some x" "sa = Some y" by auto
    then show ?thesis
      unfolding clusterRoleBinding_ensure [where role = x and sa = y] \<open>clusterRole = Some x\<close> \<open>sa = Some y\<close> assms(1,3)
      by (intro leaves_andThen, simp add: rb assms(4), unfold leaves_wrapped,
          intro named_calls.ensure_leaves [OF cluster_bindings])
        (auto dest: repair_keys)
  qed
qed

lemma access_stays:
  assumes "Client r = c" "Platform r = p" "crNamespace cr = nnNamespace req" "K w"
  shows "leaves K (reconcileAccess r cr w)"
  unfolding reconcileAccess_def reconcileRoles_def reconcileAggregates_def reconcileBindings_def
  by (intro leaves_rules)
    (simp_all add: assms serviceAccount_stays roles_stay aggregates_stay bindings_stay leaves_andThen split: prod.split)

lemma removal_stays:
  assumes "Client r = c" "K w"
  shows "leaves K (removeClusterScopedResourcesIfApplicable r w)"
proof -
  have remove: "K w \<Longrightarrow> k \<in> clusterRoleKeys \<Longrightarrow> leaves K (removeIfExists (kClusterRoles c) k w)" for k w
    by (rule named_calls.removeIfExists_leaves [OF cluster_roles])
  have "K w \<Longrightarrow> leaves K (removeAggregateRoles r clusterRoleSuffixes w)" for w
    unfolding clusterRoleSuffixes_def removeAggregateRoles.simps assms(1) aggregateRoleName_def [symmetric]
    by (intro leaves_andThen) (simp_all add: remove)
  then show ?thesis
    unfolding removeClusterScopedResourcesIfApplicable_def assms(1)
    by (intro leaves_andThen) (simp_all add: remove assms(2) named_calls.removeIfExists_leaves [OF cluster_bindings])
qed

lemma secret_stays:
  assumes "Client r = c" "Platform r = p" "crNamespace cr = nnNamespace req" "K w"
  shows "leaves K (reconcileRolloutsSecrets r cr w)"
proof (cases "SkipNotificationSecretDeployment (rmSpec cr)")
  case True
  show ?thesis
    unfolding secret_skipped [OF True] assms(1,3)
    by (rule gives_sum [OF named_calls.get [OF secrets assms(4)]])
      (auto intro: named_calls.delete [OF secrets])
next
  case False
  have k: "metaKey (secMeta (expectedSecret r cr)) = secretKey cr" by (simp add: expectedSecret_def setCustomLabels_def Let_def metaKey_def)
  show ?thesis
    unfolding secret_ensure [OF False] assms(1-3) leaves_wrapped
    by (rule named_calls.ensure_leaves [OF secrets _ _ _ assms(4)])
      (use assms(3) k in \<open>auto dest: repair_keys withOwner_key [where metaOf = secMeta, OF owners]\<close>)
qed

lemma configMap_stays:
  assumes "Client r = c" "Platform r = p" "crNamespace cr = nnNamespace req" "K w"
  shows "leaves K (reconcileConfigMap r cr w)"
proof -
  have dels: "K w \<Longrightarrow> \<forall>x\<in>set ps. mNamespace (podMeta x) = nnNamespace req \<Longrightarrow> leaves K (deletePods r ps w)" for ps w
    by (induction ps arbitrary: w)
      (auto simp: assms(1) metaKey_def intro!: leaves_sum named_calls.delete [OF pods])
  have "K w \<Longrightarrow> leaves K (restartRolloutsPod r (nnNamespace req) w)" for w
    unfolding restartRolloutsPod_def assms(1)
    by (intro leaves_sum leaves_if leaves_case_option gives_sum [OF named_calls.listed [OF pods]])
      (auto intro: reads dels)
  then have "K w \<Longrightarrow> metaKey (cmMeta actual) = configKey cr \<Longrightarrow> leaves K (updateConfigMap r cr actual t m w)" for actual t m w
    unfolding updateConfigMap_def assms(1,3)
    by (intro leaves_sum leaves_case_option) (auto intro: named_calls.update [OF config_maps])
  then have compare: "K w \<Longrightarrow> metaKey (cmMeta actual) = configKey cr \<Longrightarrow> leaves K (compareConfigMap r cr actual traffic t m w)"
    for actual traffic t m w
    unfolding compareConfigMap_def Let_def by (intro leaves_rules) auto
  have created: "K w \<Longrightarrow> metaKey (cmMeta x) = configKey cr \<Longrightarrow> leaves K (kcreate (kConfigMaps c) x w)" for x w
    by (rule gives_leaves [OF named_calls.create [OF config_maps]]) (simp_all add: assms(3))
  show ?thesis
    unfolding reconcileConfigMap_def Let_def assms(1) fetchObject_kget
    by (intro leaves_if leaves_case_sum, simp_all add: assms(4) del: namespaced_name.inject)
      (rule gives_sum [OF named_calls.get [OF config_maps assms(4)]], auto intro!: compare created)
qed

lemma deployment_stays:
  assumes "Client r = c" "Platform r = p" "crNamespace cr = nnNamespace req" "K w"
  shows "leaves K (reconcileRolloutsDeployment r cr sa w)"
proof (cases "generateDesiredRolloutsDeployment p cr sa")
  case (Inl e)
  then show ?thesis by (simp add: reconcileRolloutsDeployment_def assms)
next
  case (Inr d)
  have "dMeta d = setRolloutsLabelsAndAnnotationsToObject (newMeta DefaultArgoRolloutsResourceName (crNamespace cr)) cr"
    by (rule generated_cases [OF Inr])
  then have k: "metaKey (dMeta d) = NamespacedName (nnNamespace req) DefaultArgoRolloutsResourceName" by (simp add: assms(3))
  have new: "K w \<Longrightarrow> leaves K (createNewRolloutsDeployment r cr d w)" for w
    unfolding createNewRolloutsDeployment_def assms(1,2)
    by (use owners k in \<open>auto simp: owner_keeps_key_def intro!: gives_leaves [OF named_calls.create [OF deployments]] split: sum.split\<close>)
  have delete: "K w \<Longrightarrow> leaves K (kdelete (kDeployments c) d w)" for w
    by (rule named_calls.delete [OF deployments]) (simp_all add: k)
  have update: "K w \<Longrightarrow> metaKey (dMeta live) = NamespacedName (nnNamespace req) DefaultArgoRolloutsResourceName \<Longrightarrow>
      leaves K (kupdate (kDeployments c) (mergeDeployment live d) w)" for live w
    by (rule named_calls.update [OF deployments]) (simp_all add: merged_key)
  show ?thesis
    unfolding reconcileRolloutsDeployment_def Let_def assms(1-3) fetchObject_kget Inr sum.case
    by (rule gives_sum [OF named_calls.get [OF deployments assms(4)]])
      (auto simp: new delete update intro!: leaves_andThen)
qed

lemma metrics_stay:
  assumes "Client r = c" "Platform r = p" "crNamespace cr = nnNamespace req" "K w"
  shows "leaves K (reconcileRolloutsMetricsServiceAndMonitor r cr w)"
proof -
  let ?svc = "NamespacedName (nnNamespace req) DefaultArgoRolloutsMetricsServiceName"
  have update: "leaves K (updateMetricsService r cr e live w)" if "K w" "metaKey (svcMeta live) = ?svc" for e live w
    using that by (auto simp: updateMetricsService_repair assms(1) dest: repair_keys
        intro!: named_calls.update [OF services] split: option.split)
  have create: "leaves K (andThen (lift (kcreate (kServices c) x w)) (\<lambda>y w. updateMetricsService r cr y y w))"
    if "K w" "metaKey (svcMeta x) = ?svc" for x w
    using named_calls.create [OF services that(1), of x] that(2) update
    by (auto simp: gives_def lift_def andThen_def leaves_def split: prod.split sum.split)
  have k: "metaKey (svcMeta (expectedSvc cr)) = ?svc" using metrics_service.wanted_key [of cr] assms(3) by simp
  have service: "leaves K (reconcileRolloutsMetricsService r cr w)"
    unfolding reconcileRolloutsMetricsService_def Let_def assms(1-3) fetchObject_kget
    by (rule gives_sum [OF named_calls.get [OF services assms(4)]])
      (use owners k in \<open>auto simp: update owner_keeps_key_def metaKey_def intro!: create split: sum.split\<close>)
  have create: "K w \<Longrightarrow> leaves K (createServiceMonitorIfAbsent r (crNamespace cr) cr DefaultArgoRolloutsResourceName l w)" for l w
    unfolding createServiceMonitorIfAbsent_def Let_def assms(1,2)
    by (use owners assms(3) in \<open>auto simp: owner_keeps_key_def intro!: gives_leaves [OF named_calls.create [OF monitors]] split: sum.split\<close>)
  have "K w \<Longrightarrow> leaves K (reconcileServiceMonitor r cr n w)" for n w
    unfolding reconcileServiceMonitor_def assms(1) fetchObject_kget
    by (intro leaves_sum leaves_if gives_sum [OF named_calls.get [OF monitors]])
      (auto simp: assms(3) create [unfolded assms(3)] intro!: reads named_calls.update [OF monitors])
  then show ?thesis
    unfolding reconcileRolloutsMetricsServiceAndMonitor_def by (intro leaves_rules) (simp_all add: service)
qed

lemma networkPolicy_stays:
  assumes "Client r = c" "Platform r = p" "crNamespace cr = nnNamespace req" "K w"
  shows "leaves K (reconcileRolloutsNetworkPolicy r cr w)"
proof -
  have k: "metaKey (npMeta (desiredNetworkPolicy cr)) = NamespacedName (nnNamespace req) DefaultRolloutsNetworkPolicy"
    by (simp add: assms(3))
  have gone: "leaves K (deleteRolloutsNetworkPolicies r cr w)"
    unfolding deleteRolloutsNetworkPolicies_def assms(1,3) fetchObject_kget
    by (rule gives_sum [OF named_calls.get [OF policies assms(4)]]) (auto intro: named_calls.delete [OF policies])
  show ?thesis
    unfolding reconcileRolloutsNetworkPolicy_def Let_def assms(1-3) fetchObject_kget compareNetworkPolicy_repair
    by (intro leaves_if gone, rule gives_sum [OF named_calls.get [OF policies assms(4)]])
      (use owners k in \<open>auto simp: owner_keeps_key_def dest: repair_keys
         intro!: named_calls.update [OF policies] gives_leaves [OF named_calls.create [OF policies]]
         split: sum.split option.split\<close>)
qed

lemma workload_stays:
  assumes "Client r = c" "Platform r = p" "crNamespace cr = nnNamespace req" "K w"
  shows "leaves K (reconcileWorkload r cr sa w)"
  unfolding reconcileWorkload_def
  by (intro leaves_andThen)
    (simp_all add: assms secret_stays configMap_stays deployment_stays metrics_stay networkPolicy_stays)

lemma manager_stays:
  assumes "Client r = c" "Platform r = p" "crNamespace cr = nnNamespace req" "K w"
  shows "leaves K (reconcileRolloutsManager r cr w)"
proof -
  have "K w \<Longrightarrow> leaves K (determineStatusPhase r cr w)" for w
    unfolding determineStatusPhase_def Let_def assms(1) fetchObject_kget
    by (intro leaves_rules) (auto intro: reads split: option.split)
  then have accepted: "K w \<Longrightarrow> leaves K (reconcileAccepted r cr w)" for w
    unfolding reconcileAccepted_def
    by (intro leaves_orFail) (simp_all add: assms(1-3) access_stays workload_stays)
  have "leaves K (checkForExistingRolloutManager c cr w)" if "K w" for w
    unfolding checkForExistingRolloutManager_def by (intro leaves_rules) (simp_all add: reads that)
  then have "K w \<Longrightarrow> leaves K (admitSingle r cr w)" for w
    unfolding admitSingle_def assms(1) by (force simp: leaves_def split: prod.split option.split)
  then show ?thesis
    unfolding reconcileRolloutsManager_def
    by (intro leaves_ofAdmission) (simp_all add: assms(4) accepted)
qed

lemma reconcile_stays:
  assumes "Client r = c" "Platform r = p" "K w"
  shows "leaves K (Reconcile r now req w)"
proof -
  have status: "K w \<Longrightarrow> metaKey (rmMeta rm) = req \<Longrightarrow> leaves K (updateStatusConditionOfRolloutManager now rr rm c w)" for w rr rm
    unfolding updateStatusConditionOfRolloutManager_def Let_def
    by (auto intro!: status split: prod.split option.split)
  have run: "leaves K (case reconcileRolloutsManager r rm w of
        (Ok (result, err), w) \<Rightarrow> andThen (updateStatusConditionOfRolloutManager now result rm c w)
          (\<lambda>_ w. case err of None \<Rightarrow> (Ok (), w) | Some e \<Rightarrow> (Err e, w)) | (Err e, w) \<Rightarrow> (Err e, w) | (Panic p, w) \<Rightarrow> (Panic p, w))"
    if "K w" "metaKey (rmMeta rm) = req" for rm w
    using that manager_stays [OF assms(1,2) _ that(1), of rm]
    by (intro leaves_res) (auto simp: metaKey_def status intro!: leaves_andThen split: prod.split option.split)
  show ?thesis
    unfolding Reconcile_def assms(1)
    by (intro leaves_sum leaves_if gives_sum [OF named_calls.get [OF managers]])
      (auto simp: assms reads removal_stays run)
qed

end

section \<open>A server that minds the names\<close>

text \<open>
  The contract, for the worlds that satisfy an invariant of the server: reads change nothing and
  answer with what was asked for; a write concerns the object it names, fails or not.
\<close>

definition concerns :: "('w \<Rightarrow> cluster) \<Rightarrow> ('w \<Rightarrow> bool) \<Rightarrow> (((namespaced_name, 'o) fmap \<Rightarrow> (namespaced_name, 'o) fmap) \<Rightarrow> cluster \<Rightarrow> cluster) \<Rightarrow>
    namespaced_name \<Rightarrow> 'w \<Rightarrow> 'w \<Rightarrow> bool" where
  "concerns view Inv put k w w' \<longleftrightarrow> Inv w' \<and>
     (\<exists>f. view w' = put f (view w) \<and> (\<forall>m k'. k' \<noteq> k \<longrightarrow> fmlookup (f m) k' = fmlookup m k'))"

definition faithful_kind :: "('w \<Rightarrow> cluster) \<Rightarrow> ('w \<Rightarrow> bool) \<Rightarrow> ('o, 'w) kind_ops \<Rightarrow> ('o \<Rightarrow> object_meta) \<Rightarrow>
    (((namespaced_name, 'o) fmap \<Rightarrow> (namespaced_name, 'o) fmap) \<Rightarrow> cluster \<Rightarrow> cluster) \<Rightarrow> bool" where
  "faithful_kind view Inv ops metaOf put \<longleftrightarrow> (\<forall>w. Inv w \<longrightarrow>
     (\<forall>k. Inv (snd (kget ops k w)) \<and> view (snd (kget ops k w)) = view w \<and>
        (\<forall>x. fst (kget ops k w) = Inr x \<longrightarrow> metaKey (metaOf x) = k)) \<and>
     (\<forall>ns sel. Inv (snd (klist ops ns sel w)) \<and> view (snd (klist ops ns sel w)) = view w \<and>
        (\<forall>xs. fst (klist ops ns sel w) = Inr xs \<longrightarrow> (\<forall>x\<in>set xs. \<forall>n. ns = Some n \<longrightarrow> mNamespace (metaOf x) = n))) \<and>
     (\<forall>x. concerns view Inv put (metaKey (metaOf x)) w (snd (kcreate ops x w)) \<and>
        (\<forall>y. fst (kcreate ops x w) = Inr y \<longrightarrow> metaKey (metaOf y) = metaKey (metaOf x)) \<and>
        concerns view Inv put (metaKey (metaOf x)) w (snd (kupdate ops x w)) \<and>
        concerns view Inv put (metaKey (metaOf x)) w (snd (kdelete ops x w))))"

text \<open>The update of a status concerns the status alone.\<close>

definition noStatus :: rollout_manager_status where
  "noStatus = \<lparr>stRolloutController = '''', stPhase = '''', stConditions = []\<rparr>"

definition withoutStatus :: "namespaced_name \<Rightarrow> (namespaced_name, rollout_manager) fmap \<Rightarrow> (namespaced_name, rollout_manager) fmap" where
  "withoutStatus req = fmmap_keys (\<lambda>k x. if k = req then x\<lparr>rmStatus := noStatus\<rparr> else x)"

definition faithful :: "('w \<Rightarrow> cluster) \<Rightarrow> ('w \<Rightarrow> bool) \<Rightarrow> 'w client \<Rightarrow> bool" where
  "faithful view Inv c \<longleftrightarrow>
     faithful_kind view Inv (kNamespaces c) nsMeta cluNamespaces_update \<and>
     faithful_kind view Inv (kRolloutManagers c) rmMeta cluRolloutManagers_update \<and>
     faithful_kind view Inv (kServiceAccounts c) saMeta cluServiceAccounts_update \<and>
     faithful_kind view Inv (kRoles c) roleMeta cluRoles_update \<and>
     faithful_kind view Inv (kClusterRoles c) roleMeta cluClusterRoles_update \<and>
     faithful_kind view Inv (kRoleBindings c) rbMeta cluRoleBindings_update \<and>
     faithful_kind view Inv (kClusterRoleBindings c) rbMeta cluClusterRoleBindings_update \<and>
     faithful_kind view Inv (kSecrets c) secMeta cluSecrets_update \<and>
     faithful_kind view Inv (kConfigMaps c) cmMeta cluConfigMaps_update \<and>
     faithful_kind view Inv (kDeployments c) dMeta cluDeployments_update \<and>
     faithful_kind view Inv (kPods c) podMeta cluPods_update \<and>
     faithful_kind view Inv (kServices c) svcMeta cluServices_update \<and>
     faithful_kind view Inv (kServiceMonitors c) smMeta cluServiceMonitors_update \<and>
     faithful_kind view Inv (kNetworkPolicies c) npMeta cluNetworkPolicies_update \<and>
     faithful_kind view Inv (kCRDs c) crdMeta cluCRDs_update \<and>
     (\<forall>w x. Inv w \<longrightarrow> Inv (snd (kStatusUpdate c x w)) \<and>
        (\<exists>m. view (snd (kStatusUpdate c x w)) = (view w)\<lparr>cluRolloutManagers := m\<rparr> \<and>
           withoutStatus (metaKey (rmMeta x)) m = withoutStatus (metaKey (rmMeta x)) (cluRolloutManagers (view w))))"

text \<open>
  What a run for a request must not touch: everything but the status of the resource itself, the
  objects of the operator's names and the pods in its namespace, and the five in the scope of the
  cluster.
\<close>

definition except :: "namespaced_name set \<Rightarrow> (namespaced_name, 'o) fmap \<Rightarrow> (namespaced_name, 'o) fmap" where
  "except own m = fmfilter (\<lambda>k. k \<notin> own) m"

definition foreign :: "namespaced_name \<Rightarrow> cluster \<Rightarrow> cluster" where
  "foreign req c =
     (let ns = nnNamespace req; rollouts = {NamespacedName ns ''argo-rollouts''} in c\<lparr>
        cluRolloutManagers := withoutStatus req (cluRolloutManagers c),
        cluServiceAccounts := except rollouts (cluServiceAccounts c),
        cluRoles := except rollouts (cluRoles c),
        cluClusterRoles := except (NamespacedName '''' ` {''argo-rollouts'', ''argo-rollouts-aggregate-to-admin'',
          ''argo-rollouts-aggregate-to-edit'', ''argo-rollouts-aggregate-to-view''}) (cluClusterRoles c),
        cluRoleBindings := except rollouts (cluRoleBindings c),
        cluClusterRoleBindings := except {NamespacedName '''' ''argo-rollouts''} (cluClusterRoleBindings c),
        cluSecrets := except {NamespacedName ns DefaultRolloutsNotificationSecretName} (cluSecrets c),
        cluConfigMaps := except {NamespacedName ns DefaultRolloutsConfigMapName} (cluConfigMaps c),
        cluDeployments := except rollouts (cluDeployments c),
        cluPods := except {k. nnNamespace k = ns} (cluPods c),
        cluServices := except {NamespacedName ns DefaultArgoRolloutsMetricsServiceName} (cluServices c),
        cluServiceMonitors := except rollouts (cluServiceMonitors c),
        cluNetworkPolicies := except {NamespacedName ns DefaultRolloutsNetworkPolicy} (cluNetworkPolicies c)\<rparr>)"

lemma except_upd:
  assumes "\<forall>m k'. k' \<noteq> k \<longrightarrow> fmlookup (f m) k' = fmlookup m k'" "k \<in> own"
  shows "except own (f m) = except own m"
  using assms by (intro fmap_ext) (auto simp: except_def)

lemma named_calls_faithful:
  assumes "faithful_kind view Inv ops metaOf put"
    and "\<And>f k c. \<forall>m k'. k' \<noteq> k \<longrightarrow> fmlookup (f m) k' = fmlookup m k' \<Longrightarrow> k \<in> own \<Longrightarrow> foreign req (put f c) = foreign req c"
  shows "named_calls ops metaOf (\<lambda>w. Inv w \<and> foreign req (view w) = before) own"
proof -
  have frame: "concerns view Inv put k w w' \<Longrightarrow> k \<in> own \<Longrightarrow> Inv w' \<and> foreign req (view w') = foreign req (view w)" for k w w'
    using assms(2) by (fastforce simp: concerns_def)
  show ?thesis
    by (unfold_locales; use assms(1) in \<open>fastforce simp: faithful_kind_def gives_def leaves_def dest: frame split: sum.splits\<close>)
qed

lemma faithful_tenant:
  assumes "faithful view Inv c" "owner_keeps_key p"
  shows "tenant c p (\<lambda>w. Inv w \<and> foreign req (view w) = before) req" (is "tenant c p ?K req")
proof (rule tenant.intro)
  note kinds = assms(1) [unfolded faithful_def]
  note frames = foreign_def Let_def except_upd clusterRoleKeys_def DefaultArgoRolloutsResourceName_def
  show "owner_keeps_key p" by (rule assms(2))
  show "named_calls (kNamespaces c) nsMeta ?K ({})"
    by (rule named_calls_faithful [where put = cluNamespaces_update]) (use kinds in \<open>simp_all add: frames\<close>)
  show "named_calls (kRolloutManagers c) rmMeta ?K ({})"
    by (rule named_calls_faithful [where put = cluRolloutManagers_update]) (use kinds in \<open>simp_all add: frames\<close>)
  show "named_calls (kServiceAccounts c) saMeta ?K ({NamespacedName (nnNamespace req) DefaultArgoRolloutsResourceName})"
    by (rule named_calls_faithful [where put = cluServiceAccounts_update]) (use kinds in \<open>simp_all add: frames\<close>)
  show "named_calls (kRoles c) roleMeta ?K ({NamespacedName (nnNamespace req) DefaultArgoRolloutsResourceName})"
    by (rule named_calls_faithful [where put = cluRoles_update]) (use kinds in \<open>simp_all add: frames\<close>)
  show "named_calls (kClusterRoles c) roleMeta ?K (clusterRoleKeys)"
    by (rule named_calls_faithful [where put = cluClusterRoles_update]) (use kinds in \<open>simp_all add: frames\<close>)
  show "named_calls (kRoleBindings c) rbMeta ?K ({NamespacedName (nnNamespace req) DefaultArgoRolloutsResourceName})"
    by (rule named_calls_faithful [where put = cluRoleBindings_update]) (use kinds in \<open>simp_all add: frames\<close>)
  show "named_calls (kClusterRoleBindings c) rbMeta ?K ({clusterKey})"
    by (rule named_calls_faithful [where put = cluClusterRoleBindings_update]) (use kinds in \<open>simp_all add: frames\<close>)
  show "named_calls (kSecrets c) secMeta ?K ({NamespacedName (nnNamespace req) DefaultRolloutsNotificationSecretName})"
    by (rule named_calls_faithful [where put = cluSecrets_update]) (use kinds in \<open>simp_all add: frames\<close>)
  show "named_calls (kConfigMaps c) cmMeta ?K ({NamespacedName (nnNamespace req) DefaultRolloutsConfigMapName})"
    by (rule named_calls_faithful [where put = cluConfigMaps_update]) (use kinds in \<open>simp_all add: frames\<close>)
  show "named_calls (kDeployments c) dMeta ?K ({NamespacedName (nnNamespace req) DefaultArgoRolloutsResourceName})"
    by (rule named_calls_faithful [where put = cluDeployments_update]) (use kinds in \<open>simp_all add: frames\<close>)
  show "named_calls (kPods c) podMeta ?K ({k. nnNamespace k = nnNamespace req})"
    by (rule named_calls_faithful [where put = cluPods_update]) (use kinds in \<open>simp_all add: frames\<close>)
  show "named_calls (kServices c) svcMeta ?K ({NamespacedName (nnNamespace req) DefaultArgoRolloutsMetricsServiceName})"
    by (rule named_calls_faithful [where put = cluServices_update]) (use kinds in \<open>simp_all add: frames\<close>)
  show "named_calls (kServiceMonitors c) smMeta ?K ({NamespacedName (nnNamespace req) DefaultArgoRolloutsResourceName})"
    by (rule named_calls_faithful [where put = cluServiceMonitors_update]) (use kinds in \<open>simp_all add: frames\<close>)
  show "named_calls (kNetworkPolicies c) npMeta ?K ({NamespacedName (nnNamespace req) DefaultRolloutsNetworkPolicy})"
    by (rule named_calls_faithful [where put = cluNetworkPolicies_update]) (use kinds in \<open>simp_all add: frames\<close>)
  show "named_calls (kCRDs c) crdMeta ?K ({})"
    by (rule named_calls_faithful [where put = cluCRDs_update]) (use kinds in \<open>simp_all add: frames\<close>)
  show "leaves ?K (kStatusUpdate c x w)" if w: "?K w" and x: "metaKey (rmMeta x) = req" for w x
  proof -
    obtain m where "Inv (snd (kStatusUpdate c x w))" "view (snd (kStatusUpdate c x w)) = (view w)\<lparr>cluRolloutManagers := m\<rparr>"
        "withoutStatus req m = withoutStatus req (cluRolloutManagers (view w))"
      using kinds w x by blast
    then show ?thesis using w by (simp add: leaves_def foreign_def Let_def)
  qed
qed

section \<open>The cluster in memory\<close>

text \<open>Its invariant: every object is stored under its own namespace and name.\<close>

definition keyedAll :: "cluster \<Rightarrow> bool" where
  "keyedAll c \<longleftrightarrow> keyedCluster c \<and> keyed nsMeta (cluNamespaces c) \<and> keyed rmMeta (cluRolloutManagers c) \<and> keyed crdMeta (cluCRDs c)"

lemma mem_concerns:
  assumes "\<And>c. put (\<lambda>m. m) c = c" "Inv c"
    and "\<And>x c. Inv c \<Longrightarrow> Inv (put (fmupd (metaKey (metaOf x)) (server x)) c)" "\<And>k c. Inv c \<Longrightarrow> Inv (put (fmdrop k) c)"
  shows "concerns (\<lambda>c. c) Inv put (metaKey (metaOf x)) c (snd (kcreate (mem_ops metaOf look put server) x c))"
    and "concerns (\<lambda>c. c) Inv put (metaKey (metaOf x)) c (snd (kupdate (mem_ops metaOf look put server) x c))"
    and "concerns (\<lambda>c. c) Inv put (metaKey (metaOf x)) c (snd (kdelete (mem_ops metaOf look put server) x c))"
proof -
  have "concerns (\<lambda>c. c) Inv put k c c" for k
    using assms(1,2) by (auto simp: concerns_def intro!: exI [of _ "\<lambda>m. m"])
  moreover have "concerns (\<lambda>c. c) Inv put (metaKey (metaOf x)) c (put (fmupd (metaKey (metaOf x)) (server x)) c)"
    "concerns (\<lambda>c. c) Inv put (metaKey (metaOf x)) c (put (fmdrop (metaKey (metaOf x))) c)"
    using assms(2-4) by (force simp: concerns_def)+
  ultimately show "concerns (\<lambda>c. c) Inv put (metaKey (metaOf x)) c (snd (kcreate (mem_ops metaOf look put server) x c))"
    "concerns (\<lambda>c. c) Inv put (metaKey (metaOf x)) c (snd (kupdate (mem_ops metaOf look put server) x c))"
    "concerns (\<lambda>c. c) Inv put (metaKey (metaOf x)) c (snd (kdelete (mem_ops metaOf look put server) x c))"
    by (simp_all add: mem_ops_def split: option.split)
qed

lemma mem_faithful_kind:
  fixes look :: "cluster \<Rightarrow> (namespaced_name, 'o) fmap"
  assumes "\<And>c. put (\<lambda>m. m) c = c" "\<And>c. Inv c \<Longrightarrow> keyed metaOf (look c)" "\<And>x. metaKey (metaOf (server x)) = metaKey (metaOf x)"
    and "\<And>x c. Inv c \<Longrightarrow> Inv (put (fmupd (metaKey (metaOf x)) (server x)) c)" "\<And>k c. Inv c \<Longrightarrow> Inv (put (fmdrop k) c)"
  shows "faithful_kind (\<lambda>c. c) Inv (mem_ops metaOf look put server) metaOf put"
  unfolding faithful_kind_def
proof (intro allI impI conjI)
  let ?ops = "mem_ops metaOf look put server"
  fix c assume c: "Inv c"
  note k = keyedD [OF assms(2) [OF c]]
  show "metaKey (metaOf x) = key" if "fst (kget ?ops key c) = Inr x" for key x
    using that k by (auto simp: mem_ops_def split: option.splits)
  show "\<forall>x\<in>set xs. \<forall>n. ns = Some n \<longrightarrow> mNamespace (metaOf x) = n" if "fst (klist ?ops ns sel c) = Inr xs" for ns sel xs
    using that k by (fastforce simp: mem_ops_def in_sorted_list_of_fmap metaKey_def)
  show "metaKey (metaOf y) = metaKey (metaOf x)" if "fst (kcreate ?ops x c) = Inr y" for x y
    using that assms(3) by (auto simp: mem_ops_def split: option.splits)
  note writes = mem_concerns [where Inv = Inv and put = put and metaOf = metaOf and server = server and look = look,
      OF assms(1) c assms(4,5)]
  show "concerns (\<lambda>c. c) Inv put (metaKey (metaOf x)) c (snd (kcreate ?ops x c))" for x by (rule writes(1))
  show "concerns (\<lambda>c. c) Inv put (metaKey (metaOf x)) c (snd (kupdate ?ops x c))" for x by (rule writes(2))
  show "concerns (\<lambda>c. c) Inv put (metaKey (metaOf x)) c (snd (kdelete ?ops x c))" for x by (rule writes(3))
  show "Inv (snd (kget ?ops key c))" "snd (kget ?ops key c) = c" for key
    using c by (simp_all add: mem_ops_def split: option.split)
  show "Inv (snd (klist ?ops ns sel c))" "snd (klist ?ops ns sel c) = c" for ns sel
    using c by (simp_all add: mem_ops_def)
qed

lemma withoutStatus_put:
  "fmlookup m k = Some z \<Longrightarrow> withoutStatus k (fmupd k (z\<lparr>rmStatus := st\<rparr>) m) = withoutStatus k m"
  by (rule fmap_ext) (auto simp: withoutStatus_def)

lemma mem_status_faithful:
  assumes "keyedAll c"
  shows "keyedAll (snd (mem_status_update x c))"
    and "\<exists>m. snd (mem_status_update x c) = c\<lparr>cluRolloutManagers := m\<rparr> \<and>
      withoutStatus (metaKey (rmMeta x)) m = withoutStatus (metaKey (rmMeta x)) (cluRolloutManagers c)"
proof -
  show "keyedAll (snd (mem_status_update x c))"
    using assms keyedD [of rmMeta "cluRolloutManagers c"]
    by (auto simp: keyedAll_def keyed_parts mem_status_update_def intro!: keyed_upd split: option.split)
  show "\<exists>m. snd (mem_status_update x c) = c\<lparr>cluRolloutManagers := m\<rparr> \<and>
      withoutStatus (metaKey (rmMeta x)) m = withoutStatus (metaKey (rmMeta x)) (cluRolloutManagers c)"
  proof (cases "fmlookup (cluRolloutManagers c) (metaKey (rmMeta x))")
    case None
    then show ?thesis by (intro exI [of _ "cluRolloutManagers c"]) (simp add: mem_status_update_def)
  next
    case (Some z)
    then show ?thesis
      by (intro exI [of _ "fmupd (metaKey (rmMeta x)) (z\<lparr>rmStatus := rmStatus x\<rparr>) (cluRolloutManagers c)"])
        (simp add: mem_status_update_def withoutStatus_put)
  qed
qed

lemma mem_faithful: "faithful (\<lambda>c. c) keyedAll mem_client"
  unfolding faithful_def mem_client_def client.simps
  by (intro conjI, (rule mem_faithful_kind; simp add: keyedAll_def keyed_parts keyed_upd keyed_drop)+)
    (simp add: mem_status_faithful)

interpretation mem_tenant: tenant mem_client emptyPlatform "\<lambda>c. keyedAll c \<and> foreign req c = before" req for req before
  by (rule faithful_tenant [OF mem_faithful]) (simp add: owner_keeps_key_def emptyPlatform_def)

interpretation mem_named_roles: named_calls "kRoles mem_client" roleMeta "\<lambda>c. keyedAll c \<and> foreign req c = before"
    "{NamespacedName (nnNamespace req) DefaultArgoRolloutsResourceName}" for req before
  by (rule mem_tenant.roles)

section \<open>Properties\<close>

text \<open>
  C25: A run for a request stays within the request's own tenancy, on an API server that may fail at
  any call but minds the names: whatever the run does and however it ends, all other
  RolloutManagers, the specification of its own one, every object in another namespace, every
  object in its namespace that does not carry one of the operator's fixed names (pods apart), and
  everything in the scope of the cluster but the four ClusterRoles and the ClusterRoleBinding of the
  operator are as before.
\<close>

theorem reconcile_stays_in_tenancy:
  assumes "faithful view Inv (Client r)" "owner_keeps_key (Platform r)" "Inv w"
  shows "foreign req (view (snd (Reconcile r now req w))) = foreign req (view w)"
proof -
  have "tenant (Client r) (Platform r) (\<lambda>w'. Inv w' \<and> foreign req (view w') = foreign req (view w)) req"
    by (rule faithful_tenant [OF assms(1,2)])
  from tenant.reconcile_stays [OF this refl refl, of w now] assms(3) show ?thesis by (simp add: leaves_def)
qed

theorem reconcile_stays_in_tenancy_witness:
  "fmlookup (cluRoles (snd (Reconcile (memReconciler True) 0 (NamespacedName ''ns'' ''rm'')
     (emptyCluster\<lparr>cluRoles := fmap_of_list [(NamespacedName ''other'' ''argo-rollouts'', expectedRole (basicRolloutManager ''rm'' ''other'' True))]\<rparr>))))
     (NamespacedName ''other'' ''argo-rollouts'') = Some (expectedRole (basicRolloutManager ''rm'' ''other'' True))"
proof -
  let ?role = "expectedRole (basicRolloutManager ''rm'' ''other'' True)" and ?req = "NamespacedName ''ns'' ''rm''"
  let ?c = "emptyCluster\<lparr>cluRoles := fmap_of_list [(NamespacedName ''other'' ''argo-rollouts'', ?role)]\<rparr>"
  let ?c' = "snd (Reconcile (memReconciler True) 0 ?req ?c)"
  have f: "faithful (\<lambda>c. c) keyedAll (Client (memReconciler True))" by (simp add: mem_faithful)
  have o: "owner_keeps_key (Platform (memReconciler True))" by (simp add: owner_keeps_key_def emptyPlatform_def)
  have "metaKey (roleMeta ?role) = NamespacedName ''other'' ''argo-rollouts''" by (simp add: DefaultArgoRolloutsResourceName_def)
  then have "keyed roleMeta (cluRoles ?c)" by auto
  then have k: "keyedAll ?c" by (simp add: keyedAll_def keyed_parts emptyCluster_def del: fmap_of_list_simps)
  note stays = reconcile_stays_in_tenancy [where view = "\<lambda>c. c" and req = ?req and now = 0, OF f o k]
  have roles: "fmlookup (cluRoles (foreign ?req c)) (NamespacedName ''other'' ''argo-rollouts'') =
      fmlookup (cluRoles c) (NamespacedName ''other'' ''argo-rollouts'')" for c
    by (simp add: foreign_def except_def Let_def)
  note trans [OF roles [symmetric] trans [OF arg_cong [OF stays, where f = "\<lambda>c. fmlookup (cluRoles c) (NamespacedName ''other'' ''argo-rollouts'')"] roles]]
  then show ?thesis by (simp add: emptyCluster_def)
qed

end
