(* ===== verification/Authority.thy ===== *)
theory Authority
  imports Confinement
begin

text \<open>
  What the account of the controller may do after a run. The objects of RBAC are read as documented:
  a RoleBinding gives its subjects the rules of the role it refers to in its own namespace, a
  ClusterRoleBinding those of a ClusterRole everywhere. Which subjects stand for the account, groups
  included, is left to a parameter.
\<close>

section \<open>Who may do what\<close>

definition rulesOf :: "cluster \<Rightarrow> string \<Rightarrow> role_ref \<Rightarrow> policy_rule slice option" where
  "rulesOf c ns ref =
     (if refKind ref = ''Role'' then map_option roleRules (fmlookup (cluRoles c) (NamespacedName ns (refName ref)))
      else if refKind ref = ''ClusterRole'' then map_option roleRules (fmlookup (cluClusterRoles c) (NamespacedName '''' (refName ref)))
      else None)"

definition bindsAccount :: "(subject \<Rightarrow> bool) \<Rightarrow> role_binding \<Rightarrow> bool" where
  "bindsAccount account b \<longleftrightarrow> list_ex account (elems (rbSubjects b))"

text \<open>Each entry is a namespace, or \<open>None\<close> for all of them, and the rules that hold there.\<close>

definition authority :: "(subject \<Rightarrow> bool) \<Rightarrow> cluster \<Rightarrow> (string option \<times> policy_rule slice) set" where
  "authority account c =
     {(Some (nnNamespace k), rules) |k b rules. fmlookup (cluRoleBindings c) k = Some b \<and> bindsAccount account b \<and>
        rulesOf c (nnNamespace k) (rbRoleRef b) = Some rules} \<union>
     {(None, rules) |k b rules. fmlookup (cluClusterRoleBindings c) k = Some b \<and> bindsAccount account b \<and>
        refKind (rbRoleRef b) = ''ClusterRole'' \<and> rulesOf c '''' (rbRoleRef b) = Some rules}"

section \<open>The binding that a run leaves behind\<close>

context kind_api
begin

text \<open>A property of the object that neither the repair nor the server disturbs.\<close>

lemma ensure_puts:
  assumes "fresh = Inr new" "metaKey (metaOf new) = key" "keyed metaOf (look (view w))" "Q new"
    and "\<And>x. fmlookup (look (view w)) key = Some x \<Longrightarrow> Q x"
    and "\<And>x y. repair x = Some y \<Longrightarrow> Q x \<Longrightarrow> Q y \<and> metaKey (metaOf y) = metaKey (metaOf x)"
    and "\<And>x y. same x y \<Longrightarrow> Q x \<Longrightarrow> Q y"
  shows "\<exists>x w'. ensure ops key wg wc wu fresh repair w = (Ok x, w') \<and> Q x \<and> view w' = put (fmupd key x) (view w)"
proof (cases "fmlookup (look (view w)) key")
  case None
  obtain e w1 where g: "kget ops key w = (Inl e, w1)" "IsNotFound e" "view w1 = view w"
    using get_missing [OF None] by blast
  obtain y w2 where c: "kcreate ops new w1 = (Inr y, w2)" "same new y" "view w2 = put (fmupd key y) (view w)"
    using create_fresh [of w1 new] None assms(2) g(3) by auto
  then show ?thesis using g assms(1,4,7) by (auto simp: ensure_def)
next
  case (Some x)
  obtain w1 where g: "kget ops key w = (Inr x, w1)" "view w1 = view w"
    using get_found [OF Some] by blast
  have xk: "metaKey (metaOf x) = key" using keyedD [OF assms(3) Some] .
  show ?thesis
  proof (cases "repair x")
    case None
    then have "put (fmupd key x) (view w) = view w"
      using Some by (intro put_unchanged) (simp add: fmupd_same)
    then show ?thesis using g None assms(5) [OF Some] by (auto simp: ensure_def)
  next
    case (Some x')
    have x': "Q x'" "metaKey (metaOf x') = key"
      using assms(6) [OF Some] assms(5) [OF \<open>fmlookup (look (view w)) key = Some x\<close>] xk by auto
    obtain y w2 where c: "kupdate ops x' w1 = (Inr y, w2)" "same x' y" "view w2 = put (fmupd key y) (view w)"
      using update_found [of w1 x' x] \<open>fmlookup (look (view w)) key = Some x\<close> x'(2) g(2) by auto
    then show ?thesis using g Some x'(1) assms(7) by (auto simp: ensure_def)
  qed
qed

end

text \<open>The reference to a role stays as it was created.\<close>

lemma binding_repair_ref:
  "repairObject rbMeta rbMeta_update cr e (fixSubjects s) x = Some y \<Longrightarrow>
     rbRoleRef y = rbRoleRef x \<and> metaKey (rbMeta y) = metaKey (rbMeta x)"
  by (auto simp: repairObject_def fixSubjects_def Let_def split: if_splits)

definition roleRef :: "rollout_manager \<Rightarrow> role_ref" where
  "roleRef cr = \<lparr>refAPIGroup = ''rbac.authorization.k8s.io'',
     refKind = (if NamespaceScoped (rmSpec cr) then ''Role'' else ''ClusterRole''), refName = ''argo-rollouts''\<rparr>"

text \<open>The bindings afterwards: one is written, with that reference, and the one of the other scope dropped.\<close>

definition rebound :: "rollout_manager \<Rightarrow> cluster \<Rightarrow> cluster \<Rightarrow> bool" where
  "rebound cr c c' \<longleftrightarrow> (\<exists>b. rbRoleRef b = roleRef cr \<and>
     (if NamespaceScoped (rmSpec cr)
      then cluRoleBindings c' = fmupd (rolloutsKey cr) b (cluRoleBindings c) \<and>
        cluClusterRoleBindings c' = fmdrop clusterKey (cluClusterRoleBindings c)
      else cluClusterRoleBindings c' = fmupd clusterKey b (cluClusterRoleBindings c) \<and>
        cluRoleBindings c' = fmdrop (rolloutsKey cr) (cluRoleBindings c)))"

text \<open>The binding of the scope, when there is one, refers to the right role.\<close>

definition wellBound :: "rollout_manager \<Rightarrow> cluster \<Rightarrow> bool" where
  "wellBound cr c \<longleftrightarrow>
     (if NamespaceScoped (rmSpec cr)
      then \<forall>b. fmlookup (cluRoleBindings c) (rolloutsKey cr) = Some b \<longrightarrow> rbRoleRef b = roleRef cr
      else \<forall>b. fmlookup (cluClusterRoleBindings c) clusterKey = Some b \<longrightarrow> rbRoleRef b = roleRef cr)"

lemma roleBinding_rebinds:
  assumes "cluster_api view (Client r)" "owner_contract (Platform r)" "keyed rbMeta (cluRoleBindings (view w))"
    and "keyed rbMeta (cluClusterRoleBindings (view w))" "wellBound cr (view w)" "NamespaceScoped (rmSpec cr)"
    and "mName (roleMeta role) = DefaultArgoRolloutsResourceName"
  shows "\<exists>w'. reconcileRolloutsRoleBinding r cr (Some role) (Some sa) w = (Ok (), w') \<and> rebound cr (view w) (view w')"
proof -
  obtain w1 where w1: "dropStale (kClusterRoleBindings (Client r)) '''' DefaultArgoRolloutsResourceName
      (errorf_w (''failed to delete existing ClusterRoleBinding '' @ DefaultArgoRolloutsResourceName @ '': '')) w = (Ok (), w1)"
      "view w1 = cluClusterRoleBindings_update (fmdrop clusterKey) (view w)"
    using kind_api.dropStale_drops [OF api_cluster_role_bindings [OF assms(1)] assms(4)] by blast
  let ?b = "expectedRoleBinding cr role sa"
  obtain m where m: "SetControllerReference (Platform r) cr (rbMeta ?b) = Inr m" "meta_same (rbMeta ?b) m"
    by (rule owner_contract_same [OF assms(2), of "rbMeta ?b" cr]) auto
  let ?new = "rbMeta_update (\<lambda>_. m) ?b"
  have new: "withOwner (Platform r) cr rbMeta_update (rbMeta ?b) ?b = Inr ?new" using m(1) by (simp add: withOwner_def)
  have "\<exists>x w'. ensure (kRoleBindings (Client r)) (rolloutsKey cr) wg wc wu (withOwner (Platform r) cr rbMeta_update (rbMeta ?b) ?b)
        (ns_binding.repair cr role sa) w1 = (Ok x, w') \<and> rbRoleRef x = roleRef cr \<and>
      view w' = cluRoleBindings_update (fmupd (rolloutsKey cr) x) (view w1)" for wg wc wu
    by (rule kind_api.ensure_puts [OF api_role_bindings [OF assms(1)] new])
      (use assms(3,5-7) meta_same_key [OF m(2)] in \<open>auto simp: w1(2) wellBound_def roleRef_def expectedRoleBinding_def
         same_role_binding_def DefaultArgoRolloutsResourceName_def dest: binding_repair_ref\<close>)
  then obtain x w' where x: "ensure (kRoleBindings (Client r)) (rolloutsKey cr)
        (errorf_w (''failed to get the RoleBinding associated with '' @ DefaultArgoRolloutsResourceName @ '': ''))
        (\<lambda>e. e) (\<lambda>e. e) (withOwner (Platform r) cr rbMeta_update (rbMeta ?b) ?b) (ns_binding.repair cr role sa) w1 = (Ok x, w')"
      "rbRoleRef x = roleRef cr" "view w' = cluRoleBindings_update (fmupd (rolloutsKey cr) x) (view w1)"
    by blast
  show ?thesis
    unfolding roleBinding_ensure w1(1) andThen_simps x(1)
    using x(2) assms(6) by (auto simp: rebound_def x(3) w1(2))
qed

lemma clusterRoleBinding_rebinds:
  assumes "cluster_api view (Client r)" "keyed rbMeta (cluRoleBindings (view w))"
    and "keyed rbMeta (cluClusterRoleBindings (view w))" "wellBound cr (view w)" "\<not> NamespaceScoped (rmSpec cr)"
    and "mName (roleMeta role) = DefaultArgoRolloutsResourceName"
  shows "\<exists>w'. reconcileRolloutsClusterRoleBinding r (Some role) (Some sa) cr w = (Ok (), w') \<and> rebound cr (view w) (view w')"
proof -
  obtain w1 where w1: "dropStale (kRoleBindings (Client r)) (crNamespace cr) DefaultArgoRolloutsResourceName
      (errorf_w (''failed to delete existing RoleBinding '' @ DefaultArgoRolloutsResourceName @
        '' for Namespace '' @ crNamespace cr @ '': '')) w = (Ok (), w1)"
      "view w1 = cluRoleBindings_update (fmdrop (rolloutsKey cr)) (view w)"
    using kind_api.dropStale_drops [OF api_role_bindings [OF assms(1)] assms(2)] by blast
  have "\<exists>x w'. ensure (kClusterRoleBindings (Client r)) clusterKey wg wc wu (Inr (expectedClusterRoleBinding cr role sa))
        (cl_binding.repair cr role sa) w1 = (Ok x, w') \<and> rbRoleRef x = roleRef cr \<and>
      view w' = cluClusterRoleBindings_update (fmupd clusterKey x) (view w1)" for wg wc wu
    by (rule kind_api.ensure_puts [OF api_cluster_role_bindings [OF assms(1)] refl])
      (use assms(3-6) in \<open>auto simp: w1(2) wellBound_def roleRef_def expectedClusterRoleBinding_def
         same_role_binding_def DefaultArgoRolloutsResourceName_def dest: binding_repair_ref\<close>)
  then obtain x w' where x: "ensure (kClusterRoleBindings (Client r)) clusterKey
        (errorf_w (''failed to get the ClusterRoleBinding associated with '' @ DefaultArgoRolloutsResourceName @ '': ''))
        (\<lambda>e. e) (\<lambda>e. e) (Inr (expectedClusterRoleBinding cr role sa)) (cl_binding.repair cr role sa) w1 = (Ok x, w')"
      "rbRoleRef x = roleRef cr" "view w' = cluClusterRoleBindings_update (fmupd clusterKey x) (view w1)"
    by blast
  show ?thesis
    unfolding clusterRoleBinding_ensure w1(1) andThen_simps x(1)
    using x(2) assms(5) by (auto simp: rebound_def x(3) w1(2))
qed

section \<open>A whole run\<close>

lemma access_rebinds:
  assumes "conforming view r" "keyedAccess (view w)" "accessReady cr (view w)" "wellBound cr (view w)"
  shows "\<exists>sa w'. reconcileAccess r cr w = (Ok sa, w') \<and> rebound cr (view w) (view w')"
proof -
  have api: "cluster_api view (Client r)" "owner_contract (Platform r)" using assms(1) by (simp_all add: conforming_def)
  obtain sa w1 where sa: "reconcileRolloutsServiceAccount r cr w = (Ok sa, w1)" "metaKey (saMeta sa) = rolloutsKey cr"
    and v1: "view w1 = cluServiceAccounts_update (fmupd (rolloutsKey cr) sa) (view w)"
    using serviceAccount_settles [OF api, of w cr] assms(2,3) by (auto simp: keyedAccess_def accessReady_def)
  have k1: "keyedAccess (view w1)" using assms(2) sa(2) by (auto simp: keyedAccess_def v1)
  have r1: "rolesReady cr (view w1)" and a1: "aggregatesReady cr (view w1)"
    using assms(3) by (simp_all add: accessReady_def v1)
  obtain role clusterRole w2 where roles: "reconcileRoles r cr w1 = (Ok (role, clusterRole), w2)"
    and k2: "keyedAccess (view w2)" and a2: "aggregatesReady cr (view w2)"
    and v2: "\<exists>f g. view w2 = cluRoles_update f (cluClusterRoles_update g (view w1))"
    by (rule roles_step [OF assms(1) k1 r1 a1])
  have found: "if NamespaceScoped (rmSpec cr) then \<exists>x. role = Some x \<and> mName (roleMeta x) = DefaultArgoRolloutsResourceName
      else \<exists>x. clusterRole = Some x \<and> mName (roleMeta x) = DefaultArgoRolloutsResourceName"
    using roles_settle [OF assms(1) k1 r1] roles by (auto simp: metaKey_def split: if_splits)
  obtain m w3 where agg: "reconcileAggregates r cr w2 = (Ok (), w3)" "keyed roleMeta m"
    and v3: "view w3 = (view w2)\<lparr>cluClusterRoles := m\<rparr>"
    using aggregates_settle [OF api(1), of w2 cr] k2 a2 by (auto simp: keyedAccess_def)
  have frame: "cluRoleBindings (view w3) = cluRoleBindings (view w)" "cluClusterRoleBindings (view w3) = cluClusterRoleBindings (view w)"
    using v2 by (auto simp: v3 v1)
  have k: "keyed rbMeta (cluRoleBindings (view w3))" "keyed rbMeta (cluClusterRoleBindings (view w3))" "wellBound cr (view w3)"
    using assms(2,4) by (simp_all add: keyedAccess_def wellBound_def frame)
  have "\<exists>w4. reconcileBindings r cr role clusterRole (Some sa) w3 = (Ok (), w4) \<and> rebound cr (view w3) (view w4)"
    using roleBinding_rebinds [OF api k] clusterRoleBinding_rebinds [OF api(1) k] found
    by (cases "NamespaceScoped (rmSpec cr)") (auto simp: reconcileBindings_def)
  then obtain w4 where binds: "reconcileBindings r cr role clusterRole (Some sa) w3 = (Ok (), w4)" "rebound cr (view w3) (view w4)"
    by blast
  have "reconcileAccess r cr w = (Ok sa, w4)"
    unfolding reconcileAccess_def sa(1) andThen_simps roles prod.case agg(1) binds(1) ..
  with binds(2) show ?thesis by (auto simp: rebound_def frame)
qed

lemma rebound_frame:
  assumes "accessPart c' = accessPart c''" "rebound cr c c'"
  shows "rebound cr c c''"
proof -
  have e: "cluRoleBindings c' = cluRoleBindings c''" "cluClusterRoleBindings c' = cluClusterRoleBindings c''"
    using assms(1) by (simp_all add: part_defs)
  show ?thesis using assms(2) unfolding rebound_def e .
qed

lemma chain_rebinds:
  assumes "conforming view r" "admissible r cr (view w)" "supported r cr" "ready r cr (view w)" "keyedCluster (view w)"
    and "wellBound cr (view w)" "reconcileRolloutsManager r cr w = (res, w')"
  shows "rebound cr (view w) (view w')"
proof -
  have api: "cluster_api view (Client r)" using assms(1) by (simp add: conforming_def)
  obtain w1 where w1: "reconcileRolloutsManager r cr w = reconcileAccepted r cr w1" "view w1 = view w"
    by (rule admitted_run [OF api assms(2)])
  have k1: "keyedAccess (view w1)" "keyedWorkload (view w1)" using assms(5) by (simp_all add: keyedCluster_def w1(2))
  have r1: "accessReady cr (view w1)" "workloadReady r cr (view w1)" using assms(4) by (simp_all add: ready_def w1(2))
  obtain sa w2 where sa: "reconcileAccess r cr w1 = (Ok sa, w2)" "metaKey (saMeta sa) = rolloutsKey cr"
    and p2: "workloadPart (view w2) = workloadPart (view w1)"
    using access_settles [OF assms(1) k1(1) r1(1)] by blast
  have bound: "rebound cr (view w) (view w2)"
    using access_rebinds [OF assms(1) k1(1) r1(1)] assms(6) sa(1) by (simp add: w1(2))
  obtain w3 where wl: "reconcileWorkload r cr sa w2 = (Ok (), w3)" "accessPart (view w3) = accessPart (view w2)"
    using workload_settles [OF assms(1) _ _ sa(2) assms(3), of w2] k1(2) r1(2) access_frame [OF p2] by blast
  obtain rr w4 where ph: "determineStatusPhase r cr w3 = (Ok rr, w4)" "view w4 = view w3"
    using phase_found [OF api] by blast
  have "w' = w4" using assms(7) unfolding w1(1) reconcileAccepted_def sa(1) orFail_simps wl(1) ph(1) by simp
  then show ?thesis using rebound_frame [OF wl(2) [symmetric] bound] ph(2) by simp
qed

lemma reconcile_rebinds:
  assumes "conforming view r" "supported r cr" "admissible r cr (view w)" "ready r cr (view w)" "keyedCluster (view w)"
    and "fmlookup (cluNamespaces (view w)) (NamespacedName '''' (crNamespace cr)) = Some ns" "mDeletionTimestamp (nsMeta ns) = None"
    and "fmlookup (cluRolloutManagers (view w)) (metaKey (rmMeta cr)) = Some cr" "wellBound cr (view w)"
  shows "\<exists>w1. Reconcile r now (metaKey (rmMeta cr)) w = (Ok (), w1) \<and> settled r cr (view w1) \<and> rebound cr (view w) (view w1)"
proof -
  have api: "cluster_api view (Client r)" using assms(1) by (simp add: conforming_def)
  have ns: "fmlookup (cluNamespaces (view w)) (NamespacedName '''' (nnNamespace (metaKey (rmMeta cr)))) = Some ns"
    using assms(6) by (simp add: metaKey_def)
  obtain w0 where w0: "view w0 = view w" and run: "Reconcile r now (metaKey (rmMeta cr)) w =
    (case reconcileRolloutsManager r cr w0 of
       (Panic p, w3) \<Rightarrow> (Panic p, w3)
     | (Err err, w3) \<Rightarrow> (Err err, w3)
     | (Ok (result, reconcileErr), w3) \<Rightarrow>
         andThen (updateStatusConditionOfRolloutManager now result cr (Client r) w3) (\<lambda>_ w4.
           (case reconcileErr of Some err \<Rightarrow> (Err err, w4) | None \<Rightarrow> (Ok (), w4))))"
    by (rule reconcile_found [OF api ns assms(7,8)])
  obtain w1 where w1: "reconcileRolloutsManager r cr w0 = (Ok (successResult cr (view w1), None), w1)"
    "settled r cr (view w1)" "requestPart (view w1) = requestPart (view w0)"
    by (rule chain_settles [where view = view and w = w0, OF assms(1) _ assms(2)]) (use assms(3-5) in \<open>simp_all add: w0\<close>)
  have bound: "rebound cr (view w) (view w1)"
    using chain_rebinds [where w = w0, OF assms(1) _ assms(2) _ _ _ w1(1)] assms(3-5,9) by (simp add: w0)
  have "fmlookup (cluRolloutManagers (view w1)) (metaKey (rmMeta cr)) = Some cr"
    using w1(3) assms(8) by (simp add: part_defs w0)
  from status_stored [where view = view, OF api this, of now "successResult cr (view w1)"]
  obtain w2 where w2: "updateStatusConditionOfRolloutManager now (successResult cr (view w1)) cr (Client r) w1 = (Ok (), w2)"
    "view w2 = cluRolloutManagers_update (fmupd (metaKey (rmMeta cr))
       (cr\<lparr>rmStatus := requestedStatus now (successResult cr (view w1)) (rmStatus cr)\<rparr>)) (view w1)" by metis
  have "settled r cr (view w2) = settled r cr (view w1)" unfolding w2(2) by (rule request_frame; simp)
  moreover have "rebound cr (view w) (view w2)" by (rule rebound_frame [OF _ bound]) (simp add: w2(2))
  ultimately show ?thesis using w1(1,2) w2(1) by (simp add: run)
qed

section \<open>Properties\<close>

lemma settled_rules:
  assumes "settled r cr c"
  shows "rulesOf c (crNamespace cr) (roleRef cr) = Some GetPolicyRules"
proof -
  have rules: "roleRules x = GetPolicyRules"
    if "repairObject roleMeta roleMeta_update cr m (fixRules GetPolicyRules) x = None" for m x
    using that by (auto simp: repairObject_def fixRules_def Let_def split: if_splits)
  show ?thesis
    using assms by (auto simp: settled_def accessSettled_def rolesSettled_def rulesOf_def roleRef_def
        DefaultArgoRolloutsResourceName_def elim!: settledAtE dest!: rules split: if_splits)
qed

lemma settled_subject:
  assumes "settled r cr c"
  shows "if NamespaceScoped (rmSpec cr)
    then \<exists>b. fmlookup (cluRoleBindings c) (rolloutsKey cr) = Some b \<and> rbSubjects b = slice [rolloutsSubject cr]
    else \<exists>b. fmlookup (cluClusterRoleBindings c) clusterKey = Some b \<and> rbSubjects b = slice [rolloutsSubject cr]"
proof -
  have subjects: "rbSubjects b = slice [rolloutsSubject cr]" if "bindingRepair cr ns b = None" for ns b
    using that by (auto simp: bindingRepair_def repairObject_def fixSubjects_def Let_def split: if_splits)
  show ?thesis
    using assms by (auto simp: settled_def accessSettled_def bindingsSettled_def elim!: settledAtE dest!: subjects split: if_splits)
qed

lemma rules_bounded:
  "grants GetPolicyRules '''' ''secrets'' v \<Longrightarrow> v \<in> {''get'', ''list'', ''watch''}"
  "\<not> grants GetPolicyRules ''rbac.authorization.k8s.io'' res v"
  by (simp_all add: grants_def matches_def policy_rules_defs)

text \<open>
  C33: Least privilege: when no binding but the operator's own names the account of the controller,
  and that one, if it is there already, refers to the right role, then after a run of
  \<open>Reconcile\<close> the account has the rules of the operator in the namespace of a namespace-scoped
  resource, or everywhere for a cluster-scoped one, and no other rules anywhere: so it can read
  secrets at most, and nothing in the RBAC group is open to it.
\<close>

theorem account_authority:
  assumes "conforming view r" "supported r cr" "admissible r cr (view w)" "ready r cr (view w)" "keyedCluster (view w)"
    and "fmlookup (cluNamespaces (view w)) (NamespacedName '''' (crNamespace cr)) = Some ns" "mDeletionTimestamp (nsMeta ns) = None"
    and "fmlookup (cluRolloutManagers (view w)) (metaKey (rmMeta cr)) = Some cr" "wellBound cr (view w)"
    and "account \<lparr>subKind = ''ServiceAccount'', subAPIGroup = '''', subName = ''argo-rollouts'', subNamespace = crNamespace cr\<rparr>"
    and "\<And>k b. fmlookup (cluRoleBindings (view w)) k = Some b \<Longrightarrow> bindsAccount account b \<Longrightarrow> k = rolloutsKey cr"
    and "\<And>k b. fmlookup (cluClusterRoleBindings (view w)) k = Some b \<Longrightarrow> bindsAccount account b \<Longrightarrow> k = clusterKey"
  shows "\<exists>w1. Reconcile r now (metaKey (rmMeta cr)) w = (Ok (), w1) \<and>
    authority account (view w1) = {(if NamespaceScoped (rmSpec cr) then Some (crNamespace cr) else None, GetPolicyRules)} \<and>
    (\<forall>(place, rules) \<in> authority account (view w1).
       (\<forall>verb. grants rules '''' ''secrets'' verb \<longrightarrow> verb \<in> {''get'', ''list'', ''watch''}) \<and>
       (\<forall>res verb. \<not> grants rules ''rbac.authorization.k8s.io'' res verb))"
proof -
  obtain w1 where w1: "Reconcile r now (metaKey (rmMeta cr)) w = (Ok (), w1)" "settled r cr (view w1)"
      "rebound cr (view w) (view w1)"
    using reconcile_rebinds [where now = now, OF assms(1-9)] by blast
  have rules: "rulesOf (view w1) (crNamespace cr) (roleRef cr) = Some GetPolicyRules" by (rule settled_rules [OF w1(2)])
  have account: "bindsAccount account b" if "rbSubjects b = slice [rolloutsSubject cr]" for b
    using assms(10) that by (simp add: bindsAccount_def rolloutsSubject_def DefaultArgoRolloutsResourceName_def slice_def elems_def)
  have "authority account (view w1) = {(if NamespaceScoped (rmSpec cr) then Some (crNamespace cr) else None, GetPolicyRules)}"
  proof (cases "NamespaceScoped (rmSpec cr)")
    case True
    obtain b where b: "rbRoleRef b = roleRef cr" "cluRoleBindings (view w1) = fmupd (rolloutsKey cr) b (cluRoleBindings (view w))"
        "cluClusterRoleBindings (view w1) = fmdrop clusterKey (cluClusterRoleBindings (view w))"
      using w1(3) True by (auto simp: rebound_def)
    have "bindsAccount account b" using settled_subject [OF w1(2)] True account by (simp add: b(2))
    then have "(Some (crNamespace cr), GetPolicyRules) \<in> authority account (view w1)"
      using rules by (auto simp: authority_def b intro!: exI [of _ "rolloutsKey cr"])
    moreover have "authority account (view w1) \<subseteq> {(Some (crNamespace cr), GetPolicyRules)}"
      using rules assms(11,12) by (fastforce simp: authority_def b split: if_splits)
    ultimately show ?thesis using True by auto
  next
    case False
    obtain b where b: "rbRoleRef b = roleRef cr" "cluClusterRoleBindings (view w1) = fmupd clusterKey b (cluClusterRoleBindings (view w))"
        "cluRoleBindings (view w1) = fmdrop (rolloutsKey cr) (cluRoleBindings (view w))"
      using w1(3) False by (auto simp: rebound_def)
    have "bindsAccount account b" using settled_subject [OF w1(2)] False account by (simp add: b(2))
    moreover have "refKind (roleRef cr) = ''ClusterRole''" "rulesOf (view w1) '''' (roleRef cr) = Some GetPolicyRules"
      using rules False by (simp_all add: roleRef_def rulesOf_def)
    ultimately have "(None, GetPolicyRules) \<in> authority account (view w1)"
        "authority account (view w1) \<subseteq> {(None, GetPolicyRules)}"
      using assms(11,12) by (auto simp: authority_def b intro!: exI [of _ clusterKey])
    then show ?thesis using False by auto
  qed
  with w1(1) rules_bounded show ?thesis by auto
qed

theorem account_authority_witness:
  "\<exists>w1. Reconcile (codecReconciler True) 5 (NamespacedName ''ns'' ''rm'') (freshCluster (basicRolloutManager ''rm'' ''ns'' True)) = (Ok (), w1) \<and>
     authority (\<lambda>s. subName s = ''argo-rollouts'' \<and> subNamespace s = ''ns'') w1 = {(Some ''ns'', GetPolicyRules)}"
proof -
  let ?cr = "basicRolloutManager ''rm'' ''ns'' True" and ?r = "codecReconciler True"
  let ?c = "freshCluster ?cr" and ?ns = "\<lparr>nsMeta = newMeta ''ns'' ''''\<rparr>"
  let ?account = "\<lambda>s. subName s = ''argo-rollouts'' \<and> subNamespace s = ''ns''"
  have c: "conforming (\<lambda>c. c) ?r" by (simp add: conforming_def mem_cluster_api)
  have a: "admissible ?r ?cr ?c" by (simp add: admissible_def admitScope_eq)
  have n: "fmlookup (cluNamespaces ?c) (NamespacedName '''' (crNamespace ?cr)) = Some ?ns"
    "mDeletionTimestamp (nsMeta ?ns) = None" "fmlookup (cluRolloutManagers ?c) (metaKey (rmMeta ?cr)) = Some ?cr"
    by (simp_all add: freshCluster_def newMeta_def)
  have empty: "cluRoleBindings ?c = fmempty" "cluClusterRoleBindings ?c = fmempty" by (simp_all add: freshCluster_def emptyCluster_def)
  have b: "wellBound ?cr ?c" by (simp add: wellBound_def empty)
  have s: "?account \<lparr>subKind = ''ServiceAccount'', subAPIGroup = '''', subName = ''argo-rollouts'', subNamespace = crNamespace ?cr\<rparr>"
    by simp
  have k: "metaKey (rmMeta ?cr) = NamespacedName ''ns'' ''rm''" "NamespaceScoped (rmSpec ?cr)" "crNamespace ?cr = ''ns''" by (simp_all add: metaKey_def)
  have "\<exists>w1. Reconcile ?r 5 (metaKey (rmMeta ?cr)) ?c = (Ok (), w1) \<and>
    authority ?account w1 = {(if NamespaceScoped (rmSpec ?cr) then Some (crNamespace ?cr) else None, GetPolicyRules)} \<and>
    (\<forall>(place, rules) \<in> authority ?account w1.
       (\<forall>verb. grants rules '''' ''secrets'' verb \<longrightarrow> verb \<in> {''get'', ''list'', ''watch''}) \<and>
       (\<forall>res verb. \<not> grants rules ''rbac.authorization.k8s.io'' res verb))"
    by (rule account_authority [where view = "\<lambda>c. c" and w = ?c and account = ?account, OF c supported_basic a fresh_ready n b s]) (simp_all add: empty)
  then show ?thesis unfolding k(1) by (elim exE conjE) (simp add: k(2,3))
qed

end
