(* ===== verification/Operator_Main.thy ===== *)
theory Operator_Main
  imports Reconcile
begin

text \<open>
  The start of the operator: \<open>main\<close> of \<open>cmd/main.go\<close> and the part of
  \<open>SetupWithManager\<close> that looks for ServiceMonitors. The calls of controller-runtime are
  parameters, each with the error it returns; the flags are given as parsed values. What is
  modelled is the order of the steps, which errors end the process, and the settings of the
  reconciler that \<open>Reconcile\<close> is run with.
\<close>

section \<open>The settings\<close>

definition OpenShiftRoutePluginLocationEnv :: string where
  "OpenShiftRoutePluginLocationEnv = ''OPENSHIFT_ROUTE_PLUGIN_LOCATION''"

definition openShiftRoutePluginLocation :: "platform \<Rightarrow> string" where
  "openShiftRoutePluginLocation p =
     (if os_Getenv p OpenShiftRoutePluginLocationEnv = '''' then DefaultOpenShiftRoutePluginURL
      else os_Getenv p OpenShiftRoutePluginLocationEnv)"

definition isNamespaceScoped :: "platform \<Rightarrow> bool" where
  "isNamespaceScoped p \<longleftrightarrow> strings_ToLower (os_Getenv p NamespaceScopedArgoRolloutsEnv) = ''true''"

text \<open>The literal leaves the field \<open>ResourceLabels\<close> out, so that it is nil.\<close>

definition operatorReconciler :: "'w client \<Rightarrow> platform \<Rightarrow> 'w reconciler" where
  "operatorReconciler c p = \<lparr>Client = c, OpenShiftRoutePluginLocation = openShiftRoutePluginLocation p,
     ResourceLabels = None, NamespaceScopedArgoRolloutsController = isNamespaceScoped p, Platform = p\<rparr>"

record flags =
  metricsBindAddress :: "string option"
  healthProbeBindAddress :: "string option"
  leaderElect :: "bool option"

record manager_options =
  moMetricsAddr :: string
  moWebhookPort :: int
  moProbeAddr :: string
  moLeaderElection :: bool
  moLeaderElectionID :: string

definition managerOptions :: "flags \<Rightarrow> manager_options" where
  "managerOptions f = \<lparr>
     moMetricsAddr = (case metricsBindAddress f of None \<Rightarrow> '':8080'' | Some a \<Rightarrow> a),
     moWebhookPort = 9443,
     moProbeAddr = (case healthProbeBindAddress f of None \<Rightarrow> '':8081'' | Some a \<Rightarrow> a),
     moLeaderElection = (case leaderElect f of None \<Rightarrow> False | Some b \<Rightarrow> b),
     moLeaderElectionID = ''rolloutsmanager.argoproj.io''\<rparr>"

section \<open>The steps\<close>

record startup =
  ctrl_NewManager :: "manager_options \<Rightarrow> go_error option"
  addMonitoringToScheme :: "go_error option"
  addCRDsToScheme :: "go_error option"
  newDiscoveryClient :: "go_error + (string \<Rightarrow> go_error + string list)"
  completeController :: "bool \<Rightarrow> go_error option"
  AddHealthzCheck :: "string \<Rightarrow> go_error option"
  AddReadyzCheck :: "string \<Rightarrow> go_error option"
  startManager :: "go_error option"

text \<open>\<open>SetupWithManager\<close>: the controller is built with or without a watch on ServiceMonitors.\<close>

definition SetupWithManager :: "startup \<Rightarrow> go_error + bool" where
  "SetupWithManager s =
     (case doesCRDExist (newDiscoveryClient s) serviceMonitorsCRDName of
        Inl err \<Rightarrow> Inl err
      | Inr crdExists \<Rightarrow> (case completeController s crdExists of Some err \<Rightarrow> Inl err | None \<Rightarrow> Inr crdExists))"

text \<open>
  How the process ends: with code 1 after logging a message, or, after the manager has run with the
  given reconciler, with code 0.
\<close>

datatype 'w process = ExitOne string go_error | Ran "'w reconciler" bool

definition operatorMain :: "flags \<Rightarrow> startup \<Rightarrow> 'w client \<Rightarrow> platform \<Rightarrow> 'w process" where
  "operatorMain f s c p =
     (case ctrl_NewManager s (managerOptions f) of
        Some err \<Rightarrow> ExitOne ''unable to start manager'' err
      | None \<Rightarrow>
     (case addMonitoringToScheme s of
        Some err \<Rightarrow> ExitOne '''' err
      | None \<Rightarrow>
     (case addCRDsToScheme s of
        Some err \<Rightarrow> ExitOne '''' err
      | None \<Rightarrow>
     (case SetupWithManager s of
        Inl err \<Rightarrow> ExitOne ''unable to create controller'' err
      | Inr crdExists \<Rightarrow>
     (case AddHealthzCheck s ''healthz'' of
        Some err \<Rightarrow> ExitOne ''unable to set up health check'' err
      | None \<Rightarrow>
     (case AddReadyzCheck s ''readyz'' of
        Some err \<Rightarrow> ExitOne ''unable to set up ready check'' err
      | None \<Rightarrow>
     (case startManager s of
        Some err \<Rightarrow> ExitOne ''problem running manager'' err
      | None \<Rightarrow> Ran (operatorReconciler c p) crdExists)))))))"

section \<open>Lemmas\<close>

lemma operatorReconciler_simps [simp]:
  "Client (operatorReconciler c p) = c" "Platform (operatorReconciler c p) = p"
  "ResourceLabels (operatorReconciler c p) = None"
  "NamespaceScopedArgoRolloutsController (operatorReconciler c p) = isNamespaceScoped p"
  "OpenShiftRoutePluginLocation (operatorReconciler c p) = openShiftRoutePluginLocation p"
  by (simp_all add: operatorReconciler_def)

lemma operator_labels: "managedCustomLabels (operatorReconciler c p) cr"
  by (simp add: managedCustomLabels_def)

lemma operatorMain_Ran:
  "operatorMain f s c p = Ran r crdExists \<Longrightarrow> r = operatorReconciler c p \<and> SetupWithManager s = Inr crdExists"
  by (simp add: operatorMain_def split: option.splits sum.splits)

text \<open>A letter of the word true, in either case.\<close>

definition eitherCase :: "char \<Rightarrow> char \<Rightarrow> bool" where
  "eitherCase x l \<longleftrightarrow> x = l \<or> of_char x + (32::nat) = of_char l"

lemma toLowerChar_iff:
  assumes "CHR ''a'' \<le> l" "l \<le> CHR ''z''"
  shows "toLowerChar x = l \<longleftrightarrow> eitherCase x l"
proof -
  let ?n = "of_char x :: nat" and ?m = "of_char l :: nat"
  have m: "97 \<le> ?m" "?m \<le> 122" using assms by (simp_all add: less_eq_char_def)
  have upper: "CHR ''A'' \<le> x \<and> x \<le> CHR ''Z'' \<longleftrightarrow> 65 \<le> ?n \<and> ?n \<le> 90" by (simp add: less_eq_char_def)
  show ?thesis
  proof (cases "65 \<le> ?n \<and> ?n \<le> 90")
    case True
    have "char_of (?n + 32) = l \<longleftrightarrow> (of_char (char_of (?n + 32) :: char) :: nat) = ?m" by (simp only: of_char_eq_iff)
    also have "\<dots> \<longleftrightarrow> ?n + 32 = ?m" using True by (simp only: of_char_of mod_less) simp
    finally have "toLowerChar x = l \<longleftrightarrow> ?n + 32 = ?m" using True by (simp only: toLowerChar_def upper simp_thms if_True)
    moreover have "?n \<noteq> ?m" using True m by linarith
    then have "x \<noteq> l" by blast
    ultimately show ?thesis by (simp only: eitherCase_def simp_thms)
  next
    case False
    then have "?n + 32 \<noteq> ?m" using m by presburger
    then show ?thesis using False by (simp only: toLowerChar_def eitherCase_def upper if_False simp_thms)
  qed
qed

lemma toLower_true:
  "strings_ToLower s = ''true'' \<longleftrightarrow> list_all2 eitherCase s ''true''"
proof -
  have "strings_ToLower s = ''true'' \<longleftrightarrow> list_all2 (\<lambda>x l. toLowerChar x = l) s ''true''"
    unfolding strings_ToLower_def by (auto simp: list_all2_conv_all_nth list_eq_iff_nth_eq)
  also have "\<dots> \<longleftrightarrow> list_all2 eitherCase s ''true''"
    by (intro list.rel_cong refl) (auto simp: toLowerChar_iff)
  finally show ?thesis .
qed

section \<open>Properties\<close>

text \<open>
  C26: From the environment to the decision: the reconciler that the process runs accepts a
  resource, as far as its scope goes, exactly when NAMESPACE_SCOPED_ARGO_ROLLOUTS is the word true in
  whatever case and the resource is namespace-scoped, or when it is not and the resource is
  cluster-scoped in a namespace listed in CLUSTER_SCOPED_ARGO_ROLLOUTS_NAMESPACES.
\<close>

theorem operator_scope_from_environment:
  assumes "operatorMain f s c p = Ran r crdExists"
  shows "admitScope r cr = Accepted \<longleftrightarrow>
    (if list_all2 eitherCase (os_Getenv p ''NAMESPACE_SCOPED_ARGO_ROLLOUTS'') ''true''
     then NamespaceScoped (rmSpec cr)
     else \<not> NamespaceScoped (rmSpec cr) \<and>
       crNamespace cr \<in> set (splitList (os_Getenv p ''CLUSTER_SCOPED_ARGO_ROLLOUTS_NAMESPACES'')))"
  using operatorMain_Ran [OF assms]
  by (simp add: admitScope_eq isNamespaceScoped_def NamespaceScopedArgoRolloutsEnv_def toLower_true
      allowedClusterScopedNamespace_iff ClusterScopedArgoRolloutsNamespaces_def)


text \<open>Witness.\<close>

definition smoothStart :: startup where
  "smoothStart = \<lparr>ctrl_NewManager = \<lambda>_. None, addMonitoringToScheme = None, addCRDsToScheme = None,
     newDiscoveryClient = Inr (\<lambda>_. Inr []), completeController = \<lambda>_. None, AddHealthzCheck = \<lambda>_. None,
     AddReadyzCheck = \<lambda>_. None, startManager = None\<rparr>"

definition namespacedPlatform :: platform where
  "namespacedPlatform = emptyPlatform\<lparr>os_Getenv := \<lambda>k. if k = ''NAMESPACE_SCOPED_ARGO_ROLLOUTS'' then ''True'' else ''''\<rparr>"

theorem operator_scope_from_environment_witness:
  "\<exists>r crdExists. operatorMain \<lparr>metricsBindAddress = None, healthProbeBindAddress = None, leaderElect = None\<rparr>
      smoothStart mem_client namespacedPlatform = Ran r crdExists \<and>
    admitScope r (basicRolloutManager ''a'' ''ns'' True) = Accepted"
proof -
  have ran: "operatorMain \<lparr>metricsBindAddress = None, healthProbeBindAddress = None, leaderElect = None\<rparr>
      smoothStart mem_client namespacedPlatform = Ran (operatorReconciler mem_client namespacedPlatform) False"
    by (simp add: operatorMain_def smoothStart_def SetupWithManager_def doesCRDExist_def)
  moreover have "admitScope (operatorReconciler mem_client namespacedPlatform) (basicRolloutManager ''a'' ''ns'' True) = Accepted"
    using operator_scope_from_environment [OF ran, of "basicRolloutManager ''a'' ''ns'' True"]
    by (simp add: namespacedPlatform_def eitherCase_def)
  ultimately show ?thesis by blast
qed

end
