(* ===== verification/Go_Text.thy ===== *)
theory Go_Text
  imports Prelude
begin

text \<open>
  The part of Go's string handling that only the build tools under \<open>hack/\<close> use: searching
  for a substring, slicing with its bounds check, and texts as lists of lines.
\<close>

definition newline :: char where
  "newline = CHR 0x0A"

text \<open>\<open>strings.Index\<close> and \<open>strings.LastIndex\<close>, with \<open>None\<close> for the result -1.\<close>

fun indexFrom :: "string \<Rightarrow> string \<Rightarrow> nat option" where
  "indexFrom [] sub = (if sub = [] then Some 0 else None)"
| "indexFrom (x # xs) sub = (if prefix sub (x # xs) then Some 0 else map_option Suc (indexFrom xs sub))"

fun lastIndexFrom :: "string \<Rightarrow> string \<Rightarrow> nat option" where
  "lastIndexFrom [] sub = (if sub = [] then Some 0 else None)"
| "lastIndexFrom (x # xs) sub =
     (case lastIndexFrom xs sub of
        Some n \<Rightarrow> Some (Suc n)
      | None \<Rightarrow> if prefix sub (x # xs) then Some 0 else None)"

definition goInt :: "nat option \<Rightarrow> int" where
  "goInt r = (case r of None \<Rightarrow> -1 | Some n \<Rightarrow> int n)"

definition strings_Index :: "string \<Rightarrow> string \<Rightarrow> int" where
  "strings_Index s sub = goInt (indexFrom s sub)"

definition strings_LastIndex :: "string \<Rightarrow> string \<Rightarrow> int" where
  "strings_LastIndex s sub = goInt (lastIndexFrom s sub)"

text \<open>The expression \<open>s[lo:hi]\<close>; \<open>None\<close> stands for the panic on indices out of range.\<close>

definition sliceOf :: "string \<Rightarrow> int \<Rightarrow> int \<Rightarrow> string option" where
  "sliceOf s lo hi =
     (if 0 \<le> lo \<and> lo \<le> hi \<and> hi \<le> int (length s) then Some (take (nat (hi - lo)) (drop (nat lo) s)) else None)"

definition boolText :: "bool \<Rightarrow> string" where
  "boolText b = (if b then ''true'' else ''false'')"

lemma goInt_simps [simp]: "goInt None = -1" "goInt (Some n) = int n"
  by (simp_all add: goInt_def)

lemma indexFrom_None: "indexFrom s sub = None \<longleftrightarrow> \<not> sublist sub s"
proof (induction s)
  case (Cons x xs)
  then show ?case by (auto simp: sublist_Cons_right)
qed simp

lemma strings_Index_absent: "strings_Index s sub = -1 \<longleftrightarrow> \<not> strings_Contains s sub"
  by (cases "indexFrom s sub") (auto simp: strings_Index_def strings_Contains_def simp flip: indexFrom_None)

lemma indexFrom_char: "c \<notin> set a \<Longrightarrow> indexFrom (a @ c # b) [c] = Some (length a)"
  by (induction a) auto

lemma lastIndexFrom_None_char: "lastIndexFrom s [c] = None \<longleftrightarrow> c \<notin> set s"
  by (induction s) (auto split: option.splits)

lemma lastIndexFrom_char: "c \<notin> set b \<Longrightarrow> lastIndexFrom (a @ c # b) [c] = Some (length a)"
proof (induction a)
  case Nil
  then have "lastIndexFrom b [c] = None" by (simp add: lastIndexFrom_None_char)
  then show ?case by simp
qed simp

lemma sliceOf_middle:
  "lo = int (length a) \<Longrightarrow> hi = int (length a + length b) \<Longrightarrow> sliceOf (a @ b @ c) lo hi = Some b"
  by (simp add: sliceOf_def)

lemma sliceOf_None: "sliceOf s lo hi = None \<longleftrightarrow> \<not> (0 \<le> lo \<and> lo \<le> hi \<and> hi \<le> int (length s))"
  by (simp add: sliceOf_def)

lemma sublist_charE:
  assumes "sublist [c] s"
  obtains a b where "s = a @ c # b" "c \<notin> set a"
proof -
  have "c \<in> set s" using assms by (auto simp: sublist_def)
  then show ?thesis using that split_list_first by metis
qed

lemma strings_Contains_char [simp]: "strings_Contains s [c] \<longleftrightarrow> c \<in> set s"
  by (auto simp: strings_Contains_def sublist_def in_set_conv_decomp)

text \<open>A text made of lines that each end in a newline, and the lines of a text.\<close>

definition unlines :: "string list \<Rightarrow> string" where
  "unlines ls = concat (map (\<lambda>l. l @ [newline]) ls)"

definition lines :: "string \<Rightarrow> string list" where
  "lines s = strings_Split newline s"

lemma unlines_simps [simp]: "unlines [] = []" "unlines (l # ls) = l @ newline # unlines ls"
  by (simp_all add: unlines_def)

lemma unlines_append: "unlines (xs @ ys) = unlines xs @ unlines ys"
  by (simp add: unlines_def)

lemma lines_unlines:
  "(\<And>l. l \<in> set ls \<Longrightarrow> newline \<notin> set l) \<Longrightarrow> lines (unlines ls) = ls @ [[]]"
  by (induction ls) (simp_all add: lines_def strings_Split_append)

lemma lines_no_newline: "l \<in> set (lines s) \<Longrightarrow> newline \<notin> set l"
proof (induction s arbitrary: l)
  case (Cons x xs)
  then show ?case
    by (cases "strings_Split newline xs") (auto simp: lines_def strings_Split_nonempty split: if_splits)
qed (simp add: lines_def)

lemma length_lines [simp]: "length (lines s) \<noteq> 0"
  by (simp add: lines_def strings_Split_nonempty)

end
