(* ===== verification/Log_Check.thy ===== *)
theory Log_Check
  imports Go_Text
begin

text \<open>
  The check of the log of the upstream end-to-end tests
  (\<open>hack/verify-rollouts-e2e-tests/main.go\<close>): waiting until the log is complete, parsing
  it into the runs of each test, and the verdict. Reading the file and the clock are parameters,
  indexed by the attempt. The lines of the report are part of the result; the notices printed while
  waiting and while parsing are left out.
\<close>

section \<open>Parsing the log\<close>

definition testsExpectedToFail :: "string list" where
  "testsExpectedToFail =
     [''TestAPISIXSuite/TestAPISIXCanarySetHeaderStep'',
      ''TestExperimentSuite/TestExperimentWithDryRunMetrics'',
      ''TestFunctionalSuite/TestControllerMetrics'',
      ''TestFunctionalSuite/TestBlueGreenPromoteFull'',
      ''TestAnalysisSuite/TestCanaryInconclusiveBackgroundAnalysis'']"

record parse_state =
  atLeastOnePassSeen :: bool
  atLeastOneFailSeen :: bool
  testResults :: "(string, string list) fmap"

definition recordResult :: "string list \<Rightarrow> string \<Rightarrow> string \<Rightarrow> parse_state \<Rightarrow> parse_state" where
  "recordResult expected testName line st =
     (if testName \<in> set expected then st
      else if \<not> strings_Contains testName ''/'' then st
      else st\<lparr>testResults := fmupd testName
             ((case fmlookup (testResults st) testName of None \<Rightarrow> [] | Some runs \<Rightarrow> runs) @ [line]) (testResults st)\<rparr>)"

text \<open>
  The loop body of \<open>parseTestResultsFromFile\<close>; \<open>None\<close> is the panic of a slice
  expression out of range.
\<close>

definition parseLine :: "string list \<Rightarrow> parse_state \<Rightarrow> string \<Rightarrow> parse_state option" where
  "parseLine expected st line =
     (if \<not> strings_Contains line ''test/e2e'' then Some st
      else if strings_HasPrefix line ''==='' \<and> strings_Contains line ''FAIL'' then
        (case sliceOf line (strings_Index line ''test/e2e'' + 8 + 1) (strings_Index line ''('' - 1) of
           None \<Rightarrow> None
         | Some t \<Rightarrow>
             (let testName = strings_TrimSpace t in
              if \<not> strings_Contains testName ''/'' then Some st
              else Some (recordResult expected testName line (st\<lparr>atLeastOneFailSeen := True\<rparr>))))
      else if strings_Contains line ''PASS'' \<and> strings_Contains line ''.'' then
        (let roundBraceIndex = strings_Index line ''(''; dotIndex = strings_Index line ''.'' in
         if roundBraceIndex = -1 then Some st
         else if dotIndex = -1 then Some st
         else if dotIndex + 1 \<ge> roundBraceIndex - 1 then Some st
         else (case sliceOf line (dotIndex + 1) (roundBraceIndex - 1) of
                 None \<Rightarrow> None
               | Some testName \<Rightarrow>
                   Some (recordResult expected testName line (st\<lparr>atLeastOnePassSeen := True\<rparr>))))
      else Some st)"

fun parseLines :: "string list \<Rightarrow> parse_state \<Rightarrow> string list \<Rightarrow> parse_state option" where
  "parseLines expected st [] = Some st"
| "parseLines expected st (line # rest) =
     (case parseLine expected st line of None \<Rightarrow> None | Some st' \<Rightarrow> parseLines expected st' rest)"

definition initialState :: parse_state where
  "initialState = \<lparr>atLeastOnePassSeen = False, atLeastOneFailSeen = False, testResults = fmempty\<rparr>"

definition parseTestResultsFromFile :: "string list \<Rightarrow> string list \<Rightarrow> (string, string list) fmap res" where
  "parseTestResultsFromFile fileContents expected =
     (case parseLines expected initialState fileContents of
        None \<Rightarrow> Panic ''slice bounds out of range''
      | Some st \<Rightarrow>
          (if \<not> atLeastOneFailSeen st \<or> \<not> atLeastOnePassSeen st
           then Err (errors_New (''there may be something wrong with the parser: we expect to see both at least one pass, and at least one fail, in the parsed output: '' @
                  boolText (atLeastOneFailSeen st) @ '' '' @ boolText (atLeastOnePassSeen st)))
           else Ok (testResults st)))"

section \<open>The verdict\<close>

definition passFound :: "string list \<Rightarrow> bool" where
  "passFound runs \<longleftrightarrow> (\<exists>line \<in> set runs. strings_Contains line ''PASS'')"

definition successLines :: "(string \<times> string list) list \<Rightarrow> string list" where
  "successLines results = concat (map (\<lambda>(t, runs). if passFound runs then [''Test passed - '' @ t] else []) results)"

definition failureLines :: "(string \<times> string list) list \<Rightarrow> string list" where
  "failureLines results = concat (map (\<lambda>(t, runs). if passFound runs then []
     else (''Unexpected test failure, test failed too many times - '' @ t @ '':'') # runs @ [[]]) results)"

definition reportResults :: "(string, string list) fmap \<Rightarrow> string list \<times> go_error option" where
  "reportResults results =
     (let sorted = sorted_list_of_fmap results in
      if sorted = [] then ([], Some (errors_New ''no test results found''))
      else ([[]] @ successLines sorted @ [[]] @ failureLines sorted,
            if \<exists>(t, runs) \<in> set sorted. \<not> passFound runs
            then Some (errors_New ''at least one test failure occurred'') else None))"

section \<open>Waiting for the log\<close>

text \<open>
  Attempt \<open>n\<close> reads the file as \<open>read n\<close> and then finds the minute over or not. The
  loop of \<open>waitAndGetE2EFileContents\<close> has no other end, so that it is a partial function
  over the attempts.
\<close>

definition readFileIntoListOfLines :: "go_error + string \<Rightarrow> bool \<Rightarrow> go_error + string list" where
  "readFileIntoListOfLines contents initialTrimSpace =
     map_sum id (\<lambda>s. lines (if initialTrimSpace then strings_TrimSpace s else s)) contents"

definition lastLines :: "string list \<Rightarrow> string list" where
  "lastLines fileLines = drop (length fileLines - 50) fileLines"

definition logComplete :: "string list \<Rightarrow> bool" where
  "logComplete fileLines \<longleftrightarrow> (\<exists>line \<in> set (lastLines fileLines). strings_HasPrefix line ''DONE '')"

partial_function (option) waitFrom ::
  "(nat \<Rightarrow> go_error + string) \<Rightarrow> (nat \<Rightarrow> bool) \<Rightarrow> nat \<Rightarrow> (go_error + string list) option" where
  "waitFrom read expired n =
     (case readFileIntoListOfLines (read n) True of
        Inl e \<Rightarrow> Some (Inl e)
      | Inr fileLines \<Rightarrow>
          (if logComplete fileLines then Some (Inr fileLines)
           else if expired n then Some (Inr fileLines)
           else waitFrom read expired (Suc n)))"

definition waitAndGetE2EFileContents ::
  "(nat \<Rightarrow> go_error + string) \<Rightarrow> (nat \<Rightarrow> bool) \<Rightarrow> (go_error + string list) option" where
  "waitAndGetE2EFileContents read expired = waitFrom read expired 0"

section \<open>The program\<close>

text \<open>\<open>reportErrorAndExit\<close> ends the process with code 1, a panic with code 2.\<close>

datatype verdict = Exited (exitOutput: "string list") (exitError: "go_error option") | Crashed string

fun exitCode :: "verdict \<Rightarrow> nat" where
  "exitCode (Exited out None) = 0"
| "exitCode (Exited out (Some e)) = 1"
| "exitCode (Crashed p) = 2"

definition reportErrorAndExit :: "go_error \<Rightarrow> verdict" where
  "reportErrorAndExit e = Exited [] (Some e)"

definition verdictOf :: "string list \<Rightarrow> string list \<Rightarrow> verdict" where
  "verdictOf expected fileContents =
     (case parseTestResultsFromFile fileContents expected of
        Panic p \<Rightarrow> Crashed p
      | Err e \<Rightarrow> reportErrorAndExit e
      | Ok results \<Rightarrow> (case reportResults results of (out, e) \<Rightarrow> Exited out e))"

definition checkMain :: "string list \<Rightarrow> (string \<Rightarrow> nat \<Rightarrow> go_error + string) \<Rightarrow> (nat \<Rightarrow> bool) \<Rightarrow> verdict option" where
  "checkMain args read expired =
     (case args of
        [_, path] \<Rightarrow>
          (case waitAndGetE2EFileContents (read path) expired of
             None \<Rightarrow> None
           | Some (Inl e) \<Rightarrow> Some (reportErrorAndExit e)
           | Some (Inr fileContents) \<Rightarrow> Some (verdictOf testsExpectedToFail fileContents))
      | _ \<Rightarrow> Some (reportErrorAndExit (errors_New ''expected args: path to E2E test log'')))"

section \<open>What a line says\<close>

text \<open>
  The specification of the parser: every line by itself is ignored, broken, or reports one run of
  one test, and the runs of a test are the lines that report one, in the order of the log.
\<close>

datatype line_class = Ignored | Broken | FailOf string | PassOf string

definition failClass :: "string \<Rightarrow> line_class" where
  "failClass line =
     (case sliceOf line (strings_Index line ''test/e2e'' + 9) (strings_Index line ''('' - 1) of
        None \<Rightarrow> Broken
      | Some t \<Rightarrow> if CHR ''/'' \<in> set (strings_TrimSpace t) then FailOf (strings_TrimSpace t) else Ignored)"

definition passClass :: "string \<Rightarrow> line_class" where
  "passClass line =
     (if strings_Index line ''('' \<le> strings_Index line ''.'' + 2 then Ignored
      else case sliceOf line (strings_Index line ''.'' + 1) (strings_Index line ''('' - 1) of
        None \<Rightarrow> Broken | Some t \<Rightarrow> PassOf t)"

definition classify :: "string \<Rightarrow> line_class" where
  "classify line =
     (if \<not> strings_Contains line ''test/e2e'' then Ignored
      else if strings_HasPrefix line ''==='' \<and> strings_Contains line ''FAIL'' then failClass line
      else if strings_Contains line ''PASS'' \<and> strings_Contains line ''.'' then passClass line
      else Ignored)"

fun testOf :: "line_class \<Rightarrow> string option" where
  "testOf (FailOf t) = Some t"
| "testOf (PassOf t) = Some t"
| "testOf _ = None"

definition runsOf :: "string list \<Rightarrow> string \<Rightarrow> string list" where
  "runsOf ls t = filter (\<lambda>l. testOf (classify l) = Some t) ls"

definition recorded :: "string list \<Rightarrow> string \<Rightarrow> bool" where
  "recorded expected t \<longleftrightarrow> t \<notin> set expected \<and> CHR ''/'' \<in> set t"

lemma parseLine_classify:
  "parseLine expected st line =
     (case classify line of
        Ignored \<Rightarrow> Some st
      | Broken \<Rightarrow> None
      | FailOf t \<Rightarrow> Some (recordResult expected t line (st\<lparr>atLeastOneFailSeen := True\<rparr>))
      | PassOf t \<Rightarrow> Some (recordResult expected t line (st\<lparr>atLeastOnePassSeen := True\<rparr>)))"
proof -
  have fail: "strings_Index line ''test/e2e'' + 8 + 1 = strings_Index line ''test/e2e'' + 9" by simp
  have brace: "strings_Index line ''('' \<le> strings_Index line ''.'' + 2" if "strings_Index line ''('' = -1"
    using that by (cases "indexFrom line ''.''") (simp_all add: strings_Index_def)
  have dot: "strings_Index line ''.'' \<noteq> -1" if "CHR ''.'' \<in> set line"
    using that by (simp add: strings_Index_absent)
  show ?thesis
    unfolding parseLine_def classify_def failClass_def passClass_def fail Let_def
    using brace dot by (auto split: option.split)
qed

lemma recordResult_simps [simp]:
  "atLeastOnePassSeen (recordResult e t l st) = atLeastOnePassSeen st"
  "atLeastOneFailSeen (recordResult e t l st) = atLeastOneFailSeen st"
  "fmlookup (testResults (recordResult e t l st)) u =
     (if recorded e t \<and> u = t then Some (elems (fmlookup (testResults st) t) @ [l]) else fmlookup (testResults st) u)"
  by (auto simp: recordResult_def recorded_def elems_def)

lemma parseLines_broken:
  "l \<in> set ls \<Longrightarrow> classify l = Broken \<Longrightarrow> parseLines expected st ls = None"
  by (induction ls arbitrary: st) (auto simp: parseLine_classify split: line_class.split option.split)

lemma runsOf_simps [simp]:
  "runsOf [] t = []"
  "runsOf (l # ls) t = (if testOf (classify l) = Some t then l # runsOf ls t else runsOf ls t)"
  by (simp_all add: runsOf_def)

lemma parseLines_runs:
  assumes "\<forall>l \<in> set ls. classify l \<noteq> Broken"
  shows "\<exists>st'. parseLines expected st ls = Some st' \<and>
    (atLeastOnePassSeen st' \<longleftrightarrow> atLeastOnePassSeen st \<or> (\<exists>l \<in> set ls. \<exists>t. classify l = PassOf t)) \<and>
    (atLeastOneFailSeen st' \<longleftrightarrow> atLeastOneFailSeen st \<or> (\<exists>l \<in> set ls. \<exists>t. classify l = FailOf t)) \<and>
    (\<forall>t. fmlookup (testResults st') t =
       (if recorded expected t \<and> runsOf ls t \<noteq> []
        then Some (elems (fmlookup (testResults st) t) @ runsOf ls t) else fmlookup (testResults st) t))"
  using assms
proof (induction ls arbitrary: st)
  case Nil
  then show ?case by simp
next
  case (Cons l ls)
  then have rest: "\<forall>l \<in> set ls. classify l \<noteq> Broken" by simp
  show ?case
  proof (cases "classify l")
    case Ignored
    then show ?thesis using Cons.IH [OF rest, of st] by (auto simp: parseLine_classify)
  next
    case Broken
    then show ?thesis using Cons.prems by simp
  next
    case (FailOf t)
    then show ?thesis
      using Cons.IH [OF rest, of "recordResult expected t l (st\<lparr>atLeastOneFailSeen := True\<rparr>)"]
      by (auto simp: parseLine_classify)
  next
    case (PassOf t)
    then show ?thesis
      using Cons.IH [OF rest, of "recordResult expected t l (st\<lparr>atLeastOnePassSeen := True\<rparr>)"]
      by (auto simp: parseLine_classify)
  qed
qed


lemma parse_result:
  "parseTestResultsFromFile ls expected =
     (if \<exists>l \<in> set ls. classify l = Broken then Panic ''slice bounds out of range''
      else if (\<exists>l \<in> set ls. \<exists>t. classify l = FailOf t) \<and> (\<exists>l \<in> set ls. \<exists>t. classify l = PassOf t)
      then Ok (testResults (the (parseLines expected initialState ls)))
      else Err (errors_New (''there may be something wrong with the parser: we expect to see both at least one pass, and at least one fail, in the parsed output: '' @
             boolText (\<exists>l \<in> set ls. \<exists>t. classify l = FailOf t) @ '' '' @
             boolText (\<exists>l \<in> set ls. \<exists>t. classify l = PassOf t))))"
proof (cases "\<exists>l \<in> set ls. classify l = Broken")
  case True
  then show ?thesis by (auto simp: parseTestResultsFromFile_def parseLines_broken)
next
  case False
  then obtain st where "parseLines expected initialState ls = Some st"
    "atLeastOnePassSeen st \<longleftrightarrow> (\<exists>l \<in> set ls. \<exists>t. classify l = PassOf t)"
    "atLeastOneFailSeen st \<longleftrightarrow> (\<exists>l \<in> set ls. \<exists>t. classify l = FailOf t)"
    using parseLines_runs [of ls expected initialState] by (auto simp: initialState_def)
  then show ?thesis using False by (simp add: parseTestResultsFromFile_def)
qed

lemma results_runs:
  assumes "parseTestResultsFromFile ls expected = Ok results"
  shows "fmlookup results t = (if recorded expected t \<and> runsOf ls t \<noteq> [] then Some (runsOf ls t) else None)"
proof -
  have "\<forall>l \<in> set ls. classify l \<noteq> Broken" and "results = testResults (the (parseLines expected initialState ls))"
    using assms by (auto simp: parse_result split: if_splits)
  then show ?thesis
    using parseLines_runs [of ls expected initialState] by (auto simp: initialState_def)
qed

lemma report_code:
  "snd (reportResults results) = None \<longleftrightarrow>
     results \<noteq> fmempty \<and> (\<forall>t runs. fmlookup results t = Some runs \<longrightarrow> passFound runs)"
proof -
  have "sorted_list_of_fmap results = [] \<longleftrightarrow> results = fmempty"
    by (auto simp: sorted_list_of_fmap_def simp flip: set_empty intro!: fmap_ext fmdom_notD)
  then show ?thesis
    by (auto simp: reportResults_def Let_def in_sorted_list_of_fmap) blast
qed

lemma report_passed:
  "(''Test passed - '' @ t) \<in> set (successLines (sorted_list_of_fmap results)) \<longleftrightarrow>
     (\<exists>runs. fmlookup results t = Some runs \<and> passFound runs)"
  by (auto simp: successLines_def in_sorted_list_of_fmap split: if_splits)

section \<open>Rendered logs\<close>

text \<open>
  The lines that gotestsum writes for one run of one test, after the examples in the code, with
  the colour codes around the word FAIL.
\<close>

record test_run =
  runTest :: string
  runPassed :: bool
  runTime :: string

definition failLine :: "string \<Rightarrow> string \<Rightarrow> string \<Rightarrow> string" where
  "failLine on off t = ''=== '' @ on @ ''FAIL'' @ off @ '': test/e2e '' @ t @ '' (unknown)''"

definition passLine :: "string \<Rightarrow> string \<Rightarrow> string" where
  "passLine t time = ''PASS test/e2e.'' @ t @ '' ('' @ time @ '')''"

definition logLine :: "string \<Rightarrow> string \<Rightarrow> test_run \<Rightarrow> string" where
  "logLine on off r = (if runPassed r then passLine (runTest r) (runTime r) else failLine on off (runTest r))"

definition colourCode :: "string \<Rightarrow> bool" where
  "colourCode s \<longleftrightarrow> set s \<inter> {CHR ''t'', CHR ''('', CHR ''P''} = {}"

definition testName :: "string \<Rightarrow> bool" where
  "testName t \<longleftrightarrow> CHR ''/'' \<in> set t \<and> CHR ''('' \<notin> set t \<and> strings_TrimSpace t = t"

lemma indexFrom_sub: "c \<notin> set a \<Longrightarrow> indexFrom (a @ (c # p) @ b) (c # p) = Some (length a)"
  by (induction a) auto

lemma sublist_inner:
  fixes c d :: char
  assumes "c \<notin> set a" "d \<notin> set b" "sublist (c # p) (a @ t @ b)" "last (c # p) = d"
  shows "sublist (c # p) t"
proof -
  have left: "sublist (x # q) (u @ v) \<Longrightarrow> x \<notin> set u \<Longrightarrow> sublist (x # q) v" for x :: char and q u v
    by (induction u) (auto simp: sublist_Cons_right)
  have "sublist (rev (c # p)) (rev b @ rev t)"
    using left [OF assms(3,1)] by (metis rev_append sublist_rev)
  moreover have "rev (c # p) = d # tl (rev (c # p))"
    using assms(4) by (metis hd_rev list.collapse list.distinct(1) rev_is_Nil_conv)
  ultimately show ?thesis using left [of d] assms(2) by (metis set_rev sublist_rev)
qed

lemma classify_pass:
  assumes "testName t"
  shows "classify (passLine t time) = PassOf t"
proof -
  have t: "CHR ''('' \<notin> set t" "t \<noteq> []" using assms by (auto simp: testName_def)
  have brace: "strings_Index (passLine t time) ''('' = int (length t) + 15"
    using indexFrom_char [of "CHR ''(''" "''PASS test/e2e.'' @ t @ '' ''" "time @ '')''"] t
    by (simp add: passLine_def strings_Index_def)
  have dot: "strings_Index (passLine t time) ''.'' = 13"
    using indexFrom_char [of "CHR ''.''" "''PASS test/e2e''" "t @ '' ('' @ time @ '')''"]
    by (simp add: passLine_def strings_Index_def)
  have "sliceOf (passLine t time) 14 (14 + int (length t)) = Some t"
    using sliceOf_middle [of 14 "''PASS test/e2e.''" "14 + int (length t)" t "'' ('' @ time @ '')''"]
    by (simp add: passLine_def)
  moreover have "strings_Contains (passLine t time) ''test/e2e''" "strings_Contains (passLine t time) ''PASS''"
    "strings_Contains (passLine t time) ''.''" "\<not> strings_HasPrefix (passLine t time) ''===''"
    by (simp_all add: strings_Contains_def strings_HasPrefix_def passLine_def sublist_Cons_right)
  ultimately show ?thesis
    using t by (simp add: classify_def passClass_def brace dot)
qed

lemma classify_fail:
  assumes "testName t" "colourCode on" "colourCode off"
  shows "classify (failLine on off t) = FailOf t"
proof -
  let ?a = "''=== '' @ on @ ''FAIL'' @ off @ '': ''"
  have brace: "strings_Index (failLine on off t) ''('' = int (length ?a + 9 + length t + 1)"
    using indexFrom_char [of "CHR ''(''" "?a @ ''test/e2e '' @ t @ '' ''" "''unknown)''"] assms
    by (simp add: failLine_def strings_Index_def testName_def colourCode_def)
  have start: "strings_Index (failLine on off t) ''test/e2e'' = int (length ?a)"
    using indexFrom_sub [of "CHR ''t''" ?a "''est/e2e''" "'' '' @ t @ '' (unknown)''"] assms
    by (simp add: failLine_def strings_Index_def colourCode_def)
  have "sliceOf (failLine on off t) (int (length ?a) + 9) (int (length ?a + 9 + length t + 1) - 1) = Some t"
    using sliceOf_middle [of "int (length ?a) + 9" "?a @ ''test/e2e ''" _ t "'' (unknown)''"]
    by (simp add: failLine_def)
  moreover have "strings_Contains (failLine on off t) ''test/e2e''"
    unfolding strings_Contains_def sublist_def failLine_def
    by (rule exI [of _ ?a], rule exI [of _ "'' '' @ t @ '' (unknown)''"]) simp
  moreover have "strings_Contains (failLine on off t) ''FAIL''"
    unfolding strings_Contains_def sublist_def failLine_def
    by (rule exI [of _ "''=== '' @ on"], rule exI [of _ "off @ '': test/e2e '' @ t @ '' (unknown)''"]) simp
  moreover have "strings_HasPrefix (failLine on off t) ''===''"
    by (simp add: strings_HasPrefix_def failLine_def)
  ultimately show ?thesis
    using assms(1) by (simp only: classify_def failClass_def brace start) (simp add: testName_def)
qed


lemma passLine_passes: "strings_Contains (passLine t time) ''PASS''"
  by (simp add: strings_Contains_def passLine_def sublist_Cons_right)

lemma failLine_passes:
  assumes "colourCode on" "colourCode off"
  shows "strings_Contains (failLine on off t) ''PASS'' \<longleftrightarrow> strings_Contains t ''PASS''"
proof
  assume "strings_Contains (failLine on off t) ''PASS''"
  then have "sublist ''PASS'' ((''=== '' @ on @ ''FAIL'' @ off @ '': test/e2e '') @ t @ '' (unknown)'')"
    by (simp add: strings_Contains_def failLine_def)
  then show "strings_Contains t ''PASS''"
    using sublist_inner [of "CHR ''P''" "''=== '' @ on @ ''FAIL'' @ off @ '': test/e2e ''" "CHR ''S''" "'' (unknown)''"
        "''ASS''" t] assms
    by (auto simp: strings_Contains_def colourCode_def)
next
  assume "strings_Contains t ''PASS''"
  then obtain a b where "t = a @ ''PASS'' @ b" by (auto simp: strings_Contains_def sublist_def)
  then have "failLine on off t = (''=== '' @ on @ ''FAIL'' @ off @ '': test/e2e '' @ a) @ ''PASS'' @ (b @ '' (unknown)'')"
    by (simp add: failLine_def)
  then show "strings_Contains (failLine on off t) ''PASS''"
    unfolding strings_Contains_def sublist_def by blast
qed

lemma classify_log:
  assumes "testName (runTest r)" "colourCode on" "colourCode off"
  shows "classify (logLine on off r) = (if runPassed r then PassOf (runTest r) else FailOf (runTest r))"
    and "strings_Contains (logLine on off r) ''PASS'' \<longleftrightarrow> runPassed r \<or> strings_Contains (runTest r) ''PASS''"
  using assms by (simp_all add: logLine_def classify_pass classify_fail passLine_passes failLine_passes)

lemma runsOf_log:
  assumes "\<forall>r \<in> set runs. testName (runTest r)" "colourCode on" "colourCode off"
  shows "runsOf (map (logLine on off) runs) t = map (logLine on off) (filter (\<lambda>r. runTest r = t) runs)"
  using assms by (induction runs) (simp_all add: classify_log)

lemma passFound_log:
  assumes "\<forall>r \<in> set runs. testName (runTest r)" "colourCode on" "colourCode off"
  shows "passFound (map (logLine on off) runs) \<longleftrightarrow> (\<exists>r \<in> set runs. runPassed r \<or> strings_Contains (runTest r) ''PASS'')"
  using assms by (auto simp: passFound_def classify_log)

lemma verdict_code:
  "exitCode (verdictOf expected ls) = 0 \<longleftrightarrow>
     (\<exists>results. parseTestResultsFromFile ls expected = Ok results \<and> snd (reportResults results) = None)"
  by (cases "parseTestResultsFromFile ls expected")
    (auto simp: verdictOf_def reportErrorAndExit_def split: prod.split elim: exitCode.elims)

lemma wait_at_end:
  assumes "expired n" "k \<le> n"
  shows "\<exists>m \<le> n. waitFrom read expired k = Some (readFileIntoListOfLines (read m) True)"
  using assms
proof (induction "n - k" arbitrary: k)
  case 0
  then show ?case
    by (auto simp: waitFrom.simps [of read expired k] split: sum.split intro!: exI [of _ k])
next
  case (Suc d)
  then obtain m where m: "m \<le> n" "waitFrom read expired (Suc k) = Some (readFileIntoListOfLines (read m) True)"
    using Suc.hyps(1) [of "Suc k"] by (metis Suc_diff_Suc Suc_inject Suc_leI zero_less_Suc zero_less_diff)
  show ?case
    using Suc.prems(2) m by (auto simp: waitFrom.simps [of read expired k] split: sum.split intro: exI [of _ k])
qed

section \<open>Properties\<close>

text \<open>
  C27: The parser refines its specification, which looks at each line by itself: it returns results
  exactly when no line is broken and both a failed and a passed run are reported, and the results
  give each test with a slash in its name that is not expected to fail the lines of its runs, in
  the order of the log.
\<close>

theorem results_are_runs:
  "parseTestResultsFromFile ls expected = Ok results \<longleftrightarrow>
     (\<forall>l \<in> set ls. classify l \<noteq> Broken) \<and>
     (\<exists>l \<in> set ls. \<exists>t. classify l = FailOf t) \<and> (\<exists>l \<in> set ls. \<exists>t. classify l = PassOf t) \<and>
     (\<forall>t. fmlookup results t = (if recorded expected t \<and> runsOf ls t \<noteq> [] then Some (runsOf ls t) else None))"
  (is "?parsed results \<longleftrightarrow> ?lines \<and> ?fail \<and> ?pass \<and> ?results results")
proof
  assume "?parsed results"
  then show "?lines \<and> ?fail \<and> ?pass \<and> ?results results"
    using results_runs [of ls expected results] by (auto simp: parse_result split: if_splits)
next
  assume spec: "?lines \<and> ?fail \<and> ?pass \<and> ?results results"
  then obtain parsed where parsed: "?parsed parsed" by (auto simp: parse_result)
  then have "parsed = results"
    using spec results_runs [OF parsed] by (intro fmap_ext) simp
  with parsed show "?parsed results" by simp
qed

text \<open>
  C28: The verdict on a log of runs with ordinary test names. The program succeeds exactly when the
  log holds a failed and a passed run, a run of a test not expected to fail, and for every such
  test a run that passed; but a test with PASS in its name counts as passed without one.
\<close>

theorem log_verdict_correct:
  assumes "\<forall>r \<in> set runs. testName (runTest r)" "colourCode on" "colourCode off"
  shows "exitCode (verdictOf expected (map (logLine on off) runs)) = 0 \<longleftrightarrow>
     (\<exists>r \<in> set runs. \<not> runPassed r) \<and> (\<exists>r \<in> set runs. runPassed r) \<and>
     (\<exists>r \<in> set runs. runTest r \<notin> set expected) \<and>
     (\<forall>r \<in> set runs. runTest r \<notin> set expected \<longrightarrow> \<not> strings_Contains (runTest r) ''PASS'' \<longrightarrow>
        (\<exists>q \<in> set runs. runTest q = runTest r \<and> runPassed q))"
    (is "_ \<longleftrightarrow> ?fail \<and> ?pass \<and> ?some \<and> ?passed")
proof -
  let ?ls = "map (logLine on off) runs"
  have parsed: "(\<exists>results. parseTestResultsFromFile ?ls expected = Ok results) \<longleftrightarrow> ?fail \<and> ?pass"
    using assms by (auto simp: parse_result classify_log split: if_splits)
  have "snd (reportResults results) = None \<longleftrightarrow> ?some \<and> ?passed"
    if ok: "parseTestResultsFromFile ?ls expected = Ok results" for results
  proof -
    have lookup: "fmlookup results t = (if t \<notin> set expected \<and> (\<exists>r \<in> set runs. runTest r = t)
        then Some (map (logLine on off) (filter (\<lambda>r. runTest r = t) runs)) else None)" for t
      using results_runs [OF ok, of t] assms
      by (auto simp: runsOf_log recorded_def testName_def filter_empty_conv)
    have "results = fmempty \<longleftrightarrow> (\<forall>t. fmlookup results t = None)" by (auto intro: fmap_ext)
    then have "results \<noteq> fmempty \<longleftrightarrow> ?some" using lookup by auto
    moreover have "passFound (map (logLine on off) (filter (\<lambda>r. runTest r = t) runs)) \<longleftrightarrow>
        (\<exists>q \<in> set runs. runTest q = t \<and> (runPassed q \<or> strings_Contains t ''PASS''))" for t
      using assms by (subst passFound_log) auto
    then have "(\<forall>t runs. fmlookup results t = Some runs \<longrightarrow> passFound runs) \<longleftrightarrow> ?passed"
      by (simp add: lookup) blast
    ultimately show ?thesis by (simp add: report_code)
  qed
  then show ?thesis using parsed by (auto simp: verdict_code)
qed


text \<open>
  One broken line spoils the whole log: a line that starts like a report of a failed test but
  has no opening brace makes the program panic, whatever else the log holds.
\<close>

theorem fail_line_without_brace_crashes:
  assumes "line \<in> set ls" "strings_HasPrefix line ''===''" "strings_Contains line ''FAIL''"
    "strings_Contains line ''test/e2e''" "CHR ''('' \<notin> set line"
  shows "exitCode (verdictOf expected ls) = 2"
proof -
  have "strings_Index line ''('' = -1" using assms(5) by (simp add: strings_Index_absent)
  then have "classify line = Broken"
    using assms(2-4) by (simp add: classify_def failClass_def sliceOf_def)
  then show ?thesis using assms(1) by (auto simp: verdictOf_def parse_result)
qed

text \<open>
  C29: Waiting ends: once the clock has passed the end of the minute at some attempt, the loop has
  returned with what it read at that attempt or before, an error of the reading included, and the
  program ends whatever its arguments are.
\<close>

theorem wait_returns:
  assumes "expired n"
  shows "(\<exists>m \<le> n. waitAndGetE2EFileContents read expired = Some (readFileIntoListOfLines (read m) True)) \<and>
    checkMain args files expired \<noteq> None"
proof -
  have waited: "\<exists>m \<le> n. waitAndGetE2EFileContents read expired = Some (readFileIntoListOfLines (read m) True)" for read
    using wait_at_end [where expired = expired and n = n and k = 0 and read = read] assms
    by (simp add: waitAndGetE2EFileContents_def)
  then have "\<forall>read. waitAndGetE2EFileContents read expired \<noteq> None" by (metis option.distinct(1))
  then have "checkMain args files expired \<noteq> None"
    by (simp add: checkMain_def split: list.split sum.split option.split) (metis option.distinct(1))
  then show ?thesis using waited by blast
qed

text \<open>Witnesses.\<close>

definition exampleRuns :: "test_run list" where
  "exampleRuns = [\<lparr>runTest = ''TestSuite/TestOne'', runPassed = False, runTime = ''''\<rparr>,
     \<lparr>runTest = ''TestSuite/TestOne'', runPassed = True, runTime = ''20.91s''\<rparr>]"

lemma exampleRuns_names: "\<forall>r \<in> set exampleRuns. testName (runTest r)"
  by (simp add: exampleRuns_def) code_simp

theorem log_verdict_correct_witness:
  "exitCode (verdictOf testsExpectedToFail (map (logLine [CHR 0x1B] [CHR 0x1B]) exampleRuns)) = 0"
  by (subst log_verdict_correct [OF exampleRuns_names])
    (simp_all add: colourCode_def exampleRuns_def testsExpectedToFail_def)

theorem results_are_runs_witness:
  "parseTestResultsFromFile (map (logLine [CHR 0x1B] [CHR 0x1B]) exampleRuns) [] =
     Ok (fmap_of_list [(''TestSuite/TestOne'', map (logLine [CHR 0x1B] [CHR 0x1B]) exampleRuns)])"
  by (subst results_are_runs)
    (use exampleRuns_names in \<open>auto simp: classify_log colourCode_def exampleRuns_def recorded_def
      split: if_splits\<close>)

theorem fail_line_without_brace_crashes_witness:
  "exitCode (verdictOf [] [''=== FAIL: test/e2e TestSuite/TestOne'']) = 2"
  by (rule fail_line_without_brace_crashes [of "''=== FAIL: test/e2e TestSuite/TestOne''"])
    (simp_all add: strings_HasPrefix_def strings_Contains_def sublist_Cons_right)

theorem wait_returns_witness:
  "\<exists>m \<le> (60::nat). waitAndGetE2EFileContents (\<lambda>_. Inr '''') (\<lambda>n. n \<ge> 60) = Some (readFileIntoListOfLines (Inr '''') True)"
  using wait_returns [of "\<lambda>n. n \<ge> 60" 60 "\<lambda>_. Inr ''''"] by blast

end
