(* ===== verification/Upgrade_Script.thy ===== *)
theory Upgrade_Script
  imports Go_Text
begin

text \<open>
  The script that opens a pull request for a new Argo Rollouts release
  (\<open>hack/upgrade-rollouts-script/main.go\<close>). Commands, files and the GitHub API are the
  parameter \<open>tools\<close> over an arbitrary world; the output of commands, which the script only
  prints, is left out. The debugging switches \<open>skipInitialPRCheck\<close> and
  \<open>readOnly\<close> are the constants False they are in the code, so that their tests disappear.
\<close>

section \<open>The world of the script\<close>

record dir_entry =
  entryName :: string
  entryIsDir :: bool

text \<open>The fields of the GitHub API are pointers, and the script dereferences them.\<close>

record release =
  TagName :: "string option"
  HTMLURL :: "string option"

record 'w tools =
  runCommandWithWorkDir :: "string \<Rightarrow> string list \<Rightarrow> 'w \<Rightarrow> go_error option \<times> 'w"
  ReadFile :: "string \<Rightarrow> 'w \<Rightarrow> go_error + string"
  WriteFile :: "string \<Rightarrow> string \<Rightarrow> 'w \<Rightarrow> go_error option \<times> 'w"
  ReadDir :: "string \<Rightarrow> 'w \<Rightarrow> go_error + dir_entry list"
  MkdirTemp :: "'w \<Rightarrow> (go_error + string) \<times> 'w"
  CreateFile :: "string \<Rightarrow> 'w \<Rightarrow> go_error option \<times> 'w"
  OpenFile :: "string \<Rightarrow> 'w \<Rightarrow> go_error option"
  CopyFile :: "string \<Rightarrow> string \<Rightarrow> 'w \<Rightarrow> go_error option \<times> 'w"
  listPullRequestTitles :: "'w \<Rightarrow> go_error + string option list"
  listReleases :: "'w \<Rightarrow> go_error + release list"

definition PRTitle :: string where
  "PRTitle = ''Upgrade to Argo Rollouts ''"

definition argoRolloutsManagerRepo :: string where
  "argoRolloutsManagerRepo = ''argoproj-labs/argo-rollouts-manager''"

definition controllersDefaultGo :: string where
  "controllersDefaultGo = ''controllers/default.go''"

definition pathToGitHubRepo :: string where
  "pathToGitHubRepo = ''argo-rollouts-manager''"

text \<open>\<open>filepath.Join\<close> on the clean relative names the script uses.\<close>

definition filepath_Join :: "string \<Rightarrow> string \<Rightarrow> string" where
  "filepath_Join d f = d @ ''/'' @ f"

definition ofErr :: "go_error option \<times> 'w \<Rightarrow> unit res \<times> 'w" where
  "ofErr r = (case r of (None, w) \<Rightarrow> (Ok (), w) | (Some e, w) \<Rightarrow> (Err e, w))"

lemma ofErr_simps [simp]: "ofErr (None, w) = (Ok (), w)" "ofErr (Some e, w) = (Err e, w)"
  by (simp_all add: ofErr_def)

fun runCommandListWithWorkDir :: "'w tools \<Rightarrow> string \<Rightarrow> string list list \<Rightarrow> 'w \<Rightarrow> unit res \<times> 'w" where
  "runCommandListWithWorkDir t workingDir [] w = (Ok (), w)"
| "runCommandListWithWorkDir t workingDir (command # rest) w =
     andThen (ofErr (runCommandWithWorkDir t workingDir command w)) (\<lambda>_ w. runCommandListWithWorkDir t workingDir rest w)"

section \<open>Rewriting the files that name the version\<close>

text \<open>
  The loop the three functions share: every line holding a marker is replaced, every line, the
  rest after the last newline included, is written with a newline.
\<close>

definition rewriteLines :: "string \<Rightarrow> string \<Rightarrow> string \<Rightarrow> string" where
  "rewriteLines marker new text = unlines (map (\<lambda>line. if strings_Contains line marker then new else line) (lines text))"

definition rewriteFile :: "'w tools \<Rightarrow> string \<Rightarrow> string \<Rightarrow> string \<Rightarrow> 'w \<Rightarrow> unit res \<times> 'w" where
  "rewriteFile t path marker new w =
     (case ReadFile t path w of
        Inl e \<Rightarrow> (Err e, w)
      | Inr text \<Rightarrow> ofErr (WriteFile t path (rewriteLines marker new text) w))"

definition tab :: char where
  "tab = CHR 0x09"

definition goModMarker :: string where
  "goModMarker = tab # ''github.com/argoproj/argo-rollouts v''"

definition goModLine :: "string \<Rightarrow> string" where
  "goModLine tag = tab # ''github.com/argoproj/argo-rollouts '' @ tag"

definition scriptLine :: "string \<Rightarrow> string" where
  "scriptLine tag = ''CURRENT_ROLLOUTS_VERSION='' @ tag"

definition defaultGoLine :: "string \<Rightarrow> string" where
  "defaultGoLine tag = tab # ''DefaultArgoRolloutsVersion = '' @ [CHR 0x22] @ tag @ [CHR 0x22] @ '' // '' @ tag"

definition regenerateGoMod :: "'w tools \<Rightarrow> string \<Rightarrow> string \<Rightarrow> 'w \<Rightarrow> unit res \<times> 'w" where
  "regenerateGoMod t tag repo = rewriteFile t (filepath_Join repo ''go.mod'') goModMarker (goModLine tag)"

definition regenerateArgoRolloutsE2ETestScriptMod :: "'w tools \<Rightarrow> string \<Rightarrow> string \<Rightarrow> 'w \<Rightarrow> unit res \<times> 'w" where
  "regenerateArgoRolloutsE2ETestScriptMod t tag repo =
     rewriteFile t (filepath_Join repo ''hack/run-upstream-argo-rollouts-e2e-tests.sh'') ''CURRENT_ROLLOUTS_VERSION='' (scriptLine tag)"

definition regenerateControllersDefaultGo :: "'w tools \<Rightarrow> string \<Rightarrow> string \<Rightarrow> string \<Rightarrow> 'w \<Rightarrow> unit res \<times> 'w" where
  "regenerateControllersDefaultGo t tag img repo =
     rewriteFile t (filepath_Join repo controllersDefaultGo) ''DefaultArgoRolloutsVersion'' (defaultGoLine tag)"

fun versionIn :: "string list \<Rightarrow> string option" where
  "versionIn [] = None"
| "versionIn (line # rest) =
     (if strings_Contains line ''DefaultArgoRolloutsVersion'' \<and> strings_LastIndex line ''/'' \<noteq> -1
      then Some (strings_TrimSpace (drop (nat (strings_LastIndex line ''/'' + 1)) line))
      else versionIn rest)"

definition extractCurrentTargetVersionFromRepo :: "'w tools \<Rightarrow> string \<Rightarrow> 'w \<Rightarrow> go_error + string" where
  "extractCurrentTargetVersionFromRepo t repo w =
     (case ReadFile t (filepath_Join repo controllersDefaultGo) w of
        Inl e \<Rightarrow> Inl e
      | Inr text \<Rightarrow>
          (case versionIn (lines text) of
             None \<Rightarrow> Inl (errors_New (''no version found in '' @ [CHR 0x27] @ controllersDefaultGo @ [CHR 0x27]))
           | Some v \<Rightarrow> Inr v))"

section \<open>Copying the CustomResourceDefinitions\<close>

definition expectedCRDs :: "string list" where
  "expectedCRDs = [''analysis-run-crd.yaml'', ''analysis-template-crd.yaml'',
     ''cluster-analysis-template-crd.yaml'', ''experiment-crd.yaml'', ''rollout-crd.yaml'']"

definition crdNames :: "dir_entry list \<Rightarrow> string list" where
  "crdNames dirEntries =
     sort (map entryName (filter (\<lambda>e. entryName e \<noteq> ''kustomization.yaml'' \<and> \<not> entryIsDir e) dirEntries))"

fun joinWith :: "string \<Rightarrow> string list \<Rightarrow> string" where
  "joinWith sep [] = ''''"
| "joinWith sep [x] = x"
| "joinWith sep (x # y # zs) = x @ sep @ joinWith sep (y # zs)"

definition quoted :: "string \<Rightarrow> string" where
  "quoted s = [CHR 0x27] @ s @ [CHR 0x27]"

fun copyCRDs :: "'w tools \<Rightarrow> string \<Rightarrow> string \<Rightarrow> string list \<Rightarrow> 'w \<Rightarrow> unit res \<times> 'w" where
  "copyCRDs t destinationPath crdPath [] w = (Ok (), w)"
| "copyCRDs t destinationPath crdPath (crd # rest) w =
     (case CreateFile t (filepath_Join destinationPath crd) w of
        (Some e, w) \<Rightarrow> (Err (errorf_w (''unable to create file for '' @ quoted crd @ '': '') e), w)
      | (None, w) \<Rightarrow>
          (case OpenFile t (filepath_Join crdPath crd) w of
             Some e \<Rightarrow> (Err (errorf_w (''unable to open source file for '' @ quoted crd @ '': '') e), w)
           | None \<Rightarrow>
               (case CopyFile t (filepath_Join destinationPath crd) (filepath_Join crdPath crd) w of
                  (Some e, w) \<Rightarrow> (Err (errorf_w (''unable to copy file for '' @ quoted crd @ '': '') e), w)
                | (None, w) \<Rightarrow> copyCRDs t destinationPath crdPath rest w)))"

definition checkoutRolloutsRepoIntoTempDir :: "'w tools \<Rightarrow> string \<Rightarrow> 'w \<Rightarrow> string res \<times> 'w" where
  "checkoutRolloutsRepoIntoTempDir t tag w =
     andThen (lift (MkdirTemp t w)) (\<lambda>tmpDir w.
     andThen (ofErr (runCommandWithWorkDir t tmpDir [''git'', ''clone'', ''https://github.com/argoproj/argo-rollouts''] w)) (\<lambda>_ w.
     andThen (runCommandListWithWorkDir t (filepath_Join tmpDir ''argo-rollouts'') [[''git'', ''checkout'', tag]] w) (\<lambda>_ w.
     (Ok (filepath_Join tmpDir ''argo-rollouts''), w))))"

definition copyCRDsFromRolloutsRepo :: "'w tools \<Rightarrow> string \<Rightarrow> string \<Rightarrow> 'w \<Rightarrow> unit res \<times> 'w" where
  "copyCRDsFromRolloutsRepo t tag repo w =
     andThen (checkoutRolloutsRepoIntoTempDir t tag w) (\<lambda>rolloutsRepoPath w.
       let crdPath = filepath_Join rolloutsRepoPath ''manifests/crds'' in
       case ReadDir t crdPath w of
         Inl e \<Rightarrow> (Err e, w)
       | Inr dirEntries \<Rightarrow>
           (if crdNames dirEntries \<noteq> expectedCRDs
            then (Err (errors_New (''unexpected CRDs found: ['' @ joinWith '' '' (crdNames dirEntries) @ '']'')), w)
            else copyCRDs t (filepath_Join repo ''config/crd/bases'') crdPath (crdNames dirEntries) w))"

section \<open>The commit and the pull request\<close>

definition branchCommands :: "string \<Rightarrow> string list list" where
  "branchCommands newBranchName =
     [[''git'', ''stash''],
      [''git'', ''fetch'', ''parent''],
      [''git'', ''checkout'', ''main''],
      [''git'', ''reset'', ''--hard'', ''parent/main''],
      [''git'', ''checkout'', ''-b'', newBranchName]]"

definition commitCommands :: "string \<Rightarrow> string list list" where
  "commitCommands tag =
     [[''go'', ''mod'', ''tidy''],
      [''make'', ''generate'', ''manifests''],
      [''make'', ''bundle''],
      [''make'', ''fmt''],
      [''git'', ''add'', ''--all''],
      [''git'', ''commit'', ''-s'', ''-m'', PRTitle @ tag]]"

definition pushCommands :: "string \<Rightarrow> string list list" where
  "pushCommands newBranchName = [[''git'', ''push'', ''-f'', ''--set-upstream'', ''origin'', newBranchName]]"

text \<open>\<open>fmt.Errorf\<close> around an error, which leaves success as it is.\<close>

definition wrapErr :: "string \<Rightarrow> 'a res \<times> 'w \<Rightarrow> 'a res \<times> 'w" where
  "wrapErr pre r = (case r of (Err e, w) \<Rightarrow> (Err (errorf_w pre e), w) | r \<Rightarrow> r)"

text \<open>
  The files and the commit, for a version the repository does not have yet. The pair (bool, error)
  of \<open>createNewCommitAndBranch\<close> is a result with the boolean for success or for an error
  that means that there is nothing to do.
\<close>

definition createCommit :: "'w tools \<Rightarrow> string \<Rightarrow> string \<Rightarrow> string \<Rightarrow> 'w \<Rightarrow> unit res \<times> 'w" where
  "createCommit t tag img repo w =
     andThen (regenerateControllersDefaultGo t tag img repo w) (\<lambda>_ w.
     andThen (regenerateGoMod t tag repo w) (\<lambda>_ w.
     andThen (regenerateArgoRolloutsE2ETestScriptMod t tag repo w) (\<lambda>_ w.
     andThen (wrapErr ''unable to copy rollouts CRDs: '' (copyCRDsFromRolloutsRepo t tag repo w)) (\<lambda>_ w.
     runCommandListWithWorkDir t repo (commitCommands tag) w))))"

datatype commit_result = Created | UpToDate go_error

definition createNewCommitAndBranch ::
  "'w tools \<Rightarrow> string \<Rightarrow> string \<Rightarrow> string \<Rightarrow> string \<Rightarrow> 'w \<Rightarrow> commit_result res \<times> 'w" where
  "createNewCommitAndBranch t tag img newBranchName repo w =
     andThen (runCommandListWithWorkDir t repo (branchCommands newBranchName) w) (\<lambda>_ w.
       case extractCurrentTargetVersionFromRepo t repo w of
         Inl e \<Rightarrow> (Err (errors_New ''unable to extract current target version from repo''), w)
       | Inr repoTargetVersion \<Rightarrow>
           (if repoTargetVersion = tag
            then (Ok (UpToDate (errors_New ''target repository is already on the most recent version'')), w)
            else andThen (createCommit t tag img repo w) (\<lambda>_ w.
                 andThen (runCommandListWithWorkDir t repo (pushCommands newBranchName) w) (\<lambda>_ w.
                 (Ok Created, w)))))"

text \<open>The check for an open pull request, and the release to upgrade to.\<close>

fun checkTitles :: "string option list \<Rightarrow> unit res" where
  "checkTitles [] = Ok ()"
| "checkTitles (None # rest) = Panic ''nil pointer dereference''"
| "checkTitles (Some title # rest) =
     (if strings_HasPrefix title PRTitle then Err (errors_New ''PR already exists'') else checkTitles rest)"

fun firstProperRelease :: "release list \<Rightarrow> (string \<times> release) option res" where
  "firstProperRelease [] = Ok None"
| "firstProperRelease (release # rest) =
     (case TagName release of
        None \<Rightarrow> Panic ''nil pointer dereference''
      | Some tag \<Rightarrow> if strings_Contains tag ''rc'' then firstProperRelease rest else Ok (Some (tag, release)))"

definition reviewNotes :: string where
  "reviewNotes =
     '''' @ [newline] @
     ''Before merging this PR, ensure you check the Argo Rollouts change logs and release notes: '' @ [newline] @
     ''- Ensure there are no changes to the Argo Rollouts install YAML that we need to respond to with changes in the operator'' @ [newline] @
     ''    - You can do this by downloading the '' @ [CHR 0x27] @ ''install.yaml'' @ [CHR 0x27] @ '' from both the previous version (for example, v1.7.1) and new version (for example, v1.7.2), and then comparing them using a tool like [Meld](https://gitlab.gnome.org/GNOME/meld) or diff.'' @ [newline] @
     [tab] @ ''- If there are changes to resources like Deployments and Roles in the install.yaml between the two versions, this will likely require a corresponding code change within the operator. e.g. a new permission added to a Role would require a change to the Role creation code in the operator.'' @ [newline] @
     ''- Ensure there are no backwards incompatible API/behaviour changes in the change logs''"

definition releaseBody :: "release \<Rightarrow> string" where
  "releaseBody release =
     ''Update to latest release of Argo Rollouts'' @
     (case HTMLURL release of None \<Rightarrow> '''' | Some url \<Rightarrow> if url = '''' then '''' else '': '' @ url) @ reviewNotes"

definition prCommand :: "string \<Rightarrow> string \<Rightarrow> string list" where
  "prCommand tag body = [''gh'', ''pr'', ''create'', ''-R'', argoRolloutsManagerRepo,
     ''--title'', PRTitle @ tag, ''--body'', body]"

definition publishRelease :: "'w tools \<Rightarrow> string \<Rightarrow> release \<Rightarrow> 'w \<Rightarrow> unit res \<times> 'w" where
  "publishRelease t tag release w =
     andThen (createNewCommitAndBranch t tag ''quay.io/argoproj/argo-rollouts'' (''upgrade-to-rollouts-'' @ tag) pathToGitHubRepo w)
       (\<lambda>r w. case r of
          UpToDate e \<Rightarrow> (Ok (), w)
        | Created \<Rightarrow> ofErr (runCommandWithWorkDir t pathToGitHubRepo (prCommand tag (releaseBody release)) w))"

definition upgradeMain :: "'w tools \<Rightarrow> string \<Rightarrow> 'w \<Rightarrow> unit res \<times> 'w" where
  "upgradeMain t gitHubToken w =
     (if gitHubToken = '''' then (Err (errors_New ''missing GH_TOKEN''), w)
      else case listPullRequestTitles t w of
        Inl e \<Rightarrow> (Err e, w)
      | Inr titles \<Rightarrow> andThen (checkTitles titles, w) (\<lambda>_ w.
          case listReleases t w of
            Inl e \<Rightarrow> (Err e, w)
          | Inr releases \<Rightarrow> andThen (firstProperRelease releases, w) (\<lambda>found w.
              case found of
                None \<Rightarrow> (Err (errors_New ''no release found''), w)
              | Some (tag, release) \<Rightarrow> publishRelease t tag release w)))"

section \<open>The contract of the file system\<close>

text \<open>
  What the script relies on: files are a map from paths to contents, a successful write or copy
  updates it at one path, and reading gives what is there.
\<close>

locale file_tools =
  fixes t :: "'w tools"
    and files :: "'w \<Rightarrow> (string, string) fmap"
  assumes read_file: "ReadFile t p w = Inr s \<longleftrightarrow> fmlookup (files w) p = Some s"
    and write_file: "WriteFile t p s w = (None, w') \<Longrightarrow> files w' = fmupd p s (files w)"
    and create_file: "CreateFile t p w = (None, w') \<Longrightarrow> files w' = fmupd p '''' (files w)"
    and open_file: "OpenFile t p w = None \<Longrightarrow> p |\<in>| fmdom (files w)"
    and copy_file: "CopyFile t d p w = (None, w') \<Longrightarrow> fmlookup (files w) p = Some s \<Longrightarrow> files w' = fmupd d s (files w)"
begin

lemma rewriteFile_writes:
  assumes "rewriteFile t path marker new w = (Ok (), w')" "fmlookup (files w) path = Some old"
  shows "fmlookup (files w') path = Some (rewriteLines marker new old)"
proof -
  have "WriteFile t path (rewriteLines marker new old) w = (None, w')"
    using assms(1) assms(2) [folded read_file]
    by (auto simp: rewriteFile_def ofErr_def split: prod.splits option.splits)
  then show ?thesis by (simp add: write_file)
qed

lemma copyCRDs_copies:
  assumes "copyCRDs t dst crdPath names w = (Ok (), w')" "distinct names"
    and "\<And>a b. filepath_Join dst a \<noteq> filepath_Join crdPath b \<or> a \<notin> set names \<or> b \<notin> set names"
  shows "(\<forall>a \<in> set names. \<exists>s. fmlookup (files w) (filepath_Join crdPath a) = Some s \<and>
      fmlookup (files w') (filepath_Join dst a) = Some s) \<and>
    (\<forall>p. p \<notin> filepath_Join dst ` set names \<longrightarrow> fmlookup (files w') p = fmlookup (files w) p)"
  using assms
proof (induction names arbitrary: w)
  case (Cons crd names)
  obtain w1 where w1: "CreateFile t (filepath_Join dst crd) w = (None, w1)"
    and "OpenFile t (filepath_Join crdPath crd) w1 = None"
    using Cons.prems(1) by (auto split: prod.splits option.splits)
  moreover then obtain w2 where w2: "CopyFile t (filepath_Join dst crd) (filepath_Join crdPath crd) w1 = (None, w2)"
    and rest: "copyCRDs t dst crdPath names w2 = (Ok (), w')"
    using Cons.prems(1) by (auto split: prod.splits option.splits)
  ultimately obtain s where s: "fmlookup (files w1) (filepath_Join crdPath crd) = Some s"
    using open_file by (metis fmdomE)
  have apart: "filepath_Join dst crd \<noteq> filepath_Join crdPath b" if "b \<in> set (crd # names)" for b
    using Cons.prems(3) [of crd b] that by auto
  have inj: "filepath_Join dst a = filepath_Join dst b \<longleftrightarrow> a = b" for a b
    by (simp add: filepath_Join_def)
  have files2: "files w2 = fmupd (filepath_Join dst crd) s (fmupd (filepath_Join dst crd) '''' (files w))"
    using create_file [OF w1] copy_file [OF w2 s] by simp
  have source: "fmlookup (files w) (filepath_Join crdPath crd) = Some s"
    using s create_file [OF w1] apart [of crd] by simp
  have IH: "(\<forall>a \<in> set names. \<exists>s. fmlookup (files w2) (filepath_Join crdPath a) = Some s \<and>
      fmlookup (files w') (filepath_Join dst a) = Some s) \<and>
    (\<forall>p. p \<notin> filepath_Join dst ` set names \<longrightarrow> fmlookup (files w') p = fmlookup (files w2) p)"
    using Cons.IH [OF rest] Cons.prems(2,3) by auto
  have fresh: "filepath_Join dst crd \<notin> filepath_Join dst ` set names"
    using Cons.prems(2) by (auto simp: inj)
  then have "fmlookup (files w') (filepath_Join dst crd) = Some s" using IH by (simp add: files2)
  moreover have "\<forall>a \<in> set names. fmlookup (files w2) (filepath_Join crdPath a) = fmlookup (files w) (filepath_Join crdPath a)"
    using apart by (simp add: files2)
  ultimately show ?case using source IH by (auto simp: files2)
qed simp

end

text \<open>A disk in memory, with the commands that were run, satisfies it.\<close>

record disk =
  diskFiles :: "(string, string) fmap"
  diskDirs :: "string \<Rightarrow> dir_entry list"
  diskCommands :: "string list list"

definition noFile :: go_error where
  "noFile = errors_New ''no such file or directory''"

definition disk_tools :: "string option list \<Rightarrow> release list \<Rightarrow> disk tools" where
  "disk_tools titles releases = \<lparr>
     runCommandWithWorkDir = \<lambda>d c w. (None, w\<lparr>diskCommands := diskCommands w @ [c]\<rparr>),
     ReadFile = \<lambda>p w. (case fmlookup (diskFiles w) p of None \<Rightarrow> Inl noFile | Some s \<Rightarrow> Inr s),
     WriteFile = \<lambda>p s w. (None, w\<lparr>diskFiles := fmupd p s (diskFiles w)\<rparr>),
     ReadDir = \<lambda>p w. Inr (diskDirs w p),
     MkdirTemp = \<lambda>w. (Inr ''/tmp/argo-rollouts-src1'', w),
     CreateFile = \<lambda>p w. (None, w\<lparr>diskFiles := fmupd p '''' (diskFiles w)\<rparr>),
     OpenFile = \<lambda>p w. (if p |\<in>| fmdom (diskFiles w) then None else Some noFile),
     CopyFile = \<lambda>d p w. (case fmlookup (diskFiles w) p of
         None \<Rightarrow> (Some noFile, w) | Some s \<Rightarrow> (None, w\<lparr>diskFiles := fmupd d s (diskFiles w)\<rparr>)),
     listPullRequestTitles = \<lambda>w. Inr titles,
     listReleases = \<lambda>w. Inr releases\<rparr>"

interpretation disk: file_tools "disk_tools titles releases" diskFiles for titles releases
  by unfold_locales (auto simp: disk_tools_def split: option.splits if_splits)

section \<open>Versions, paths and commands\<close>

lemma lines_rewriteLines:
  assumes "newline \<notin> set new"
  shows "lines (rewriteLines marker new old) =
    map (\<lambda>line. if strings_Contains line marker then new else line) (lines old) @ [[]]"
  unfolding rewriteLines_def
  by (rule lines_unlines) (use assms in \<open>auto dest: lines_no_newline\<close>)

lemma TrimSpace_space: "strings_TrimSpace (CHR '' '' # s) = strings_TrimSpace s"
  by (simp add: strings_TrimSpace_def whiteSpace_def)

lemma versionIn_line:
  assumes "strings_Contains line ''DefaultArgoRolloutsVersion''" "line = a @ ''/'' @ v" "CHR ''/'' \<notin> set v"
  shows "versionIn (line # rest) = Some (strings_TrimSpace v)"
  using assms lastIndexFrom_char [of "CHR ''/''" v a] by (simp add: strings_LastIndex_def nat_add_distrib)

lemma versionIn_skip:
  "(\<And>l. l \<in> set ls \<Longrightarrow> \<not> strings_Contains l ''DefaultArgoRolloutsVersion'') \<Longrightarrow> versionIn (ls @ rest) = versionIn rest"
  by (induction ls) simp_all

lemma defaultGoLine_version:
  assumes "CHR ''/'' \<notin> set tag"
  shows "versionIn (defaultGoLine tag # rest) = Some (strings_TrimSpace tag)"
proof -
  have "strings_Contains (defaultGoLine tag) ''DefaultArgoRolloutsVersion''"
    by (simp add: strings_Contains_def defaultGoLine_def sublist_Cons_right)
  moreover have "defaultGoLine tag = (tab # ''DefaultArgoRolloutsVersion = '' @ [CHR 0x22] @ tag @ [CHR 0x22] @ '' /'') @ ''/'' @ '' '' @ tag"
    by (simp add: defaultGoLine_def)
  ultimately show ?thesis
    using versionIn_line [of "defaultGoLine tag" _ "'' '' @ tag" rest] assms by (simp add: TrimSpace_space)
qed

lemma rewritten_version:
  assumes "\<exists>l \<in> set (lines old). strings_Contains l ''DefaultArgoRolloutsVersion''"
    and "newline \<notin> set tag" "CHR ''/'' \<notin> set tag"
  shows "versionIn (lines (rewriteLines ''DefaultArgoRolloutsVersion'' (defaultGoLine tag) old)) = Some (strings_TrimSpace tag)"
proof -
  let ?marked = "\<lambda>l. strings_Contains l ''DefaultArgoRolloutsVersion''"
  let ?new = "\<lambda>l. if ?marked l then defaultGoLine tag else l"
  obtain xs l ys where ls: "lines old = xs @ l # ys" "?marked l" "\<forall>x \<in> set xs. \<not> ?marked x"
    using assms(1) split_list_first_prop [of "lines old" ?marked] by blast
  have "newline \<notin> set (defaultGoLine tag)"
    using assms(2) by (simp add: defaultGoLine_def newline_def tab_def)
  moreover have "map ?new xs = xs" using ls(3) by (simp add: map_idI)
  ultimately have "lines (rewriteLines ''DefaultArgoRolloutsVersion'' (defaultGoLine tag) old) =
      xs @ defaultGoLine tag # map ?new ys @ [[]]"
    using ls(1,2) by (simp add: lines_rewriteLines)
  then show ?thesis
    using ls(3) by (simp add: versionIn_skip defaultGoLine_version [OF assms(3)] del: versionIn.simps)
qed

lemma filepath_Join_eq:
  "CHR ''/'' \<notin> set a \<Longrightarrow> CHR ''/'' \<notin> set b \<Longrightarrow> filepath_Join d a = filepath_Join e b \<longleftrightarrow> d = e \<and> a = b"
proof
  assume *: "CHR ''/'' \<notin> set a" "CHR ''/'' \<notin> set b" "filepath_Join d a = filepath_Join e b"
  then have "d @ CHR ''/'' # a = e @ CHR ''/'' # b" by (simp add: filepath_Join_def)
  then have "lastIndexFrom (d @ CHR ''/'' # a) ''/'' = lastIndexFrom (e @ CHR ''/'' # b) ''/''" by simp
  then have "length d = length e" using * by (simp add: lastIndexFrom_char)
  then show "d = e \<and> a = b" using * by (simp add: filepath_Join_def)
qed simp

lemma crd_paths_apart:
  "filepath_Join (filepath_Join repo ''config/crd/bases'') a \<noteq> filepath_Join (filepath_Join src ''manifests/crds'') b \<or>
     a \<notin> set expectedCRDs \<or> b \<notin> set expectedCRDs"
proof (rule ccontr)
  assume *: "\<not> ?thesis"
  then have "CHR ''/'' \<notin> set a" "CHR ''/'' \<notin> set b" by (auto simp: expectedCRDs_def)
  then have "rev (filepath_Join repo ''config/crd/bases'') = rev (filepath_Join src ''manifests/crds'')"
    using * filepath_Join_eq [of a b "filepath_Join repo ''config/crd/bases''"] by blast
  then show False by (simp add: filepath_Join_def)
qed

text \<open>The commands that others see: the push and the pull request.\<close>

definition publishes :: "string list \<Rightarrow> bool" where
  "publishes command \<longleftrightarrow> take 2 command \<in> {[''git'', ''push''], [''gh'', ''pr'']}"

definition prepared :: "'w tools \<Rightarrow> string \<Rightarrow> 'w \<Rightarrow> bool" where
  "prepared t tag w \<longleftrightarrow>
     (\<exists>w1 w2 v img. runCommandListWithWorkDir t pathToGitHubRepo (branchCommands (''upgrade-to-rollouts-'' @ tag)) w = (Ok (), w1) \<and>
        extractCurrentTargetVersionFromRepo t pathToGitHubRepo w1 = Inr v \<and> v \<noteq> tag \<and>
        createCommit t tag img pathToGitHubRepo w1 = (Ok (), w2))"

lemma private_commands:
  "\<not> publishes [''git'', ''clone'', url]" "\<not> publishes [''git'', ''checkout'', tag]"
  "c \<in> set (branchCommands branch) \<Longrightarrow> \<not> publishes c" "c \<in> set (commitCommands tag) \<Longrightarrow> \<not> publishes c"
  by (auto simp: publishes_def branchCommands_def commitCommands_def)

text \<open>A view of the world that only publishing changes.\<close>

locale private_view =
  fixes t :: "'w tools"
    and view :: "'w \<Rightarrow> 'v"
  assumes command: "\<not> publishes c \<Longrightarrow> view (snd (runCommandWithWorkDir t d c w)) = view w"
    and write_file: "view (snd (WriteFile t p s w)) = view w"
    and make_dir: "view (snd (MkdirTemp t w)) = view w"
    and create_file: "view (snd (CreateFile t p w)) = view w"
    and copy_file: "view (snd (CopyFile t p q w)) = view w"
begin

lemma andThen_view:
  assumes "view (snd r) = v" "\<And>a w. fst r = Ok a \<Longrightarrow> view w = v \<Longrightarrow> view (snd (k a w)) = v"
  shows "view (snd (andThen r k)) = v"
  using assms by (auto simp: andThen_def split: prod.split res.split)

lemma ofErr_view: "view (snd (ofErr r)) = view (snd r)"
  by (auto simp: ofErr_def split: prod.split option.split)

lemma wrapErr_view: "view (snd (wrapErr pre r)) = view (snd r)"
  by (auto simp: wrapErr_def split: prod.split res.split)

lemma commands_view: "(\<And>c. c \<in> set cs \<Longrightarrow> \<not> publishes c) \<Longrightarrow> view (snd (runCommandListWithWorkDir t d cs w)) = view w"
  by (induction cs arbitrary: w) (auto intro!: andThen_view simp: ofErr_view command)

lemma rewriteFile_view: "view (snd (rewriteFile t path marker new w)) = view w"
  by (simp add: rewriteFile_def ofErr_view write_file split: sum.split)

lemma copyCRDs_view: "view (snd (copyCRDs t dst crdPath names w)) = view w"
proof (induction names arbitrary: w)
  case (Cons crd names)
  show ?case
    using create_file [of "filepath_Join dst crd"] copy_file [of "filepath_Join dst crd" "filepath_Join crdPath crd"]
    by (auto simp: Cons.IH split: prod.split option.split) (metis snd_conv)+
qed simp

lemma lift_view: "view (snd (lift r)) = view (snd r)"
  by (auto simp: lift_def split: prod.split sum.split)

lemma checkout_view: "view (snd (checkoutRolloutsRepoIntoTempDir t tag w)) = view w"
  unfolding checkoutRolloutsRepoIntoTempDir_def
proof (intro andThen_view)
  show "view (snd (lift (MkdirTemp t w))) = view w" by (simp add: lift_view make_dir)
  show "view (snd (runCommandListWithWorkDir t d [[''git'', ''checkout'', tag]] w')) = view w"
    if "view w' = view w" for d w'
    by (subst commands_view) (use that in \<open>auto simp: private_commands\<close>)
qed (simp_all add: ofErr_view command private_commands)

lemma copyCRDsFromRolloutsRepo_view: "view (snd (copyCRDsFromRolloutsRepo t tag repo w)) = view w"
  unfolding copyCRDsFromRolloutsRepo_def
  by (rule andThen_view) (auto simp: checkout_view copyCRDs_view Let_def split: sum.split)

lemma createCommit_view: "view (snd (createCommit t tag img repo w)) = view w"
  unfolding createCommit_def regenerateControllersDefaultGo_def regenerateGoMod_def
    regenerateArgoRolloutsE2ETestScriptMod_def
  by (intro andThen_view) (simp_all add: rewriteFile_view wrapErr_view copyCRDsFromRolloutsRepo_view
      commands_view private_commands)

end

interpretation disk_private: private_view "disk_tools titles releases" "\<lambda>w. filter publishes (diskCommands w)"
  for titles releases
  by unfold_locales (auto simp: disk_tools_def split: option.split)

lemma andThenE:
  assumes "andThen r k = (x, w')"
  obtains (ok) a w where "r = (Ok a, w)" "k a w = (x, w')"
  | (err) e where "r = (Err e, w')" "x = Err e"
  | (crash) p where "r = (Panic p, w')" "x = Panic p"
  using assms by (auto simp: andThen_def split: prod.splits res.splits)

section \<open>Properties\<close>

text \<open>
  C32: The version that the script writes is the version that it reads back: after regenerating
  \<open>controllers/default.go\<close>, which names the version in at least one line, for a tag without
  a slash or a newline, the repository targets that tag, up to surrounding white space.
\<close>

theorem regenerated_version_extracted:
  assumes "file_tools t files"
    and "fmlookup (files w) (filepath_Join repo controllersDefaultGo) = Some old"
    and "\<exists>l \<in> set (lines old). strings_Contains l ''DefaultArgoRolloutsVersion''"
    and "newline \<notin> set tag" "CHR ''/'' \<notin> set tag"
    and "regenerateControllersDefaultGo t tag img repo w = (Ok (), w')"
  shows "extractCurrentTargetVersionFromRepo t repo w' = Inr (strings_TrimSpace tag)"
proof -
  have written: "fmlookup (files w') (filepath_Join repo controllersDefaultGo) =
      Some (rewriteLines ''DefaultArgoRolloutsVersion'' (defaultGoLine tag) old)"
    by (rule file_tools.rewriteFile_writes [OF assms(1) assms(6) [unfolded regenerateControllersDefaultGo_def] assms(2)])
  then have "ReadFile t (filepath_Join repo controllersDefaultGo) w' =
      Inr (rewriteLines ''DefaultArgoRolloutsVersion'' (defaultGoLine tag) old)"
    by (simp only: file_tools.read_file [OF assms(1)])
  then show ?thesis
    by (simp only: extractCurrentTargetVersionFromRepo_def rewritten_version [OF assms(3-5)] sum.case option.case)
qed


text \<open>
  Regenerating the end-to-end test script keeps its lines in order and replaces those that set
  the version, but adds an empty line at the end, every time it runs, also when the version is the
  same: the file never stops growing.
\<close>

theorem test_script_grows:
  assumes "file_tools t files"
    and "fmlookup (files w) (filepath_Join repo ''hack/run-upstream-argo-rollouts-e2e-tests.sh'') = Some old"
    and "newline \<notin> set tag"
    and "regenerateArgoRolloutsE2ETestScriptMod t tag repo w = (Ok (), w')"
  shows "\<exists>new. fmlookup (files w') (filepath_Join repo ''hack/run-upstream-argo-rollouts-e2e-tests.sh'') = Some new \<and>
    lines new = map (\<lambda>l. if strings_Contains l ''CURRENT_ROLLOUTS_VERSION='' then scriptLine tag else l) (lines old) @ [[]] \<and>
    length (lines new) = length (lines old) + 1"
proof -
  have "newline \<notin> set (scriptLine tag)" using assms(3) by (simp add: scriptLine_def newline_def)
  then show ?thesis
    using file_tools.rewriteFile_writes [OF assms(1) assms(4) [unfolded regenerateArgoRolloutsE2ETestScriptMod_def] assms(2)]
    by (simp add: lines_rewriteLines)
qed

text \<open>
  C31: The CustomResourceDefinitions of the release are copied only when its directory holds the five
  the operator knows and no other file but kustomization.yaml, in whatever order; otherwise nothing
  is written. When the copy succeeds each of the five has the contents of its source, and no other
  file has changed.
\<close>

theorem crds_copied_or_refused:
  assumes "file_tools t files"
    and "checkoutRolloutsRepoIntoTempDir t tag w = (Ok src, w1)"
    and "ReadDir t (filepath_Join src ''manifests/crds'') w1 = Inr found"
    and "copyCRDsFromRolloutsRepo t tag repo w = (r, w')"
  shows "(crdNames found \<noteq> expectedCRDs \<longrightarrow> (\<exists>e. r = Err e) \<and> w' = w1) \<and>
    (r = Ok () \<longrightarrow>
      (\<forall>a \<in> set expectedCRDs. \<exists>s. fmlookup (files w1) (filepath_Join (filepath_Join src ''manifests/crds'') a) = Some s \<and>
         fmlookup (files w') (filepath_Join (filepath_Join repo ''config/crd/bases'') a) = Some s) \<and>
      (\<forall>p. p \<notin> filepath_Join (filepath_Join repo ''config/crd/bases'') ` set expectedCRDs \<longrightarrow>
         fmlookup (files w') p = fmlookup (files w1) p))"
proof (cases "crdNames found = expectedCRDs")
  case False
  then show ?thesis
    using assms(2-4) by (auto simp: copyCRDsFromRolloutsRepo_def)
next
  case True
  then have "copyCRDs t (filepath_Join repo ''config/crd/bases'') (filepath_Join src ''manifests/crds'') expectedCRDs w1 = (r, w')"
    using assms(2-4) by (simp add: copyCRDsFromRolloutsRepo_def)
  moreover have "distinct expectedCRDs" by (simp add: expectedCRDs_def)
  ultimately show ?thesis
    using file_tools.copyCRDs_copies [OF assms(1) _ _ crd_paths_apart] True by blast
qed

text \<open>
  C30: Nothing becomes visible to others unless everything before it succeeded: when a run of the
  script changes a view of the world that only \<open>git push\<close> and \<open>gh pr\<close> change, then
  there was a token, no open pull request for an upgrade, a release without rc in its tag, and for
  the first such release the branch was made, the repository was on another version, and all files
  were regenerated and committed.
\<close>

theorem published_only_when_prepared:
  assumes "private_view t view" "upgradeMain t token w = (r, w')" "view w' \<noteq> view w"
  shows "token \<noteq> '''' \<and> (\<exists>titles. listPullRequestTitles t w = Inr titles \<and> checkTitles titles = Ok ()) \<and>
    (\<exists>releases tag release. listReleases t w = Inr releases \<and> firstProperRelease releases = Ok (Some (tag, release)) \<and>
       prepared t tag w)"
proof -
  obtain titles releases tag release where started: "token \<noteq> ''''" "listPullRequestTitles t w = Inr titles"
    "checkTitles titles = Ok ()" "listReleases t w = Inr releases" "firstProperRelease releases = Ok (Some (tag, release))"
    "publishRelease t tag release w = (r, w')"
    using assms(2,3) unfolding upgradeMain_def
    by (auto elim!: andThenE split: if_splits sum.splits option.splits)
  let ?img = "''quay.io/argoproj/argo-rollouts''" and ?branch = "''upgrade-to-rollouts-'' @ tag"
  note quiet = private_view.commands_view [OF assms(1)] private_view.createCommit_view [OF assms(1)] private_commands
  have "prepared t tag w"
  proof (rule ccontr)
    assume unprepared: "\<not> prepared t tag w"
    obtain x w1 where branch: "runCommandListWithWorkDir t pathToGitHubRepo (branchCommands ?branch) w = (x, w1)" by fastforce
    have view1: "view w1 = view w"
      using quiet(1) [of "branchCommands ?branch" pathToGitHubRepo w] branch by (simp add: private_commands)
    obtain y w2 where commit: "createCommit t tag ?img pathToGitHubRepo w1 = (y, w2)" by fastforce
    have view2: "view w2 = view w" using quiet(2) [of tag ?img pathToGitHubRepo w1] commit view1 by simp
    show False
      using started(6) unprepared assms(3) branch commit view1 view2
      unfolding publishRelease_def createNewCommitAndBranch_def prepared_def
      by (auto elim!: andThenE split: sum.splits if_splits)
  qed
  then show ?thesis using started by blast
qed


text \<open>Witnesses.\<close>

definition exampleDisk :: disk where
  "exampleDisk = \<lparr>diskFiles = fmap_of_list
     ([(''argo-rollouts-manager/controllers/default.go'', ''const DefaultArgoRolloutsVersion = 1 // v1.8''),
       (''argo-rollouts-manager/go.mod'', ''module''),
       (''argo-rollouts-manager/hack/run-upstream-argo-rollouts-e2e-tests.sh'', ''CURRENT_ROLLOUTS_VERSION=v1.8'')] @
      map (\<lambda>n. (''/tmp/argo-rollouts-src1/argo-rollouts/manifests/crds/'' @ n, n)) expectedCRDs),
     diskDirs = \<lambda>_. \<lparr>entryName = ''kustomization.yaml'', entryIsDir = False\<rparr> #
       map (\<lambda>n. \<lparr>entryName = n, entryIsDir = False\<rparr>) (rev expectedCRDs),
     diskCommands = []\<rparr>"

definition exampleTools :: "disk tools" where
  "exampleTools = disk_tools [Some ''Fix a typo''] [\<lparr>TagName = Some ''v1.9-rc1'', HTMLURL = None\<rparr>, \<lparr>TagName = Some ''v1.9'', HTMLURL = None\<rparr>]"

lemma exampleTools_file: "file_tools exampleTools diskFiles"
  by (simp add: exampleTools_def disk.file_tools_axioms)

theorem test_script_grows_witness:
  "\<exists>w'. regenerateArgoRolloutsE2ETestScriptMod exampleTools ''v1.9'' pathToGitHubRepo exampleDisk = (Ok (), w') \<and>
     fmlookup (diskFiles w') ''argo-rollouts-manager/hack/run-upstream-argo-rollouts-e2e-tests.sh'' \<noteq> None"
proof -
  have ran: "regenerateArgoRolloutsE2ETestScriptMod exampleTools ''v1.9'' pathToGitHubRepo exampleDisk =
      (Ok (), snd (regenerateArgoRolloutsE2ETestScriptMod exampleTools ''v1.9'' pathToGitHubRepo exampleDisk))"
    by (simp add: regenerateArgoRolloutsE2ETestScriptMod_def rewriteFile_def exampleTools_def disk_tools_def
        exampleDisk_def pathToGitHubRepo_def filepath_Join_def)
  show ?thesis
    using test_script_grows [OF exampleTools_file _ _ ran, of "''CURRENT_ROLLOUTS_VERSION=v1.8''"] ran
    by (auto simp: exampleDisk_def pathToGitHubRepo_def filepath_Join_def newline_def)
qed

theorem regenerated_version_extracted_witness:
  "\<exists>w'. extractCurrentTargetVersionFromRepo exampleTools pathToGitHubRepo exampleDisk = Inr ''v1.8'' \<and>
     regenerateControllersDefaultGo exampleTools ''v1.9'' [] pathToGitHubRepo exampleDisk = (Ok (), w') \<and>
     extractCurrentTargetVersionFromRepo exampleTools pathToGitHubRepo w' = Inr ''v1.9''"
proof -
  let ?run = "regenerateControllersDefaultGo exampleTools ''v1.9'' [] pathToGitHubRepo exampleDisk"
  have ran: "?run = (Ok (), snd ?run)"
    by (simp add: regenerateControllersDefaultGo_def rewriteFile_def exampleTools_def disk_tools_def
        exampleDisk_def pathToGitHubRepo_def filepath_Join_def controllersDefaultGo_def)
  have "extractCurrentTargetVersionFromRepo exampleTools pathToGitHubRepo (snd ?run) = Inr (strings_TrimSpace ''v1.9'')"
    by (rule regenerated_version_extracted [OF exampleTools_file _ _ _ _ ran, of "''const DefaultArgoRolloutsVersion = 1 // v1.8''"])
      (simp_all add: exampleDisk_def pathToGitHubRepo_def filepath_Join_def controllersDefaultGo_def newline_def
        lines_def strings_Contains_def sublist_Cons_right)
  moreover have "strings_TrimSpace ''v1.9'' = ''v1.9''" by code_simp
  moreover have "extractCurrentTargetVersionFromRepo exampleTools pathToGitHubRepo exampleDisk = Inr ''v1.8''"
    by code_simp
  ultimately show ?thesis using ran by metis
qed


lemma exampleCheckout:
  "checkoutRolloutsRepoIntoTempDir exampleTools ''v1.9'' exampleDisk =
     (Ok ''/tmp/argo-rollouts-src1/argo-rollouts'', exampleDisk\<lparr>diskCommands :=
        [[''git'', ''clone'', ''https://github.com/argoproj/argo-rollouts''], [''git'', ''checkout'', ''v1.9'']]\<rparr>)"
  by (simp add: checkoutRolloutsRepoIntoTempDir_def exampleTools_def disk_tools_def exampleDisk_def filepath_Join_def)

theorem crds_copied_or_refused_witness:
  "\<exists>w'. fst (copyCRDsFromRolloutsRepo exampleTools ''v1.9'' pathToGitHubRepo exampleDisk) = Ok () \<and>
     snd (copyCRDsFromRolloutsRepo exampleTools ''v1.9'' pathToGitHubRepo exampleDisk) = w' \<and>
     fmlookup (diskFiles w') ''argo-rollouts-manager/config/crd/bases/rollout-crd.yaml'' \<noteq> None"
proof -
  let ?run = "copyCRDsFromRolloutsRepo exampleTools ''v1.9'' pathToGitHubRepo exampleDisk"
  have ok: "fst ?run = Ok ()" by code_simp
  have "''rollout-crd.yaml'' \<in> set expectedCRDs" by (simp add: expectedCRDs_def)
  then have "\<exists>s. fmlookup (diskFiles (snd ?run)) (filepath_Join (filepath_Join pathToGitHubRepo ''config/crd/bases'') ''rollout-crd.yaml'') = Some s"
    using crds_copied_or_refused [OF exampleTools_file exampleCheckout, of "diskDirs exampleDisk []" pathToGitHubRepo "fst ?run" "snd ?run"] ok
    by (auto simp: exampleTools_def disk_tools_def exampleDisk_def)
  then show ?thesis using ok by (auto simp: filepath_Join_def pathToGitHubRepo_def)
qed

theorem published_only_when_prepared_witness:
  "fst (upgradeMain exampleTools ''token'' exampleDisk) = Ok () \<and> prepared exampleTools ''v1.9'' exampleDisk"
proof -
  let ?run = "upgradeMain exampleTools ''token'' exampleDisk"
  have changed: "filter publishes (diskCommands (snd ?run)) \<noteq> filter publishes (diskCommands exampleDisk)" by code_simp
  have "firstProperRelease releases = Ok (Some (tag, release)) \<Longrightarrow> listReleases exampleTools exampleDisk = Inr releases \<Longrightarrow> tag = ''v1.9''" for releases tag release
    by (auto simp: exampleTools_def disk_tools_def strings_Contains_def sublist_Cons_right)
  then have "prepared exampleTools ''v1.9'' exampleDisk"
    using published_only_when_prepared [OF disk_private.private_view_axioms [of "[Some ''Fix a typo'']"
        "[\<lparr>TagName = Some ''v1.9-rc1'', HTMLURL = None\<rparr>, \<lparr>TagName = Some ''v1.9'', HTMLURL = None\<rparr>]", folded exampleTools_def]
        _ changed, of "''token''" "fst ?run"] by auto
  moreover have "fst ?run = Ok ()" by code_simp
  ultimately show ?thesis by blast
qed

end
