(* ===== verification/Spec2Isabelle.thy ===== *)
theory Spec2Isabelle
  imports Confinement Tenancy Authority Operator_Main Log_Check Upgrade_Script
begin

text \<open>
  The Argo Rollouts manager is a Kubernetes operator: for each RolloutManager resource it installs
  and maintains an Argo Rollouts controller. This development models it in HOL as the Go code under
  \<open>controllers/\<close>, \<open>api/\<close>, \<open>cmd/\<close> and \<open>hack/\<close> is written, and proves
  what it does.

  \<^bold>\<open>The program.\<close> \<open>cmd/main.go\<close> reads the environment and starts a manager with one
  reconciler. Its watches turn changes on the cluster into requests, and \<open>Reconcile\<close> serves a
  request: when the namespace or the resource is gone it removes the cluster-scoped objects,
  otherwise \<open>reconcileRolloutsManager\<close> checks the scope of the resource, runs the reconcilers
  of the single objects in a fixed order up to the first error, and the outcome is written to the
  status. Every reconciler reads one object, creates it if it is missing, compares the fields it
  manages and the metadata, and updates it when they differ. Two build tools under \<open>hack/\<close>
  open pull requests for new releases and judge the log of the end-to-end tests.

  \<^bold>\<open>The model.\<close> A struct is a record, a pointer or a value that may be nil an option, an
  error a value, and a panic a value of its own (\<open>res\<close>). Code outside the repository is a
  parameter: the API client (\<open>client\<close>, one record of operations for each kind over an
  arbitrary world), the libraries (\<open>platform\<close>), the calls of controller-runtime at the start
  (\<open>startup\<close>), files, commands and GitHub (\<open>tools\<close>), the clock and the log file.
  What the code relies on is a contract, and each contract is satisfied by an executable instance.

  \<^item> \<open>Prelude\<close>, \<open>Go_Text\<close>: Go values, errors and the string functions.
  \<^item> \<open>Api_Types\<close>: the resource (\<open>api/v1alpha1/argorollouts_types.go\<close>), the objects
    and the names of \<open>controllers/default.go\<close>.
  \<^item> \<open>Kube_Client\<close>: the client, the contract of the API server for one kind
    (\<open>kind_api\<close>) and for all (\<open>cluster_api\<close>), the get-create-update scheme
    \<open>ensure\<close> with the laws that make it settle (\<open>repair_law\<close>, \<open>settling\<close>), and the
    cluster in memory \<open>mem_client\<close> that satisfies the contract.
  \<^item> \<open>Metadata\<close>, \<open>Container\<close>, \<open>Status\<close>, \<open>Scope\<close>: the functions of
    \<open>controllers/utils.go\<close> and \<open>controllers/status.go\<close> on labels, the container, the
    conditions and the admission of a resource.
  \<^item> \<open>Managed\<close>: what the reconcilers share, as the locale \<open>managed\<close>; \<open>Rbac\<close>,
    \<open>Resources\<close> (\<open>controllers/resources.go\<close>), \<open>Plugin_Config\<close>
    (\<open>controllers/configmap.go\<close>) and \<open>Deployment\<close> (\<open>controllers/deployment.go\<close>)
    translate the reconcilers and show what one run and a second run of each do.
  \<^item> \<open>Reconcile\<close>: the chain of \<open>controllers/reconcile.go\<close>, the request handler and the
    watches of \<open>controllers/argorollouts_controller.go\<close>. Above it: \<open>Confinement\<close>, the
    calls a run can make at all; \<open>Tenancy\<close>, the objects it can touch by their names;
    \<open>Authority\<close>, what the account of the controller may do afterwards.
  \<^item> \<open>Operator_Main\<close> (\<open>cmd/main.go\<close>), \<open>Log_Check\<close>
    (\<open>hack/verify-rollouts-e2e-tests\<close>), \<open>Upgrade_Script\<close>
    (\<open>hack/upgrade-rollouts-script\<close>).
  \<^item> This theory: how the objects that different reconcilers create fit together.

  \<^bold>\<open>The results.\<close> On a conforming API server one run settles everything a supported resource
  asks for and the next changes nothing (\<open>reconcile_converges\<close>); the lemmas under it say the
  same of every single object. A rejected resource only gets its status; an error of any reconciler
  in their list (\<open>steps\<close>) ends the run, is reported and returned; the removal deletes exactly
  the cluster-scoped objects. Without any contract, \<open>reconcile_confined\<close> bounds the calls a run
  can make; on a server that may fail but minds names, \<open>reconcile_stays_in_tenancy\<close> bounds the
  objects, so that two resources in different namespaces meet only in the five objects in the scope of
  the cluster. \<open>account_authority\<close> says what the account of the controller may do after a run,
  over all bindings of the cluster. What a settled cluster holds is read off in
  \<open>settled_cluster_holds\<close>: accounts, roles, pods, service and policy fit together. Further properties state where a repair never settles, where a drift is never repaired,
  and where the code panics. For the tools: the log parser refines a specification line by line, the
  verdict is characterised on rendered logs, waiting ends, and the upgrade script publishes only
  what was prepared completely.

  \<^bold>\<open>Conditions and bounds.\<close> The hypotheses \<open>supported\<close> and \<open>ready\<close> of the
  convergence theorem exclude inputs on which the code stops or does not settle, most of them with a
  theorem that shows it: aggregation labels of somebody else, custom labels on the Secret, an empty
  list of tolerations, a plugin configuration that is refused or does not parse; and values that the
  encoding or the Deployment controller changes, empty maps of container resources and an annotation
  under the revision key. The contract of the server (\<open>same_deployment\<close>, \<open>same_service\<close>) says
  which fields come back as they were sent, and idealises there: a server also sets the
  \<open>apiVersion\<close> of a field reference in the environment, writes quantities in their canonical
  form and sets the type, the address and the node ports of a Service. The first two belong to what the
  Deployment step compares, so convergence holds for resources that write them in the form the server
  gives them; the last is neither written nor compared by the operator. Counters are unbounded integers, since the
  code does no arithmetic on them beyond small constants. No model of code uses fuel: every function is total
  but the loop that waits for the log, a partial function whose termination is a theorem.

  \<^bold>\<open>Not modelled.\<close> The generated deep copies and the registration of the API group, as HOL
  values need neither; log messages; the panics of \<open>utilruntime.Must\<close> and the exit in
  \<open>ctrl.GetConfigOrDie\<close> before \<open>main\<close> has a manager; the notices that the log check prints
  while it waits and parses; the output of commands. The fields of Kubernetes objects that the
  operator neither reads nor writes are left out. Concurrent writers are covered by
  \<open>reconcile_confined\<close> only: the other contracts describe a cluster on which nobody else writes
  during a run, that of \<open>reconcile_stays_in_tenancy\<close> included, though its server may fail at any
  call. Tests, bundles and manifests are not part of the operator.
\<close>

section \<open>How the objects fit together\<close>

text \<open>The labels a selector with match labels only asks for are among those given.\<close>

definition selects :: "strmap \<Rightarrow> strmap \<Rightarrow> bool" where
  "selects selector labels \<longleftrightarrow> entries selector \<subseteq>\<^sub>f entries labels"

lemma selects_one: "selects (strmap_of [(k, v)]) labels \<longleftrightarrow> mlookup labels k = Some v"
  by (auto simp: selects_def fmsubset.rep_eq map_le_def mlookup_def split: if_splits)

lemma selects_refl [simp]: "selects m m"
  by (simp add: selects_def fmsubset.rep_eq)

text \<open>
  C18: The Deployment always selects its own pods. The selectors of the metrics Service and of the
  NetworkPolicy match these pods unless the resource asks for another value of the label
  \<open>app.kubernetes.io/name\<close>: then the Service has no endpoint and the policy protects nothing.
\<close>

theorem selectors_match_pods:
  assumes "generateDesiredRolloutsDeployment p cr sa = Inr d"
  shows "(let pods = ptLabels (dsTemplate (dSpec d));
      kept = (case fmlookup (extraLabels cr) ''app.kubernetes.io/name'' of None \<Rightarrow> True | Some v \<Rightarrow> v = ''argo-rollouts'')
    in (\<exists>sel. dsSelector (dSpec d) = Some sel \<and> lsMatchExpressions sel = None \<and> selects (lsMatchLabels sel) pods) \<and>
       (selects (svcSelector (expectedSvc cr)) pods \<longleftrightarrow> kept) \<and>
       (selects (lsMatchLabels (npPodSelector (desiredNetworkPolicy cr))) pods \<longleftrightarrow> kept))"
proof -
  have pods: "ptLabels (dsTemplate (dSpec d)) = Some (rolloutsPodLabels cr)"
    "dsSelector (dSpec d) = Some (labelSelector (Some (rolloutsPodLabels cr)))"
    using assms by (auto simp: generateDesiredRolloutsDeployment_def Let_def split: sum.splits option.splits)
  show ?thesis
    by (auto simp: pods labelSelector_def expectedSvc_def desiredNetworkPolicy_def selects_one rolloutsPodLabels_def
        mlookup_def DefaultRolloutsSelectorKey_def DefaultArgoRolloutsResourceName_def Let_def
        split: option.split)
qed

theorem selectors_match_pods_witness:
  "\<exists>d. generateDesiredRolloutsDeployment emptyPlatform (basicRolloutManager ''rm'' ''ns'' True) basicAccount = Inr d \<and>
     selects (svcSelector (expectedSvc (basicRolloutManager ''rm'' ''ns'' True))) (ptLabels (dsTemplate (dSpec d)))"
proof -
  let ?cr = "basicRolloutManager ''rm'' ''ns'' True"
  obtain d where d: "generateDesiredRolloutsDeployment emptyPlatform ?cr basicAccount = Inr d" by (rule generated_basic)
  have "extraLabels ?cr = fmempty" by (simp add: extraLabels_def basicRolloutManager_def)
  with selectors_match_pods [OF d] d show ?thesis by (auto simp: Let_def)
qed

text \<open>
  C17: The path of the metrics on the cluster that the metrics step leaves behind, where
  ServiceMonitors are installed and the one of this instance is missing or does not match: the
  stored ServiceMonitor selects the stored metrics Service by its labels, whatever labels the
  resource asks for, and every endpoint it scrapes names a port of the Service; every port of the
  Service leads to a port of the container; and the NetworkPolicy lets exactly the ports of the
  container through.
\<close>

theorem metrics_path_connected:
  assumes "cluster_api view (Client r)" "owner_contract (Platform r)" "keyed svcMeta (cluServices (view w))"
    and "tameAt svcMeta (cluServices (view w)) (svcKey cr) (svcMeta (expectedSvc cr))"
    and "keyed smMeta (cluServiceMonitors (view w))" "fmlookup (cluCRDs (view w)) crdKey = Some crd"
    and "\<And>y. fmlookup (cluServiceMonitors (view w)) (rolloutsKey cr) = Some y \<Longrightarrow>
      \<not> serviceMonitorMatches y DefaultArgoRolloutsMetricsServiceName \<and> lsMatchExpressions (smSelector y) = None"
    and "rolloutsContainer (Platform r) cr = Inr c"
  shows "\<exists>svc sm w'. reconcileRolloutsMetricsServiceAndMonitor r cr w = (Ok (), w') \<and>
    fmlookup (cluServices (view w')) (svcKey cr) = Some svc \<and>
    fmlookup (cluServiceMonitors (view w')) (rolloutsKey cr) = Some sm \<and>
    lsMatchExpressions (smSelector sm) = None \<and> selects (lsMatchLabels (smSelector sm)) (mLabels (svcMeta svc)) \<and>
    elems (smEndpoints sm) \<noteq> [] \<and>
    (\<forall>ep\<in>set (elems (smEndpoints sm)). \<exists>sp\<in>set (elems (svcPorts svc)). epPort ep = spName sp) \<and>
    (\<forall>sp\<in>set (elems (svcPorts svc)). \<exists>cp\<in>set (elems (cPorts c)). spTargetPort sp = FromInt (cpContainerPort cp)) \<and>
    (\<exists>rule. npIngress (desiredNetworkPolicy cr) = slice [rule] \<and> npiFrom rule = None \<and>
       {nppPort p |p. p \<in> set (elems (npiPorts rule))} = (\<lambda>cp. Some (FromInt (cpContainerPort cp))) ` set (elems (cPorts c)))"
proof -
  let ?name = DefaultArgoRolloutsMetricsServiceName
  obtain svc w1 where s: "reconcileRolloutsMetricsService r cr w = (Ok svc, w1)" "metrics_service.repair cr svc = None"
      "metaKey (svcMeta svc) = svcKey cr" "view w1 = cluServices_update (fmupd (svcKey cr) svc) (view w)"
    using service_settles [OF assms(1-4)] by blast
  obtain sm w2 where m: "reconcileServiceMonitor r cr ?name w1 = (Ok (), w2)"
      "smSelector sm = \<lparr>lsMatchLabels = strmap_of [(''app.kubernetes.io/name'', ?name)], lsMatchExpressions = None\<rparr>"
      "smEndpoints sm = slice [metricsEndpoint]"
      "view w2 = cluServiceMonitors_update (fmupd (rolloutsKey cr) sm) (view w1)"
    using monitor_written [OF assms(1,2), of w1 crd cr ?name] assms(5-7) by (auto simp: s(4))
  have run: "reconcileRolloutsMetricsServiceAndMonitor r cr w = (Ok (), w2)"
    using s(1,3) m(1) by (simp add: reconcileRolloutsMetricsServiceAndMonitor_def metaKey_def)
  have ports: "cPorts c = slice [\<lparr>cpName = ''healthz'', cpContainerPort = 8080, cpHostPort = 0, cpProtocol = ''''\<rparr>,
      \<lparr>cpName = ''metrics'', cpContainerPort = 8090, cpHostPort = 0, cpProtocol = ''''\<rparr>]"
    using assms(8) by (auto simp: rolloutsContainer_def Let_def split: sum.splits)
  have policy: "\<exists>rule. npIngress (desiredNetworkPolicy cr) = slice [rule] \<and> npiFrom rule = None \<and>
       {nppPort p |p. p \<in> set (elems (npiPorts rule))} = (\<lambda>cp. Some (FromInt (cpContainerPort cp))) ` set (elems (cPorts c))"
    by (auto simp: ports desiredNetworkPolicy_def Let_def slice_def elems_def
        intro: exI [of _ "\<lparr>nppProtocol = Some ''TCP'', nppPort = Some (FromInt 8080)\<rparr>"]
        exI [of _ "\<lparr>nppProtocol = Some ''TCP'', nppPort = Some (FromInt 8090)\<rparr>"])
  have "svcPorts svc = slice [metricsServicePort]" and label: "mlookup (mLabels (svcMeta svc)) ''app.kubernetes.io/name'' = Some ?name"
    using service_repaired [OF s(2)] by simp_all
  then show ?thesis
    using policy by (intro exI [of _ svc] exI [of _ sm] exI [of _ w2])
      (simp add: run m s(4) selects_one ports metricsEndpoint_def metricsServicePort_def slice_def elems_def)
qed

text \<open>A cluster on which ServiceMonitors are installed.\<close>

definition monitoredCluster :: cluster where
  "monitoredCluster = emptyCluster\<lparr>cluCRDs := fmap_of_list [(crdKey, \<lparr>crdMeta = newMeta serviceMonitorsCRDName ''''\<rparr>)]\<rparr>"

theorem metrics_path_connected_witness:
  "\<exists>svc sm w'. reconcileRolloutsMetricsServiceAndMonitor (memReconciler True) (basicRolloutManager ''rm'' ''ns'' True) monitoredCluster = (Ok (), w') \<and>
     fmlookup (cluServices w') (svcKey (basicRolloutManager ''rm'' ''ns'' True)) = Some svc \<and>
     fmlookup (cluServiceMonitors w') (NamespacedName ''ns'' ''argo-rollouts'') = Some sm \<and>
     selects (lsMatchLabels (smSelector sm)) (mLabels (svcMeta svc))"
proof -
  let ?cr = "basicRolloutManager ''rm'' ''ns'' True" and ?r = "memReconciler True"
  have api: "cluster_api (\<lambda>c. c) (Client ?r)" "owner_contract (Platform ?r)" by (simp_all add: mem_cluster_api)
  have k: "keyed svcMeta (cluServices monitoredCluster)" "tameAt svcMeta (cluServices monitoredCluster) (svcKey ?cr) (svcMeta (expectedSvc ?cr))"
    "keyed smMeta (cluServiceMonitors monitoredCluster)"
    "fmlookup (cluCRDs monitoredCluster) crdKey = Some \<lparr>crdMeta = newMeta serviceMonitorsCRDName ''''\<rparr>"
    by (simp_all add: monitoredCluster_def emptyCluster_def tameAt_def)
  have none: "fmlookup (cluServiceMonitors monitoredCluster) (rolloutsKey ?cr) = None"
    by (simp add: monitoredCluster_def emptyCluster_def)
  have p: "Platform ?r = emptyPlatform" by simp
  obtain c where c: "rolloutsContainer (Platform ?r) ?cr = Inr c" unfolding p using rolloutsContainer_basic by blast
  from metrics_path_connected [where view = "\<lambda>c. c" and w = monitoredCluster, OF api k _ c] none
  show ?thesis by (fastforce simp: DefaultArgoRolloutsResourceName_def)
qed

text \<open>What the parts of a settled cluster say about the objects in it.\<close>

lemma settled_access:
  assumes "accessSettled cr c"
  shows "\<exists>sa. fmlookup (cluServiceAccounts c) (rolloutsKey cr) = Some sa"
    and "NamespaceScoped (rmSpec cr) \<Longrightarrow> \<exists>role binding. fmlookup (cluRoles c) (rolloutsKey cr) = Some role \<and>
      roleRules role = GetPolicyRules \<and> fmlookup (cluRoleBindings c) (rolloutsKey cr) = Some binding \<and>
      rbSubjects binding = slice [rolloutsSubject cr] \<and>
      fmlookup (cluClusterRoles c) clusterKey = None \<and> fmlookup (cluClusterRoleBindings c) clusterKey = None"
    and "\<not> NamespaceScoped (rmSpec cr) \<Longrightarrow> \<exists>role binding. fmlookup (cluClusterRoles c) clusterKey = Some role \<and>
      roleRules role = GetPolicyRules \<and> fmlookup (cluClusterRoleBindings c) clusterKey = Some binding \<and>
      rbSubjects binding = slice [rolloutsSubject cr] \<and>
      fmlookup (cluRoles c) (rolloutsKey cr) = None \<and> fmlookup (cluRoleBindings c) (rolloutsKey cr) = None"
proof -
  have subjects: "rbSubjects b = slice [rolloutsSubject cr]" if "bindingRepair cr ns b = None" for ns b
    using that by (auto simp: bindingRepair_def repairObject_def fixSubjects_def Let_def split: if_splits)
  have rules: "roleRules x = GetPolicyRules"
    if "repairObject roleMeta roleMeta_update cr m (fixRules GetPolicyRules) x = None" for m x
    using that by (auto simp: repairObject_def fixRules_def Let_def split: if_splits)
  show "\<exists>sa. fmlookup (cluServiceAccounts c) (rolloutsKey cr) = Some sa"
    using assms by (auto simp: accessSettled_def elim: settledAtE)
  show "NamespaceScoped (rmSpec cr) \<Longrightarrow> \<exists>role binding. fmlookup (cluRoles c) (rolloutsKey cr) = Some role \<and>
      roleRules role = GetPolicyRules \<and> fmlookup (cluRoleBindings c) (rolloutsKey cr) = Some binding \<and>
      rbSubjects binding = slice [rolloutsSubject cr] \<and>
      fmlookup (cluClusterRoles c) clusterKey = None \<and> fmlookup (cluClusterRoleBindings c) clusterKey = None"
    using assms by (auto simp: accessSettled_def rolesSettled_def bindingsSettled_def elim!: settledAtE dest!: subjects rules)
  show "\<not> NamespaceScoped (rmSpec cr) \<Longrightarrow> \<exists>role binding. fmlookup (cluClusterRoles c) clusterKey = Some role \<and>
      roleRules role = GetPolicyRules \<and> fmlookup (cluClusterRoleBindings c) clusterKey = Some binding \<and>
      rbSubjects binding = slice [rolloutsSubject cr] \<and>
      fmlookup (cluRoles c) (rolloutsKey cr) = None \<and> fmlookup (cluRoleBindings c) (rolloutsKey cr) = None"
    using assms by (auto simp: accessSettled_def rolesSettled_def bindingsSettled_def elim!: settledAtE dest!: subjects rules)
qed

lemma settled_pods:
  assumes "deploymentSettled p cr (expectedServiceAccount cr) c" "generateDesiredRolloutsDeployment p cr (expectedServiceAccount cr) = Inr e"
  shows "\<exists>d x. fmlookup (cluDeployments c) (rolloutsKey cr) = Some d \<and>
    psServiceAccountName (ptSpec (dsTemplate (dSpec d))) = DefaultArgoRolloutsResourceName \<and>
    elems (psContainers (ptSpec (dsTemplate (dSpec d)))) = [x] \<and>
    getRolloutsContainerImage p cr = Inr (cImage x) \<and> getRolloutsCommandArgs cr = Inr (elems (cArgs x)) \<and>
    (case dsReplicas (dSpec d) of None \<Rightarrow> 1 | Some n \<Rightarrow> n) = (if ha_enabled cr then 2 else 1)"
proof -
  obtain d where d: "fmlookup (cluDeployments c) (rolloutsKey cr) = Some d" "normalizeDeployment d cr = Inr e"
    using assms by (auto simp: deploymentSettled_def split: option.splits)
  obtain y where y: "rolloutsContainer p cr = Inr y" "psContainers (ptSpec (dsTemplate (dSpec e))) = slice [y]"
    by (rule generated_cases [OF assms(2)])
  have e: "psServiceAccountName (ptSpec (dsTemplate (dSpec e))) = DefaultArgoRolloutsResourceName"
    "dsReplicas (dSpec e) = Some (if ha_enabled cr then 2 else 1)"
    using assms(2) by (auto simp: generateDesiredRolloutsDeployment_def Let_def expectedServiceAccount_def split: sum.splits option.splits)
  obtain x where x: "elems (psContainers (ptSpec (dsTemplate (dSpec d)))) = [x]"
    using d(2) by (auto simp: normalizeDeployment_def Let_def length_Suc_conv split: option.splits if_splits sum.splits)
  have "normalizeContainer x = Inr y"
    "psServiceAccountName (ptSpec (dsTemplate (dSpec d))) = psServiceAccountName (ptSpec (dsTemplate (dSpec e)))"
    "dsReplicas (dSpec e) = Some (case dsReplicas (dSpec d) of None \<Rightarrow> 1 | Some n \<Rightarrow> n)"
    using d(2) x y(2) by (auto simp: normalizeDeployment_def Let_def slice_def split: option.splits if_splits sum.splits)
  moreover have "getRolloutsContainerImage p cr = Inr (cImage y)" "\<exists>as. getRolloutsCommandArgs cr = Inr as \<and> cArgs y = slice as"
    using y(1) by (auto simp: rolloutsContainer_def Let_def split: sum.splits)
  moreover have "cImage y = cImage x" "elems (cArgs y) = elems (cArgs x)"
    if "normalizeContainer x = Inr y"
    using that by (auto simp: normalizeContainer_def emptyIfNil_def elems_def slice_def split: option.splits if_splits)
  ultimately show ?thesis using d(1) x e by (auto simp: slice_def elems_def)
qed


lemma settled_services:
  assumes "settledAt (cluServices c) (svcKey cr) (metrics_service.repair cr)" "policySettled cr c"
  shows "\<exists>s. fmlookup (cluServices c) (svcKey cr) = Some s \<and> svcPorts s = slice [metricsServicePort]"
    and "IsEnabled (NetworkPolicy (rmSpec cr)) \<Longrightarrow> \<exists>np. fmlookup (cluNetworkPolicies c) (policyKey cr) = Some np \<and>
      npPodSelector np = npPodSelector (desiredNetworkPolicy cr) \<and> npIngress np = npIngress (desiredNetworkPolicy cr)"
    and "\<not> IsEnabled (NetworkPolicy (rmSpec cr)) \<Longrightarrow> fmlookup (cluNetworkPolicies c) (policyKey cr) = None"
proof -
  have ports: "svcPorts s = slice [metricsServicePort]" if "metrics_service.repair cr s = None" for s
    using that by (auto simp: repairObject_def fixPorts_def Let_def split: if_splits)
  show "\<exists>s. fmlookup (cluServices c) (svcKey cr) = Some s \<and> svcPorts s = slice [metricsServicePort]"
    using assms(1) by (auto elim!: settledAtE dest!: ports)
  have policy: "npPodSelector np = npPodSelector (desiredNetworkPolicy cr) \<and> npIngress np = npIngress (desiredNetworkPolicy cr)"
    if "network_policy.repair cr np = None" for np
    using that by (auto simp: repairObject_def fixPolicy_def Let_def split: if_splits)
  show "IsEnabled (NetworkPolicy (rmSpec cr)) \<Longrightarrow> \<exists>np. fmlookup (cluNetworkPolicies c) (policyKey cr) = Some np \<and>
      npPodSelector np = npPodSelector (desiredNetworkPolicy cr) \<and> npIngress np = npIngress (desiredNetworkPolicy cr)"
    using assms(2) by (auto simp: policySettled_def elim!: settledAtE dest!: policy)
  show "\<not> IsEnabled (NetworkPolicy (rmSpec cr)) \<Longrightarrow> fmlookup (cluNetworkPolicies c) (policyKey cr) = None"
    using assms(2) by (simp add: policySettled_def)
qed

text \<open>
  C6: What a settled cluster holds: the account of the operator, the Role and its binding or the
  ClusterRole and its binding according to the scope, with the operator's rules and with the account
  as the only subject, and not those of the other scope; a Deployment whose pods run under that
  account one container with the image and arguments computed for the resource, twice with high
  availability and once without; a metrics Service with its port; and the NetworkPolicy
  exactly when it is enabled.
\<close>

theorem settled_cluster_holds:
  assumes "settled r cr c" "supported r cr"
  shows "(\<exists>sa. fmlookup (cluServiceAccounts c) (rolloutsKey cr) = Some sa) \<and>
    (\<exists>role binding. roleRules role = GetPolicyRules \<and> rbSubjects binding = slice [\<lparr>subKind = ''ServiceAccount'',
        subAPIGroup = '''', subName = ''argo-rollouts'', subNamespace = crNamespace cr\<rparr>] \<and>
      (if NamespaceScoped (rmSpec cr)
       then fmlookup (cluRoles c) (rolloutsKey cr) = Some role \<and> fmlookup (cluRoleBindings c) (rolloutsKey cr) = Some binding \<and>
         fmlookup (cluClusterRoles c) clusterKey = None \<and> fmlookup (cluClusterRoleBindings c) clusterKey = None
       else fmlookup (cluClusterRoles c) clusterKey = Some role \<and> fmlookup (cluClusterRoleBindings c) clusterKey = Some binding \<and>
         fmlookup (cluRoles c) (rolloutsKey cr) = None \<and> fmlookup (cluRoleBindings c) (rolloutsKey cr) = None)) \<and>
    (\<exists>d x. fmlookup (cluDeployments c) (rolloutsKey cr) = Some d \<and>
      psServiceAccountName (ptSpec (dsTemplate (dSpec d))) = ''argo-rollouts'' \<and>
      elems (psContainers (ptSpec (dsTemplate (dSpec d)))) = [x] \<and>
      getRolloutsContainerImage (Platform r) cr = Inr (cImage x) \<and> getRolloutsCommandArgs cr = Inr (elems (cArgs x)) \<and>
      (case dsReplicas (dSpec d) of None \<Rightarrow> 1 | Some n \<Rightarrow> n) = (if ha_enabled cr then 2 else 1)) \<and>
    (\<exists>s. fmlookup (cluServices c) (svcKey cr) = Some s \<and> svcPorts s = slice [metricsServicePort]) \<and>
    (IsEnabled (NetworkPolicy (rmSpec cr)) \<longleftrightarrow> fmlookup (cluNetworkPolicies c) (policyKey cr) \<noteq> None)"
proof (intro conjI)
  have access: "accessSettled cr c" and work: "workloadSettled r cr (expectedServiceAccount cr) c"
    using assms(1) by (simp_all add: settled_def)
  note acc = settled_access [OF access]
  show "\<exists>sa. fmlookup (cluServiceAccounts c) (rolloutsKey cr) = Some sa" by (rule acc(1))
  show "\<exists>role binding. roleRules role = GetPolicyRules \<and> rbSubjects binding = slice [\<lparr>subKind = ''ServiceAccount'',
        subAPIGroup = '''', subName = ''argo-rollouts'', subNamespace = crNamespace cr\<rparr>] \<and>
      (if NamespaceScoped (rmSpec cr)
       then fmlookup (cluRoles c) (rolloutsKey cr) = Some role \<and> fmlookup (cluRoleBindings c) (rolloutsKey cr) = Some binding \<and>
         fmlookup (cluClusterRoles c) clusterKey = None \<and> fmlookup (cluClusterRoleBindings c) clusterKey = None
       else fmlookup (cluClusterRoles c) clusterKey = Some role \<and> fmlookup (cluClusterRoleBindings c) clusterKey = Some binding \<and>
         fmlookup (cluRoles c) (rolloutsKey cr) = None \<and> fmlookup (cluRoleBindings c) (rolloutsKey cr) = None)"
    using acc(2,3) by (cases "NamespaceScoped (rmSpec cr)") (fastforce simp: rolloutsSubject_def DefaultArgoRolloutsResourceName_def)+
  obtain e where "generateDesiredRolloutsDeployment (Platform r) cr (expectedServiceAccount cr) = Inr e"
    by (rule desired_exists [OF assms(2) service_account.wanted_key])
  then show "\<exists>d x. fmlookup (cluDeployments c) (rolloutsKey cr) = Some d \<and>
      psServiceAccountName (ptSpec (dsTemplate (dSpec d))) = ''argo-rollouts'' \<and>
      elems (psContainers (ptSpec (dsTemplate (dSpec d)))) = [x] \<and>
      getRolloutsContainerImage (Platform r) cr = Inr (cImage x) \<and> getRolloutsCommandArgs cr = Inr (elems (cArgs x)) \<and>
      (case dsReplicas (dSpec d) of None \<Rightarrow> 1 | Some n \<Rightarrow> n) = (if ha_enabled cr then 2 else 1)"
    using settled_pods [of "Platform r" cr c e] work by (simp add: workloadSettled_def DefaultArgoRolloutsResourceName_def)
  have svc: "settledAt (cluServices c) (svcKey cr) (metrics_service.repair cr)" "policySettled cr c"
    using work by (simp_all add: workloadSettled_def)
  show "\<exists>s. fmlookup (cluServices c) (svcKey cr) = Some s \<and> svcPorts s = slice [metricsServicePort]"
    by (rule settled_services(1) [OF svc])
  show "IsEnabled (NetworkPolicy (rmSpec cr)) \<longleftrightarrow> fmlookup (cluNetworkPolicies c) (policyKey cr) \<noteq> None"
    using settled_services(2,3) [OF svc] by (cases "IsEnabled (NetworkPolicy (rmSpec cr))") auto
qed

text \<open>A cluster that one run settles.\<close>

lemma settled_request:
  obtains c where "settled (codecReconciler True) (basicRolloutManager ''rm'' ''ns'' True) c" "keyedCluster c"
    "admissible (codecReconciler True) (basicRolloutManager ''rm'' ''ns'' True) c"
    "fmlookup (cluNamespaces c) (NamespacedName '''' (crNamespace (basicRolloutManager ''rm'' ''ns'' True))) = Some \<lparr>nsMeta = newMeta ''ns'' ''''\<rparr>"
    "fmlookup (cluRolloutManagers c) (metaKey (rmMeta (basicRolloutManager ''rm'' ''ns'' True))) = Some (basicRolloutManager ''rm'' ''ns'' True)"
proof -
  let ?cr = "basicRolloutManager ''rm'' ''ns'' True" and ?r = "codecReconciler True"
  have conf: "conforming (\<lambda>c. c) ?r" by (simp add: conforming_def mem_cluster_api)
  have adm: "admissible ?r ?cr (freshCluster ?cr)" by (simp add: admissible_def admitScope_eq)
  obtain c where "settled ?r ?cr c" "keyedCluster c" "requestPart c = requestPart (freshCluster ?cr)"
    by (rule chain_settles [where view = "\<lambda>c. c" and w = "freshCluster ?cr", OF conf adm supported_basic fresh_ready])
  then show ?thesis
    using that [of c] by (simp add: part_defs freshCluster_def admissible_def admitScope_eq)
qed

lemma settled_example:
  obtains c where "settled (codecReconciler True) (basicRolloutManager ''rm'' ''ns'' True) c"
  by (rule settled_request) (rule that)

theorem settled_cluster_holds_witness:
  "\<exists>c d x. settled (codecReconciler True) (basicRolloutManager ''rm'' ''ns'' True) c \<and>
     fmlookup (cluDeployments c) (NamespacedName ''ns'' ''argo-rollouts'') = Some d \<and>
     elems (psContainers (ptSpec (dsTemplate (dSpec d)))) = [x] \<and> elems (cArgs x) = [''--namespaced'']"
proof -
  let ?cr = "basicRolloutManager ''rm'' ''ns'' True"
  obtain c where c: "settled (codecReconciler True) ?cr c" by (rule settled_example)
  have args: "getRolloutsCommandArgs ?cr = Inr [''--namespaced'']"
    by (simp add: getRolloutsCommandArgs_def defaultCommandArgs_def basicRolloutManager_def ha_enabled_def)
  from settled_cluster_holds [OF c supported_basic] obtain d x where
    "fmlookup (cluDeployments c) (rolloutsKey ?cr) = Some d" "elems (psContainers (ptSpec (dsTemplate (dSpec d)))) = [x]"
    "getRolloutsCommandArgs ?cr = Inr (elems (cArgs x))" by blast
  with c args show ?thesis by (auto simp: DefaultArgoRolloutsResourceName_def)
qed

text \<open>
  A reference to an image in its documented form, name@digest or name:tag, taken apart again.
\<close>

definition splitReference :: "string \<Rightarrow> string \<times> string" where
  "splitReference s =
     (if CHR ''@'' \<in> set s then (takeWhile (\<lambda>c. c \<noteq> CHR ''@'') s, tl (dropWhile (\<lambda>c. c \<noteq> CHR ''@'') s))
      else (rev (tl (dropWhile (\<lambda>c. c \<noteq> CHR '':'') (rev s))), rev (takeWhile (\<lambda>c. c \<noteq> CHR '':'') (rev s))))"

lemma split_first: "x \<notin> set as \<Longrightarrow> takeWhile (\<lambda>c. c \<noteq> x) (as @ x # bs) = as \<and> dropWhile (\<lambda>c. c \<noteq> x) (as @ x # bs) = x # bs"
  by (induction as) auto

lemma split_combined:
  assumes "combineImageTag img tag = s" "CHR ''@'' \<notin> set img" "CHR ''@'' \<notin> set tag" "tag \<noteq> ''''"
  shows "splitReference s = (img, tag)"
proof (cases "CHR '':'' \<in> set tag")
  case True
  then show ?thesis using split_first [OF assms(2), of tag] by (simp add: assms(1) [symmetric] splitReference_def combineImageTag_def)
next
  case False
  then have "CHR '':'' \<notin> set (rev tag)" by simp
  from split_first [OF this, of "rev img"] show ?thesis using assms(2-4) False
    by (simp add: assms(1) [symmetric] splitReference_def combineImageTag_def)
qed

text \<open>
  C23: The image that the pods of a settled cluster run, with the reference taken apart: the image of
  the resource whatever the environment of the operator says, or else the operator's own image as
  the environment gives it, unless the resource names a version: then its base name; with the
  version of the resource, a digest or a tag alike, or else the default.
\<close>

theorem container_image_decision:
  assumes "settled r cr c" "supported r cr"
    and "CHR ''@'' \<notin> set (Image (rmSpec cr))" "CHR ''@'' \<notin> set (Version (rmSpec cr))"
  shows "\<exists>d x. fmlookup (cluDeployments c) (rolloutsKey cr) = Some d \<and> elems (psContainers (ptSpec (dsTemplate (dSpec d)))) = [x] \<and>
    (let operatorImage = os_Getenv (Platform r) ''ARGO_ROLLOUTS_IMAGE'';
         version = (if Version (rmSpec cr) = '''' then ''v1.9.1'' else Version (rmSpec cr))
     in if Image (rmSpec cr) \<noteq> '''' then splitReference (cImage x) = (Image (rmSpec cr), version)
        else if operatorImage = '''' then splitReference (cImage x) = (''quay.io/argoproj/argo-rollouts'', version)
        else if Version (rmSpec cr) = '''' then cImage x = operatorImage
        else \<exists>name. reference_Parse (Platform r) operatorImage = Inr (Some name) \<and>
          (name \<noteq> '''' \<and> CHR ''@'' \<notin> set name \<longrightarrow> splitReference (cImage x) = (name, version)))"
proof -
  obtain e where "generateDesiredRolloutsDeployment (Platform r) cr (expectedServiceAccount cr) = Inr e"
    by (rule desired_exists [OF assms(2) service_account.wanted_key])
  then obtain d x where x: "fmlookup (cluDeployments c) (rolloutsKey cr) = Some d"
    "elems (psContainers (ptSpec (dsTemplate (dSpec d)))) = [x]" "getRolloutsContainerImage (Platform r) cr = Inr (cImage x)"
    using settled_pods [of "Platform r" cr c e] assms(1) by (auto simp: settled_def workloadSettled_def)
  show ?thesis
    using x(3) by (intro exI [of _ d] exI [of _ x])
      (auto intro!: split_combined simp: x(1,2) assms(3,4) getRolloutsContainerImage_def extractBaseImageName_def Let_def DefaultArgoRolloutsImage_def
        DefaultArgoRolloutsVersion_def ArgoRolloutsImageEnvName_def split: if_splits sum.splits option.splits)
qed

theorem container_image_decision_witness:
  "\<exists>c d x. settled (codecReconciler True) (basicRolloutManager ''rm'' ''ns'' True) c \<and>
     fmlookup (cluDeployments c) (NamespacedName ''ns'' ''argo-rollouts'') = Some d \<and>
     elems (psContainers (ptSpec (dsTemplate (dSpec d)))) = [x] \<and>
     splitReference (cImage x) = (''quay.io/argoproj/argo-rollouts'', ''v1.9.1'')"
proof -
  let ?cr = "basicRolloutManager ''rm'' ''ns'' True"
  obtain c where c: "settled (codecReconciler True) ?cr c" by (rule settled_example)
  have "CHR ''@'' \<notin> set (Image (rmSpec ?cr))" "CHR ''@'' \<notin> set (Version (rmSpec ?cr))"
    "os_Getenv (Platform (codecReconciler True)) ''ARGO_ROLLOUTS_IMAGE'' = ''''" "Image (rmSpec ?cr) = ''''" "Version (rmSpec ?cr) = ''''"
    by (simp_all add: basicRolloutManager_def codecReconciler_def codecPlatform_def emptyPlatform_def)
  with container_image_decision [OF c supported_basic] c show ?thesis
    by (auto simp: DefaultArgoRolloutsResourceName_def)
qed

text \<open>The selector of the metrics Service is not part of what is compared.\<close>

lemma selector_ignored:
  assumes "settled r cr c" "fmlookup (cluServices c) (svcKey cr) = Some s"
  shows "settled r cr (c\<lparr>cluServices := fmupd (svcKey cr) (s\<lparr>svcSelector := sel\<rparr>) (cluServices c)\<rparr>)"
proof -
  let ?c = "c\<lparr>cluServices := fmupd (svcKey cr) (s\<lparr>svcSelector := sel\<rparr>) (cluServices c)\<rparr>"
  have "metrics_service.repair cr s = None"
    using assms by (auto simp: settled_def workloadSettled_def settledAt_def)
  then have "metrics_service.repair cr (s\<lparr>svcSelector := sel\<rparr>) = None"
    by (auto simp: repairObject_def fixPorts_def Let_def split: if_splits)
  moreover have "accessSettled cr ?c = accessSettled cr c" by (rule workload_frame(1)) (simp add: part_defs)
  ultimately show ?thesis
    using assms(1) by (simp add: settled_def workloadSettled_def secretSettled_def configSettled_def deploymentSettled_def
        monitorSettled_def policySettled_def cong: option.case_cong if_cong)
qed

text \<open>
  C34: The selector of the metrics Service is set when the Service is created and never looked at
  again: on a settled cluster on which somebody has changed it, to whatever, a run of
  \<open>Reconcile\<close> succeeds and changes nothing but the status of the resource, so that the
  selector stays.
\<close>

theorem service_selector_drift_kept:
  assumes "conforming view r" "supported r cr" "admissible r cr c" "settled r cr c" "keyedCluster c"
    and "fmlookup (cluNamespaces c) (NamespacedName '''' (crNamespace cr)) = Some ns" "mDeletionTimestamp (nsMeta ns) = None"
    and "fmlookup (cluRolloutManagers c) (metaKey (rmMeta cr)) = Some cr"
    and "fmlookup (cluServices c) (svcKey cr) = Some s"
    and "view w = c\<lparr>cluServices := fmupd (svcKey cr) (s\<lparr>svcSelector := sel\<rparr>) (cluServices c)\<rparr>"
  shows "\<exists>st w1. Reconcile r now (metaKey (rmMeta cr)) w = (Ok (), w1) \<and>
    view w1 = cluRolloutManagers_update (fmupd (metaKey (rmMeta cr)) (cr\<lparr>rmStatus := st\<rparr>)) (view w)"
proof (rule settled_run_keeps)
  show "conforming view r" "supported r cr" by (rule assms)+
  show "settled r cr (view w)" using selector_ignored [OF assms(4,9)] by (simp add: assms(10))
  show "admissible r cr (view w)" using assms(3) by (simp add: admissible_def assms(10))
  have "metaKey (svcMeta s) = svcKey cr" using keyedD [of svcMeta "cluServices c"] assms(5,9) by (auto simp: keyed_parts)
  then show "keyedCluster (view w)" using assms(5) by (auto simp: assms(10) keyed_parts)
qed (use assms(6-8) in \<open>simp_all add: assms(10)\<close>)

theorem service_selector_drift_kept_witness:
  "\<exists>c w1. Reconcile (codecReconciler True) 5 (NamespacedName ''ns'' ''rm'') c = (Ok (), w1) \<and>
     map_option svcSelector (fmlookup (cluServices w1) (svcKey (basicRolloutManager ''rm'' ''ns'' True))) = Some (strmap_of [(''app'', ''other'')])"
proof -
  let ?cr = "basicRolloutManager ''rm'' ''ns'' True" and ?r = "codecReconciler True" and ?ns = "\<lparr>nsMeta = newMeta ''ns'' ''''\<rparr>"
  have conf: "conforming (\<lambda>c. c) ?r" by (simp add: conforming_def mem_cluster_api)
  obtain c where c: "settled ?r ?cr c" "keyedCluster c" "admissible ?r ?cr c"
    "fmlookup (cluNamespaces c) (NamespacedName '''' (crNamespace ?cr)) = Some ?ns"
    "fmlookup (cluRolloutManagers c) (metaKey (rmMeta ?cr)) = Some ?cr" by (rule settled_request)
  obtain s where s: "fmlookup (cluServices c) (svcKey ?cr) = Some s"
    using c(1) by (auto simp: settled_def workloadSettled_def elim: settledAtE)
  have ns: "mDeletionTimestamp (nsMeta ?ns) = None" by (simp add: newMeta_def)
  have k: "metaKey (rmMeta ?cr) = NamespacedName ''ns'' ''rm''" by (simp add: metaKey_def)
  from service_selector_drift_kept [where view = "\<lambda>c. c" and now = 5 and sel = "strmap_of [(''app'', ''other'')]",
      OF conf supported_basic c(3,1,2,4) ns c(5) s refl]
  show ?thesis unfolding k by force
qed

end
